(* ===== verification/Prelude.thy ===== *)
theory Prelude
  imports Complex_Main "HOL-Library.AList" "HOL-Library.Word" "HOL-Library.Sublist"
    "HOL-Library.Multiset" "HOL-Library.Char_ord" "HOL-Library.List_Lexorder"
begin

text \<open>
  The part of Go and of its standard library that the SDK relies on, with the lemmas the
  component theories share.

  \<^item> Go strings are byte strings: \<^typ>\<open>string\<close>, one \<^typ>\<open>char\<close> per byte.
  \<^item> A Go map is an association list without repeated keys; assignment, deletion and lookup are
    \<^const>\<open>AList.update\<close>, \<^const>\<open>AList.delete\<close> and \<^const>\<open>map_of\<close>. A \<open>range\<close> loop visits the
    entries in list order; where the order matters the properties are stated for every order.
  \<^item> An \<open>error\<close> is a value of \<open>go_error\<close>; a function returning \<open>(T, error)\<close> with an unused first
    component on error returns a sum; a function that can panic returns an \<open>outcome\<close>.
  \<^item> \<open>strings.Split\<close>, \<open>Join\<close>, \<open>TrimSpace\<close>, \<open>HasPrefix\<close>, \<open>HasSuffix\<close>, \<open>Contains\<close>,
    \<open>strconv.Atoi\<close> and \<open>strconv.Itoa\<close>, \<open>sort.Sort\<close> and \<open>sort.Search\<close> are written as Go computes
    them.
\<close>

named_theorems go_map_simps \<open>lookup in Go maps after assignment, deletion and range loops\<close>
named_theorems go_string_simps \<open>evaluation of the string functions\<close>

section \<open>Errors and panics\<close>

datatype go_error =
    Err string
  | Wrapped string go_error
  | NacosErr string string

type_synonym 'a result = "go_error + 'a"

datatype 'a outcome = Ret 'a | Panic string

fun is_panic :: "'a outcome \<Rightarrow> bool" where
  "is_panic (Ret a) = False"
| "is_panic (Panic msg) = True"

text \<open>Sequencing of operations that can panic.\<close>

fun obind :: "'a outcome \<Rightarrow> ('a \<Rightarrow> 'b outcome) \<Rightarrow> 'b outcome" where
  "obind (Ret a) f = f a"
| "obind (Panic msg) f = Panic msg"

lemma obind_Ret_iff: "obind m f = Ret b \<longleftrightarrow> (\<exists>a. m = Ret a \<and> f a = Ret b)"
  by (cases m) auto

lemma obind_RetE:
  assumes "obind m f = Ret b"
  obtains a where "m = Ret a" and "f a = Ret b"
  using assms by (cases m) auto

lemma obind_pairE:
  assumes "obind m f = Ret b"
  obtains x y where "m = Ret (x, y)" and "f (x, y) = Ret b"
  using assms by (cases m) auto

section \<open>Maps\<close>

type_synonym ('k, 'v) gomap = "('k \<times> 'v) list"
type_synonym params = "(string, string) gomap"

text \<open>A Go map has no repeated key.\<close>

definition wf_map :: "('k, 'v) gomap \<Rightarrow> bool" where
  "wf_map m \<longleftrightarrow> distinct (map fst m)"

text \<open>The loop \<open>for k, v := range src { m[k] = v }\<close>.\<close>

definition put_all :: "('k, 'v) gomap \<Rightarrow> ('k, 'v) gomap \<Rightarrow> ('k, 'v) gomap" where
  "put_all m src = fold (\<lambda>(k, v). AList.update k v) src m"

text \<open>The value of \<open>m[k]\<close> for a string map: the zero value when the key is absent.\<close>

definition get_or_empty :: "(string, string) gomap \<Rightarrow> string \<Rightarrow> string" where
  "get_or_empty m k = (case map_of m k of None \<Rightarrow> [] | Some v \<Rightarrow> v)"

lemma wf_map_Nil [simp, intro]: "wf_map []"
  by (simp add: wf_map_def)

lemma wf_map_update [simp, intro]: "wf_map m \<Longrightarrow> wf_map (AList.update k v m)"
  by (simp add: wf_map_def distinct_update)

lemma wf_map_delete [simp, intro]: "wf_map m \<Longrightarrow> wf_map (AList.delete k m)"
  by (simp add: wf_map_def distinct_delete)

lemma wf_map_put_all [simp, intro]: "wf_map m \<Longrightarrow> wf_map (put_all m src)"
  unfolding put_all_def by (induction src arbitrary: m) auto

lemma map_of_update [simp, go_map_simps]: "map_of (AList.update k v m) = (map_of m)(k \<mapsto> v)"
  by (rule update_conv')

lemma map_of_delete [simp, go_map_simps]: "map_of (AList.delete k m) = (map_of m)(k := None)"
  by (rule delete_conv')

lemma map_of_put_all_rev: "map_of (put_all m src) = map_of m ++ map_of (rev src)"
  unfolding put_all_def
  by (induction src arbitrary: m) (auto simp: map_add_upd_left map_add_def fun_eq_iff split: option.splits)

lemma map_of_rev_wf: "wf_map src \<Longrightarrow> map_of (rev src) = map_of src"
  unfolding wf_map_def by (rule map_of_inject_set[THEN iffD2]) (auto simp: rev_map[symmetric])

lemma map_of_put_all [go_map_simps]: "wf_map src \<Longrightarrow> map_of (put_all m src) = map_of m ++ map_of src"
  by (simp add: map_of_put_all_rev map_of_rev_wf)

lemma map_of_in_set_wf: "wf_map m \<Longrightarrow> (k, v) \<in> set m \<longleftrightarrow> map_of m k = Some v"
  by (simp add: wf_map_def)

lemma card_dom_wf: "wf_map m \<Longrightarrow> card (dom (map_of m)) = length m"
  by (metis distinct_card dom_map_of_conv_image_fst length_map list.set_map wf_map_def)

text \<open>The results of a loop that appends where a test succeeds.\<close>

fun collect_some :: "('a \<Rightarrow> 'b option) \<Rightarrow> 'a list \<Rightarrow> 'b list" where
  "collect_some f [] = []"
| "collect_some f (x # xs) = (case f x of None \<Rightarrow> collect_some f xs | Some y \<Rightarrow> y # collect_some f xs)"

lemma set_collect_some: "set (collect_some f xs) = {y. \<exists>x \<in> set xs. f x = Some y}"
  by (induction xs) (auto split: option.splits)

section \<open>Strings\<close>

text \<open>\<open>strings.HasPrefix\<close>, \<open>strings.HasSuffix\<close> and \<open>strings.Contains\<close>.\<close>

definition has_prefix :: "string \<Rightarrow> string \<Rightarrow> bool" where
  "has_prefix s p \<longleftrightarrow> take (length p) s = p"

definition has_suffix :: "string \<Rightarrow> string \<Rightarrow> bool" where
  "has_suffix s p \<longleftrightarrow> has_prefix (rev s) (rev p)"

fun contains_str :: "string \<Rightarrow> string \<Rightarrow> bool" where
  "contains_str [] p = has_prefix [] p"
| "contains_str (c # cs) p = (has_prefix (c # cs) p \<or> contains_str cs p)"

lemma has_prefix_iff: "has_prefix s p \<longleftrightarrow> prefix p s"
  by (metis append_eq_conv_conj has_prefix_def prefix_def)

lemma has_suffix_iff: "has_suffix s p \<longleftrightarrow> suffix p s"
  by (simp add: has_suffix_def has_prefix_iff suffix_to_prefix)

lemma contains_str_iff: "contains_str s p \<longleftrightarrow> (\<exists>a b. s = a @ p @ b)"
proof (induction s)
  case Nil
  show ?case by (auto simp: has_prefix_iff)
next
  case (Cons c cs)
  have "(\<exists>a b. c # cs = a @ p @ b) \<longleftrightarrow> prefix p (c # cs) \<or> (\<exists>a b. cs = a @ p @ b)"
    by (metis (no_types, opaque_lifting) Cons_eq_append_conv append_Cons append_Nil prefix_def)
  with Cons.IH show ?case by (simp add: has_prefix_iff)
qed

text \<open>\<open>strings.Split\<close> with a separator that is not empty.\<close>

fun split_acc :: "string \<Rightarrow> string \<Rightarrow> string \<Rightarrow> string list" where
  "split_acc sep [] acc = [rev acc]"
| "split_acc sep (c # cs) acc =
     (if has_prefix (c # cs) sep then rev acc # split_acc sep (drop (length sep - 1) cs) []
      else split_acc sep cs (c # acc))"

definition split_str :: "string \<Rightarrow> string \<Rightarrow> string list" where
  "split_str s sep = split_acc sep s []"

text \<open>\<open>strings.Join\<close>.\<close>

fun join_str :: "string list \<Rightarrow> string \<Rightarrow> string" where
  "join_str [] sep = []"
| "join_str [x] sep = x"
| "join_str (x # y # ys) sep = x @ sep @ join_str (y # ys) sep"

text \<open>\<open>strings.ReplaceAll(s, old, "")\<close> for a one-byte \<open>old\<close>.\<close>

definition remove_char :: "char \<Rightarrow> string \<Rightarrow> string" where
  "remove_char c s = filter (\<lambda>x. x \<noteq> c) s"

lemma split_acc_no_sep:
  "sep \<noteq> [] \<Longrightarrow> hd sep \<notin> set s \<Longrightarrow> split_acc sep s acc = [rev acc @ s]"
proof (induction s arbitrary: acc)
  case (Cons c cs)
  then have "\<not> has_prefix (c # cs) sep"
    by (cases sep) (auto simp: has_prefix_def)
  with Cons show ?case by simp
qed simp

lemma split_acc_sep:
  "sep \<noteq> [] \<Longrightarrow> hd sep \<notin> set s \<Longrightarrow>
   split_acc sep (s @ sep @ t) acc = (rev acc @ s) # split_acc sep t []"
proof (induction s arbitrary: acc)
  case Nil
  then obtain d ds where "sep = d # ds" by (cases sep) auto
  then show ?case by (simp add: has_prefix_def)
next
  case (Cons c cs)
  then have "\<not> has_prefix (c # cs @ sep @ t) sep"
    by (cases sep) (auto simp: has_prefix_def)
  with Cons show ?case by simp
qed

lemma split_str_single: "sep \<noteq> [] \<Longrightarrow> hd sep \<notin> set s \<Longrightarrow> split_str s sep = [s]"
  by (simp add: split_str_def split_acc_no_sep)

lemma split_str_step:
  "sep \<noteq> [] \<Longrightarrow> hd sep \<notin> set s \<Longrightarrow> split_str (s @ sep @ t) sep = s # split_str t sep"
  by (simp add: split_str_def split_acc_sep)

lemma split_acc_not_Nil: "split_acc sep s acc \<noteq> []"
  by (induction sep s acc rule: split_acc.induct) auto

lemma split_str_not_Nil [simp]: "split_str s sep \<noteq> []"
  by (simp add: split_str_def split_acc_not_Nil)

text \<open>Splitting undoes joining when no part contains the first byte of the separator.\<close>

lemma split_join:
  assumes "sep \<noteq> []" and "\<forall>x \<in> set xs. hd sep \<notin> set x" and "xs \<noteq> []"
  shows "split_str (join_str xs sep) sep = xs"
  using assms
proof (induction xs sep rule: join_str.induct)
  case (3 x y ys sep)
  then show ?case by (simp add: split_str_step)
qed (auto simp: split_str_single)

subsection \<open>White space\<close>

text \<open>
  The UTF-8 encodings of the runes for which \<open>unicode.IsSpace\<close> holds.
\<close>

definition space_runes :: "string list" where
  "space_runes =
     [[CHR 0x09], [CHR 0x0A], [CHR 0x0B], [CHR 0x0C], [CHR 0x0D], [CHR 0x20],
      [CHR 0xC2, CHR 0x85], [CHR 0xC2, CHR 0xA0], [CHR 0xE1, CHR 0x9A, CHR 0x80],
      [CHR 0xE2, CHR 0x80, CHR 0x80], [CHR 0xE2, CHR 0x80, CHR 0x81],
      [CHR 0xE2, CHR 0x80, CHR 0x82], [CHR 0xE2, CHR 0x80, CHR 0x83],
      [CHR 0xE2, CHR 0x80, CHR 0x84], [CHR 0xE2, CHR 0x80, CHR 0x85],
      [CHR 0xE2, CHR 0x80, CHR 0x86], [CHR 0xE2, CHR 0x80, CHR 0x87],
      [CHR 0xE2, CHR 0x80, CHR 0x88], [CHR 0xE2, CHR 0x80, CHR 0x89],
      [CHR 0xE2, CHR 0x80, CHR 0x8A], [CHR 0xE2, CHR 0x80, CHR 0xA8],
      [CHR 0xE2, CHR 0x80, CHR 0xA9], [CHR 0xE2, CHR 0x80, CHR 0xAF],
      [CHR 0xE2, CHR 0x81, CHR 0x9F], [CHR 0xE3, CHR 0x80, CHR 0x80]]"

text \<open>Dropping leading occurrences of the given byte sequences, at most one per unit of fuel.\<close>

fun trim_left_fuel :: "nat \<Rightarrow> string list \<Rightarrow> string \<Rightarrow> string" where
  "trim_left_fuel 0 rs s = s"
| "trim_left_fuel (Suc n) rs s =
     (case find (\<lambda>r. has_prefix s r) rs of
        None \<Rightarrow> s
      | Some r \<Rightarrow> trim_left_fuel n rs (drop (length r) s))"

definition trim_left :: "string list \<Rightarrow> string \<Rightarrow> string" where
  "trim_left rs s = trim_left_fuel (length s) rs s"

text \<open>\<open>strings.TrimSpace\<close>.\<close>

definition trim_space :: "string \<Rightarrow> string" where
  "trim_space s = rev (trim_left (map rev space_runes) (rev (trim_left space_runes s)))"

text \<open>One unit of fuel per byte is enough: every dropped sequence has at least one byte.\<close>

lemma trim_left_fuel_done:
  assumes "\<forall>r \<in> set rs. r \<noteq> []" and "length s \<le> n"
  shows "find (\<lambda>r. has_prefix (trim_left_fuel n rs s) r) rs = None"
  using assms
proof (induction n arbitrary: s)
  case 0
  then show ?case by (auto simp: find_None_iff has_prefix_def)
next
  case (Suc n)
  show ?case
  proof (cases "find (\<lambda>r. has_prefix s r) rs")
    case (Some r)
    then have "r \<in> set rs" and "has_prefix s r"
      by (auto simp: find_Some_iff)
    then have "r \<noteq> []" and "length r \<le> length s"
      using Suc.prems(1) by (auto simp: has_prefix_iff prefix_length_le)
    with Suc.prems(2) have "length (drop (length r) s) \<le> n" by (cases r) auto
    with Suc.IH Suc.prems(1) Some show ?thesis by simp
  qed simp
qed

lemma trim_left_Nil [simp]: "trim_left rs [] = []"
  by (simp add: trim_left_def)

lemma trim_space_Nil [simp]: "trim_space [] = []"
  by (simp add: trim_space_def)

text \<open>
  A string that starts and ends with a printable ASCII character is left as it is.
\<close>

definition graphic :: "char \<Rightarrow> bool" where
  "graphic c \<longleftrightarrow> 0x20 < (of_char c :: nat) \<and> (of_char c :: nat) < 0x7F"

lemma trim_left_graphic:
  assumes "\<forall>r \<in> set rs. r \<noteq> [] \<and> \<not> graphic (hd r)" and "graphic c"
  shows "trim_left rs (c # cs) = c # cs"
proof -
  have "find (\<lambda>r. has_prefix (c # cs) r) rs = None"
    using assms by (auto simp: find_None_iff has_prefix_iff prefix_Cons)
  then show ?thesis by (simp add: trim_left_def)
qed

lemma space_runes_not_graphic: "\<forall>r \<in> set space_runes. r \<noteq> [] \<and> \<not> graphic (hd r)"
  by (simp add: space_runes_def graphic_def)

lemma rev_space_runes_not_graphic: "\<forall>r \<in> set (map rev space_runes). r \<noteq> [] \<and> \<not> graphic (hd r)"
  by (simp add: space_runes_def graphic_def)

lemma trim_space_graphic:
  assumes "s \<noteq> []" and "graphic (hd s)" and "graphic (last s)"
  shows "trim_space s = s"
proof -
  have 1: "trim_left space_runes s = s"
    using assms trim_left_graphic[OF space_runes_not_graphic] by (cases s) auto
  have "rev s \<noteq> []" and "hd (rev s) = last s"
    using assms(1) by (simp_all add: hd_rev)
  then have "trim_left (map rev space_runes) (rev s) = rev s"
    using assms(3) trim_left_graphic[OF rev_space_runes_not_graphic] by (metis list.collapse)
  with 1 show ?thesis by (simp add: trim_space_def)
qed

end
