(* ===== verification/Go_Num.thy ===== *)
theory Go_Num
  imports Prelude
begin

text \<open>
  Decimal numbers: \<open>strconv.Atoi\<close> (on a 64-bit platform), \<open>strconv.Itoa\<close>/\<open>FormatInt(_, 10)\<close>,
  \<open>strconv.FormatBool\<close> and \<open>strconv.ParseBool\<close>, the conversions between the integer types, and the
  round trip of printing and parsing.
\<close>

type_synonym u8 = "8 word"
type_synonym u16 = "16 word"
type_synonym u32 = "32 word"
type_synonym u64 = "64 word"
type_synonym i32 = "32 word"

section \<open>Parsing\<close>

datatype num_error = ErrSyntax | ErrRange

definition is_digit :: "char \<Rightarrow> bool" where
  "is_digit c \<longleftrightarrow> 48 \<le> (of_char c :: nat) \<and> (of_char c :: nat) \<le> 57"

definition digit_val :: "char \<Rightarrow> nat" where
  "digit_val c = of_char c - 48"

definition max_u64 :: nat where "max_u64 = 18446744073709551615"
definition cutoff_i64 :: nat where "cutoff_i64 = 9223372036854775808"

text \<open>The digit loop of \<open>strconv.ParseUint(s, 10, 64)\<close>: it stops at the first bad byte or overflow.\<close>

fun parse_uint_loop :: "string \<Rightarrow> nat \<Rightarrow> nat \<times> num_error option" where
  "parse_uint_loop [] n = (n, None)"
| "parse_uint_loop (c # cs) n =
     (if \<not> is_digit c then (0, Some ErrSyntax)
      else if max_u64 < n * 10 + digit_val c then (max_u64, Some ErrRange)
      else parse_uint_loop cs (n * 10 + digit_val c))"

definition parse_uint :: "string \<Rightarrow> nat \<times> num_error option" where
  "parse_uint s = (if s = [] then (0, Some ErrSyntax) else parse_uint_loop s 0)"

text \<open>\<open>strconv.ParseInt(s, 10, 64)\<close>; on a range error the result is clamped.\<close>

definition parse_int :: "string \<Rightarrow> int \<times> num_error option" where
  "parse_int s =
     (if s = [] then (0, Some ErrSyntax)
      else
        let neg = (hd s = CHR ''-'');
            ds = (if hd s = CHR ''-'' \<or> hd s = CHR ''+'' then tl s else s);
            (un, err) = parse_uint ds
        in if err = Some ErrSyntax then (0, Some ErrSyntax)
           else if \<not> neg \<and> cutoff_i64 \<le> un then (int cutoff_i64 - 1, Some ErrRange)
           else if neg \<and> cutoff_i64 < un then (- int cutoff_i64, Some ErrRange)
           else (if neg then - int un else int un, None))"

abbreviation atoi :: "string \<Rightarrow> int \<times> num_error option" where
  "atoi s \<equiv> parse_int s"

section \<open>Printing\<close>

fun dec :: "nat \<Rightarrow> string" where
  "dec n = (if n < 10 then [char_of (48 + n)] else dec (n div 10) @ [char_of (48 + n mod 10)])"

declare dec.simps [simp del]

definition itoa :: "int \<Rightarrow> string" where
  "itoa i = (if i < 0 then CHR ''-'' # dec (nat (- i)) else dec (nat i))"

definition format_bool :: "bool \<Rightarrow> string" where
  "format_bool b = (if b then ''true'' else ''false'')"

definition parse_bool :: "string \<Rightarrow> bool option" where
  "parse_bool s =
     (if s \<in> {''1'', ''t'', ''T'', ''TRUE'', ''true'', ''True''} then Some True
      else if s \<in> {''0'', ''f'', ''F'', ''FALSE'', ''false'', ''False''} then Some False
      else None)"

section \<open>Conversions\<close>

text \<open>\<open>int(x)\<close> for a 64-bit unsigned \<open>x\<close>, and the truncating \<open>int(w)\<close> of a float.\<close>

definition int_of_u64 :: "u64 \<Rightarrow> int" where
  "int_of_u64 x = sint x"

definition trunc_int :: "rat \<Rightarrow> int" where
  "trunc_int q = (if 0 \<le> q then \<lfloor>q\<rfloor> else \<lceil>q\<rceil>)"

section \<open>Round trip\<close>

lemma of_char_char_of_digit: "n < 10 \<Longrightarrow> (of_char (char_of (48 + n) :: char) :: nat) = 48 + n"
  by (simp add: of_char_of)

lemma is_digit_char_of [simp]: "(n :: nat) < 10 \<Longrightarrow> is_digit (char_of (48 + n))"
  by (simp add: is_digit_def of_char_char_of_digit)

lemma digit_val_char_of [simp]: "(n :: nat) < 10 \<Longrightarrow> digit_val (char_of (48 + n)) = n"
  by (simp add: digit_val_def of_char_char_of_digit)

lemma dec_digits: "\<forall>c \<in> set (dec n). is_digit c"
proof (induction n rule: dec.induct)
  case (1 n)
  then show ?case by (subst dec.simps) (auto simp: Ball_def)
qed

lemma dec_not_Nil [simp]: "dec n \<noteq> []"
  by (subst dec.simps) simp

lemma parse_uint_loop_append:
  "parse_uint_loop s n = (m, None) \<Longrightarrow> parse_uint_loop (s @ t) n = parse_uint_loop t m"
  by (induction s arbitrary: n) (auto split: if_splits)

lemma parse_uint_loop_dec: "n \<le> max_u64 \<Longrightarrow> parse_uint_loop (dec n) 0 = (n, None)"
proof (induction n rule: dec.induct)
  case (1 n)
  show ?case
  proof (cases "n < 10")
    case True
    with 1(2) show ?thesis by (subst dec.simps) simp
  next
    case False
    have "n div 10 \<le> max_u64" using 1(2) by simp
    with 1(1) False have "parse_uint_loop (dec (n div 10)) 0 = (n div 10, None)" by simp
    from parse_uint_loop_append[OF this] 1(2) False show ?thesis
      by (subst dec.simps) simp
  qed
qed

lemma parse_uint_dec [simp]: "n \<le> max_u64 \<Longrightarrow> parse_uint (dec n) = (n, None)"
  by (simp add: parse_uint_def parse_uint_loop_dec)

lemma hd_dec_digit: "is_digit (hd (dec n))"
  using dec_digits[of n] hd_in_set[OF dec_not_Nil] by blast

lemma not_digits [simp]: "\<not> is_digit CHR ''-''" "\<not> is_digit CHR ''+''" "\<not> is_digit CHR ''#''"
  "\<not> is_digit CHR '':''" "\<not> is_digit CHR ''@''"
  by (simp_all add: is_digit_def)

lemma hd_dec_no_sign [simp]: "hd (dec n) \<noteq> CHR ''-''" "hd (dec n) \<noteq> CHR ''+''"
  using hd_dec_digit[of n] by (metis not_digits(1), metis not_digits(2))

theorem atoi_itoa:
  assumes "- int cutoff_i64 \<le> i" and "i < int cutoff_i64"
  shows "atoi (itoa i) = (i, None)"
proof (cases "i < 0")
  case True
  then have "nat (- i) \<le> cutoff_i64" using assms(1) by linarith
  moreover from this have "nat (- i) \<le> max_u64" by (simp add: max_u64_def cutoff_i64_def)
  ultimately show ?thesis using True by (simp add: parse_int_def itoa_def)
next
  case False
  then have "nat i < cutoff_i64" using assms(2) by linarith
  moreover from this have "nat i \<le> max_u64" by (simp add: max_u64_def cutoff_i64_def)
  ultimately show ?thesis using False by (simp add: parse_int_def itoa_def)
qed

lemma itoa_inject:
  assumes "- int cutoff_i64 \<le> i" "i < int cutoff_i64" "- int cutoff_i64 \<le> j" "j < int cutoff_i64"
    and "itoa i = itoa j"
  shows "i = j"
  using atoi_itoa[OF assms(1,2)] atoi_itoa[OF assms(3,4)] assms(5) by (metis prod.inject)

lemma itoa_chars: "c \<in> set (itoa i) \<Longrightarrow> is_digit c \<or> c = CHR ''-''"
  using dec_digits by (auto simp: itoa_def split: if_splits)

lemma trunc_int_nonneg: "0 \<le> q \<Longrightarrow> 0 \<le> trunc_int q"
  by (simp add: trunc_int_def)

lemma trunc_int_mono: "0 \<le> p \<Longrightarrow> p \<le> q \<Longrightarrow> trunc_int p \<le> trunc_int q"
  by (simp add: trunc_int_def floor_mono)

end
