(* ===== verification/Model.thy ===== *)
theory Model
  imports Go_Num
begin

text \<open>
  The data model (\<open>model/\<close>, the parameter structs of \<open>vo/\<close>, the configuration structs and the
  constants of \<open>common/constant/\<close>) and the helpers of \<open>util/\<close> the components share: the cache keys,
  membership, content truncation, map copies.

  A Go slice that can be told from \<open>nil\<close> is an option of a list; a map that can be \<open>nil\<close> an option of
  a map. A float64 weight is a rational: NaN and the infinities are not modelled. A pointer that is
  only tested for \<open>nil\<close> and read is an option.
\<close>

section \<open>Constants\<close>

definition SERVICE_INFO_SPLITER :: string where "SERVICE_INFO_SPLITER = ''@@''"
definition CONFIG_INFO_SPLITER :: string where "CONFIG_INFO_SPLITER = ''@@''"
definition NAMING_INSTANCE_ID_SPLITTER :: string where "NAMING_INSTANCE_ID_SPLITTER = ''#''"
definition DEFAULT_GROUP :: string where "DEFAULT_GROUP = ''DEFAULT_GROUP''"
definition DEFAULT_NAMESPACE_ID :: string where "DEFAULT_NAMESPACE_ID = ''public''"
definition DEFAULT_CONTEXT_PATH :: string where "DEFAULT_CONTEXT_PATH = ''/nacos''"
definition WEB_CONTEXT :: string where "WEB_CONTEXT = ''/nacos''"
definition DEFAULT_SERVER_SCHEME :: string where "DEFAULT_SERVER_SCHEME = ''http''"
definition CLIENT_VERSION :: string where "CLIENT_VERSION = ''Nacos-Go-Client:v2.3.5''"
definition KEY_ACCESS_TOKEN :: string where "KEY_ACCESS_TOKEN = ''accessToken''"
definition KEY_TOKEN_TTL :: string where "KEY_TOKEN_TTL = ''tokenTtl''"
definition HEART_BEAT_INTERVAL :: string where "HEART_BEAT_INTERVAL = ''preserved.heart.beat.interval''"
definition SERVICE_BASE_PATH :: string where "SERVICE_BASE_PATH = ''/v1/ns''"
definition SERVICE_PATH :: string where "SERVICE_PATH = SERVICE_BASE_PATH @ ''/instance''"
definition CONFIG_PATH :: string where "CONFIG_PATH = ''/v1/cs/configs''"

definition REQUEST_DOMAIN_RETRY_TIME :: nat where "REQUEST_DOMAIN_RETRY_TIME = 3"
definition RESPONSE_CODE_SUCCESS :: int where "RESPONSE_CODE_SUCCESS = 200"
definition UN_REGISTER :: int where "UN_REGISTER = 301"
definition KEEP_ALIVE_TIME :: int where "KEEP_ALIVE_TIME = 5"
definition DEFAULT_TIMEOUT_MILLS :: int where "DEFAULT_TIMEOUT_MILLS = 3000"
definition RpcPortOffset :: u64 where "RpcPortOffset = 1000"
definition PathSeparator :: string where "PathSeparator = ''/''"

section \<open>Services and instances\<close>

record Instance =
  ins_InstanceId :: string
  ins_Ip :: string
  ins_Port :: u64
  ins_Weight :: rat
  ins_Healthy :: bool
  ins_Enable :: bool
  ins_Ephemeral :: bool
  ins_ClusterName :: string
  ins_ServiceName :: string
  ins_Metadata :: "params option"
  ins_InstanceHeartBeatInterval :: int
  ins_IpDeleteTimeout :: int
  ins_InstanceHeartBeatTimeOut :: int

definition zero_Instance :: Instance where
  "zero_Instance = \<lparr>ins_InstanceId = [], ins_Ip = [], ins_Port = 0, ins_Weight = 0,
     ins_Healthy = False, ins_Enable = False, ins_Ephemeral = False, ins_ClusterName = [],
     ins_ServiceName = [], ins_Metadata = None, ins_InstanceHeartBeatInterval = 0,
     ins_IpDeleteTimeout = 0, ins_InstanceHeartBeatTimeOut = 0\<rparr>"

record Service =
  svc_CacheMillis :: u64
  svc_Hosts :: "Instance list option"
  svc_Checksum :: string
  svc_LastRefTime :: u64
  svc_Clusters :: string
  svc_Name :: string
  svc_GroupName :: string
  svc_Valid :: bool
  svc_AllIPs :: bool
  svc_ReachProtectionThreshold :: bool

definition zero_Service :: Service where
  "zero_Service = \<lparr>svc_CacheMillis = 0, svc_Hosts = None, svc_Checksum = [], svc_LastRefTime = 0,
     svc_Clusters = [], svc_Name = [], svc_GroupName = [], svc_Valid = False, svc_AllIPs = False,
     svc_ReachProtectionThreshold = False\<rparr>"

text \<open>A slice as the list of its elements, \<open>nil\<close> being empty.\<close>

definition slice :: "'a list option \<Rightarrow> 'a list" where
  "slice xs = (case xs of None \<Rightarrow> [] | Some ys \<Rightarrow> ys)"

lemma slice_simps [simp]: "slice None = []" "slice (Some ys) = ys"
  by (simp_all add: slice_def)

record ServiceList =
  sl_Count :: int
  sl_Doms :: "string list"

record BeatInfo =
  bi_Ip :: string
  bi_Port :: u64
  bi_Weight :: rat
  bi_ServiceName :: string
  bi_Cluster :: string
  bi_Metadata :: "params option"
  bi_Scheduled :: bool
  bi_Period :: int
  bi_State :: int

definition StateRunning :: int where "StateRunning = 0"
definition StateShutdown :: int where "StateShutdown = 1"

section \<open>Parameters of the naming operations\<close>

record RegisterInstanceParam =
  rip_Ip :: string
  rip_Port :: u64
  rip_Weight :: rat
  rip_Enable :: bool
  rip_Healthy :: bool
  rip_Metadata :: "params option"
  rip_ClusterName :: string
  rip_ServiceName :: string
  rip_GroupName :: string
  rip_Ephemeral :: bool

record BatchRegisterInstanceParam =
  brp_ServiceName :: string
  brp_GroupName :: string
  brp_Instances :: "RegisterInstanceParam list"

record DeregisterInstanceParam =
  dip_Ip :: string
  dip_Port :: u64
  dip_Cluster :: string
  dip_ServiceName :: string
  dip_GroupName :: string
  dip_Ephemeral :: bool

text \<open>\<open>UpdateInstanceParam\<close> has the fields of \<open>RegisterInstanceParam\<close>.\<close>

type_synonym UpdateInstanceParam = RegisterInstanceParam

record GetServiceParam =
  gsp_Clusters :: "string list"
  gsp_ServiceName :: string
  gsp_GroupName :: string

type_synonym SelectAllInstancesParam = GetServiceParam
type_synonym SelectOneHealthInstanceParam = GetServiceParam

record SelectInstancesParam = GetServiceParam +
  sip_HealthyOnly :: bool

section \<open>Server and client configuration\<close>

record ServerConfig =
  sc_Scheme :: string
  sc_ContextPath :: string
  sc_IpAddr :: string
  sc_Port :: u64
  sc_GrpcPort :: u64

record TLSConfig =
  tls_Appointed :: bool
  tls_Enable :: bool
  tls_TrustAll :: bool
  tls_CaFile :: string
  tls_CertFile :: string
  tls_KeyFile :: string
  tls_ServerNameOverride :: string

definition zero_TLSConfig :: TLSConfig where
  "zero_TLSConfig = \<lparr>tls_Appointed = False, tls_Enable = False, tls_TrustAll = False,
     tls_CaFile = [], tls_CertFile = [], tls_KeyFile = [], tls_ServerNameOverride = []\<rparr>"

section \<open>Helpers of package util\<close>

definition GetGroupName :: "string \<Rightarrow> string \<Rightarrow> string" where
  "GetGroupName serviceName groupName = groupName @ SERVICE_INFO_SPLITER @ serviceName"

definition GetServiceCacheKey :: "string \<Rightarrow> string \<Rightarrow> string" where
  "GetServiceCacheKey serviceName clusters =
     (if clusters = [] then serviceName else serviceName @ SERVICE_INFO_SPLITER @ clusters)"

definition GetConfigCacheKey :: "string \<Rightarrow> string \<Rightarrow> string \<Rightarrow> string" where
  "GetConfigCacheKey dataId grp tenant =
     dataId @ CONFIG_INFO_SPLITER @ grp @ CONFIG_INFO_SPLITER @ tenant"

fun Contains :: "string list \<Rightarrow> string \<Rightarrow> bool" where
  "Contains [] item = False"
| "Contains (s # ss) item = (if s = item then True else Contains ss item)"

definition SHOW_CONTENT_SIZE :: nat where "SHOW_CONTENT_SIZE = 100"

definition TruncateContent :: "string \<Rightarrow> string" where
  "TruncateContent content =
     (if content = [] then []
      else if length content \<le> SHOW_CONTENT_SIZE then content
      else take SHOW_CONTENT_SIZE content)"

definition DeepCopyMap :: "params \<Rightarrow> params" where
  "DeepCopyMap ps = put_all [] ps"

text \<open>A metadata value is a duration in nanoseconds; a value that is not a number is ignored.\<close>

definition GetDurationWithDefault :: "params option \<Rightarrow> string \<Rightarrow> int \<Rightarrow> int" where
  "GetDurationWithDefault metadata key defaultDuration =
     (case map_of (slice metadata) key of
        None \<Rightarrow> defaultDuration
      | Some data \<Rightarrow>
          (case parse_int data of
             (value, None) \<Rightarrow> value
           | (_, Some _) \<Rightarrow> defaultDuration))"

section \<open>Deep equality of instances\<close>

text \<open>
  \<open>reflect.DeepEqual\<close> on slices of instances: a \<open>nil\<close> slice differs from an empty one, and so does a
  \<open>nil\<close> map; maps are compared by content.
\<close>

definition map_equal :: "params \<Rightarrow> params \<Rightarrow> bool" where
  "map_equal m n \<longleftrightarrow>
     list_all (\<lambda>(k, v). map_of n k = Some v) m \<and> list_all (\<lambda>(k, v). map_of m k = Some v) n"

fun opt_equal :: "('a \<Rightarrow> 'a \<Rightarrow> bool) \<Rightarrow> 'a option \<Rightarrow> 'a option \<Rightarrow> bool" where
  "opt_equal eq None None = True"
| "opt_equal eq (Some x) (Some y) = eq x y"
| "opt_equal eq _ _ = False"

definition instance_equal :: "Instance \<Rightarrow> Instance \<Rightarrow> bool" where
  "instance_equal a b \<longleftrightarrow>
     a\<lparr>ins_Metadata := None\<rparr> = b\<lparr>ins_Metadata := None\<rparr> \<and>
     opt_equal map_equal (ins_Metadata a) (ins_Metadata b)"

definition instances_deep_equal :: "Instance list option \<Rightarrow> Instance list option \<Rightarrow> bool" where
  "instances_deep_equal = opt_equal (list_all2 instance_equal)"

section \<open>Facts\<close>

lemma Contains_iff [simp]: "Contains ss item \<longleftrightarrow> item \<in> set ss"
  by (induction ss) auto

lemma map_equal_iff: "wf_map m \<Longrightarrow> wf_map n \<Longrightarrow> map_equal m n \<longleftrightarrow> map_of m = map_of n"
proof
  assume wf: "wf_map m" "wf_map n" and eq: "map_equal m n"
  show "map_of m = map_of n"
  proof
    fix k
    show "map_of m k = map_of n k"
    proof (cases "map_of m k")
      case None
      then have "map_of n k \<noteq> Some v" for v
        using eq map_of_SomeD[of n k v] by (fastforce simp: map_equal_def list_all_iff)
      with None show ?thesis by (metis not_None_eq)
    next
      case (Some v)
      then show ?thesis
        using eq map_of_SomeD[OF Some] by (fastforce simp: map_equal_def list_all_iff)
    qed
  qed
qed (auto simp: map_equal_def list_all_iff map_of_in_set_wf)

lemma map_equal_refl: "wf_map m \<Longrightarrow> map_equal m m"
  by (simp add: map_equal_iff)

definition wf_instance :: "Instance \<Rightarrow> bool" where
  "wf_instance i \<longleftrightarrow> (case ins_Metadata i of None \<Rightarrow> True | Some m \<Rightarrow> wf_map m)"

lemma instance_equal_refl: "wf_instance i \<Longrightarrow> instance_equal i i"
  by (cases "ins_Metadata i") (auto simp: instance_equal_def wf_instance_def map_equal_refl)

lemma TruncateContent_bound: "length (TruncateContent c) \<le> SHOW_CONTENT_SIZE"
  by (simp add: TruncateContent_def SHOW_CONTENT_SIZE_def)

lemma TruncateContent_prefix: "prefix (TruncateContent c) c"
  by (simp add: TruncateContent_def take_is_prefix)

lemma map_of_DeepCopyMap: "wf_map ps \<Longrightarrow> map_of (DeepCopyMap ps) = map_of ps"
  by (simp add: DeepCopyMap_def map_of_put_all)

subsection \<open>Keys\<close>

lemmas key_defs = GetGroupName_def GetServiceCacheKey_def GetConfigCacheKey_def
  SERVICE_INFO_SPLITER_def CONFIG_INFO_SPLITER_def

text \<open>
  Splitting a key at the separator recovers the parts it was built from when the parts before the
  last separator contain no \<open>@\<close>.
\<close>

definition no_at :: "string \<Rightarrow> bool" where
  "no_at s \<longleftrightarrow> CHR ''@'' \<notin> set s"

lemma split_group_name:
  assumes "no_at g" and "no_at s"
  shows "split_str (GetGroupName s g) SERVICE_INFO_SPLITER = [g, s]"
  using assms split_str_step[of "''@@''" g s] split_str_single[of "''@@''" s]
  by (simp add: key_defs no_at_def)

lemma split_service_key:
  assumes "no_at g" and "no_at s" and "no_at c"
  shows "split_str (GetServiceCacheKey (GetGroupName s g) c) SERVICE_INFO_SPLITER =
    (if c = [] then [g, s] else [g, s, c])"
proof (cases "c = []")
  case True
  then show ?thesis using split_group_name[OF assms(1,2)] by (simp add: GetServiceCacheKey_def)
next
  case False
  have "GetServiceCacheKey (GetGroupName s g) c = g @ ''@@'' @ s @ ''@@'' @ c"
    using False by (simp add: key_defs)
  with False assms show ?thesis
    using split_str_step[of "''@@''" g "s @ ''@@'' @ c"] split_str_step[of "''@@''" s c]
      split_str_single[of "''@@''" c]
    by (simp add: SERVICE_INFO_SPLITER_def no_at_def)
qed

lemma split_config_key:
  assumes "no_at d" and "no_at g" and "no_at t"
  shows "split_str (GetConfigCacheKey d g t) CONFIG_INFO_SPLITER = [d, g, t]"
  using assms split_str_step[of "''@@''" d "g @ ''@@'' @ t"] split_str_step[of "''@@''" g t]
    split_str_single[of "''@@''" t]
  by (simp add: key_defs no_at_def)

lemma config_key_inject:
  assumes "no_at d" "no_at g" "no_at t" "no_at d'" "no_at g'" "no_at t'"
  shows "GetConfigCacheKey d g t = GetConfigCacheKey d' g' t' \<longleftrightarrow> d = d' \<and> g = g' \<and> t = t'"
  using split_config_key[OF assms(1-3)] split_config_key[OF assms(4-6)] by (metis list.inject)

lemma group_name_inject:
  assumes "no_at g" "no_at s" "no_at g'" "no_at s'"
  shows "GetGroupName s g = GetGroupName s' g' \<longleftrightarrow> s = s' \<and> g = g'"
  using split_group_name[OF assms(1,2)] split_group_name[OF assms(3,4)] by (metis list.inject)

end
