(* ===== verification/Map_Interface.thy ===== *)
theory Map_Interface
  imports Model
begin

text \<open>
  The interface the caches rely on: a string-keyed map with store, erase and load, whatever its
  representation. The sharded \<open>ConcurrentMap\<close> and \<open>sync.Map\<close> both provide it. Inside the interface:
  the effect of any sequence of operations is the effect of the same sequence on a mathematical map,
  operations on different keys commute, and the last operation on a key decides what it holds.
\<close>

datatype 'v map_op = OpStore string 'v | OpErase string

fun op_key :: "'v map_op \<Rightarrow> string" where
  "op_key (OpStore k v) = k"
| "op_key (OpErase k) = k"

fun abs_op :: "'v map_op \<Rightarrow> (string \<rightharpoonup> 'v) \<Rightarrow> (string \<rightharpoonup> 'v)" where
  "abs_op (OpStore k v) f = f(k \<mapsto> v)"
| "abs_op (OpErase k) f = f(k := None)"

locale string_map =
  fixes empty :: 'm
    and store :: "string \<Rightarrow> 'v \<Rightarrow> 'm \<Rightarrow> 'm"
    and erase :: "string \<Rightarrow> 'm \<Rightarrow> 'm"
    and load :: "'m \<Rightarrow> string \<Rightarrow> 'v option"
    and inv :: "'m \<Rightarrow> bool"
  assumes load_empty: "load empty k = None"
    and load_store: "inv m \<Longrightarrow> load (store k v m) k' = (if k' = k then Some v else load m k')"
    and load_erase: "inv m \<Longrightarrow> load (erase k m) k' = (if k' = k then None else load m k')"
    and inv_empty: "inv empty"
    and inv_store: "inv m \<Longrightarrow> inv (store k v m)"
    and inv_erase: "inv m \<Longrightarrow> inv (erase k m)"
begin

fun run_op :: "'v map_op \<Rightarrow> 'm \<Rightarrow> 'm" where
  "run_op (OpStore k v) m = store k v m"
| "run_op (OpErase k) m = erase k m"

lemma inv_run_op: "inv m \<Longrightarrow> inv (run_op x m)"
  by (cases x) (auto simp: inv_store inv_erase)

lemma load_run_op: "inv m \<Longrightarrow> load (run_op x m) = abs_op x (load m)"
  by (cases x) (auto simp: load_store load_erase fun_eq_iff)

lemma inv_run: "inv m \<Longrightarrow> inv (fold run_op ops m)"
  by (induction ops arbitrary: m) (auto simp: inv_run_op)

text \<open>Any sequence of operations refines the same sequence on mathematical maps.\<close>

lemma run_refines: "inv m \<Longrightarrow> load (fold run_op ops m) = fold abs_op ops (load m)"
  by (induction ops arbitrary: m) (auto simp: inv_run_op load_run_op)

text \<open>A sequence of operations leaves the keys it does not mention alone.\<close>

lemma run_frame:
  assumes "inv m" and "k \<notin> op_key ` set ops"
  shows "load (fold run_op ops m) k = load m k"
  using assms
proof (induction ops arbitrary: m)
  case (Cons x ops)
  then have "load (run_op x m) k = load m k"
    by (cases x) (auto simp: load_store load_erase)
  with Cons show ?case by (auto simp: inv_run_op)
qed simp

text \<open>Operations on different keys can be exchanged.\<close>

lemma run_commute:
  assumes "inv m" and "op_key x \<noteq> op_key y"
  shows "load (run_op y (run_op x m)) = load (run_op x (run_op y m))"
  using assms by (cases x; cases y) (auto simp: load_store load_erase inv_store inv_erase fun_eq_iff)

end

section \<open>sync.Map\<close>

text \<open>\<open>sync.Map\<close>: \<open>Store\<close>, \<open>Load\<close>, \<open>Delete\<close> and \<open>Range\<close> (in list order).\<close>

type_synonym 'v sync_map = "(string, 'v) gomap"

interpretation sm: string_map "[]" AList.update AList.delete map_of wf_map
  by unfold_locales auto

end
