(* ===== verification/Concurrent_Map.thy ===== *)
theory Concurrent_Map
  imports Map_Interface
begin

unbundle bit_operations_syntax

text \<open>
  \<open>clients/cache/concurrent_map.go\<close>: a map split into 32 shards by the FNV hash of the key. Every
  operation locks one shard, so it is one atomic step on the list of shards. The iterators forward
  the entries of the shards through goroutines: \<open>fan_in\<close> is the set of sequences they can deliver.
\<close>

section \<open>Representation and operations\<close>

definition SHARD_COUNT :: nat where "SHARD_COUNT = 32"

type_synonym 'v shard = "(string, 'v) gomap"
type_synonym 'v ConcurrentMap = "'v shard list"

fun fnv32_loop :: "u32 \<Rightarrow> string \<Rightarrow> u32" where
  "fnv32_loop hash [] = hash"
| "fnv32_loop hash (c # cs) = fnv32_loop ((hash * 16777619) XOR of_char c) cs"

definition fnv32 :: "string \<Rightarrow> u32" where
  "fnv32 key = fnv32_loop 2166136261 key"

definition NewConcurrentMap :: "'v ConcurrentMap" where
  "NewConcurrentMap = replicate SHARD_COUNT []"

definition shard_index :: "string \<Rightarrow> nat" where
  "shard_index key = unat (fnv32 key) mod SHARD_COUNT"

definition GetShard :: "'v ConcurrentMap \<Rightarrow> string \<Rightarrow> 'v shard" where
  "GetShard m key = m ! shard_index key"

definition cm_Set :: "'v ConcurrentMap \<Rightarrow> string \<Rightarrow> 'v \<Rightarrow> 'v ConcurrentMap" where
  "cm_Set m key val = m[shard_index key := AList.update key val (GetShard m key)]"

definition cm_MSet :: "'v ConcurrentMap \<Rightarrow> (string, 'v) gomap \<Rightarrow> 'v ConcurrentMap" where
  "cm_MSet m data = fold (\<lambda>(key, val) m. cm_Set m key val) data m"

definition cm_Upsert :: "'v ConcurrentMap \<Rightarrow> string \<Rightarrow> 'v \<Rightarrow>
    (bool \<Rightarrow> 'v option \<Rightarrow> 'v \<Rightarrow> 'v) \<Rightarrow> 'v ConcurrentMap \<times> 'v" where
  "cm_Upsert m key val cb =
     (let v = map_of (GetShard m key) key;
          res = cb (v \<noteq> None) v val
      in (m[shard_index key := AList.update key res (GetShard m key)], res))"

definition cm_SetIfAbsent :: "'v ConcurrentMap \<Rightarrow> string \<Rightarrow> 'v \<Rightarrow> 'v ConcurrentMap \<times> bool" where
  "cm_SetIfAbsent m key val =
     (let ok = (map_of (GetShard m key) key \<noteq> None)
      in (if \<not> ok then m[shard_index key := AList.update key val (GetShard m key)] else m, \<not> ok))"

definition cm_Get :: "'v ConcurrentMap \<Rightarrow> string \<Rightarrow> 'v option" where
  "cm_Get m key = map_of (GetShard m key) key"

fun cm_Count_loop :: "'v ConcurrentMap \<Rightarrow> nat \<Rightarrow> nat" where
  "cm_Count_loop [] n = n"
| "cm_Count_loop (shard # shards) n = cm_Count_loop shards (n + length shard)"

definition cm_Count :: "'v ConcurrentMap \<Rightarrow> nat" where
  "cm_Count m = cm_Count_loop (take SHARD_COUNT m) 0"

definition cm_Has :: "'v ConcurrentMap \<Rightarrow> string \<Rightarrow> bool" where
  "cm_Has m key = (map_of (GetShard m key) key \<noteq> None)"

definition cm_Remove :: "'v ConcurrentMap \<Rightarrow> string \<Rightarrow> 'v ConcurrentMap" where
  "cm_Remove m key = m[shard_index key := AList.delete key (GetShard m key)]"

definition cm_Pop :: "'v ConcurrentMap \<Rightarrow> string \<Rightarrow> 'v ConcurrentMap \<times> 'v option" where
  "cm_Pop m key =
     (let v = map_of (GetShard m key) key
      in (m[shard_index key := AList.delete key (GetShard m key)], v))"

definition cm_IsEmpty :: "'v ConcurrentMap \<Rightarrow> bool" where
  "cm_IsEmpty m = (cm_Count m = 0)"

text \<open>\<open>snapshot\<close>: one channel per shard, holding the entries of the shard.\<close>

definition snapshot :: "'v ConcurrentMap \<Rightarrow> (string \<times> 'v) list list" where
  "snapshot m = m"

text \<open>
  \<open>fanIn\<close>: one goroutine per channel forwards its entries in order; the goroutines interleave in
  any way, and the output is closed when every channel is drained.
\<close>

inductive fan_in :: "'a list list \<Rightarrow> 'a list \<Rightarrow> bool" where
  closed: "list_all (\<lambda>ch. ch = []) chans \<Longrightarrow> fan_in chans []"
| forward: "i < length chans \<Longrightarrow> chans ! i = t # ch \<Longrightarrow> fan_in (chans[i := ch]) out \<Longrightarrow>
    fan_in chans (t # out)"

text \<open>\<open>Items\<close> on the entries in the order the iterator delivers them, and in shard order.\<close>

definition collect_items :: "(string \<times> 'v) list \<Rightarrow> (string, 'v) gomap" where
  "collect_items ts = put_all [] ts"

definition cm_Items :: "'v ConcurrentMap \<Rightarrow> (string, 'v) gomap" where
  "cm_Items m = collect_items (concat (snapshot m))"

definition cm_MarshalJSON :: "((string, 'v) gomap \<Rightarrow> string result) \<Rightarrow> 'v ConcurrentMap \<Rightarrow> string result" where
  "cm_MarshalJSON marshal m = marshal (collect_items (concat (snapshot m)))"

definition cm_IterCb :: "'v ConcurrentMap \<Rightarrow> (string \<Rightarrow> 'v \<Rightarrow> 's \<Rightarrow> 's) \<Rightarrow> 's \<Rightarrow> 's" where
  "cm_IterCb m fn s = fold (\<lambda>shard s. fold (\<lambda>(key, val) s. fn key val s) shard s) m s"

definition cm_Keys :: "'v ConcurrentMap \<Rightarrow> string list" where
  "cm_Keys m = concat (map (map fst) m)"

section \<open>Invariant\<close>

text \<open>There are 32 shards, no shard repeats a key, and every key is in the shard of its hash.\<close>

definition cm_inv :: "'v ConcurrentMap \<Rightarrow> bool" where
  "cm_inv m \<longleftrightarrow> length m = SHARD_COUNT \<and>
     (\<forall>i < SHARD_COUNT. wf_map (m ! i) \<and> (\<forall>k \<in> fst ` set (m ! i). shard_index k = i))"

lemma shard_index_less [simp]: "shard_index k < SHARD_COUNT"
  by (simp add: shard_index_def SHARD_COUNT_def)

lemma cm_inv_length: "cm_inv m \<Longrightarrow> length m = SHARD_COUNT"
  by (simp add: cm_inv_def)

lemma cm_inv_shard: "cm_inv m \<Longrightarrow> i < SHARD_COUNT \<Longrightarrow> wf_map (m ! i)"
  by (simp add: cm_inv_def)

lemma cm_inv_home: "cm_inv m \<Longrightarrow> i < SHARD_COUNT \<Longrightarrow> (k, v) \<in> set (m ! i) \<Longrightarrow> shard_index k = i"
  by (force simp: cm_inv_def)

lemma cm_inv_update:
  assumes "cm_inv m" and "wf_map sh" and "fst ` set sh \<subseteq> insert k (fst ` set (m ! shard_index k))"
  shows "cm_inv (m[shard_index k := sh])"
proof -
  have "shard_index k' = shard_index k" if "k' \<in> fst ` set sh" for k'
  proof -
    from that assms(3) have "k' = k \<or> k' \<in> fst ` set (m ! shard_index k)" by blast
    with assms(1) show ?thesis unfolding cm_inv_def by (metis shard_index_less)
  qed
  with assms(1,2) show ?thesis unfolding cm_inv_def by (simp add: nth_list_update)
qed

lemma cm_inv_New [simp, intro]: "cm_inv NewConcurrentMap"
  by (simp add: cm_inv_def NewConcurrentMap_def)

lemma cm_inv_Set [simp, intro]: "cm_inv m \<Longrightarrow> cm_inv (cm_Set m k v)"
  unfolding cm_Set_def GetShard_def
  by (rule cm_inv_update) (auto simp: cm_inv_shard update_keys dom_update)

lemma cm_inv_Remove [simp, intro]: "cm_inv m \<Longrightarrow> cm_inv (cm_Remove m k)"
  unfolding cm_Remove_def GetShard_def
  by (rule cm_inv_update, simp_all add: cm_inv_shard)
    (auto simp: AList.delete_eq intro: rev_image_eqI)

lemma cm_inv_MSet [simp, intro]: "cm_inv m \<Longrightarrow> cm_inv (cm_MSet m data)"
  unfolding cm_MSet_def by (induction data arbitrary: m) auto

lemma cm_Upsert_eq: "cm_Upsert m k v cb =
    (let res = cb (cm_Get m k \<noteq> None) (cm_Get m k) v in (cm_Set m k res, res))"
  by (simp add: cm_Upsert_def cm_Set_def cm_Get_def Let_def)

lemma cm_SetIfAbsent_eq: "cm_SetIfAbsent m k v =
    (if cm_Get m k = None then (cm_Set m k v, True) else (m, False))"
  by (simp add: cm_SetIfAbsent_def cm_Set_def cm_Get_def Let_def)

lemma cm_Pop_eq: "cm_Pop m k = (cm_Remove m k, cm_Get m k)"
  by (simp add: cm_Pop_def cm_Remove_def cm_Get_def Let_def)

lemma cm_Has_eq: "cm_Has m k \<longleftrightarrow> cm_Get m k \<noteq> None"
  by (simp add: cm_Has_def cm_Get_def)

section \<open>The map it represents\<close>

lemma cm_Get_New [simp]: "cm_Get NewConcurrentMap k = None"
  by (simp add: cm_Get_def GetShard_def NewConcurrentMap_def)

lemma cm_Get_New_fun: "cm_Get NewConcurrentMap = Map.empty"
  by (simp add: fun_eq_iff)

lemma cm_Get_Set:
  "cm_inv m \<Longrightarrow> cm_Get (cm_Set m k v) k' = (if k' = k then Some v else cm_Get m k')"
  by (auto simp: cm_Get_def cm_Set_def GetShard_def nth_list_update cm_inv_length)

lemma cm_Get_Remove:
  "cm_inv m \<Longrightarrow> cm_Get (cm_Remove m k) k' = (if k' = k then None else cm_Get m k')"
  by (auto simp: cm_Get_def cm_Remove_def GetShard_def nth_list_update cm_inv_length)

interpretation cm: string_map NewConcurrentMap "\<lambda>k v m. cm_Set m k v" "\<lambda>k m. cm_Remove m k"
  cm_Get cm_inv
  by unfold_locales (auto simp: cm_Get_Set cm_Get_Remove)

lemma cm_Get_iff:
  assumes "cm_inv m"
  shows "cm_Get m k = Some v \<longleftrightarrow> (\<exists>i < SHARD_COUNT. (k, v) \<in> set (m ! i))"
proof -
  have "cm_Get m k = Some v \<longleftrightarrow> (k, v) \<in> set (m ! shard_index k)"
    using assms by (simp add: cm_Get_def GetShard_def map_of_in_set_wf cm_inv_shard)
  with cm_inv_home[OF assms] show ?thesis by (metis shard_index_less)
qed

lemma set_concat_cm: "cm_inv m \<Longrightarrow> (k, v) \<in> set (concat m) \<longleftrightarrow> cm_Get m k = Some v"
  by (simp add: cm_Get_iff set_concat) (metis cm_inv_length in_set_conv_nth)

lemma distinct_keys_shards:
  assumes "\<And>i. i < length ms \<Longrightarrow> wf_map (ms ! i) \<and> (\<forall>k \<in> fst ` set (ms ! i). h k = i + n)"
  shows "distinct (map fst (concat ms))"
  using assms
proof (induction ms arbitrary: n)
  case (Cons sh ms)
  have tail: "wf_map (ms ! i) \<and> (\<forall>k \<in> fst ` set (ms ! i). h k = i + Suc n)" if "i < length ms" for i
    using Cons.prems[of "Suc i"] that by simp
  then have "h k \<noteq> n" if "k \<in> fst ` set (concat ms)" for k
    using that by (force simp: in_set_conv_nth)
  moreover have "wf_map sh" and "h k = n" if "k \<in> fst ` set sh" for k
    using Cons.prems[of 0] that by auto
  moreover have "wf_map sh" using Cons.prems[of 0] by simp
  ultimately show ?case using Cons.IH[OF tail] by (auto simp: wf_map_def)
qed simp

lemma distinct_keys_concat: "cm_inv m \<Longrightarrow> distinct (map fst (concat m))"
  by (rule distinct_keys_shards[of m shard_index 0]) (simp add: cm_inv_def)

lemma wf_map_concat: "cm_inv m \<Longrightarrow> wf_map (concat m)"
  by (simp add: wf_map_def distinct_keys_concat)

lemma map_of_concat_cm: "cm_inv m \<Longrightarrow> map_of (concat m) = cm_Get m"
proof
  fix k
  assume "cm_inv m"
  then have "map_of (concat m) k = Some v \<longleftrightarrow> cm_Get m k = Some v" for v
    by (metis map_of_in_set_wf set_concat_cm wf_map_concat)
  then show "map_of (concat m) k = cm_Get m k"
    by (metis option.exhaust)
qed

section \<open>Iteration\<close>

lemma fan_in_mset: "fan_in chans out \<Longrightarrow> mset out = mset (concat chans)"
proof (induction rule: fan_in.induct)
  case (closed chans)
  then show ?case by (induction chans) auto
next
  case (forward i chans t ch out)
  have "chans = take i chans @ (t # ch) # drop (Suc i) chans"
    using forward(1,2) by (metis id_take_nth_drop)
  then have "mset (concat chans) = mset (concat (take i chans)) + mset (t # ch) + mset (concat (drop (Suc i) chans))"
    by (metis concat.simps(2) concat_append mset_append union_assoc)
  moreover have "mset (concat (chans[i := ch])) =
      mset (concat (take i chans)) + mset ch + mset (concat (drop (Suc i) chans))"
    using forward(1) by (simp add: upd_conv_take_nth_drop)
  ultimately show ?case using forward.IH by simp
qed

lemma map_of_collect_items: "distinct (map fst ts) \<Longrightarrow> map_of (collect_items ts) = map_of ts"
  by (simp add: collect_items_def map_of_put_all wf_map_def)

lemma map_of_mset_eq:
  assumes "mset xs = mset ys" and "distinct (map fst ys)"
  shows "distinct (map fst xs)" and "map_of xs = map_of ys"
proof -
  have "mset (map fst xs) = mset (map fst ys)" using assms(1) by simp
  then show d: "distinct (map fst xs)" using assms(2) by (metis mset_eq_imp_distinct_iff)
  have "set xs = set ys" using assms(1) by (metis set_mset_mset)
  with d assms(2) show "map_of xs = map_of ys" by (simp add: map_of_inject_set)
qed

lemma map_of_cm_Items: "cm_inv m \<Longrightarrow> map_of (cm_Items m) = cm_Get m"
  by (simp add: cm_Items_def snapshot_def map_of_collect_items distinct_keys_concat map_of_concat_cm)

lemma wf_map_cm_Items: "wf_map (cm_Items m)"
  by (simp add: cm_Items_def collect_items_def)

lemma cm_Items_iff: "cm_inv m \<Longrightarrow> (k, v) \<in> set (cm_Items m) \<longleftrightarrow> cm_Get m k = Some v"
  by (simp add: map_of_in_set_wf wf_map_cm_Items map_of_cm_Items)

lemma cm_Count_loop_eq: "cm_Count_loop ms c = c + length (concat ms)"
  by (induction ms arbitrary: c) auto

lemma cm_Count_eq: "cm_inv m \<Longrightarrow> cm_Count m = card (dom (cm_Get m))"
  using card_dom_wf[OF wf_map_concat] map_of_concat_cm
  by (fastforce simp: cm_Count_def cm_Count_loop_eq cm_inv_length)

lemma cm_Keys_eq: "cm_Keys m = map fst (concat m)"
  by (simp add: cm_Keys_def map_concat)

lemma set_cm_Keys: "cm_inv m \<Longrightarrow> set (cm_Keys m) = dom (cm_Get m)"
  by (simp add: cm_Keys_eq dom_map_of_conv_image_fst map_of_concat_cm[symmetric])

lemma distinct_cm_Keys: "cm_inv m \<Longrightarrow> distinct (cm_Keys m)"
  by (simp add: cm_Keys_eq distinct_keys_concat)

lemma cm_IterCb_eq: "cm_IterCb m fn s = fold (\<lambda>(key, val) s. fn key val s) (concat m) s"
  unfolding cm_IterCb_def by (induction m arbitrary: s) auto

lemma fan_in_concat: "fan_in chans (concat chans)"
proof (induction "length (concat chans)" arbitrary: chans)
  case 0
  then have nil: "concat chans = []" by simp
  then have "list_all (\<lambda>ch. ch = []) chans" by (simp only: concat_eq_Nil_conv list_all_iff)
  then show ?case unfolding nil by (rule fan_in.closed)
next
  case (Suc n)
  from Suc.hyps(2) have "\<exists>ch \<in> set chans. ch \<noteq> []" by (metis concat_eq_Nil_conv list.size(3) nat.distinct(1))
  from split_list_first_prop[OF this] obtain pre c post
    where split: "chans = pre @ c # post" "c \<noteq> []" and "\<forall>ch \<in> set pre. ch = []" by blast
  then have pre: "concat pre = []" by simp
  from split obtain t ch where chans: "chans = pre @ (t # ch) # post" by (cases c) auto
  have upd: "chans[length pre := ch] = pre @ ch # post" unfolding chans by simp
  have c1: "concat (chans[length pre := ch]) = ch @ concat post" unfolding upd using pre by simp
  have c2: "concat chans = t # ch @ concat post" unfolding chans using pre by simp
  have "n = length (concat (chans[length pre := ch]))"
    using Suc.hyps(2) unfolding c1 c2 by simp
  then have "fan_in (chans[length pre := ch]) (ch @ concat post)"
    unfolding c1[symmetric] by (rule Suc.hyps(1))
  moreover have "length pre < length chans" "chans ! length pre = t # ch"
    unfolding chans by simp_all
  ultimately show ?case unfolding c2 by (rule fan_in.forward[rotated 2])
qed

section \<open>Properties\<close>

fun cm_apply :: "'v map_op \<Rightarrow> 'v ConcurrentMap \<Rightarrow> 'v ConcurrentMap" where
  "cm_apply (OpStore k v) m = cm_Set m k v"
| "cm_apply (OpErase k) m = cm_Remove m k"

lemma cm_apply_run: "cm_apply = cm.run_op"
proof (intro ext)
  fix x :: "'v map_op" and m
  show "cm_apply x m = cm.run_op x m" by (cases x) (auto simp: cm.run_op.simps)
qed


text \<open>Whatever order the forwarding goroutines of \<open>IterBuffered\<close> deliver the entries in, \<open>Items\<close> builds
  exactly the map that \<open>Get\<close> reads, each entry being delivered once; and some delivery order exists.\<close>

theorem items_any_delivery_order:
  assumes "cm_inv m"
  shows "(\<exists>ts. fan_in (snapshot m) ts) \<and>
    (\<forall>ts. fan_in (snapshot m) ts \<longrightarrow>
       map_of (collect_items ts) = cm_Get m \<and> distinct (map fst ts) \<and> length ts = cm_Count m)"
proof (intro conjI allI impI)
  show "\<exists>ts. fan_in (snapshot m) ts" using fan_in_concat by blast
next
  fix ts
  assume "fan_in (snapshot m) ts"
  then have ms: "mset ts = mset (concat m)" by (simp add: fan_in_mset snapshot_def)
  note d = map_of_mset_eq[OF ms distinct_keys_concat[OF assms]]
  show "distinct (map fst ts)" by (rule d)
  then show "map_of (collect_items ts) = cm_Get m"
    using d(2) assms by (simp add: map_of_collect_items map_of_concat_cm)
  have "length ts = length (concat m)" using ms by (metis size_mset)
  then show "length ts = cm_Count m"
    by (simp add: cm_Count_def cm_Count_loop_eq cm_inv_length[OF assms])
qed

theorem items_any_delivery_order_witness:
  "cm_inv (cm_Set NewConcurrentMap ''k'' (1 :: int)) \<and>
   (\<exists>ts. fan_in (snapshot (cm_Set NewConcurrentMap ''k'' (1 :: int))) ts \<and> length ts = 1)"
proof -
  let ?m = "cm_Set NewConcurrentMap ''k'' (1 :: int)"
  have inv: "cm_inv ?m" by simp
  have "dom (cm_Get ?m) = {''k''}" by (auto simp: cm_Get_Set dom_def)
  then have "cm_Count ?m = 1" by (simp add: cm_Count_eq)
  with items_any_delivery_order[OF inv] inv show ?thesis by metis
qed

text \<open>The results of concurrent \<open>SetIfAbsent\<close> calls on one key, in the order the lock serialises them.\<close>

fun set_if_absent_all :: "'v ConcurrentMap \<Rightarrow> string \<Rightarrow> 'v list \<Rightarrow> 'v ConcurrentMap \<times> bool list" where
  "set_if_absent_all m k [] = (m, [])"
| "set_if_absent_all m k (v # vs) =
     (let (m1, r) = cm_SetIfAbsent m k v; (m2, rs) = set_if_absent_all m1 k vs in (m2, r # rs))"

lemma set_if_absent_all_present:
  "cm_Get m k = Some v \<Longrightarrow> set_if_absent_all m k vs = (m, replicate (length vs) False)"
  by (induction vs) (auto simp: cm_SetIfAbsent_eq)

text \<open>Of any number of \<open>SetIfAbsent\<close> calls racing on an absent key, exactly the first to take the lock
  wins; its value stays, every other call returns false, and no other key changes.\<close>

theorem set_if_absent_single_winner:
  assumes "cm_inv m" and "cm_Get m k = None"
  shows "set_if_absent_all m k (v # vs) = (cm_Set m k v, True # replicate (length vs) False) \<and>
    cm_Get (cm_Set m k v) k = Some v \<and> (\<forall>k'. k' \<noteq> k \<longrightarrow> cm_Get (cm_Set m k v) k' = cm_Get m k')"
  using assms set_if_absent_all_present[of "cm_Set m k v" k v vs]
  by (simp add: cm_SetIfAbsent_eq cm_Get_Set)

theorem set_if_absent_single_winner_witness:
  "snd (set_if_absent_all NewConcurrentMap ''k'' [1, 2, 3 :: int]) = [True, False, False]"
  using set_if_absent_single_winner[of NewConcurrentMap "''k''" "1 :: int" "[2, 3]"]
  by (simp add: numeral_2_eq_2)

end
