(* ===== verification/Disk_Cache.thy ===== *)
theory Disk_Cache
  imports Model
begin

text \<open>
  \<open>clients/cache/disk_cache.go\<close> and \<open>common/file/file.go\<close> on a Unix path separator: the snapshot files of
  services and configurations. The state is the file system: regular files with their content and
  the directories; paths are compared as strings. Which system calls fail is an environment,
  \<open>io_env\<close>, so that every error branch is reachable. The JSON codec of a service
  is a parameter (\<open>to_json\<close>, \<open>from_json\<close>).
\<close>

section \<open>The file system\<close>

datatype errno = ENOENT | EACCES

text \<open>
  The \<open>os\<close> functions wrap the error number in a \<open>*PathError\<close>; \<open>syscall.Errno\<close> is another dynamic type.
\<close>

datatype os_error = PathError string errno | SysErrno errno

record fs =
  fs_files :: "(string, string) gomap"
  fs_dirs :: "string list"

record io_env =
  env_cwd :: string
  env_mkdir_ok :: "string \<Rightarrow> bool"
  env_write_ok :: "string \<Rightarrow> bool"
  env_read_ok :: "string \<Rightarrow> bool"
  env_remove_ok :: "string \<Rightarrow> bool"

definition all_ok :: io_env where
  "all_ok = \<lparr>env_cwd = ''/'', env_mkdir_ok = (\<lambda>_. True), env_write_ok = (\<lambda>_. True),
     env_read_ok = (\<lambda>_. True), env_remove_ok = (\<lambda>_. True)\<rparr>"

definition path_exists :: "fs \<Rightarrow> string \<Rightarrow> bool" where
  "path_exists s p \<longleftrightarrow> map_of (fs_files s) p \<noteq> None \<or> p \<in> set (fs_dirs s)"

definition os_WriteFile :: "io_env \<Rightarrow> fs \<Rightarrow> string \<Rightarrow> string \<Rightarrow> fs \<times> os_error option" where
  "os_WriteFile env s p content =
     (if env_write_ok env p \<and> p \<notin> set (fs_dirs s)
      then (s\<lparr>fs_files := AList.update p content (fs_files s)\<rparr>, None)
      else (s, Some (PathError p EACCES)))"

definition os_ReadFile :: "io_env \<Rightarrow> fs \<Rightarrow> string \<Rightarrow> os_error + string" where
  "os_ReadFile env s p =
     (case map_of (fs_files s) p of
        None \<Rightarrow> Inl (PathError p ENOENT)
      | Some c \<Rightarrow> if env_read_ok env p then Inr c else Inl (PathError p EACCES))"

definition os_Remove :: "io_env \<Rightarrow> fs \<Rightarrow> string \<Rightarrow> fs \<times> os_error option" where
  "os_Remove env s p =
     (if map_of (fs_files s) p = None then (s, Some (PathError p ENOENT))
      else if env_remove_ok env p then (s\<lparr>fs_files := AList.delete p (fs_files s)\<rparr>, None)
      else (s, Some (PathError p EACCES)))"

text \<open>
  \<open>os.ReadDir\<close>: the names of the entries of a directory in increasing order; an error when the
  directory does not exist.
\<close>

definition dir_entry :: "string \<Rightarrow> string \<Rightarrow> string option" where
  "dir_entry dir p =
     (let name = drop (length dir + 1) p
      in if has_prefix p (dir @ PathSeparator) \<and> name \<noteq> [] \<and> CHR ''/'' \<notin> set name
         then Some name else None)"

definition os_ReadDir :: "fs \<Rightarrow> string \<Rightarrow> string list option" where
  "os_ReadDir s dir =
     (if dir \<in> set (fs_dirs s)
      then Some (sort (remdups (collect_some (dir_entry dir) (map fst (fs_files s) @ fs_dirs s))))
      else None)"

section \<open>Package file\<close>

text \<open>
  \<open>MkdirIfNecessary\<close>: the loop over the prefixes of the path, creating the missing ones and stopping
  at the first failure.
\<close>

fun mkdir_loop :: "io_env \<Rightarrow> fs \<Rightarrow> string list \<Rightarrow> fs \<times> os_error option" where
  "mkdir_loop env s [] = (s, None)"
| "mkdir_loop env s (d # ds) =
     (if path_exists s d then mkdir_loop env s ds
      else if env_mkdir_ok env d then mkdir_loop env (s\<lparr>fs_dirs := fs_dirs s @ [d]\<rparr>) ds
      else (s, Some (PathError d EACCES)))"

definition mkdir_targets :: "io_env \<Rightarrow> string \<Rightarrow> string list" where
  "mkdir_targets env createDir =
     (let s = split_str createDir PathSeparator;
          startIndex = (if hd s = [] then 1 else 0);
          dir = (if hd s = [] then [] else env_cwd env)
      in map (\<lambda>i. dir @ PathSeparator @ join_str (drop startIndex (take (i + 1) s)) PathSeparator)
           [startIndex..<length s])"

definition MkdirIfNecessary :: "io_env \<Rightarrow> fs \<Rightarrow> string \<Rightarrow> fs \<times> os_error option" where
  "MkdirIfNecessary env s createDir = mkdir_loop env s (mkdir_targets env createDir)"

definition IsExistFile :: "fs \<Rightarrow> string \<Rightarrow> bool" where
  "IsExistFile s filePath = (if filePath = [] then False else path_exists s filePath)"

section \<open>File names\<close>

definition ENCRYPTED_DATA_KEY_FILE_NAME :: string where
  "ENCRYPTED_DATA_KEY_FILE_NAME = ''encrypted-data-key''"

definition FAILOVER_FILE_SUFFIX :: string where
  "FAILOVER_FILE_SUFFIX = ''_failover''"

datatype ConfigCachedFileType = ConfigContent | ConfigEncryptedDataKey

definition GetFileName :: "string \<Rightarrow> string \<Rightarrow> string" where
  "GetFileName cacheKey cacheDir = cacheDir @ PathSeparator @ cacheKey"

definition GetEncryptedDataKeyDir :: "string \<Rightarrow> string" where
  "GetEncryptedDataKeyDir cacheDir = cacheDir @ PathSeparator @ ENCRYPTED_DATA_KEY_FILE_NAME"

definition GetConfigEncryptedDataKeyFileName :: "string \<Rightarrow> string \<Rightarrow> string" where
  "GetConfigEncryptedDataKeyFileName cacheKey cacheDir =
     GetEncryptedDataKeyDir cacheDir @ PathSeparator @ cacheKey"

definition GetConfigFailOverContentFileName :: "string \<Rightarrow> string \<Rightarrow> string" where
  "GetConfigFailOverContentFileName cacheKey cacheDir =
     GetFileName cacheKey cacheDir @ FAILOVER_FILE_SUFFIX"

definition GetConfigFailOverEncryptedDataKeyFileName :: "string \<Rightarrow> string \<Rightarrow> string" where
  "GetConfigFailOverEncryptedDataKeyFileName cacheKey cacheDir =
     GetConfigEncryptedDataKeyFileName cacheKey cacheDir @ FAILOVER_FILE_SUFFIX"

section \<open>Services\<close>

definition service_key :: "Service \<Rightarrow> string" where
  "service_key s = GetServiceCacheKey (GetGroupName (svc_Name s) (svc_GroupName s)) (svc_Clusters s)"

definition WriteServicesToFile ::
  "(Service \<Rightarrow> string) \<Rightarrow> io_env \<Rightarrow> fs \<Rightarrow> Service \<Rightarrow> string \<Rightarrow> string \<Rightarrow> fs" where
  "WriteServicesToFile to_json env s service cacheKey cacheDir =
     (case MkdirIfNecessary env s cacheDir of
        (s1, Some err) \<Rightarrow> s1
      | (s1, None) \<Rightarrow>
          fst (os_WriteFile env s1 (GetFileName cacheKey cacheDir) (to_json service)))"

text \<open>\<open>ReadServicesFromFile\<close>; \<open>None\<close> is the \<open>nil\<close> map returned when the directory cannot be read.\<close>

fun read_services_loop ::
  "(string \<Rightarrow> Service option) \<Rightarrow> io_env \<Rightarrow> fs \<Rightarrow> string \<Rightarrow> string list \<Rightarrow>
   (string, Service) gomap \<Rightarrow> (string, Service) gomap" where
  "read_services_loop from_json env s cacheDir [] serviceMap = serviceMap"
| "read_services_loop from_json env s cacheDir (f # files) serviceMap =
     (case os_ReadFile env s (GetFileName f cacheDir) of
        Inl err \<Rightarrow> read_services_loop from_json env s cacheDir files serviceMap
      | Inr b \<Rightarrow>
          (case from_json b of
             None \<Rightarrow> read_services_loop from_json env s cacheDir files serviceMap
           | Some service \<Rightarrow>
               read_services_loop from_json env s cacheDir files
                 (AList.update (service_key service) service serviceMap)))"

definition ReadServicesFromFile ::
  "(string \<Rightarrow> Service option) \<Rightarrow> io_env \<Rightarrow> fs \<Rightarrow> string \<Rightarrow> (string, Service) gomap option" where
  "ReadServicesFromFile from_json env s cacheDir =
     (case os_ReadDir s cacheDir of
        None \<Rightarrow> None
      | Some files \<Rightarrow> Some (read_services_loop from_json env s cacheDir files []))"

section \<open>Configurations\<close>

text \<open>
  \<open>writeConfigToFile\<close> with its comparison of the returned error with \<open>syscall.ENOENT\<close>, and with the
  write that follows a successful removal.
\<close>

definition writeConfigToFile ::
  "io_env \<Rightarrow> fs \<Rightarrow> string \<Rightarrow> string \<Rightarrow> ConfigCachedFileType \<Rightarrow> fs \<times> go_error option" where
  "writeConfigToFile env s fileName content fileType =
     (let write = (\<lambda>s. case os_WriteFile env s fileName content of
            (s', Some err) \<Rightarrow> (s', Some (Err ''failed to write cache file''))
          | (s', None) \<Rightarrow> (s', None))
      in if trim_space content = []
         then (case os_Remove env s fileName of
                 (s1, Some err) \<Rightarrow>
                   if err \<noteq> SysErrno ENOENT then (s1, None)
                   else (s1, Some (Err ''failed to delete cache file''))
               | (s1, None) \<Rightarrow> write s1)
         else write s)"

definition WriteConfigToFile ::
  "io_env \<Rightarrow> fs \<Rightarrow> string \<Rightarrow> string \<Rightarrow> string \<Rightarrow> fs \<times> go_error option" where
  "WriteConfigToFile env s cacheKey cacheDir content =
     (case MkdirIfNecessary env s cacheDir of
        (s1, Some err) \<Rightarrow> (s1, Some (Err ''make dir failed''))
      | (s1, None) \<Rightarrow>
          writeConfigToFile env s1 (GetFileName cacheKey cacheDir) content ConfigContent)"

definition WriteEncryptedDataKeyToFile ::
  "io_env \<Rightarrow> fs \<Rightarrow> string \<Rightarrow> string \<Rightarrow> string \<Rightarrow> fs \<times> go_error option" where
  "WriteEncryptedDataKeyToFile env s cacheKey cacheDir content =
     (case MkdirIfNecessary env s (GetEncryptedDataKeyDir cacheDir) of
        (s1, Some err) \<Rightarrow> (s1, Some (Err ''make dir failed''))
      | (s1, None) \<Rightarrow>
          writeConfigToFile env s1 (GetConfigEncryptedDataKeyFileName cacheKey cacheDir) content
            ConfigEncryptedDataKey)"

definition fileNotExistError :: go_error where
  "fileNotExistError = Err ''file not exist''"

definition readConfigFromFile ::
  "io_env \<Rightarrow> fs \<Rightarrow> string \<Rightarrow> ConfigCachedFileType \<Rightarrow> string result" where
  "readConfigFromFile env s fileName fileType =
     (if \<not> IsExistFile s fileName
      then Inl (Wrapped ''read cache file failed'' fileNotExistError)
      else case os_ReadFile env s fileName of
             Inl err \<Rightarrow> Inl (Err ''get from cache failed'')
           | Inr b \<Rightarrow> Inr b)"

definition ReadConfigFromFile :: "io_env \<Rightarrow> fs \<Rightarrow> string \<Rightarrow> string \<Rightarrow> string result" where
  "ReadConfigFromFile env s cacheKey cacheDir =
     readConfigFromFile env s (GetFileName cacheKey cacheDir) ConfigEncryptedDataKey"

text \<open>\<open>errors.Is\<close> follows the wrapped errors.\<close>

fun errors_Is :: "go_error \<Rightarrow> go_error \<Rightarrow> bool" where
  "errors_Is (Wrapped msg e) target = (Wrapped msg e = target \<or> errors_Is e target)"
| "errors_Is e target = (e = target)"

text \<open>
  \<open>ReadEncryptedDataKeyFromFile\<close>: every path returns a \<open>nil\<close> error; after an error other than a
  missing file the content is the empty string \<open>readConfigFromFile\<close> returned with it.
\<close>

definition ReadEncryptedDataKeyFromFile :: "io_env \<Rightarrow> fs \<Rightarrow> string \<Rightarrow> string \<Rightarrow> string result" where
  "ReadEncryptedDataKeyFromFile env s cacheKey cacheDir =
     (case readConfigFromFile env s (GetConfigEncryptedDataKeyFileName cacheKey cacheDir)
             ConfigEncryptedDataKey of
        Inl err \<Rightarrow> if errors_Is err fileNotExistError then Inr [] else Inr []
      | Inr content \<Rightarrow> Inr content)"

definition getFailOverConfig :: "io_env \<Rightarrow> fs \<Rightarrow> string \<Rightarrow> ConfigCachedFileType \<Rightarrow> string" where
  "getFailOverConfig env s filePath fileType =
     (if \<not> IsExistFile s filePath then []
      else case os_ReadFile env s filePath of Inl err \<Rightarrow> [] | Inr fileContent \<Rightarrow> fileContent)"

definition GetFailover :: "io_env \<Rightarrow> fs \<Rightarrow> string \<Rightarrow> string \<Rightarrow> string" where
  "GetFailover env s key dir =
     getFailOverConfig env s (GetConfigFailOverContentFileName key dir) ConfigContent"

definition GetFailoverEncryptedDataKey :: "io_env \<Rightarrow> fs \<Rightarrow> string \<Rightarrow> string \<Rightarrow> string" where
  "GetFailoverEncryptedDataKey env s key dir =
     getFailOverConfig env s (GetConfigFailOverEncryptedDataKeyFileName key dir) ConfigEncryptedDataKey"

section \<open>Facts about directories\<close>

lemma mkdir_loop_files: "fs_files (fst (mkdir_loop env s ds)) = fs_files s"
  by (induction ds arbitrary: s) auto

lemma mkdir_loop_ok: "\<forall>d. env_mkdir_ok env d \<Longrightarrow> snd (mkdir_loop env s ds) = None"
  by (induction ds arbitrary: s) auto

lemma mkdir_loop_dirs:
  "set (fs_dirs s) \<subseteq> set (fs_dirs (fst (mkdir_loop env s ds))) \<and>
   set (fs_dirs (fst (mkdir_loop env s ds))) \<subseteq> set (fs_dirs s) \<union> set ds"
proof (induction ds arbitrary: s)
  case (Cons d ds)
  from Cons.IH[of s] Cons.IH[of "s\<lparr>fs_dirs := fs_dirs s @ [d]\<rparr>"] show ?case by auto
qed simp

lemma mkdir_loop_noop: "\<forall>d \<in> set ds. path_exists s d \<Longrightarrow> mkdir_loop env s ds = (s, None)"
  by (induction ds) auto

lemma MkdirIfNecessary_files: "fs_files (fst (MkdirIfNecessary env s d)) = fs_files s"
  by (simp add: MkdirIfNecessary_def mkdir_loop_files)

lemma MkdirIfNecessary_ok: "\<forall>d. env_mkdir_ok env d \<Longrightarrow> snd (MkdirIfNecessary env s d) = None"
  by (simp add: MkdirIfNecessary_def mkdir_loop_ok)

lemma MkdirIfNecessary_not_dir:
  "p \<notin> set (fs_dirs s) \<Longrightarrow> p \<notin> set (mkdir_targets env d) \<Longrightarrow>
   p \<notin> set (fs_dirs (fst (MkdirIfNecessary env s d)))"
  using mkdir_loop_dirs[of s env "mkdir_targets env d"] by (auto simp: MkdirIfNecessary_def)

lemma MkdirIfNecessary_noop:
  "set (mkdir_targets env d) \<subseteq> set (fs_dirs s) \<Longrightarrow> MkdirIfNecessary env s d = (s, None)"
  unfolding MkdirIfNecessary_def by (rule mkdir_loop_noop) (auto simp: path_exists_def)

text \<open>The environment lets a file be written and read back.\<close>

definition file_ok :: "io_env \<Rightarrow> fs \<Rightarrow> string \<Rightarrow> string \<Rightarrow> bool" where
  "file_ok env s dir p \<longleftrightarrow> (\<forall>d. env_mkdir_ok env d) \<and> env_write_ok env p \<and> env_read_ok env p \<and>
     p \<notin> set (fs_dirs s) \<and> p \<notin> set (mkdir_targets env dir)"

lemma targets_c: "mkdir_targets env ''/c'' = [''/c'']"
  by (simp add: mkdir_targets_def PathSeparator_def split_str_def has_prefix_def)

lemma WriteConfigToFile_eq:
  assumes "file_ok env s dir (GetFileName key dir)"
  shows "WriteConfigToFile env s key dir content =
    writeConfigToFile env (fst (MkdirIfNecessary env s dir)) (GetFileName key dir) content ConfigContent"
  using assms MkdirIfNecessary_ok[of env s dir]
  by (auto simp: WriteConfigToFile_def file_ok_def split: prod.splits option.splits)

section \<open>Properties\<close>

text \<open>C16: a configuration whose content is not blank is read back from its snapshot file as it was written,
  and no other file of the cache changes.\<close>

theorem config_snapshot_roundtrip:
  assumes "trim_space content \<noteq> []" and "file_ok env s dir (GetFileName key dir)"
  shows "let r = WriteConfigToFile env s key dir content in snd r = None \<and> ReadConfigFromFile env (fst r) key dir = Inr content \<and>
    (\<forall>p. p \<noteq> GetFileName key dir \<longrightarrow> map_of (fs_files (fst r)) p = map_of (fs_files s) p)"
proof -
  let ?p = "GetFileName key dir" and ?s1 = "fst (MkdirIfNecessary env s dir)"
  have "WriteConfigToFile env s key dir content =
      (?s1\<lparr>fs_files := AList.update ?p content (fs_files s)\<rparr>, None)"
    using assms(1,2) MkdirIfNecessary_not_dir[of ?p s env dir]
    unfolding WriteConfigToFile_eq[OF assms(2)]
    by (simp add: writeConfigToFile_def os_WriteFile_def file_ok_def MkdirIfNecessary_files)
  then show ?thesis using assms(2)
    by (simp add: Let_def ReadConfigFromFile_def readConfigFromFile_def IsExistFile_def path_exists_def
        os_ReadFile_def file_ok_def GetFileName_def PathSeparator_def)
qed

theorem config_snapshot_roundtrip_witness:
  "ReadConfigFromFile all_ok
     (fst (WriteConfigToFile all_ok \<lparr>fs_files = [], fs_dirs = []\<rparr> ''d@@g@@'' ''/c'' ''a=1''))
     ''d@@g@@'' ''/c'' = Inr ''a=1''"
proof -
  have 1: "trim_space ''a=1'' \<noteq> []" by (subst trim_space_graphic) (simp_all add: graphic_def)
  have 2: "file_ok all_ok \<lparr>fs_files = [], fs_dirs = []\<rparr> ''/c'' (GetFileName ''d@@g@@'' ''/c'')"
    using targets_c by (simp add: file_ok_def all_ok_def GetFileName_def PathSeparator_def)
  from config_snapshot_roundtrip[OF 1 2] show ?thesis by (simp add: Let_def)
qed

text \<open>Writing blank content over an existing snapshot does not delete it: the file is removed and then
  created again with the blank content, so a later read succeeds with that content instead of
  reporting a missing file.\<close>

theorem blank_write_keeps_snapshot_file:
  assumes "trim_space content = []" and "file_ok env s dir (GetFileName key dir)"
    and "env_remove_ok env (GetFileName key dir)"
    and "map_of (fs_files s) (GetFileName key dir) = Some old"
  shows "let r = WriteConfigToFile env s key dir content in snd r = None \<and> map_of (fs_files (fst r)) (GetFileName key dir) = Some content \<and>
    ReadConfigFromFile env (fst r) key dir = Inr content"
proof -
  let ?p = "GetFileName key dir" and ?s1 = "fst (MkdirIfNecessary env s dir)"
  have "WriteConfigToFile env s key dir content =
      (?s1\<lparr>fs_files := AList.update ?p content (AList.delete ?p (fs_files s))\<rparr>, None)"
    using assms(1-4) MkdirIfNecessary_not_dir[of ?p s env dir]
    unfolding WriteConfigToFile_eq[OF assms(2)]
    by (simp add: writeConfigToFile_def os_WriteFile_def os_Remove_def file_ok_def MkdirIfNecessary_files)
  then show ?thesis using assms(2)
    by (simp add: Let_def ReadConfigFromFile_def readConfigFromFile_def IsExistFile_def path_exists_def
        os_ReadFile_def file_ok_def GetFileName_def PathSeparator_def)
qed

theorem blank_write_keeps_snapshot_file_witness:
  "ReadConfigFromFile all_ok
     (fst (WriteConfigToFile all_ok \<lparr>fs_files = [(''/c/k'', ''old'')], fs_dirs = [''/c'']\<rparr> ''k'' ''/c'' []))
     ''k'' ''/c'' = Inr []"
proof -
  let ?s = "\<lparr>fs_files = [(''/c/k'', ''old'')], fs_dirs = [''/c'']\<rparr>"
  have 2: "file_ok all_ok ?s ''/c'' (GetFileName ''k'' ''/c'')"
    using targets_c by (simp add: file_ok_def all_ok_def GetFileName_def PathSeparator_def)
  have 3: "env_remove_ok all_ok (GetFileName ''k'' ''/c'')" by (simp add: all_ok_def)
  have 4: "map_of (fs_files ?s) (GetFileName ''k'' ''/c'') = Some ''old''"
    by (simp add: GetFileName_def PathSeparator_def)
  from blank_write_keeps_snapshot_file[OF trim_space_Nil 2 3 4] show ?thesis by (simp add: Let_def)
qed

text \<open>When the snapshot of a deleted configuration cannot be removed, whatever the reason, the write
  reports success and the old content stays readable: the comparison with \<open>syscall.ENOENT\<close> never
  holds for the error \<open>os.Remove\<close> returns.\<close>

theorem failed_delete_is_silent:
  assumes "trim_space content = []" and "\<forall>d. env_mkdir_ok env d"
    and "\<not> env_remove_ok env (GetFileName key dir)"
  shows "let r = WriteConfigToFile env s key dir content in snd r = None \<and> fs_files (fst r) = fs_files s"
  using assms(1-3) MkdirIfNecessary_ok[of env s dir] MkdirIfNecessary_files[of env s dir]
  by (auto simp: Let_def WriteConfigToFile_def writeConfigToFile_def os_Remove_def
      split: prod.splits option.splits)

theorem failed_delete_is_silent_witness:
  "let r = WriteConfigToFile (all_ok\<lparr>env_remove_ok := (\<lambda>_. False)\<rparr>)
     \<lparr>fs_files = [(''/c/k'', ''old'')], fs_dirs = [''/c'']\<rparr> ''k'' ''/c'' '' ''
   in snd r = None \<and> fs_files (fst r) = [(''/c/k'', ''old'')]"
proof -
  have "trim_space '' '' = []" by code_simp
  from failed_delete_is_silent[OF this, of "all_ok\<lparr>env_remove_ok := (\<lambda>_. False)\<rparr>" "''k''" "''/c''"
      "\<lparr>fs_files = [(''/c/k'', ''old'')], fs_dirs = [''/c'']\<rparr>"]
  show ?thesis by (simp add: all_ok_def)
qed

section \<open>Service snapshots across a restart\<close>

text \<open>What the cache file of a service key holds.\<close>

definition disk_service ::
  "(string \<Rightarrow> Service option) \<Rightarrow> io_env \<Rightarrow> fs \<Rightarrow> string \<Rightarrow> string \<Rightarrow> Service option" where
  "disk_service from_json env s dir k =
     (case os_ReadFile env s (GetFileName k dir) of Inl err \<Rightarrow> None | Inr b \<Rightarrow> from_json b)"

lemma map_of_read_services_loop:
  assumes "\<And>f svc. f \<in> set files \<Longrightarrow> disk_service from_json env s dir f = Some svc \<Longrightarrow> service_key svc = f"
  shows "map_of (read_services_loop from_json env s dir files m) k =
    (if k \<in> set files \<and> disk_service from_json env s dir k \<noteq> None
     then disk_service from_json env s dir k else map_of m k)"
  using assms
proof (induction files arbitrary: m)
  case (Cons f files)
  have IH: "map_of (read_services_loop from_json env s dir files m') k =
      (if k \<in> set files \<and> disk_service from_json env s dir k \<noteq> None
       then disk_service from_json env s dir k else map_of m' k)" for m'
    by (rule Cons.IH) (use Cons.prems in auto)
  show ?case
  proof (cases "disk_service from_json env s dir f")
    case None
    then have "read_services_loop from_json env s dir (f # files) m = read_services_loop from_json env s dir files m"
      by (auto simp: disk_service_def split: sum.splits)
    with IH None show ?thesis by auto
  next
    case (Some svc)
    then have "read_services_loop from_json env s dir (f # files) m =
        read_services_loop from_json env s dir files (AList.update (service_key svc) svc m)"
      by (auto simp: disk_service_def split: sum.splits)
    with IH Some Cons.prems[of f svc] show ?thesis by auto
  qed
qed simp

lemma has_prefix_append [simp]: "has_prefix (a @ b) a"
  by (simp add: has_prefix_def)

lemma dir_entry_iff:
  "dir_entry dir p = Some k \<longleftrightarrow> p = GetFileName k dir \<and> k \<noteq> [] \<and> CHR ''/'' \<notin> set k"
proof
  assume e: "dir_entry dir p = Some k"
  then have "has_prefix p (dir @ ''/'')" and k: "k = drop (length dir + 1) p"
    by (auto simp: dir_entry_def PathSeparator_def Let_def split: if_splits)
  then have "p = (dir @ ''/'') @ k"
    using append_take_drop_id[of "length dir + 1" p] by (simp add: has_prefix_def)
  with e show "p = GetFileName k dir \<and> k \<noteq> [] \<and> CHR ''/'' \<notin> set k"
    by (auto simp: dir_entry_def GetFileName_def PathSeparator_def Let_def split: if_splits)
next
  assume "p = GetFileName k dir \<and> k \<noteq> [] \<and> CHR ''/'' \<notin> set k"
  then show "dir_entry dir p = Some k"
    using has_prefix_append[of "dir @ ''/''" k] by (simp add: dir_entry_def GetFileName_def PathSeparator_def)
qed

lemma os_ReadDir_mem:
  assumes "os_ReadDir s dir = Some files"
  shows "k \<in> set files \<longleftrightarrow> k \<noteq> [] \<and> CHR ''/'' \<notin> set k \<and> path_exists s (GetFileName k dir)"
proof -
  have "k \<in> set files \<longleftrightarrow> (\<exists>p \<in> fst ` set (fs_files s) \<union> set (fs_dirs s). dir_entry dir p = Some k)"
  proof -
    have "set files = set (collect_some (dir_entry dir) (map fst (fs_files s) @ fs_dirs s))"
      using assms by (auto simp: os_ReadDir_def split: if_splits)
    then show ?thesis by (simp add: set_collect_some)
  qed
  then show ?thesis
    by (auto simp: dir_entry_iff path_exists_def map_of_eq_None_iff)
qed

text \<open>Writing a sequence of services, each under its own key, as \<open>ProcessService\<close> does.\<close>

fun write_services :: "(Service \<Rightarrow> string) \<Rightarrow> io_env \<Rightarrow> string \<Rightarrow> fs \<Rightarrow> Service list \<Rightarrow> fs" where
  "write_services to_json env dir s [] = s"
| "write_services to_json env dir s (svc # svcs) =
     write_services to_json env dir (WriteServicesToFile to_json env s svc (service_key svc) dir) svcs"

definition dir_ready :: "io_env \<Rightarrow> fs \<Rightarrow> string \<Rightarrow> Service list \<Rightarrow> bool" where
  "dir_ready env s dir svcs \<longleftrightarrow> dir \<in> set (fs_dirs s) \<and> set (mkdir_targets env dir) \<subseteq> set (fs_dirs s) \<and>
     list_all (\<lambda>svc. CHR ''/'' \<notin> set (service_key svc) \<and>
        file_ok env s dir (GetFileName (service_key svc) dir)) svcs"

lemma service_key_not_Nil: "service_key svc \<noteq> []"
  by (simp add: service_key_def key_defs)

lemma GetFileName_inject [simp]: "GetFileName k dir = GetFileName k' dir \<longleftrightarrow> k = k'"
  by (simp add: GetFileName_def)

lemma write_service_step:
  assumes "dir_ready env s dir (svc # svcs)" and "from_json (to_json svc) = Some svc"
  defines "s' \<equiv> WriteServicesToFile to_json env s svc (service_key svc) dir"
  shows "dir_ready env s' dir svcs" and "disk_service from_json env s' dir =
    (disk_service from_json env s dir)(service_key svc \<mapsto> svc)"
proof -
  let ?p = "GetFileName (service_key svc) dir"
  have s': "s' = s\<lparr>fs_files := AList.update ?p (to_json svc) (fs_files s)\<rparr>"
    using assms(1) MkdirIfNecessary_noop[of env dir s]
    by (simp add: s'_def WriteServicesToFile_def dir_ready_def os_WriteFile_def file_ok_def)
  show "dir_ready env s' dir svcs"
    using assms(1) by (simp add: s' dir_ready_def file_ok_def list_all_iff)
  show "disk_service from_json env s' dir = (disk_service from_json env s dir)(service_key svc \<mapsto> svc)"
    using assms(1,2)
    by (auto simp: s' disk_service_def os_ReadFile_def dir_ready_def file_ok_def fun_eq_iff)
qed

lemma write_services_disk:
  assumes "dir_ready env s dir svcs" and "\<forall>svc \<in> set svcs. from_json (to_json svc) = Some svc"
  shows "disk_service from_json env (write_services to_json env dir s svcs) dir =
      fold (\<lambda>svc m. m(service_key svc \<mapsto> svc)) svcs (disk_service from_json env s dir) \<and>
    fs_dirs (write_services to_json env dir s svcs) = fs_dirs s"
  using assms
proof (induction svcs arbitrary: s)
  case (Cons svc svcs)
  let ?s = "WriteServicesToFile to_json env s svc (service_key svc) dir"
  have dirs: "fs_dirs ?s = fs_dirs s"
    using Cons.prems(1) MkdirIfNecessary_noop[of env dir s]
    by (simp add: WriteServicesToFile_def dir_ready_def os_WriteFile_def)
  note step = write_service_step[of env s dir svc svcs from_json to_json, OF Cons.prems(1)]
  show ?case using Cons.IH[of ?s] step Cons.prems(2) dirs by simp
qed simp

lemma fold_service_key:
  assumes "\<forall>k svc. m k = Some svc \<longrightarrow> service_key svc = k \<and> P k"
    and "\<forall>svc \<in> set svcs. P (service_key svc)"
    and "fold (\<lambda>svc m. m(service_key svc \<mapsto> svc)) svcs m k = Some svc'"
  shows "service_key svc' = k \<and> P k"
  using assms
proof (induction svcs arbitrary: m)
  case (Cons svc svcs)
  show ?case by (rule Cons.IH[of "m(service_key svc \<mapsto> svc)"]) (use Cons.prems in auto)
qed simp

text \<open>C17: after any sequence of services has been written to an empty cache directory, a restarted client
  loads exactly the last written version of each service under its cache key (given a JSON codec that
  reads back what it wrote).\<close>

theorem service_cache_reload:
  assumes json: "\<forall>svc \<in> set svcs. from_json (to_json svc) = Some svc"
    and ready: "dir_ready env s dir svcs"
    and fresh: "\<forall>k. map_of (fs_files s) (GetFileName k dir) = None"
  shows "\<exists>m. ReadServicesFromFile from_json env (write_services to_json env dir s svcs) dir = Some m \<and>
    map_of m = fold (\<lambda>svc m. m(service_key svc \<mapsto> svc)) svcs Map.empty"
proof -
  let ?s = "write_services to_json env dir s svcs"
  let ?M = "fold (\<lambda>svc m. m(service_key svc \<mapsto> svc)) svcs Map.empty"
  have "disk_service from_json env s dir = Map.empty"
    using fresh by (simp add: disk_service_def os_ReadFile_def fun_eq_iff)
  note written = write_services_disk[where from_json = from_json and to_json = to_json, OF ready json]
  with \<open>disk_service from_json env s dir = Map.empty\<close> have disk: "disk_service from_json env ?s dir = ?M" by simp
  have "dir \<in> set (fs_dirs ?s)"
    using ready written by (simp add: dir_ready_def)
  then obtain files where files: "os_ReadDir ?s dir = Some files" by (simp add: os_ReadDir_def)
  have key: "service_key svc = k \<and> CHR ''/'' \<notin> set k \<and> k \<noteq> []" if "?M k = Some svc" for k svc
    using that fold_service_key[of Map.empty "\<lambda>k. CHR ''/'' \<notin> set k \<and> k \<noteq> []" svcs k svc] ready
    by (auto simp: dir_ready_def list_all_iff service_key_not_Nil)
  have "map_of (read_services_loop from_json env ?s dir files []) k = ?M k" for k
  proof -
    have "map_of (read_services_loop from_json env ?s dir files []) k =
        (if k \<in> set files \<and> ?M k \<noteq> None then ?M k else None)"
      using map_of_read_services_loop[of files from_json env ?s dir "[]" k] disk key by simp
    moreover have "k \<in> set files" if "?M k = Some svc" for svc
    proof -
      have "disk_service from_json env ?s dir k = Some svc" using disk that by simp
      then have "path_exists ?s (GetFileName k dir)"
        by (auto simp: disk_service_def os_ReadFile_def path_exists_def split: option.splits sum.splits)
      with key[OF that] show ?thesis by (simp add: os_ReadDir_mem[OF files])
    qed
    ultimately show ?thesis by (cases "?M k") auto
  qed
  with files show ?thesis by (auto simp: ReadServicesFromFile_def)
qed

text \<open>A codec for the witness: it stores the name and the group of a service.\<close>

definition demo_to_json :: "Service \<Rightarrow> string" where
  "demo_to_json svc = svc_GroupName svc @ ''|'' @ svc_Name svc"

definition demo_from_json :: "string \<Rightarrow> Service option" where
  "demo_from_json b =
     (case split_str b ''|'' of
        [g, n] \<Rightarrow> Some (zero_Service\<lparr>svc_GroupName := g, svc_Name := n\<rparr>)
      | _ \<Rightarrow> None)"

theorem service_cache_reload_witness:
  "\<exists>m. ReadServicesFromFile demo_from_json all_ok
      (write_services demo_to_json all_ok ''/c'' \<lparr>fs_files = [], fs_dirs = [''/c'']\<rparr>
        [zero_Service\<lparr>svc_GroupName := ''g'', svc_Name := ''a''\<rparr>]) ''/c'' = Some m \<and>
    map_of m = [''g@@a'' \<mapsto> zero_Service\<lparr>svc_GroupName := ''g'', svc_Name := ''a''\<rparr>]"
proof -
  let ?svc = "zero_Service\<lparr>svc_GroupName := ''g'', svc_Name := ''a''\<rparr>"
  let ?s = "\<lparr>fs_files = [], fs_dirs = [''/c'']\<rparr>"
  have key: "service_key ?svc = ''g@@a''" by (simp add: service_key_def key_defs zero_Service_def)
  have 1: "\<forall>svc \<in> set [?svc]. demo_from_json (demo_to_json svc) = Some svc"
    by (simp add: demo_from_json_def demo_to_json_def zero_Service_def split_str_def has_prefix_def)
  have 2: "dir_ready all_ok ?s ''/c'' [?svc]"
    using targets_c
    by (simp add: dir_ready_def key file_ok_def all_ok_def GetFileName_def PathSeparator_def)
  have 3: "\<forall>k. map_of (fs_files ?s) (GetFileName k ''/c'') = None" by simp
  from service_cache_reload[OF 1 2 3] key show ?thesis by simp
qed

end
