(* ===== verification/Go_Sort.thy ===== *)
theory Go_Sort
  imports Prelude
begin

text \<open>
  Package \<open>sort\<close>. \<open>sort.Sort\<close> is a parameter of the operations that call it, with its documented
  contract as the locale \<open>go_sort\<close>: the result is a permutation of the input, and it is sorted when
  the order passed in is a strict weak order (nothing is promised about the position of equal
  elements). The insertion sort that the library runs on slices of at most twelve elements
  interprets the contract. \<open>sort.Search\<close> is the library's binary search.
\<close>

section \<open>The contract of Sort\<close>

type_synonym 'a less = "'a \<Rightarrow> 'a \<Rightarrow> bool"
type_synonym 'a sorter = "'a less \<Rightarrow> 'a list \<Rightarrow> 'a list"

definition strict_weak :: "'a less \<Rightarrow> bool" where
  "strict_weak lt \<longleftrightarrow>
     (\<forall>x. \<not> lt x x) \<and> (\<forall>x y z. lt x y \<longrightarrow> lt y z \<longrightarrow> lt x z) \<and>
     (\<forall>x y z. \<not> lt x y \<longrightarrow> \<not> lt y z \<longrightarrow> \<not> lt x z)"

lemma strict_weak_asym: "strict_weak lt \<Longrightarrow> lt x y \<Longrightarrow> \<not> lt y x"
  unfolding strict_weak_def by metis

lemma strict_weak_neg_trans: "strict_weak lt \<Longrightarrow> \<not> lt x y \<Longrightarrow> \<not> lt y z \<Longrightarrow> \<not> lt x z"
  unfolding strict_weak_def by metis

locale go_sort =
  fixes srt :: "'a sorter"
  assumes sort_perm: "mset (srt lt xs) = mset xs"
    and sort_sorted: "strict_weak lt \<Longrightarrow> sorted_wrt (\<lambda>x y. \<not> lt y x) (srt lt xs)"
begin

lemma sort_set: "set (srt lt xs) = set xs"
  using sort_perm by (metis set_mset_mset)

lemma sort_length: "length (srt lt xs) = length xs"
  using sort_perm by (metis size_mset)

lemma sort_Nil_iff: "srt lt xs = [] \<longleftrightarrow> xs = []"
  using sort_length by (metis length_0_conv)

text \<open>Two lists that sort to the same list hold the same elements, whatever the order is.\<close>

lemma sort_eq_mset: "srt lt xs = srt lt ys \<Longrightarrow> mset xs = mset ys"
  using sort_perm by metis

text \<open>Sorting by a key orders the keys.\<close>

lemma sort_key_sorted: "sorted (map f (srt (\<lambda>x y. f x < (f y :: 'b :: linorder)) xs))"
proof -
  have "strict_weak (\<lambda>x y. f x < f y)" by (auto simp: strict_weak_def)
  from sort_sorted[OF this] show ?thesis
    by (simp add: sorted_wrt_map not_less)
qed

end

section \<open>Insertion sort\<close>

text \<open>
  The inner loop moves the new element left while it is less than its left neighbour; the sorted
  part is kept reversed.
\<close>

fun ins_rev :: "'a less \<Rightarrow> 'a \<Rightarrow> 'a list \<Rightarrow> 'a list" where
  "ins_rev lt x [] = [x]"
| "ins_rev lt x (y # ys) = (if lt x y then y # ins_rev lt x ys else x # y # ys)"

definition insertion_sort :: "'a sorter" where
  "insertion_sort lt xs = rev (fold (ins_rev lt) xs [])"

lemma mset_ins_rev: "mset (ins_rev lt x ys) = add_mset x (mset ys)"
  by (induction ys) auto

lemma mset_fold_ins_rev: "mset (fold (ins_rev lt) xs ys) = mset xs + mset ys"
  by (induction xs arbitrary: ys) (auto simp: mset_ins_rev)

lemma set_ins_rev: "set (ins_rev lt x ys) = insert x (set ys)"
  using mset_ins_rev by (metis set_mset_add_mset_insert set_mset_mset)

lemma sorted_ins_rev:
  assumes "strict_weak lt" and "sorted_wrt (\<lambda>x y. \<not> lt x y) ys"
  shows "sorted_wrt (\<lambda>x y. \<not> lt x y) (ins_rev lt x ys)"
  using assms(2)
proof (induction ys)
  case (Cons y ys)
  show ?case
  proof (cases "lt x y")
    case True
    then have "\<not> lt y x" by (rule strict_weak_asym[OF assms(1)])
    with Cons True show ?thesis by (auto simp: set_ins_rev)
  next
    case False
    then have "\<not> lt x z" if "z \<in> set ys" for z
      using that Cons.prems strict_weak_neg_trans[OF assms(1) False] by simp
    with Cons.prems False show ?thesis by simp
  qed
qed simp

lemma sorted_fold_ins_rev:
  assumes "strict_weak lt" and "sorted_wrt (\<lambda>x y. \<not> lt x y) ys"
  shows "sorted_wrt (\<lambda>x y. \<not> lt x y) (fold (ins_rev lt) xs ys)"
  using assms(2) by (induction xs arbitrary: ys) (auto intro: sorted_ins_rev[OF assms(1)])

interpretation isort: go_sort insertion_sort
proof
  show "mset (insertion_sort lt xs) = mset xs" for lt and xs :: "'a list"
    by (simp add: insertion_sort_def mset_fold_ins_rev)
  show "sorted_wrt (\<lambda>x y. \<not> lt y x) (insertion_sort lt xs)"
    if "strict_weak lt" for lt and xs :: "'a list"
    using sorted_fold_ins_rev[OF that, of "[]" xs] by (simp add: insertion_sort_def sorted_wrt_rev)
qed

section \<open>Binary search\<close>

text \<open>The loop of \<open>sort.Search\<close> over the half-open range from \<open>i\<close> to \<open>j\<close>.\<close>

function search_loop :: "(nat \<Rightarrow> bool) \<Rightarrow> nat \<Rightarrow> nat \<Rightarrow> nat" where
  "search_loop f i j =
     (if i < j
      then if \<not> f ((i + j) div 2) then search_loop f ((i + j) div 2 + 1) j
           else search_loop f i ((i + j) div 2)
      else i)"
  by pat_completeness auto
termination
  by (relation "measure (\<lambda>(f, i, j). j - i)") auto

declare search_loop.simps [simp del]

definition search_ints :: "int list \<Rightarrow> int \<Rightarrow> nat" where
  "search_ints a x = search_loop (\<lambda>i. x \<le> a ! i) 0 (length a)"

text \<open>
  On a predicate that stays true once it is true, the search returns the least index at which it
  holds, or the end of the range.
\<close>

definition least_true :: "(nat \<Rightarrow> bool) \<Rightarrow> nat \<Rightarrow> nat \<Rightarrow> nat \<Rightarrow> bool" where
  "least_true f i j r \<longleftrightarrow>
     i \<le> r \<and> r \<le> j \<and> (\<forall>k. i \<le> k \<and> k < r \<longrightarrow> \<not> f k) \<and> (r < j \<longrightarrow> f r)"

lemma search_loop_correct:
  assumes "i \<le> j" and "\<And>a b. i \<le> a \<Longrightarrow> a \<le> b \<Longrightarrow> b < j \<Longrightarrow> f a \<Longrightarrow> f b"
  shows "least_true f i j (search_loop f i j)"
  using assms
proof (induction f i j rule: search_loop.induct)
  case (1 f i j)
  let ?h = "(i + j) div 2"
  note unfold = search_loop.simps[of f i j]
  consider "\<not> i < j" | "i < j" "f ?h" | "i < j" "\<not> f ?h" by blast
  then show ?case
  proof cases
    case 1
    with \<open>i \<le> j\<close> show ?thesis using unfold by (auto simp: least_true_def)
  next
    case 2
    then have "i \<le> ?h" "?h < j" by auto
    have "least_true f i ?h (search_loop f i ?h)"
    proof (rule 1(2)[OF 2(1)])
      show "f b" if "i \<le> a" "a \<le> b" "b < ?h" "f a" for a b
        by (rule 1(4)[of a]) (use that \<open>?h < j\<close> in auto)
    qed (use 2 \<open>i \<le> ?h\<close> in blast)+
    with 2 \<open>?h < j\<close> unfold show ?thesis
      unfolding least_true_def by (auto simp: le_less)
  next
    case 3
    then have h: "i \<le> ?h" "?h < j" by auto
    have r: "least_true f (?h + 1) j (search_loop f (?h + 1) j)"
    proof (rule 1(1)[OF 3(1)])
      show "f b" if "?h + 1 \<le> a" "a \<le> b" "b < j" "f a" for a b
        by (rule 1(4)[of a]) (use that h in auto)
    qed (use 3 h in auto)
    have "\<not> f k" if "i \<le> k" "k \<le> ?h" for k
      using that 3(2) 1(4)[of k ?h] h by blast
    moreover have "k \<le> ?h \<or> ?h + 1 \<le> k" for k by arith
    ultimately show ?thesis using 3 h unfold r unfolding least_true_def
      by (metis (no_types, lifting) le_add1 le_trans)
  qed
qed

lemma search_ints_correct:
  assumes "sorted a"
  shows "least_true (\<lambda>i. x \<le> a ! i) 0 (length a) (search_ints a x)"
  unfolding search_ints_def
  by (rule search_loop_correct) (use assms in \<open>auto intro: order_trans simp: sorted_iff_nth_mono\<close>)

end
