(* ===== verification/Naming_Cache.thy ===== *)
theory Naming_Cache
  imports Concurrent_Map Disk_Cache Go_Sort
begin

text \<open>
  \<open>clients/naming_client/naming_cache\<close>: the cluster selectors and callback wrappers
  (\<open>subscribe_callback_wrapper.go\<close>), the callback registry (\<open>subscribe_callback.go\<close>) and the service
  cache (\<open>service_info_holder.go\<close>). A callback pointer is a number, a call of a callback an entry of
  the returned list. \<open>srt\<close> is \<open>sort.Sort\<close> (see theory \<open>Go_Sort\<close>); \<open>now\<close> is the clock.
\<close>

section \<open>Selectors and wrappers\<close>

record ClusterSelector =
  cs_ClusterNames :: string
  cs_Clusters :: "string list"

definition joinCluster :: "string list \<Rightarrow> string" where
  "joinCluster cluster = join_str (sort (remdups (filter (\<lambda>item. item \<noteq> []) cluster))) '',''"

definition NewClusterSelector :: "string list \<Rightarrow> ClusterSelector" where
  "NewClusterSelector clusters =
     (if length clusters = 0 then \<lparr>cs_ClusterNames = [], cs_Clusters = []\<rparr>
      else \<lparr>cs_ClusterNames = joinCluster clusters, cs_Clusters = clusters\<rparr>)"

definition SelectInstance :: "ClusterSelector \<Rightarrow> Service \<Rightarrow> Instance list option" where
  "SelectInstance cs service =
     (if cs_ClusterNames cs = [] then svc_Hosts service
      else let instances = filter (\<lambda>i. Contains (cs_Clusters cs) (ins_ClusterName i))
                             (slice (svc_Hosts service))
           in if instances = [] then None else Some instances)"

text \<open>\<open>None\<close> is a \<open>nil\<close> selector or one of another type.\<close>

definition selector_Equals :: "ClusterSelector \<Rightarrow> ClusterSelector option \<Rightarrow> bool" where
  "selector_Equals cs s =
     (case s of None \<Rightarrow> False | Some s' \<Rightarrow> cs_ClusterNames cs = cs_ClusterNames s')"

record Wrapper =
  w_Selector :: ClusterSelector
  w_CallbackFunc :: "nat option"

definition NewSubscribeCallbackFuncWrapper ::
  "ClusterSelector option \<Rightarrow> nat option \<Rightarrow> Wrapper outcome" where
  "NewSubscribeCallbackFuncWrapper selector callback =
     (case selector of
        None \<Rightarrow> Panic ''selector cannot be nil''
      | Some sel \<Rightarrow>
          (case callback of
             None \<Rightarrow> Panic ''callback cannot be nil''
           | Some cb \<Rightarrow> Ret \<lparr>w_Selector = sel, w_CallbackFunc = Some cb\<rparr>))"

text \<open>A call of a callback with the instances it is given.\<close>

type_synonym notification = "nat \<times> Instance list option"

definition notifyListener :: "Wrapper \<Rightarrow> Service \<Rightarrow> notification list" where
  "notifyListener w service =
     (let instances = SelectInstance (w_Selector w) service
      in case w_CallbackFunc w of None \<Rightarrow> [] | Some cb \<Rightarrow> [(cb, instances)])"

section \<open>The callback registry\<close>

type_synonym SubscribeCallback = "Wrapper list ConcurrentMap"

definition NewSubscribeCallback :: SubscribeCallback where
  "NewSubscribeCallback = NewConcurrentMap"

definition cb_IsSubscribed :: "SubscribeCallback \<Rightarrow> string \<Rightarrow> string \<Rightarrow> bool" where
  "cb_IsSubscribed ed serviceName clusters =
     (case cm_Get ed (GetServiceCacheKey serviceName clusters) of
        None \<Rightarrow> False
      | Some funcs \<Rightarrow> 0 < length funcs)"

definition AddCallbackFunc ::
  "SubscribeCallback \<Rightarrow> string \<Rightarrow> string \<Rightarrow> Wrapper \<Rightarrow> SubscribeCallback" where
  "AddCallbackFunc ed serviceName clusters w =
     (let key = GetServiceCacheKey serviceName clusters;
          old = (case cm_Get ed key of None \<Rightarrow> [] | Some funcs \<Rightarrow> funcs)
      in cm_Set ed key (old @ [w]))"

text \<open>A wrapper survives a removal when its callback or its selector differs.\<close>

definition keeps :: "Wrapper \<Rightarrow> Wrapper \<Rightarrow> bool" where
  "keeps w funcItem \<longleftrightarrow> w_CallbackFunc funcItem \<noteq> w_CallbackFunc w \<or>
     \<not> selector_Equals (w_Selector funcItem) (Some (w_Selector w))"

text \<open>
  \<open>RemoveCallbackFunc\<close> reads the list and writes the filtered one back without taking the mutex that
  \<open>AddCallbackFunc\<close> holds: two atomic steps.
\<close>

definition remove_read :: "SubscribeCallback \<Rightarrow> string \<Rightarrow> string \<Rightarrow> Wrapper list option" where
  "remove_read ed serviceName clusters = cm_Get ed (GetServiceCacheKey serviceName clusters)"

definition remove_write ::
  "SubscribeCallback \<Rightarrow> string \<Rightarrow> string \<Rightarrow> Wrapper \<Rightarrow> Wrapper list option \<Rightarrow> SubscribeCallback" where
  "remove_write ed serviceName clusters w funcs =
     (case funcs of
        None \<Rightarrow> ed
      | Some fs \<Rightarrow> cm_Set ed (GetServiceCacheKey serviceName clusters) (filter (keeps w) fs))"

definition RemoveCallbackFunc ::
  "SubscribeCallback \<Rightarrow> string \<Rightarrow> string \<Rightarrow> Wrapper \<Rightarrow> SubscribeCallback" where
  "RemoveCallbackFunc ed serviceName clusters w =
     remove_write ed serviceName clusters w (remove_read ed serviceName clusters)"

definition ServiceChanged :: "SubscribeCallback \<Rightarrow> string \<Rightarrow> Service \<Rightarrow> notification list" where
  "ServiceChanged ed cacheKey service =
     (case cm_Get ed cacheKey of
        None \<Rightarrow> []
      | Some funcs \<Rightarrow> concat (map (\<lambda>w. notifyListener w service) funcs))"

section \<open>Change detection\<close>

definition ip_num :: "Instance \<Rightarrow> int" where
  "ip_num i = fst (atoi (remove_char CHR ''.'' (ins_Ip i)))"

definition instance_Less :: "Instance \<Rightarrow> Instance \<Rightarrow> bool" where
  "instance_Less insI insJ =
     (if ip_num insI < ip_num insJ then True
      else if ins_Port insI < ins_Port insJ then True
      else False)"

definition sortInstance :: "Instance sorter \<Rightarrow> Instance list \<Rightarrow> Instance list" where
  "sortInstance srt instances = srt instance_Less instances"

text \<open>
  The old slice is sorted in place and keeps being \<open>nil\<close> or not; the copy of the new one is never
  \<open>nil\<close>.
\<close>

definition isServiceInstanceChanged :: "Instance sorter \<Rightarrow> Service \<Rightarrow> Service \<Rightarrow> bool" where
  "isServiceInstanceChanged srt oldService newService =
     (if length (slice (svc_Hosts oldService)) \<noteq> length (slice (svc_Hosts newService)) then True
      else if svc_LastRefTime newService < svc_LastRefTime oldService then False
      else
        let oldInstance = map_option (sortInstance srt) (svc_Hosts oldService);
            newInstance = Some (sortInstance srt (slice (svc_Hosts newService)))
        in \<not> instances_deep_equal oldInstance newInstance)"

definition checkInstanceChanged :: "Instance sorter \<Rightarrow> Service option \<Rightarrow> Service \<Rightarrow> bool" where
  "checkInstanceChanged srt oldDomain service =
     (case oldDomain of
        None \<Rightarrow> True
      | Some oldService \<Rightarrow> isServiceInstanceChanged srt oldService service)"

section \<open>The service cache\<close>

record ServiceInfoHolder =
  h_ServiceInfoMap :: "Service sync_map"
  h_updateCacheWhenEmpty :: bool
  h_cacheDir :: string
  h_notLoadCacheAtStart :: bool
  h_subCallback :: SubscribeCallback
  h_UpdateTimeMap :: "u64 sync_map"

definition loadCacheFromDisk ::
  "(string \<Rightarrow> Service option) \<Rightarrow> io_env \<Rightarrow> fs \<Rightarrow> ServiceInfoHolder \<Rightarrow> ServiceInfoHolder" where
  "loadCacheFromDisk from_json env s h =
     (case ReadServicesFromFile from_json env s (h_cacheDir h) of
        None \<Rightarrow> h
      | Some serviceMap \<Rightarrow>
          if length serviceMap = 0 then h
          else h\<lparr>h_ServiceInfoMap := put_all (h_ServiceInfoMap h) serviceMap\<rparr>)"

definition NewServiceInfoHolder ::
  "(string \<Rightarrow> Service option) \<Rightarrow> io_env \<Rightarrow> fs \<Rightarrow> string \<Rightarrow> string \<Rightarrow> bool \<Rightarrow> bool \<Rightarrow> ServiceInfoHolder" where
  "NewServiceInfoHolder from_json env s namespace cacheDir updateCacheWhenEmpty notLoadCacheAtStart =
     (let h = \<lparr>h_ServiceInfoMap = [], h_updateCacheWhenEmpty = updateCacheWhenEmpty,
                h_cacheDir = cacheDir @ PathSeparator @ ''naming'' @ PathSeparator @ namespace,
                h_notLoadCacheAtStart = notLoadCacheAtStart,
                h_subCallback = NewSubscribeCallback, h_UpdateTimeMap = []\<rparr>
      in if \<not> notLoadCacheAtStart then loadCacheFromDisk from_json env s h else h)"

text \<open>
  \<open>ProcessService\<close>: the new holder, the new file system and the callbacks called, in order. No lock
  is held, so the load of the old service and the stores that follow it are separate steps.
\<close>

definition process_load :: "ServiceInfoHolder \<Rightarrow> Service \<Rightarrow> Service option" where
  "process_load h service = map_of (h_ServiceInfoMap h) (service_key service)"

definition process_commit ::
  "(Service \<Rightarrow> string) \<Rightarrow> Instance sorter \<Rightarrow> io_env \<Rightarrow> int \<Rightarrow> ServiceInfoHolder \<Rightarrow> fs \<Rightarrow> Service \<Rightarrow>
   Service option \<Rightarrow> ServiceInfoHolder \<times> fs \<times> notification list" where
  "process_commit to_json srt env now h s service oldDomain =
     (if (case oldDomain of None \<Rightarrow> False
          | Some old \<Rightarrow> svc_LastRefTime service \<le> svc_LastRefTime old)
      then (h, s, [])
      else
        let cacheKey = service_key service;
            h1 = h\<lparr>h_UpdateTimeMap := AList.update cacheKey (word_of_int now) (h_UpdateTimeMap h),
                   h_ServiceInfoMap := AList.update cacheKey service (h_ServiceInfoMap h)\<rparr>
        in if oldDomain = None \<or> checkInstanceChanged srt oldDomain service
           then (h1, WriteServicesToFile to_json env s service cacheKey (h_cacheDir h),
                 ServiceChanged (h_subCallback h) cacheKey service)
           else (h1, s, []))"

definition ProcessService ::
  "(Service \<Rightarrow> string) \<Rightarrow> Instance sorter \<Rightarrow> io_env \<Rightarrow> int \<Rightarrow> ServiceInfoHolder \<Rightarrow> fs \<Rightarrow> Service option \<Rightarrow>
   ServiceInfoHolder \<times> fs \<times> notification list" where
  "ProcessService to_json srt env now h s svc =
     (case svc of
        None \<Rightarrow> (h, s, [])
      | Some service \<Rightarrow>
          if \<not> h_updateCacheWhenEmpty h \<and> length (slice (svc_Hosts service)) = 0 then (h, s, [])
          else process_commit to_json srt env now h s service (process_load h service))"

definition ProcessServiceJson ::
  "(string \<Rightarrow> Service option) \<Rightarrow> (Service \<Rightarrow> string) \<Rightarrow> Instance sorter \<Rightarrow> io_env \<Rightarrow> int \<Rightarrow>
   ServiceInfoHolder \<Rightarrow> fs \<Rightarrow> string \<Rightarrow> ServiceInfoHolder \<times> fs \<times> notification list" where
  "ProcessServiceJson from_json to_json srt env now h s data =
     ProcessService to_json srt env now h s (from_json data)"

definition GetServiceInfo ::
  "ServiceInfoHolder \<Rightarrow> string \<Rightarrow> string \<Rightarrow> string \<Rightarrow> Service \<times> bool" where
  "GetServiceInfo h serviceName groupName clusters =
     (case map_of (h_ServiceInfoMap h) (GetServiceCacheKey (GetGroupName serviceName groupName) clusters) of
        Some service \<Rightarrow> (service, True)
      | None \<Rightarrow> (zero_Service, False))"

definition RegisterCallback ::
  "ServiceInfoHolder \<Rightarrow> string \<Rightarrow> string \<Rightarrow> Wrapper \<Rightarrow> ServiceInfoHolder" where
  "RegisterCallback h serviceName clusters w =
     h\<lparr>h_subCallback := AddCallbackFunc (h_subCallback h) serviceName clusters w\<rparr>"

definition DeregisterCallback ::
  "ServiceInfoHolder \<Rightarrow> string \<Rightarrow> string \<Rightarrow> Wrapper \<Rightarrow> ServiceInfoHolder" where
  "DeregisterCallback h serviceName clusters w =
     h\<lparr>h_subCallback := RemoveCallbackFunc (h_subCallback h) serviceName clusters w\<rparr>"

definition StopUpdateIfContain :: "ServiceInfoHolder \<Rightarrow> string \<Rightarrow> string \<Rightarrow> ServiceInfoHolder" where
  "StopUpdateIfContain h serviceName clusters =
     h\<lparr>h_ServiceInfoMap := AList.delete (GetServiceCacheKey serviceName clusters) (h_ServiceInfoMap h)\<rparr>"

definition holder_IsSubscribed :: "ServiceInfoHolder \<Rightarrow> string \<Rightarrow> string \<Rightarrow> bool" where
  "holder_IsSubscribed h serviceName clusters = cb_IsSubscribed (h_subCallback h) serviceName clusters"

section \<open>A sequence of deliveries\<close>

text \<open>
  Services reach the holder from pushes and from queries, in any order. A delivery is a reading of
  the clock and a decoded service.
\<close>

fun deliver_all ::
  "(Service \<Rightarrow> string) \<Rightarrow> Instance sorter \<Rightarrow> io_env \<Rightarrow> (int \<times> Service) list \<Rightarrow>
   ServiceInfoHolder \<times> fs \<times> notification list \<Rightarrow> ServiceInfoHolder \<times> fs \<times> notification list" where
  "deliver_all to_json srt env [] (h, s, ns) = (h, s, ns)"
| "deliver_all to_json srt env ((now, svc) # ds) (h, s, ns) =
     (let (h', s', ns') = ProcessService to_json srt env now h s (Some svc)
      in deliver_all to_json srt env ds (h', s', ns @ ns'))"

text \<open>Specification: the newest of the accepted services of a key, the earlier one on a tie.\<close>

definition accepts :: "bool \<Rightarrow> Service \<Rightarrow> bool" where
  "accepts updateWhenEmpty svc \<longleftrightarrow> updateWhenEmpty \<or> slice (svc_Hosts svc) \<noteq> []"

definition newer :: "Service \<Rightarrow> Service option \<Rightarrow> Service option" where
  "newer svc best =
     (case best of
        None \<Rightarrow> Some svc
      | Some b \<Rightarrow> if svc_LastRefTime svc \<le> svc_LastRefTime b then Some b else Some svc)"

definition newest :: "bool \<Rightarrow> string \<Rightarrow> Service list \<Rightarrow> Service option \<Rightarrow> Service option" where
  "newest u k svcs best = fold newer (filter (\<lambda>v. accepts u v \<and> service_key v = k) svcs) best"

lemmas process_defs = ProcessService_def process_load_def process_commit_def Let_def

lemma ProcessService_h:
  "h_updateCacheWhenEmpty (fst (ProcessService to_json srt env now h s svc)) = h_updateCacheWhenEmpty h"
  "h_subCallback (fst (ProcessService to_json srt env now h s svc)) = h_subCallback h"
  "h_cacheDir (fst (ProcessService to_json srt env now h s svc)) = h_cacheDir h"
  by (auto simp: process_defs split: option.splits)

lemma ProcessService_cache:
  "map_of (h_ServiceInfoMap (fst (ProcessService to_json srt env now h s (Some svc)))) k =
   (if accepts (h_updateCacheWhenEmpty h) svc \<and> service_key svc = k
    then newer svc (map_of (h_ServiceInfoMap h) k) else map_of (h_ServiceInfoMap h) k)"
  by (auto simp: process_defs accepts_def newer_def split: option.splits)

lemma deliver_all_cache:
  "map_of (h_ServiceInfoMap (fst (deliver_all to_json srt env ds (h, s, ns)))) k =
   newest (h_updateCacheWhenEmpty h) k (map snd ds) (map_of (h_ServiceInfoMap h) k)"
proof (induction to_json srt env ds "(h, s, ns)" arbitrary: h s ns rule: deliver_all.induct)
  case (2 to_json srt env now svc ds h s ns)
  obtain h' s' ns' where r: "ProcessService to_json srt env now h s (Some svc) = (h', s', ns')"
    by (metis prod_cases3)
  then have "h_updateCacheWhenEmpty h' = h_updateCacheWhenEmpty h"
    using ProcessService_h(1)[of to_json srt env now h s "Some svc"] by simp
  moreover have "map_of (h_ServiceInfoMap h') k =
    (if accepts (h_updateCacheWhenEmpty h) svc \<and> service_key svc = k
     then newer svc (map_of (h_ServiceInfoMap h) k) else map_of (h_ServiceInfoMap h) k)"
    using ProcessService_cache[of to_json srt env now h s svc k] r by simp
  ultimately show ?case
    using 2[OF r[symmetric] refl refl] r by (simp add: newest_def)
qed (simp add: newest_def)

text \<open>\<open>newer\<close> is commutative on services with different refresh times, so the order is irrelevant.\<close>

lemma newer_commute:
  assumes "svc_LastRefTime a = svc_LastRefTime b \<Longrightarrow> a = b"
  shows "newer a (newer b best) = newer b (newer a best)"
proof (cases "a = b")
  case False
  with assms have "svc_LastRefTime a \<noteq> svc_LastRefTime b" by blast
  then show ?thesis by (cases best) (simp_all add: newer_def not_le)
qed simp

lemma fold_newer_mset:
  assumes "mset xs = mset ys"
    and "\<And>a b. a \<in> set xs \<Longrightarrow> b \<in> set xs \<Longrightarrow> svc_LastRefTime a = svc_LastRefTime b \<Longrightarrow> a = b"
  shows "fold newer xs = fold newer ys"
proof (rule fold_multiset_equiv[OF _ assms(1)])
  show "newer a \<circ> newer b = newer b \<circ> newer a" if "a \<in> set xs" "b \<in> set xs" for a b
    using newer_commute[OF assms(2)[OF that]] by (simp add: fun_eq_iff)
qed


definition demo_instance :: "string \<Rightarrow> u64 \<Rightarrow> Instance" where
  "demo_instance ip port = zero_Instance\<lparr>ins_Ip := ip, ins_Port := port, ins_Weight := 1,
     ins_Healthy := True, ins_Enable := True\<rparr>"

definition demo_service :: "u64 \<Rightarrow> Instance list \<Rightarrow> Service" where
  "demo_service t hosts = zero_Service\<lparr>svc_Name := ''s'', svc_GroupName := ''g'',
     svc_LastRefTime := t, svc_Hosts := Some hosts\<rparr>"

definition demo_holder :: ServiceInfoHolder where
  "demo_holder = \<lparr>h_ServiceInfoMap = [], h_updateCacheWhenEmpty = False, h_cacheDir = ''/c'',
     h_notLoadCacheAtStart = True, h_subCallback = NewSubscribeCallback, h_UpdateTimeMap = []\<rparr>"


text \<open>
  C2: What one delivery does. A service is dropped when it is empty and empty services are not
  accepted, or when it is not newer than the cached one. Otherwise it becomes the cached service of
  its key (no other key changes) and the callbacks registered for the key are called in the order
  they were registered, each once, with the instances of its clusters, exactly when the key is new or
  the instances changed.
\<close>

theorem process_service_behaviour:
  fixes h :: ServiceInfoHolder and svc :: Service
  shows "let (h', s', ns) = ProcessService to_json srt env now h s (Some svc);
             k = service_key svc;
             old = map_of (h_ServiceInfoMap h) k;
             stale = (case old of None \<Rightarrow> False | Some o' \<Rightarrow> svc_LastRefTime svc \<le> svc_LastRefTime o');
             dropped = (if stale then True
                        else if h_updateCacheWhenEmpty h then False else slice (svc_Hosts svc) = []);
             changed = (case old of None \<Rightarrow> True | Some o' \<Rightarrow> isServiceInstanceChanged srt o' svc)
         in map_of (h_ServiceInfoMap h') =
              (if dropped then map_of (h_ServiceInfoMap h) else (map_of (h_ServiceInfoMap h))(k \<mapsto> svc)) \<and>
            ns = (if dropped then [] else if changed = False then []
                  else map (\<lambda>w. (the (w_CallbackFunc w), SelectInstance (w_Selector w) svc))
                         (filter (\<lambda>w. w_CallbackFunc w \<noteq> None)
                           (case cm_Get (h_subCallback h) k of None \<Rightarrow> [] | Some ws \<Rightarrow> ws)))"
proof -
  have cb: "concat (map (\<lambda>w. notifyListener w svc) ws) =
    map (\<lambda>w. (the (w_CallbackFunc w), SelectInstance (w_Selector w) svc))
      (filter (\<lambda>w. w_CallbackFunc w \<noteq> None) ws)" for ws
    by (induction ws) (auto simp: notifyListener_def split: option.splits)
  show ?thesis
    by (auto simp: process_defs checkInstanceChanged_def ServiceChanged_def cb split: option.splits)
qed

text \<open>
  C13: The check for newer data is not atomic. When one delivery loads the cached service and a newer
  service of the same key is processed before it stores its own, the older service ends up in the
  cache: the refresh time of a cached service can go back.
\<close>

theorem stale_overwrite_race:
  assumes "service_key a = service_key b" and "svc_LastRefTime a < svc_LastRefTime b"
    and "accepts (h_updateCacheWhenEmpty h) b"
    and "case process_load h a of None \<Rightarrow> True | Some old \<Rightarrow> svc_LastRefTime old < svc_LastRefTime a"
  shows "let loaded = process_load h a;
             (h1, s1, _) = ProcessService to_json srt env now h s (Some b);
             (h2, _, _) = process_commit to_json srt env now' h1 s1 a loaded
         in map_of (h_ServiceInfoMap h1) (service_key a) = Some b \<and>
            map_of (h_ServiceInfoMap h2) (service_key a) = Some a"
  using assms by (auto simp: process_defs accepts_def split: option.splits)

theorem stale_overwrite_race_witness:
  "let a = demo_service 1 [demo_instance ''1'' 1]; b = demo_service 2 [demo_instance ''2'' 1];
       s = \<lparr>fs_files = [], fs_dirs = []\<rparr>;
       (h1, s1, _) = ProcessService (\<lambda>_. []) insertion_sort all_ok 0 demo_holder s (Some b);
       (h2, _, _) = process_commit (\<lambda>_. []) insertion_sort all_ok 1 h1 s1 a (process_load demo_holder a)
   in map_of (h_ServiceInfoMap h1) (service_key a) = Some b \<and>
      map_of (h_ServiceInfoMap h2) (service_key a) = Some a"
proof -
  let ?a = "demo_service 1 [demo_instance ''1'' 1]" and ?b = "demo_service 2 [demo_instance ''2'' 1]"
  have "service_key ?a = service_key ?b" "svc_LastRefTime ?a < svc_LastRefTime ?b"
    "accepts (h_updateCacheWhenEmpty demo_holder) ?b"
    "case process_load demo_holder ?a of None \<Rightarrow> True | Some old \<Rightarrow> svc_LastRefTime old < svc_LastRefTime ?a"
    by (simp_all add: demo_service_def demo_holder_def zero_Service_def service_key_def accepts_def
        process_load_def)
  from stale_overwrite_race[OF this] show ?thesis by (simp only: Let_def split_beta)
qed

section \<open>Change detection is sound, but not exact\<close>

lemma list_all2_instances:
  "instances_deep_equal a (Some b) \<Longrightarrow> \<exists>xs. a = Some xs \<and> list_all2 instance_equal xs b"
  by (cases a) (auto simp: instances_deep_equal_def)

text \<open>
  C12: No change is missed. For any correct sorting routine, when a service that is not older is
  reported as unchanged, its instances are those of the old one up to order: the two lists can be
  permuted so that they agree field by field.
\<close>

theorem no_change_missed:
  assumes "go_sort srt" and "\<not> isServiceInstanceChanged srt oldService newService"
    and "svc_LastRefTime oldService \<le> svc_LastRefTime newService"
  shows "\<exists>xs ys. mset xs = mset (slice (svc_Hosts oldService)) \<and>
           mset ys = mset (slice (svc_Hosts newService)) \<and> list_all2 instance_equal xs ys"
proof -
  have "instances_deep_equal (map_option (sortInstance srt) (svc_Hosts oldService))
      (Some (sortInstance srt (slice (svc_Hosts newService))))"
    using assms(2,3) by (auto simp: isServiceInstanceChanged_def Let_def not_less split: if_splits)
  from list_all2_instances[OF this] obtain hs where hs: "svc_Hosts oldService = Some hs"
    and eq: "list_all2 instance_equal (sortInstance srt hs) (sortInstance srt (slice (svc_Hosts newService)))"
    by auto
  have "mset (sortInstance srt is) = mset is" for "is"
    unfolding sortInstance_def by (rule go_sort.sort_perm[OF assms(1)])
  with hs eq show ?thesis
    by (intro exI[of _ "sortInstance srt hs"] exI[of _ "sortInstance srt (slice (svc_Hosts newService))"])
      simp
qed

theorem no_change_missed_witness:
  "let a = demo_instance ''10.0.0.1'' 80; b = demo_instance ''10.0.0.2'' 80;
       old = demo_service 1 [a, b]; new = demo_service 2 [b, a]
   in \<exists>xs ys. mset xs = mset (slice (svc_Hosts old)) \<and> mset ys = mset (slice (svc_Hosts new)) \<and>
        list_all2 instance_equal xs ys"
proof -
  let ?a = "demo_instance ''10.0.0.1'' 80" and ?b = "demo_instance ''10.0.0.2'' 80"
  have less: "instance_Less ?a ?b" "\<not> instance_Less ?b ?a"
    by (simp_all add: instance_Less_def ip_num_def demo_instance_def zero_Instance_def remove_char_def
        parse_int_def parse_uint_def is_digit_def digit_val_def max_u64_def cutoff_i64_def)
  have refl: "instance_equal ?a ?a" "instance_equal ?b ?b"
    by (simp_all add: instance_equal_refl wf_instance_def demo_instance_def zero_Instance_def)
  have "\<not> isServiceInstanceChanged insertion_sort (demo_service 1 [?a, ?b]) (demo_service 2 [?b, ?a])"
    using less refl
    by (simp add: isServiceInstanceChanged_def demo_service_def zero_Service_def sortInstance_def
        insertion_sort_def instances_deep_equal_def)
  from no_change_missed[OF isort.go_sort_axioms this] show ?thesis
    by (simp add: Let_def demo_service_def)
qed

text \<open>
  The order \<open>instanceSorter.Less\<close> compares the ports also when the first address is greater, so
  two instances can each be less than the other. For such a pair a delivery that only lists the two in
  the other order is reported as a change.
\<close>

theorem reordering_reported_as_change:
  assumes "ip_num a < ip_num b" and "ins_Port b < ins_Port a"
    and "svc_Hosts old = Some [a, b]" and "svc_Hosts new = Some [b, a]"
    and "svc_LastRefTime old \<le> svc_LastRefTime new"
  shows "instance_Less a b \<and> instance_Less b a \<and> isServiceInstanceChanged insertion_sort old new"
proof -
  have less: "instance_Less a b" "instance_Less b a"
    using assms(1,2) by (auto simp: instance_Less_def)
  have "\<not> instance_equal b a"
  proof
    assume "instance_equal b a"
    then have "ins_Port (b\<lparr>ins_Metadata := None\<rparr>) = ins_Port (a\<lparr>ins_Metadata := None\<rparr>)"
      unfolding instance_equal_def by metis
    then show False using assms(2) by simp
  qed
  with less assms(3-5) show ?thesis
    by (simp add: isServiceInstanceChanged_def sortInstance_def insertion_sort_def
        instances_deep_equal_def not_less)
qed

theorem reordering_reported_as_change_witness:
  "let a = demo_instance ''10.0.0.1'' 9000; b = demo_instance ''10.0.0.2'' 8000
   in instance_Less a b \<and> instance_Less b a \<and>
      isServiceInstanceChanged insertion_sort (demo_service 1 [a, b]) (demo_service 2 [b, a])"
  unfolding Let_def
  by (rule reordering_reported_as_change)
    (simp_all add: ip_num_def demo_instance_def zero_Instance_def remove_char_def demo_service_def
      parse_int_def parse_uint_def is_digit_def digit_val_def max_u64_def cutoff_i64_def zero_Service_def)

section \<open>Selectors and the registry\<close>

lemma join_str_Nil_iff: "\<forall>x \<in> set xs. x \<noteq> [] \<Longrightarrow> join_str xs sep = [] \<longleftrightarrow> xs = []"
  by (induction xs sep rule: join_str.induct) auto

lemma join_str_inject:
  assumes "\<forall>x \<in> set xs \<union> set ys. x \<noteq> [] \<and> CHR '','' \<notin> set x"
  shows "join_str xs '','' = join_str ys '','' \<longleftrightarrow> xs = ys"
proof (cases "xs = [] \<or> ys = []")
  case True
  with assms show ?thesis by (auto simp: join_str_Nil_iff dest: sym)
next
  case False
  then have "split_str (join_str xs '','') '','' = xs" "split_str (join_str ys '','') '','' = ys"
    using assms by (simp_all add: split_join)
  then show ?thesis by metis
qed

text \<open>
  C15: Two cluster selectors are equal exactly when they name the same clusters, whatever the order and
  the repetitions, empty names apart, as long as no name contains a comma. A selector passes exactly
  the instances of its clusters, and every instance when it names none.
\<close>

theorem cluster_selectors:
  assumes "\<forall>c \<in> set cs \<union> set ds. CHR '','' \<notin> set c"
  shows "(selector_Equals (NewClusterSelector cs) (Some (NewClusterSelector ds)) \<longleftrightarrow>
            set cs - {[]} = set ds - {[]}) \<and>
         slice (SelectInstance (NewClusterSelector cs) svc) =
           filter (\<lambda>i. set cs - {[]} = {} \<or> ins_ClusterName i \<in> set cs) (slice (svc_Hosts svc))"
proof -
  let ?norm = "\<lambda>cs :: string list. sorted_list_of_set (set cs - {[]})"
  have names: "cs_ClusterNames (NewClusterSelector xs) = join_str (?norm xs) '',''" for xs
  proof -
    have "set (filter (\<lambda>item. item \<noteq> []) xs) = set xs - {[]}" by auto
    then show ?thesis
      by (auto simp: NewClusterSelector_def joinCluster_def sorted_list_of_set_sort_remdups[symmetric])
  qed
  have eq: "join_str (?norm cs) '','' = join_str (?norm ds) '','' \<longleftrightarrow> ?norm cs = ?norm ds"
    by (rule join_str_inject) (use assms in auto)
  have "?norm cs = ?norm ds \<longleftrightarrow> set cs - {[]} = set ds - {[]}"
    by (metis finite_Diff finite_set set_sorted_list_of_set)
  moreover have nil: "cs_ClusterNames (NewClusterSelector cs) = [] \<longleftrightarrow> set cs - {[]} = {}"
    using names join_str_Nil_iff[of "?norm cs" "'',''"] by simp
  moreover have "cs_Clusters (NewClusterSelector cs) = cs"
    by (simp add: NewClusterSelector_def)
  ultimately show ?thesis
    using eq names by (auto simp: selector_Equals_def SelectInstance_def Let_def split: option.splits)
qed

theorem cluster_selectors_witness:
  "selector_Equals (NewClusterSelector [''b'', ''a'', ''b'']) (Some (NewClusterSelector [''a'', [], ''b'']))"
proof -
  have "\<forall>c \<in> set [''b'', ''a'', ''b''] \<union> set [''a'', [], ''b'']. CHR '','' \<notin> set c" by simp
  from cluster_selectors[OF this] show ?thesis by auto
qed

text \<open>
  C14: Registering a wrapper appends it to the list of its key; removing a wrapper removes from that
  list exactly the wrappers with the same callback and an equal selector, and keeps the order of the
  others; no other key changes; a key is subscribed while its list is not empty; the registry stays
  well formed.
\<close>

theorem callback_registry:
  assumes "cm_inv ed"
  shows "let k = GetServiceCacheKey s c; added = AddCallbackFunc ed s c w; removed = RemoveCallbackFunc ed s c w;
             registered = \<lambda>ed k. (case cm_Get ed k of None \<Rightarrow> [] | Some ws \<Rightarrow> ws)
         in cm_inv added \<and> cm_inv removed \<and>
            registered added k = registered ed k @ [w] \<and>
            registered removed k =
              filter (\<lambda>v. \<not> (w_CallbackFunc v = w_CallbackFunc w \<and>
                          cs_ClusterNames (w_Selector v) = cs_ClusterNames (w_Selector w))) (registered ed k) \<and>
            (\<forall>k'. k' \<noteq> k \<longrightarrow> registered added k' = registered ed k' \<and> registered removed k' = registered ed k') \<and>
            cb_IsSubscribed ed s c = (registered ed k \<noteq> [])"
proof -
  have keeps: "keeps w = (\<lambda>v. \<not> (w_CallbackFunc v = w_CallbackFunc w \<and>
      cs_ClusterNames (w_Selector v) = cs_ClusterNames (w_Selector w)))"
    by (simp add: keeps_def selector_Equals_def fun_eq_iff)
  show ?thesis using assms
    by (simp add: Let_def AddCallbackFunc_def RemoveCallbackFunc_def remove_read_def remove_write_def keeps
        cm_Get_Set cb_IsSubscribed_def split: option.split)
qed

definition demo_wrapper :: "nat \<Rightarrow> Wrapper" where
  "demo_wrapper cb = \<lparr>w_Selector = NewClusterSelector [], w_CallbackFunc = Some cb\<rparr>"

theorem callback_registry_witness:
  "cm_inv NewSubscribeCallback \<and>
   cb_IsSubscribed (AddCallbackFunc NewSubscribeCallback ''g@@s'' [] (demo_wrapper 1)) ''g@@s'' []"
proof -
  have inv: "cm_inv NewSubscribeCallback" by (simp add: NewSubscribeCallback_def)
  note one = callback_registry[OF inv, of "''g@@s''" "[]" "demo_wrapper 1"]
  then have "cm_inv (AddCallbackFunc NewSubscribeCallback ''g@@s'' [] (demo_wrapper 1))"
    by (simp add: Let_def)
  from callback_registry[OF this, of "''g@@s''" "[]" "demo_wrapper 1"] one inv show ?thesis
    by (simp add: Let_def)
qed

text \<open>
  \<open>RemoveCallbackFunc\<close> does not hold the lock of \<open>AddCallbackFunc\<close>. A callback registered between
  its read and its write is lost: the list afterwards is the one of a removal without the
  registration.
\<close>

theorem callback_lost_by_race:
  assumes "cm_inv ed" and "remove_read ed s c = Some ws"
  shows "let ed1 = AddCallbackFunc ed s c v;
             ed2 = remove_write ed1 s c w (remove_read ed s c)
         in cm_Get ed1 (GetServiceCacheKey s c) = Some (ws @ [v]) \<and>
            cm_Get ed2 (GetServiceCacheKey s c) = Some (filter (keeps w) ws) \<and>
            cm_Get ed2 = cm_Get (RemoveCallbackFunc ed s c w)"
  using assms
  by (simp add: Let_def AddCallbackFunc_def RemoveCallbackFunc_def remove_read_def remove_write_def
      cm_Get_Set fun_eq_iff)

theorem callback_lost_by_race_witness:
  "let ed = AddCallbackFunc NewSubscribeCallback ''g@@s'' [] (demo_wrapper 1);
       ed2 = remove_write (AddCallbackFunc ed ''g@@s'' [] (demo_wrapper 2)) ''g@@s'' [] (demo_wrapper 1)
               (remove_read ed ''g@@s'' [])
   in cm_Get ed2 (GetServiceCacheKey ''g@@s'' []) = Some []"
proof -
  let ?ed = "AddCallbackFunc NewSubscribeCallback ''g@@s'' [] (demo_wrapper 1)"
  have "cm_inv ?ed" and "remove_read ?ed ''g@@s'' [] = Some [demo_wrapper 1]"
    by (simp_all add: AddCallbackFunc_def NewSubscribeCallback_def remove_read_def cm_Get_Set Let_def)
  note race = callback_lost_by_race[OF this, of "demo_wrapper 2" "demo_wrapper 1", unfolded Let_def,
      THEN conjunct2, THEN conjunct1]
  show ?thesis unfolding Let_def race by (simp add: keeps_def selector_Equals_def)
qed

end
