(* ===== verification/Rpc_Messages.thy ===== *)
theory Rpc_Messages
  imports Model
begin

text \<open>
  The messages of \<open>common/remote/rpc/rpc_request\<close> and \<open>rpc_response\<close>: one constructor per struct, the
  embedded structs as extensible records, the interfaces \<open>IRequest\<close> and \<open>IResponse\<close> as functions over
  the constructors, the table of response types and the decoding of a response body.
\<close>

section \<open>Requests\<close>

record Request =
  rq_Headers :: "params option"
  rq_RequestId :: string

record InternalRequest = Request +
  iq_Module :: string

record NamingRequest = Request +
  nq_Namespace :: string
  nq_ServiceName :: string
  nq_GroupName :: string
  nq_Module :: string

record ConfigRequest = Request +
  cq_Group :: string
  cq_DataId :: string
  cq_Tenant :: string
  cq_Module :: string

record ConfigListenContext =
  clc_Group :: string
  clc_Md5 :: string
  clc_DataId :: string
  clc_Tenant :: string

record ConfigContext =
  cc_Group :: string
  cc_DataId :: string
  cc_Tenant :: string

datatype IRequest =
    HealthCheckRequest InternalRequest
  | ConnectResetRequest InternalRequest string string
  | ClientDetectionRequest InternalRequest
  | ServerCheckRequest InternalRequest
  | ConnectionSetupRequest InternalRequest string string "params option"
  | InstanceRequest NamingRequest string Instance
  | BatchInstanceRequest NamingRequest string "Instance list"
  | NotifySubscriberRequest NamingRequest Service
  | ServiceListRequest NamingRequest int int string
  | SubscribeServiceRequest NamingRequest bool string
  | ServiceQueryRequest NamingRequest string bool int
  | ConfigBatchListenRequest ConfigRequest bool "ConfigListenContext list"
  | ConfigChangeNotifyRequest ConfigRequest
  | ConfigQueryRequest ConfigRequest string
  | ConfigPublishRequest ConfigRequest string string params
  | ConfigRemoveRequest ConfigRequest

subsection \<open>Constructors\<close>

definition NewInternalRequest :: InternalRequest where
  "NewInternalRequest = \<lparr>rq_Headers = Some [], rq_RequestId = [], iq_Module = ''internal''\<rparr>"

definition NewHealthCheckRequest :: IRequest where
  "NewHealthCheckRequest = HealthCheckRequest NewInternalRequest"

definition NewServerCheckRequest :: IRequest where
  "NewServerCheckRequest = ServerCheckRequest NewInternalRequest"

definition NewConnectionSetupRequest :: IRequest where
  "NewConnectionSetupRequest = ConnectionSetupRequest NewInternalRequest [] [] None"

definition NewNamingRequest :: "string \<Rightarrow> string \<Rightarrow> string \<Rightarrow> NamingRequest" where
  "NewNamingRequest namespace serviceName groupName =
     \<lparr>rq_Headers = Some [], rq_RequestId = [], nq_Namespace = namespace,
      nq_ServiceName = serviceName, nq_GroupName = groupName, nq_Module = ''naming''\<rparr>"

definition NewInstanceRequest :: "string \<Rightarrow> string \<Rightarrow> string \<Rightarrow> string \<Rightarrow> Instance \<Rightarrow> IRequest" where
  "NewInstanceRequest namespace serviceName groupName Type inst =
     InstanceRequest (NewNamingRequest namespace serviceName groupName) Type inst"

definition NewBatchInstanceRequest ::
  "string \<Rightarrow> string \<Rightarrow> string \<Rightarrow> string \<Rightarrow> Instance list \<Rightarrow> IRequest" where
  "NewBatchInstanceRequest namespace serviceName groupName Type instances =
     BatchInstanceRequest (NewNamingRequest namespace serviceName groupName) Type instances"

definition NewServiceListRequest ::
  "string \<Rightarrow> string \<Rightarrow> string \<Rightarrow> int \<Rightarrow> int \<Rightarrow> string \<Rightarrow> IRequest" where
  "NewServiceListRequest namespace serviceName groupName pageNo pageSize selector =
     ServiceListRequest (NewNamingRequest namespace serviceName groupName) pageNo pageSize selector"

definition NewSubscribeServiceRequest ::
  "string \<Rightarrow> string \<Rightarrow> string \<Rightarrow> string \<Rightarrow> bool \<Rightarrow> IRequest" where
  "NewSubscribeServiceRequest namespace serviceName groupName clusters subscribe =
     SubscribeServiceRequest (NewNamingRequest namespace serviceName groupName) subscribe clusters"

definition NewServiceQueryRequest ::
  "string \<Rightarrow> string \<Rightarrow> string \<Rightarrow> string \<Rightarrow> bool \<Rightarrow> int \<Rightarrow> IRequest" where
  "NewServiceQueryRequest namespace serviceName groupName cluster healthyOnly udpPort =
     ServiceQueryRequest (NewNamingRequest namespace serviceName groupName) cluster healthyOnly udpPort"

definition NewConfigRequest :: "string \<Rightarrow> string \<Rightarrow> string \<Rightarrow> ConfigRequest" where
  "NewConfigRequest grp dataId tenant =
     \<lparr>rq_Headers = Some [], rq_RequestId = [], cq_Group = grp, cq_DataId = dataId,
      cq_Tenant = tenant, cq_Module = ''config''\<rparr>"

definition NewConfigBatchListenRequest :: "nat \<Rightarrow> IRequest" where
  "NewConfigBatchListenRequest cacheLen = ConfigBatchListenRequest (NewConfigRequest [] [] []) True []"

definition NewConfigChangeNotifyRequest :: "string \<Rightarrow> string \<Rightarrow> string \<Rightarrow> IRequest" where
  "NewConfigChangeNotifyRequest grp dataId tenant =
     ConfigChangeNotifyRequest (NewConfigRequest grp dataId tenant)"

definition NewConfigQueryRequest :: "string \<Rightarrow> string \<Rightarrow> string \<Rightarrow> IRequest" where
  "NewConfigQueryRequest grp dataId tenant = ConfigQueryRequest (NewConfigRequest grp dataId tenant) []"

definition NewConfigPublishRequest :: "string \<Rightarrow> string \<Rightarrow> string \<Rightarrow> string \<Rightarrow> string \<Rightarrow> IRequest" where
  "NewConfigPublishRequest grp dataId tenant content casMd5 =
     ConfigPublishRequest (NewConfigRequest grp dataId tenant) content casMd5 []"

definition NewConfigRemoveRequest :: "string \<Rightarrow> string \<Rightarrow> string \<Rightarrow> IRequest" where
  "NewConfigRemoveRequest grp dataId tenant = ConfigRemoveRequest (NewConfigRequest grp dataId tenant)"

subsection \<open>The interface\<close>

fun GetRequestType :: "IRequest \<Rightarrow> string" where
  "GetRequestType (HealthCheckRequest _) = ''HealthCheckRequest''"
| "GetRequestType (ConnectResetRequest _ _ _) = ''ConnectResetRequest''"
| "GetRequestType (ClientDetectionRequest _) = ''ClientDetectionRequest''"
| "GetRequestType (ServerCheckRequest _) = ''ServerCheckRequest''"
| "GetRequestType (ConnectionSetupRequest _ _ _ _) = ''ConnectionSetupRequest''"
| "GetRequestType (InstanceRequest _ _ _) = ''InstanceRequest''"
| "GetRequestType (BatchInstanceRequest _ _ _) = ''BatchInstanceRequest''"
| "GetRequestType (NotifySubscriberRequest _ _) = ''NotifySubscriberRequest''"
| "GetRequestType (ServiceListRequest _ _ _ _) = ''ServiceListRequest''"
| "GetRequestType (SubscribeServiceRequest _ _ _) = ''SubscribeServiceRequest''"
| "GetRequestType (ServiceQueryRequest _ _ _ _) = ''ServiceQueryRequest''"
| "GetRequestType (ConfigBatchListenRequest _ _ _) = ''ConfigBatchListenRequest''"
| "GetRequestType (ConfigChangeNotifyRequest _) = ''ConfigChangeNotifyRequest''"
| "GetRequestType (ConfigQueryRequest _ _) = ''ConfigQueryRequest''"
| "GetRequestType (ConfigPublishRequest _ _ _ _) = ''ConfigPublishRequest''"
| "GetRequestType (ConfigRemoveRequest _) = ''ConfigRemoveRequest''"

text \<open>The embedded \<open>NamingRequest\<close> and \<open>ConfigRequest\<close>, when there is one.\<close>

fun naming_base :: "IRequest \<Rightarrow> NamingRequest option" where
  "naming_base (InstanceRequest b _ _) = Some b"
| "naming_base (BatchInstanceRequest b _ _) = Some b"
| "naming_base (NotifySubscriberRequest b _) = Some b"
| "naming_base (ServiceListRequest b _ _ _) = Some b"
| "naming_base (SubscribeServiceRequest b _ _) = Some b"
| "naming_base (ServiceQueryRequest b _ _ _) = Some b"
| "naming_base _ = None"

fun config_base :: "IRequest \<Rightarrow> ConfigRequest option" where
  "config_base (ConfigBatchListenRequest b _ _) = Some b"
| "config_base (ConfigChangeNotifyRequest b) = Some b"
| "config_base (ConfigQueryRequest b _) = Some b"
| "config_base (ConfigPublishRequest b _ _ _) = Some b"
| "config_base (ConfigRemoveRequest b) = Some b"
| "config_base _ = None"

text \<open>The embedded \<open>Request\<close>, and an update of its fields through the pointer.\<close>

fun request_base :: "IRequest \<Rightarrow> Request" where
  "request_base (HealthCheckRequest b) = Request.truncate b"
| "request_base (ConnectResetRequest b _ _) = Request.truncate b"
| "request_base (ClientDetectionRequest b) = Request.truncate b"
| "request_base (ServerCheckRequest b) = Request.truncate b"
| "request_base (ConnectionSetupRequest b _ _ _) = Request.truncate b"
| "request_base (InstanceRequest b _ _) = Request.truncate b"
| "request_base (BatchInstanceRequest b _ _) = Request.truncate b"
| "request_base (NotifySubscriberRequest b _) = Request.truncate b"
| "request_base (ServiceListRequest b _ _ _) = Request.truncate b"
| "request_base (SubscribeServiceRequest b _ _) = Request.truncate b"
| "request_base (ServiceQueryRequest b _ _ _) = Request.truncate b"
| "request_base (ConfigBatchListenRequest b _ _) = Request.truncate b"
| "request_base (ConfigChangeNotifyRequest b) = Request.truncate b"
| "request_base (ConfigQueryRequest b _) = Request.truncate b"
| "request_base (ConfigPublishRequest b _ _ _) = Request.truncate b"
| "request_base (ConfigRemoveRequest b) = Request.truncate b"

fun set_headers :: "params option \<Rightarrow> IRequest \<Rightarrow> IRequest" where
  "set_headers h (HealthCheckRequest b) = HealthCheckRequest (b\<lparr>rq_Headers := h\<rparr>)"
| "set_headers h (ConnectResetRequest b x y) = ConnectResetRequest (b\<lparr>rq_Headers := h\<rparr>) x y"
| "set_headers h (ClientDetectionRequest b) = ClientDetectionRequest (b\<lparr>rq_Headers := h\<rparr>)"
| "set_headers h (ServerCheckRequest b) = ServerCheckRequest (b\<lparr>rq_Headers := h\<rparr>)"
| "set_headers h (ConnectionSetupRequest b x y z) = ConnectionSetupRequest (b\<lparr>rq_Headers := h\<rparr>) x y z"
| "set_headers h (InstanceRequest b x y) = InstanceRequest (b\<lparr>rq_Headers := h\<rparr>) x y"
| "set_headers h (BatchInstanceRequest b x y) = BatchInstanceRequest (b\<lparr>rq_Headers := h\<rparr>) x y"
| "set_headers h (NotifySubscriberRequest b x) = NotifySubscriberRequest (b\<lparr>rq_Headers := h\<rparr>) x"
| "set_headers h (ServiceListRequest b x y z) = ServiceListRequest (b\<lparr>rq_Headers := h\<rparr>) x y z"
| "set_headers h (SubscribeServiceRequest b x y) = SubscribeServiceRequest (b\<lparr>rq_Headers := h\<rparr>) x y"
| "set_headers h (ServiceQueryRequest b x y z) = ServiceQueryRequest (b\<lparr>rq_Headers := h\<rparr>) x y z"
| "set_headers h (ConfigBatchListenRequest b x y) = ConfigBatchListenRequest (b\<lparr>rq_Headers := h\<rparr>) x y"
| "set_headers h (ConfigChangeNotifyRequest b) = ConfigChangeNotifyRequest (b\<lparr>rq_Headers := h\<rparr>)"
| "set_headers h (ConfigQueryRequest b x) = ConfigQueryRequest (b\<lparr>rq_Headers := h\<rparr>) x"
| "set_headers h (ConfigPublishRequest b x y z) = ConfigPublishRequest (b\<lparr>rq_Headers := h\<rparr>) x y z"
| "set_headers h (ConfigRemoveRequest b) = ConfigRemoveRequest (b\<lparr>rq_Headers := h\<rparr>)"

definition GetHeaders :: "IRequest \<Rightarrow> params option" where
  "GetHeaders r = rq_Headers (request_base r)"

definition GetRequestId :: "IRequest \<Rightarrow> string" where
  "GetRequestId r = rq_RequestId (request_base r)"

definition PutAllHeaders :: "params \<Rightarrow> IRequest \<Rightarrow> IRequest" where
  "PutAllHeaders headers r = set_headers (Some (put_all (slice (GetHeaders r)) headers)) r"

definition ClearHeaders :: "IRequest \<Rightarrow> IRequest" where
  "ClearHeaders r = set_headers (Some []) r"

text \<open>\<open>GetStringToSign\<close>: \<open>now\<close> is the Unix time in seconds.\<close>

definition GetStringToSign :: "int \<Rightarrow> IRequest \<Rightarrow> string" where
  "GetStringToSign now r =
     (case naming_base r of
        None \<Rightarrow> []
      | Some b \<Rightarrow>
          let data = itoa (now * 1000)
          in if nq_ServiceName b \<noteq> [] \<or> nq_GroupName b \<noteq> []
             then data @ ''@@'' @ nq_GroupName b @ ''@@'' @ nq_ServiceName b
             else data)"

section \<open>Responses\<close>

record Response =
  rs_ResultCode :: int
  rs_ErrorCode :: int
  rs_Success :: bool
  rs_Message :: string
  rs_RequestId :: string

definition zero_Response :: Response where
  "zero_Response = \<lparr>rs_ResultCode = 0, rs_ErrorCode = 0, rs_Success = False, rs_Message = [],
     rs_RequestId = []\<rparr>"

record ConfigQueryBody =
  qb_Content :: string
  qb_EncryptedDataKey :: string
  qb_ContentType :: string
  qb_Md5 :: string
  qb_LastModified :: int
  qb_IsBeta :: bool
  qb_Tag :: bool

definition zero_ConfigQueryBody :: ConfigQueryBody where
  "zero_ConfigQueryBody = \<lparr>qb_Content = [], qb_EncryptedDataKey = [], qb_ContentType = [],
     qb_Md5 = [], qb_LastModified = 0, qb_IsBeta = False, qb_Tag = False\<rparr>"

datatype IResponse =
    ConnectResetResponse Response
  | ClientDetectionResponse Response
  | ServerCheckResponse Response string
  | InstanceResponse Response
  | BatchInstanceResponse Response
  | QueryServiceResponse Response Service
  | SubscribeServiceResponse Response Service
  | ServiceListResponse Response int "string list"
  | NotifySubscriberResponse Response
  | HealthCheckResponse Response
  | ErrorResponse Response
  | ConfigChangeBatchListenResponse Response "ConfigContext list"
  | ConfigQueryResponse Response ConfigQueryBody
  | ConfigPublishResponse Response
  | ConfigRemoveResponse Response

fun GetResponseType :: "IResponse \<Rightarrow> string" where
  "GetResponseType (ConnectResetResponse _) = ''ConnectResetResponse''"
| "GetResponseType (ClientDetectionResponse _) = ''ClientDetectionResponse''"
| "GetResponseType (ServerCheckResponse _ _) = ''ServerCheckResponse''"
| "GetResponseType (InstanceResponse _) = ''InstanceResponse''"
| "GetResponseType (BatchInstanceResponse _) = ''BatchInstanceResponse''"
| "GetResponseType (QueryServiceResponse _ _) = ''QueryServiceResponse''"
| "GetResponseType (SubscribeServiceResponse _ _) = ''SubscribeServiceResponse''"
| "GetResponseType (ServiceListResponse _ _ _) = ''ServiceListResponse''"
| "GetResponseType (NotifySubscriberResponse _) = ''NotifySubscriberResponse''"
| "GetResponseType (HealthCheckResponse _) = ''HealthCheckResponse''"
| "GetResponseType (ErrorResponse _) = ''ErrorResponse''"
| "GetResponseType (ConfigChangeBatchListenResponse _ _) = ''ConfigChangeBatchListenResponse''"
| "GetResponseType (ConfigQueryResponse _ _) = ''ConfigQueryResponse''"
| "GetResponseType (ConfigPublishResponse _) = ''ConfigPublishResponse''"
| "GetResponseType (ConfigRemoveResponse _) = ''ConfigRemoveResponse''"

fun response_base :: "IResponse \<Rightarrow> Response" where
  "response_base (ConnectResetResponse b) = b"
| "response_base (ClientDetectionResponse b) = b"
| "response_base (ServerCheckResponse b _) = b"
| "response_base (InstanceResponse b) = b"
| "response_base (BatchInstanceResponse b) = b"
| "response_base (QueryServiceResponse b _) = b"
| "response_base (SubscribeServiceResponse b _) = b"
| "response_base (ServiceListResponse b _ _) = b"
| "response_base (NotifySubscriberResponse b) = b"
| "response_base (HealthCheckResponse b) = b"
| "response_base (ErrorResponse b) = b"
| "response_base (ConfigChangeBatchListenResponse b _) = b"
| "response_base (ConfigQueryResponse b _) = b"
| "response_base (ConfigPublishResponse b) = b"
| "response_base (ConfigRemoveResponse b) = b"

fun update_response :: "(Response \<Rightarrow> Response) \<Rightarrow> IResponse \<Rightarrow> IResponse" where
  "update_response f (ConnectResetResponse b) = ConnectResetResponse (f b)"
| "update_response f (ClientDetectionResponse b) = ClientDetectionResponse (f b)"
| "update_response f (ServerCheckResponse b x) = ServerCheckResponse (f b) x"
| "update_response f (InstanceResponse b) = InstanceResponse (f b)"
| "update_response f (BatchInstanceResponse b) = BatchInstanceResponse (f b)"
| "update_response f (QueryServiceResponse b x) = QueryServiceResponse (f b) x"
| "update_response f (SubscribeServiceResponse b x) = SubscribeServiceResponse (f b) x"
| "update_response f (ServiceListResponse b x y) = ServiceListResponse (f b) x y"
| "update_response f (NotifySubscriberResponse b) = NotifySubscriberResponse (f b)"
| "update_response f (HealthCheckResponse b) = HealthCheckResponse (f b)"
| "update_response f (ErrorResponse b) = ErrorResponse (f b)"
| "update_response f (ConfigChangeBatchListenResponse b x) = ConfigChangeBatchListenResponse (f b) x"
| "update_response f (ConfigQueryResponse b x) = ConfigQueryResponse (f b) x"
| "update_response f (ConfigPublishResponse b) = ConfigPublishResponse (f b)"
| "update_response f (ConfigRemoveResponse b) = ConfigRemoveResponse (f b)"

definition SetRequestId :: "string \<Rightarrow> IResponse \<Rightarrow> IResponse" where
  "SetRequestId requestId = update_response (\<lambda>b. b\<lparr>rs_RequestId := requestId\<rparr>)"

definition IsSuccess :: "IResponse \<Rightarrow> bool" where
  "IsSuccess r = rs_Success (response_base r)"

definition SetSuccess :: "bool \<Rightarrow> IResponse \<Rightarrow> IResponse" where
  "SetSuccess successResult = update_response (\<lambda>b. b\<lparr>rs_Success := successResult\<rparr>)"

definition GetErrorCode :: "IResponse \<Rightarrow> int" where
  "GetErrorCode r = rs_ErrorCode (response_base r)"

definition GetResultCode :: "IResponse \<Rightarrow> int" where
  "GetResultCode r = rs_ResultCode (response_base r)"

definition GetMessage :: "IResponse \<Rightarrow> string" where
  "GetMessage r = rs_Message (response_base r)"

definition GetGrpcResponseStatusCode :: "IResponse option \<Rightarrow> string" where
  "GetGrpcResponseStatusCode response =
     (case response of Some r \<Rightarrow> itoa (GetResultCode r) | None \<Rightarrow> ''NA'')"

section \<open>The table of response types\<close>

type_synonym response_table = "(string, IResponse) gomap"

text \<open>An entry holds the empty response its constructor function builds.\<close>

definition registerClientResponse :: "response_table \<Rightarrow> IResponse \<Rightarrow> response_table" where
  "registerClientResponse tab response =
     (let responseType = GetResponseType response
      in if responseType = [] then tab else AList.update responseType response tab)"

definition registerClientResponses :: "response_table \<Rightarrow> response_table" where
  "registerClientResponses tab = fold (\<lambda>r t. registerClientResponse t r)
     [InstanceResponse zero_Response, BatchInstanceResponse zero_Response,
      QueryServiceResponse zero_Response zero_Service,
      SubscribeServiceResponse zero_Response zero_Service,
      ServiceListResponse zero_Response 0 [], NotifySubscriberResponse zero_Response,
      HealthCheckResponse zero_Response, ErrorResponse zero_Response,
      ConfigChangeBatchListenResponse zero_Response [],
      ConfigQueryResponse zero_Response zero_ConfigQueryBody,
      ConfigPublishResponse zero_Response, ConfigRemoveResponse zero_Response] tab"

definition ClientResponseMapping :: response_table where
  "ClientResponseMapping = registerClientResponses []"

section \<open>Decoding\<close>

text \<open>
  \<open>unmarshal\<close> is \<open>json.Unmarshal\<close> into a response (the error, or the response with the fields of the
  body filled in), \<open>objkeys\<close> the decoding of the same body as an object: its keys.
\<close>

definition ResponseSuccessCode :: int where "ResponseSuccessCode = 200"
definition ResponseSuccessField :: string where "ResponseSuccessField = ''success''"

definition InnerResponseJsonUnmarshal ::
  "(string \<Rightarrow> IResponse \<Rightarrow> IResponse result) \<Rightarrow> (string \<Rightarrow> string list result) \<Rightarrow> string \<Rightarrow> IResponse \<Rightarrow>
   IResponse result" where
  "InnerResponseJsonUnmarshal unmarshal objkeys responseBody new =
     (case unmarshal responseBody new of
        Inl err \<Rightarrow> Inl err
      | Inr response \<Rightarrow>
          if \<not> IsSuccess response
          then (case objkeys responseBody of
                  Inl err \<Rightarrow> Inr response
                | Inr keys \<Rightarrow>
                    if ResponseSuccessField \<notin> set keys
                    then Inr (SetSuccess (GetResultCode response = ResponseSuccessCode) response)
                    else Inr response)
          else Inr response)"

section \<open>Facts\<close>

lemma response_base_update [simp]: "response_base (update_response f r) = f (response_base r)"
  by (cases r) auto

lemma GetResponseType_update [simp]: "GetResponseType (update_response f r) = GetResponseType r"
  by (cases r) auto

lemma GetHeaders_set [simp]: "GetHeaders (set_headers h r) = h"
  by (cases r) (auto simp: GetHeaders_def Request.defs)

lemma GetRequestType_set_headers [simp]: "GetRequestType (set_headers h r) = GetRequestType r"
  by (cases r) auto

lemma GetRequestId_set_headers [simp]: "GetRequestId (set_headers h r) = GetRequestId r"
  by (cases r) (auto simp: GetRequestId_def Request.defs)

lemma set_headers_twice [simp]: "set_headers h (set_headers h' r) = set_headers h r"
  by (cases r) auto

lemma IsSuccess_SetSuccess [simp]: "IsSuccess (SetSuccess b r) = b"
  by (simp add: IsSuccess_def SetSuccess_def)

lemma map_of_put_all_headers:
  "wf_map hs \<Longrightarrow>
   map_of (slice (GetHeaders (PutAllHeaders hs r))) = map_of (slice (GetHeaders r)) ++ map_of hs"
  by (simp add: PutAllHeaders_def map_of_put_all)

text \<open>Every entry of the table builds a response of the type it is registered under.\<close>

definition table_ok :: "response_table \<Rightarrow> bool" where
  "table_ok tab \<longleftrightarrow> (\<forall>t r. map_of tab t = Some r \<longrightarrow> GetResponseType r = t)"

lemma table_ok_register: "table_ok tab \<Longrightarrow> table_ok (registerClientResponse tab r)"
  by (auto simp: table_ok_def registerClientResponse_def Let_def)

lemma table_ok_fold: "table_ok tab \<Longrightarrow> table_ok (fold (\<lambda>r t. registerClientResponse t r) rs tab)"
  by (induction rs arbitrary: tab) (auto simp: table_ok_register)

lemma ClientResponseMapping_type:
  "map_of ClientResponseMapping t = Some r \<Longrightarrow> GetResponseType r = t"
proof -
  have "table_ok ClientResponseMapping"
    unfolding ClientResponseMapping_def registerClientResponses_def
    by (rule table_ok_fold) (simp add: table_ok_def)
  then show "map_of ClientResponseMapping t = Some r \<Longrightarrow> GetResponseType r = t"
    by (simp add: table_ok_def)
qed

lemma table_keys_register:
  "dom (map_of (registerClientResponse tab r)) =
   (if GetResponseType r = [] then dom (map_of tab) else insert (GetResponseType r) (dom (map_of tab)))"
  by (auto simp: registerClientResponse_def Let_def)

lemma ClientResponseMapping_dom:
  "dom (map_of ClientResponseMapping) =
   {''InstanceResponse'', ''BatchInstanceResponse'', ''QueryServiceResponse'',
    ''SubscribeServiceResponse'', ''ServiceListResponse'', ''NotifySubscriberResponse'',
    ''HealthCheckResponse'', ''ErrorResponse'', ''ConfigChangeBatchListenResponse'',
    ''ConfigQueryResponse'', ''ConfigPublishResponse'', ''ConfigRemoveResponse''}"
  unfolding ClientResponseMapping_def registerClientResponses_def
  by (simp add: table_keys_register insert_commute)

text \<open>
  Decoding a response body. The result is what the body says, except that a body without a
  \<open>success\<close> field counts as successful exactly when its result code is 200; the type of the response
  and its other fields are those of the decoded body.
\<close>

theorem inner_response_unmarshal:
  assumes "unmarshal body new = Inr r" and "objkeys body = Inr keys"
    and "ResponseSuccessField \<notin> set keys \<Longrightarrow> \<not> rs_Success (response_base r)"
  shows "\<exists>r'. InnerResponseJsonUnmarshal unmarshal objkeys body new = Inr r' \<and>
     GetResponseType r' = GetResponseType r \<and>
     IsSuccess r' = (if ResponseSuccessField \<in> set keys then IsSuccess r else GetResultCode r = 200) \<and>
     (response_base r')\<lparr>rs_Success := False\<rparr> = (response_base r)\<lparr>rs_Success := False\<rparr>"
  using assms
  by (auto simp: InnerResponseJsonUnmarshal_def IsSuccess_def SetSuccess_def ResponseSuccessCode_def)

theorem inner_response_unmarshal_witness:
  "\<exists>r'. InnerResponseJsonUnmarshal (\<lambda>_ _. Inr (InstanceResponse (zero_Response\<lparr>rs_ResultCode := 200\<rparr>)))
        (\<lambda>_. Inr [''resultCode'']) ''{resultCode: 200}'' (InstanceResponse zero_Response) = Inr r' \<and>
     IsSuccess r'"
proof -
  let ?r = "InstanceResponse (zero_Response\<lparr>rs_ResultCode := 200\<rparr>)"
  have "\<not> rs_Success (response_base ?r)" by (simp add: zero_Response_def)
  then show ?thesis
    using inner_response_unmarshal[of "\<lambda>_ _. Inr ?r" "''{resultCode: 200}''"
        "InstanceResponse zero_Response" ?r "\<lambda>_. Inr [''resultCode'']" "[''resultCode'']"]
    by (auto simp: ResponseSuccessField_def GetResultCode_def)
qed

end
