(* ===== verification/Client_Config.thy ===== *)
theory Client_Config
  imports Model
begin

text \<open>
  The configuration of a client: \<open>common/constant/config.go\<close>, the option functions of
  \<open>client_config_options.go\<close>, \<open>server_config_options.go\<close> and \<open>server_tls_options.go\<close>, the holder
  \<open>clients/nacos_client/nacos_client.go\<close> and \<open>setConfig\<close> of \<open>clients/client_factory.go\<close>.
  \<open>cwd\<close> is the current directory (\<open>file.GetCurrentPath\<close>). An option is a function on the
  configuration.
\<close>

section \<open>Configuration structs\<close>

record KMSv3Config =
  kms3_ClientKeyContent :: string
  kms3_Password :: string
  kms3_Endpoint :: string
  kms3_CaContent :: string

record KMSConfig =
  kms_Endpoint :: string
  kms_OpenSSL :: string
  kms_CaContent :: string

record RamConfig =
  ram_SecurityToken :: string
  ram_SignatureRegionId :: string
  ram_RamRoleName :: string
  ram_RoleArn :: string
  ram_Policy :: string
  ram_RoleSessionName :: string
  ram_RoleSessionExpiration :: int
  ram_OIDCProviderArn :: string
  ram_OIDCTokenFilePath :: string
  ram_CredentialsURI :: string
  ram_SecretName :: string

record ClientLogSamplingConfig =
  ls_Initial :: int
  ls_Thereafter :: int
  ls_Tick :: int

record ClientLogRollingConfig =
  lr_MaxSize :: int
  lr_MaxAge :: int
  lr_MaxBackups :: int
  lr_LocalTime :: bool
  lr_Compress :: bool

record ClientConfig =
  cl_TimeoutMs :: u64
  cl_ListenInterval :: u64
  cl_BeatInterval :: int
  cl_NamespaceId :: string
  cl_AppName :: string
  cl_AppKey :: string
  cl_Endpoint :: string
  cl_RegionId :: string
  cl_AccessKey :: string
  cl_SecretKey :: string
  cl_RamConfig :: "RamConfig option"
  cl_OpenKMS :: bool
  cl_KMSVersion :: string
  cl_KMSv3Config :: "KMSv3Config option"
  cl_KMSConfig :: "KMSConfig option"
  cl_CacheDir :: string
  cl_DisableUseSnapShot :: bool
  cl_UpdateThreadNum :: int
  cl_NotLoadCacheAtStart :: bool
  cl_UpdateCacheWhenEmpty :: bool
  cl_Username :: string
  cl_Password :: string
  cl_LogDir :: string
  cl_LogLevel :: string
  cl_ContextPath :: string
  cl_AppendToStdout :: bool
  cl_LogSampling :: "ClientLogSamplingConfig option"
  cl_LogRollingConfig :: "ClientLogRollingConfig option"
  cl_TLSCfg :: TLSConfig
  cl_AsyncUpdateService :: bool
  cl_EndpointContextPath :: string
  cl_EndpointQueryParams :: string
  cl_ClusterName :: string
  cl_AppConnLabels :: "params option"

definition zero_ClientConfig :: ClientConfig where
  "zero_ClientConfig = \<lparr>cl_TimeoutMs = 0, cl_ListenInterval = 0, cl_BeatInterval = 0, cl_NamespaceId = [],
     cl_AppName = [], cl_AppKey = [], cl_Endpoint = [], cl_RegionId = [], cl_AccessKey = [],
     cl_SecretKey = [], cl_RamConfig = None, cl_OpenKMS = False, cl_KMSVersion = [],
     cl_KMSv3Config = None, cl_KMSConfig = None, cl_CacheDir = [], cl_DisableUseSnapShot =
     False, cl_UpdateThreadNum = 0, cl_NotLoadCacheAtStart = False, cl_UpdateCacheWhenEmpty
     = False, cl_Username = [], cl_Password = [], cl_LogDir = [], cl_LogLevel = [],
     cl_ContextPath = [], cl_AppendToStdout = False, cl_LogSampling = None,
     cl_LogRollingConfig = None, cl_TLSCfg = zero_TLSConfig, cl_AsyncUpdateService = False,
     cl_EndpointContextPath = [], cl_EndpointQueryParams = [], cl_ClusterName = [],
     cl_AppConnLabels = None\<rparr>"

section \<open>Options\<close>

type_synonym ClientOption = "ClientConfig \<Rightarrow> ClientConfig"
type_synonym ServerOption = "ServerConfig \<Rightarrow> ServerConfig"
type_synonym TLSOption = "TLSConfig \<Rightarrow> TLSConfig"

definition NewClientConfig :: "string \<Rightarrow> ClientOption list \<Rightarrow> ClientConfig" where
  "NewClientConfig cwd opts = fold (\<lambda>opt config. opt config) opts
     (zero_ClientConfig\<lparr>cl_TimeoutMs := 10 * 1000, cl_BeatInterval := 5 * 1000, cl_OpenKMS := False,
        cl_CacheDir := cwd @ PathSeparator @ ''cache'', cl_UpdateThreadNum := 20,
        cl_NotLoadCacheAtStart := False, cl_UpdateCacheWhenEmpty := False,
        cl_LogDir := cwd @ PathSeparator @ ''log'', cl_LogLevel := ''info''\<rparr>)"

definition WithTimeoutMs :: "u64 \<Rightarrow> ClientOption" where
  "WithTimeoutMs v config = config\<lparr>cl_TimeoutMs := v\<rparr>"

definition WithAppName :: "string \<Rightarrow> ClientOption" where
  "WithAppName v config = config\<lparr>cl_AppName := v\<rparr>"

definition WithBeatInterval :: "int \<Rightarrow> ClientOption" where
  "WithBeatInterval v config = config\<lparr>cl_BeatInterval := v\<rparr>"

definition WithNamespaceId :: "string \<Rightarrow> ClientOption" where
  "WithNamespaceId v config = config\<lparr>cl_NamespaceId := v\<rparr>"

definition WithEndpoint :: "string \<Rightarrow> ClientOption" where
  "WithEndpoint v config = config\<lparr>cl_Endpoint := v\<rparr>"

definition WithEndpointContextPath :: "string \<Rightarrow> ClientOption" where
  "WithEndpointContextPath v config = config\<lparr>cl_EndpointContextPath := v\<rparr>"

definition WithEndpointQueryParams :: "string \<Rightarrow> ClientOption" where
  "WithEndpointQueryParams v config = config\<lparr>cl_EndpointQueryParams := v\<rparr>"

definition WithClusterName :: "string \<Rightarrow> ClientOption" where
  "WithClusterName v config = config\<lparr>cl_ClusterName := v\<rparr>"

definition WithRegionId :: "string \<Rightarrow> ClientOption" where
  "WithRegionId v config = config\<lparr>cl_RegionId := v\<rparr>"

definition WithAccessKey :: "string \<Rightarrow> ClientOption" where
  "WithAccessKey v config = config\<lparr>cl_AccessKey := v\<rparr>"

definition WithSecretKey :: "string \<Rightarrow> ClientOption" where
  "WithSecretKey v config = config\<lparr>cl_SecretKey := v\<rparr>"

definition WithOpenKMS :: "bool \<Rightarrow> ClientOption" where
  "WithOpenKMS v config = config\<lparr>cl_OpenKMS := v\<rparr>"

definition WithKMSVersion :: "string \<Rightarrow> ClientOption" where
  "WithKMSVersion v config = config\<lparr>cl_KMSVersion := v\<rparr>"

definition WithCacheDir :: "string \<Rightarrow> ClientOption" where
  "WithCacheDir v config = config\<lparr>cl_CacheDir := v\<rparr>"

definition WithDisableUseSnapShot :: "bool \<Rightarrow> ClientOption" where
  "WithDisableUseSnapShot v config = config\<lparr>cl_DisableUseSnapShot := v\<rparr>"

definition WithUpdateThreadNum :: "int \<Rightarrow> ClientOption" where
  "WithUpdateThreadNum v config = config\<lparr>cl_UpdateThreadNum := v\<rparr>"

definition WithNotLoadCacheAtStart :: "bool \<Rightarrow> ClientOption" where
  "WithNotLoadCacheAtStart v config = config\<lparr>cl_NotLoadCacheAtStart := v\<rparr>"

definition WithUpdateCacheWhenEmpty :: "bool \<Rightarrow> ClientOption" where
  "WithUpdateCacheWhenEmpty v config = config\<lparr>cl_UpdateCacheWhenEmpty := v\<rparr>"

definition WithUsername :: "string \<Rightarrow> ClientOption" where
  "WithUsername v config = config\<lparr>cl_Username := v\<rparr>"

definition WithPassword :: "string \<Rightarrow> ClientOption" where
  "WithPassword v config = config\<lparr>cl_Password := v\<rparr>"

definition WithLogDir :: "string \<Rightarrow> ClientOption" where
  "WithLogDir v config = config\<lparr>cl_LogDir := v\<rparr>"

definition WithLogLevel :: "string \<Rightarrow> ClientOption" where
  "WithLogLevel v config = config\<lparr>cl_LogLevel := v\<rparr>"

definition WithRamConfig :: "RamConfig option \<Rightarrow> ClientOption" where
  "WithRamConfig v config = config\<lparr>cl_RamConfig := v\<rparr>"

definition WithKMSv3Config :: "KMSv3Config option \<Rightarrow> ClientOption" where
  "WithKMSv3Config v config = config\<lparr>cl_KMSv3Config := v\<rparr>"

definition WithKMSConfig :: "KMSConfig option \<Rightarrow> ClientOption" where
  "WithKMSConfig v config = config\<lparr>cl_KMSConfig := v\<rparr>"

definition WithLogSampling :: "int \<Rightarrow> int \<Rightarrow> int \<Rightarrow> ClientOption" where
  "WithLogSampling tick initial thereafter config =
     config\<lparr>cl_LogSampling := Some \<lparr>ls_Initial = initial, ls_Thereafter = thereafter, ls_Tick = tick\<rparr>\<rparr>"

definition WithLogRollingConfig :: "ClientLogRollingConfig option \<Rightarrow> ClientOption" where
  "WithLogRollingConfig rollingConfig config = config\<lparr>cl_LogRollingConfig := rollingConfig\<rparr>"

definition WithTLS :: "TLSConfig \<Rightarrow> ClientOption" where
  "WithTLS tlsCfg config = config\<lparr>cl_TLSCfg := tlsCfg\<lparr>tls_Appointed := True\<rparr>\<rparr>"

definition WithAppConnLabels :: "params option \<Rightarrow> ClientOption" where
  "WithAppConnLabels appConnLabels config = config\<lparr>cl_AppConnLabels := appConnLabels\<rparr>"

definition NewServerConfig :: "string \<Rightarrow> u64 \<Rightarrow> ServerOption list \<Rightarrow> ServerConfig" where
  "NewServerConfig ipAddr port opts = fold (\<lambda>opt config. opt config) opts
     \<lparr>sc_Scheme = DEFAULT_SERVER_SCHEME, sc_ContextPath = DEFAULT_CONTEXT_PATH, sc_IpAddr = ipAddr,
      sc_Port = port, sc_GrpcPort = 0\<rparr>"

definition WithScheme :: "string \<Rightarrow> ServerOption" where
  "WithScheme scheme config = config\<lparr>sc_Scheme := scheme\<rparr>"

definition WithContextPath :: "string \<Rightarrow> ServerOption" where
  "WithContextPath contextPath config = config\<lparr>sc_ContextPath := contextPath\<rparr>"

definition WithIpAddr :: "string \<Rightarrow> ServerOption" where
  "WithIpAddr ipAddr config = config\<lparr>sc_IpAddr := ipAddr\<rparr>"

definition WithPort :: "u64 \<Rightarrow> ServerOption" where
  "WithPort port config = config\<lparr>sc_Port := port\<rparr>"

definition WithGrpcPort :: "u64 \<Rightarrow> ServerOption" where
  "WithGrpcPort port config = config\<lparr>sc_GrpcPort := port\<rparr>"

definition NewTLSConfig :: "TLSOption list \<Rightarrow> TLSConfig" where
  "NewTLSConfig opts = fold (\<lambda>opt config. opt config) opts (zero_TLSConfig\<lparr>tls_Enable := True\<rparr>)"

definition WithCA :: "string \<Rightarrow> string \<Rightarrow> TLSOption" where
  "WithCA caFile serverNameOverride tc =
     tc\<lparr>tls_CaFile := caFile, tls_ServerNameOverride := serverNameOverride\<rparr>"

definition WithCertificate :: "string \<Rightarrow> string \<Rightarrow> TLSOption" where
  "WithCertificate certFile keyFile tc = tc\<lparr>tls_CertFile := certFile, tls_KeyFile := keyFile\<rparr>"

section \<open>The configuration holder\<close>

text \<open>The HTTP agent is known by the TLS configuration it is built with.\<close>

record NacosClient =
  nc_clientConfigValid :: bool
  nc_serverConfigsValid :: bool
  nc_agent :: "TLSConfig option"
  nc_clientConfig :: ClientConfig
  nc_serverConfigs :: "ServerConfig list"

definition zero_NacosClient :: NacosClient where
  "zero_NacosClient = \<lparr>nc_clientConfigValid = False, nc_serverConfigsValid = False, nc_agent = None,
     nc_clientConfig = zero_ClientConfig, nc_serverConfigs = []\<rparr>"

definition default_client_config :: "string \<Rightarrow> ClientConfig \<Rightarrow> ClientConfig" where
  "default_client_config cwd config =
     (let config = (if cl_TimeoutMs config \<le> 0 then config\<lparr>cl_TimeoutMs := 10 * 1000\<rparr> else config);
          config = (if cl_BeatInterval config \<le> 0 then config\<lparr>cl_BeatInterval := 5 * 1000\<rparr> else config);
          config = (if cl_UpdateThreadNum config \<le> 0 then config\<lparr>cl_UpdateThreadNum := 20\<rparr> else config);
          config = (if length (cl_LogLevel config) = 0 then config\<lparr>cl_LogLevel := ''info''\<rparr> else config);
          config = (if cl_CacheDir config = [] then config\<lparr>cl_CacheDir := cwd @ PathSeparator @ ''cache''\<rparr>
                    else config)
      in if cl_LogDir config = [] then config\<lparr>cl_LogDir := cwd @ PathSeparator @ ''log''\<rparr> else config)"

definition SetClientConfig :: "string \<Rightarrow> NacosClient \<Rightarrow> ClientConfig \<Rightarrow> NacosClient" where
  "SetClientConfig cwd client config =
     client\<lparr>nc_clientConfig := default_client_config cwd config, nc_clientConfigValid := True\<rparr>"

definition default_server_config :: "ServerConfig \<Rightarrow> ServerConfig" where
  "default_server_config c =
     (let c = (if length (sc_ContextPath c) \<le> 0 then c\<lparr>sc_ContextPath := DEFAULT_CONTEXT_PATH\<rparr> else c)
      in if length (sc_Scheme c) \<le> 0 then c\<lparr>sc_Scheme := DEFAULT_SERVER_SCHEME\<rparr> else c)"

fun set_server_loop :: "nat \<Rightarrow> ServerConfig list \<Rightarrow> ServerConfig list result" where
  "set_server_loop i [] = Inr []"
| "set_server_loop i (c # cs) =
     (if length (sc_IpAddr c) \<le> 0 \<or> sc_Port c \<le> 0 \<or> 65535 < sc_Port c
      then Inl (Err (''[client.SetServerConfig] configs['' @ itoa (int i) @ ''] is invalid''))
      else case set_server_loop (i + 1) cs of
             Inl err \<Rightarrow> Inl err
           | Inr cs' \<Rightarrow> Inr (default_server_config c # cs'))"

definition SetServerConfig :: "NacosClient \<Rightarrow> ServerConfig list \<Rightarrow> NacosClient result" where
  "SetServerConfig client configs =
     (if length configs \<le> 0 then Inr (client\<lparr>nc_serverConfigsValid := True\<rparr>)
      else case set_server_loop 0 configs of
             Inl err \<Rightarrow> Inl err
           | Inr cs \<Rightarrow> Inr (client\<lparr>nc_serverConfigs := cs, nc_serverConfigsValid := True\<rparr>))"

definition GetClientConfig :: "NacosClient \<Rightarrow> ClientConfig result" where
  "GetClientConfig client =
     (if \<not> nc_clientConfigValid client then Inl (Err ''[client.GetClientConfig] invalid client config'')
      else Inr (nc_clientConfig client))"

definition GetServerConfig :: "NacosClient \<Rightarrow> ServerConfig list result" where
  "GetServerConfig client =
     (if \<not> nc_serverConfigsValid client then Inl (Err ''[client.GetServerConfig] invalid server configs'')
      else Inr (nc_serverConfigs client))"

definition SetHttpAgent :: "NacosClient \<Rightarrow> TLSConfig option \<Rightarrow> NacosClient result" where
  "SetHttpAgent client agent =
     (case agent of
        None \<Rightarrow> Inl (Err ''[client.SetHttpAgent] http agent can not be nil'')
      | Some a \<Rightarrow> Inr (client\<lparr>nc_agent := Some a\<rparr>))"

definition GetHttpAgent :: "NacosClient \<Rightarrow> TLSConfig result" where
  "GetHttpAgent client =
     (case nc_agent client of
        None \<Rightarrow> Inl (Err ''[client.GetHttpAgent] invalid http agent'')
      | Some a \<Rightarrow> Inr a)"

section \<open>The factory\<close>

text \<open>The property map of the old constructors: values of the two known types, or something else.\<close>

datatype property = PClient ClientConfig | PServers "ServerConfig list" | POther

record NacosClientParam =
  ncp_ClientConfig :: "ClientConfig option"
  ncp_ServerConfigs :: "ServerConfig list"

definition getConfigParam :: "(string, property) gomap \<Rightarrow> NacosClientParam" where
  "getConfigParam properties =
     \<lparr>ncp_ClientConfig =
        (case map_of properties ''clientConfig'' of Some (PClient c) \<Rightarrow> Some c | _ \<Rightarrow> None),
      ncp_ServerConfigs =
        (case map_of properties ''serverConfigs'' of Some (PServers cs) \<Rightarrow> cs | _ \<Rightarrow> [])\<rparr>"

definition default_ports :: "ServerConfig \<Rightarrow> ServerConfig" where
  "default_ports c =
     (let c = (if sc_Port c = 0 then c\<lparr>sc_Port := 8848\<rparr> else c)
      in if sc_GrpcPort c = 0 then c\<lparr>sc_GrpcPort := sc_Port c + RpcPortOffset\<rparr> else c)"

definition setConfig :: "string \<Rightarrow> NacosClientParam \<Rightarrow> NacosClient result" where
  "setConfig cwd param =
     (let client = (case ncp_ClientConfig param of
                      None \<Rightarrow> SetClientConfig cwd zero_NacosClient
                                (zero_ClientConfig\<lparr>cl_TimeoutMs := 10 * 1000, cl_BeatInterval := 5 * 1000\<rparr>)
                    | Some c \<Rightarrow> SetClientConfig cwd zero_NacosClient c);
          withServers =
            (if length (ncp_ServerConfigs param) = 0
             then (if length (cl_Endpoint (nc_clientConfig client)) \<le> 0
                   then Inl (Err ''server configs not found in properties'')
                   else SetServerConfig client [])
             else SetServerConfig client (map default_ports (ncp_ServerConfigs param)))
      in case withServers of
           Inl err \<Rightarrow> Inl err
         | Inr client' \<Rightarrow>
             (case GetHttpAgent client' of
                Inr _ \<Rightarrow> Inr client'
              | Inl _ \<Rightarrow>
                  (case GetClientConfig client' of
                     Inl _ \<Rightarrow> Inr client'
                   | Inr cfg \<Rightarrow>
                       (case SetHttpAgent client' (Some (cl_TLSCfg cfg)) of
                          Inl _ \<Rightarrow> Inr client'
                        | Inr client'' \<Rightarrow> Inr client''))))"

section \<open>Facts\<close>

text \<open>What the clients rely on: a configuration with every default filled in.\<close>

definition client_config_ok :: "ClientConfig \<Rightarrow> bool" where
  "client_config_ok c \<longleftrightarrow> 0 < cl_TimeoutMs c \<and> 0 < cl_BeatInterval c \<and> 0 < cl_UpdateThreadNum c \<and>
     cl_LogLevel c \<noteq> [] \<and> cl_CacheDir c \<noteq> [] \<and> cl_LogDir c \<noteq> []"

definition server_config_ok :: "ServerConfig \<Rightarrow> bool" where
  "server_config_ok c \<longleftrightarrow> sc_IpAddr c \<noteq> [] \<and> 0 < sc_Port c \<and> sc_Port c \<le> 65535 \<and>
     sc_ContextPath c \<noteq> [] \<and> sc_Scheme c \<noteq> []"

lemma default_client_config_ok: "client_config_ok (default_client_config cwd c)"
  by (simp add: client_config_ok_def default_client_config_def Let_def word_neq_0_conv not_le)

lemma default_server_config_ok:
  "sc_IpAddr c \<noteq> [] \<Longrightarrow> 0 < sc_Port c \<Longrightarrow> sc_Port c \<le> 65535 \<Longrightarrow> server_config_ok (default_server_config c)"
  by (simp add: server_config_ok_def default_server_config_def Let_def DEFAULT_CONTEXT_PATH_def
      DEFAULT_SERVER_SCHEME_def)

definition server_accepted :: "ServerConfig \<Rightarrow> bool" where
  "server_accepted c \<longleftrightarrow> sc_IpAddr c \<noteq> [] \<and> 0 < sc_Port c \<and> sc_Port c \<le> 65535"

lemma set_server_loop_eq:
  "set_server_loop i cs =
   (if list_all server_accepted cs then Inr (map default_server_config cs)
    else Inl (Err (''[client.SetServerConfig] configs['' @
           itoa (int (i + length (takeWhile server_accepted cs))) @ ''] is invalid'')))"
proof (induction cs arbitrary: i)
  case (Cons c cs)
  have guard: "(length (sc_IpAddr c) \<le> 0 \<or> sc_Port c \<le> 0 \<or> 65535 < sc_Port c) = (\<not> server_accepted c)"
    using word_neq_0_conv[of "sc_Port c"] by (auto simp: server_accepted_def not_le)
  show ?case unfolding set_server_loop.simps guard Cons.IH by (simp add: add_ac)
qed simp

lemma server_accepted_ok: "server_accepted c \<Longrightarrow> server_config_ok (default_server_config c)"
  by (simp add: server_accepted_def default_server_config_ok)

text \<open>The servers \<open>setConfig\<close> accepts: the port 0 stands for the default 8848.\<close>

lemma server_accepted_default_ports:
  "server_accepted (default_ports c) \<longleftrightarrow> sc_IpAddr c \<noteq> [] \<and> sc_Port c \<le> 65535"
  by (auto simp: server_accepted_def default_ports_def Let_def word_neq_0_conv)

lemma default_grpc_port:
  assumes "server_accepted (default_ports c)"
  shows "sc_GrpcPort (default_server_config (default_ports c)) =
    (if sc_GrpcPort c = 0 then sc_Port (default_ports c) + 1000 else sc_GrpcPort c)"
  by (simp add: default_server_config_def default_ports_def Let_def RpcPortOffset_def)

lemma SetServerConfig_eq:
  "SetServerConfig client cs =
   (if list_all server_accepted cs
    then Inr (if cs = [] then client\<lparr>nc_serverConfigsValid := True\<rparr>
              else client\<lparr>nc_serverConfigs := map default_server_config cs, nc_serverConfigsValid := True\<rparr>)
    else Inl (Err (''[client.SetServerConfig] configs['' @
           itoa (int (length (takeWhile server_accepted cs))) @ ''] is invalid'')))"
  unfolding SetServerConfig_def set_server_loop_eq by (cases cs) simp_all


end
