(* ===== verification/Security.thy ===== *)
theory Security
  imports Client_Config Rpc_Messages
begin

text \<open>
  \<open>common/security\<close>: the resources requests are signed for (\<open>security_proxy.go\<close>), the signatures
  (\<open>signature_util.go\<close>, \<open>resource_injector.go\<close>), the credential providers
  (\<open>ram_credential_provider.go\<close>), the two authentication clients (\<open>ram_auth_client.go\<close>,
  \<open>nacos_auth_client.go\<close>) and the proxy that joins them.

  The hash functions and base 64 are parameters (a \<open>crypto\<close> record); \<open>getenv\<close> is the environment;
  the Alibaba credential library is the parameter \<open>lib\<close>; \<open>ms\<close> is a clock reading in milliseconds,
  \<open>date\<close> the current date as \<open>YYYYMMDD\<close>.
\<close>

section \<open>Resources\<close>

record RequestResource =
  rr_requestType :: string
  rr_namespace :: string
  rr_group :: string
  rr_resource :: string

definition REQUEST_TYPE_CONFIG :: string where "REQUEST_TYPE_CONFIG = ''config''"
definition REQUEST_TYPE_NAMING :: string where "REQUEST_TYPE_NAMING = ''naming''"

definition BuildConfigResource :: "string \<Rightarrow> string \<Rightarrow> string \<Rightarrow> RequestResource" where
  "BuildConfigResource tenant grp dataId =
     \<lparr>rr_requestType = REQUEST_TYPE_CONFIG, rr_namespace = tenant, rr_group = grp, rr_resource = dataId\<rparr>"

definition BuildNamingResource :: "string \<Rightarrow> string \<Rightarrow> string \<Rightarrow> RequestResource" where
  "BuildNamingResource namespace grp serviceName =
     \<lparr>rr_requestType = REQUEST_TYPE_NAMING, rr_namespace = namespace, rr_group = grp,
      rr_resource = serviceName\<rparr>"

fun BuildConfigResourceByRequest :: "IRequest \<Rightarrow> RequestResource" where
  "BuildConfigResourceByRequest (ConfigQueryRequest b _) =
     BuildConfigResource (cq_Tenant b) (cq_Group b) (cq_DataId b)"
| "BuildConfigResourceByRequest (ConfigPublishRequest b _ _ _) =
     BuildConfigResource (cq_Tenant b) (cq_Group b) (cq_DataId b)"
| "BuildConfigResourceByRequest (ConfigRemoveRequest b) =
     BuildConfigResource (cq_Tenant b) (cq_Group b) (cq_DataId b)"
| "BuildConfigResourceByRequest _ =
     \<lparr>rr_requestType = REQUEST_TYPE_CONFIG, rr_namespace = [], rr_group = [], rr_resource = []\<rparr>"

fun BuildNamingResourceByRequest :: "IRequest \<Rightarrow> RequestResource" where
  "BuildNamingResourceByRequest (InstanceRequest b _ _) =
     BuildNamingResource (nq_Namespace b) (nq_GroupName b) (nq_ServiceName b)"
| "BuildNamingResourceByRequest (BatchInstanceRequest b _ _) =
     BuildNamingResource (nq_Namespace b) (nq_GroupName b) (nq_ServiceName b)"
| "BuildNamingResourceByRequest (ServiceListRequest b _ _ _) =
     BuildNamingResource (nq_Namespace b) (nq_GroupName b) (nq_ServiceName b)"
| "BuildNamingResourceByRequest (ServiceQueryRequest b _ _ _) =
     BuildNamingResource (nq_Namespace b) (nq_GroupName b) (nq_ServiceName b)"
| "BuildNamingResourceByRequest (SubscribeServiceRequest b _ _) =
     BuildNamingResource (nq_Namespace b) (nq_GroupName b) (nq_ServiceName b)"
| "BuildNamingResourceByRequest _ =
     \<lparr>rr_requestType = REQUEST_TYPE_NAMING, rr_namespace = [], rr_group = [], rr_resource = []\<rparr>"

section \<open>Signatures\<close>

record crypto =
  hmac_sha1 :: "string \<Rightarrow> string \<Rightarrow> string"
  hmac_sha256 :: "string \<Rightarrow> string \<Rightarrow> string"
  base64 :: "string \<Rightarrow> string"

text \<open>The first argument of a hash is the key. A write to an HMAC never returns an error.\<close>

definition signWithHmacSha1Encrypt :: "crypto \<Rightarrow> string \<Rightarrow> string \<Rightarrow> string" where
  "signWithHmacSha1Encrypt cr encryptText encryptKey = base64 cr (hmac_sha1 cr encryptKey encryptText)"

definition sign_bytes :: "crypto \<Rightarrow> string \<Rightarrow> string \<Rightarrow> string result" where
  "sign_bytes cr data key = Inr (hmac_sha1 cr key data)"

definition Sign :: "crypto \<Rightarrow> string \<Rightarrow> string \<Rightarrow> string result" where
  "Sign cr data key =
     (case sign_bytes cr data key of
        Inl err \<Rightarrow> Inl (Wrapped ''unable to calculate a request signature'' err)
      | Inr signature \<Rightarrow> Inr (base64 cr signature))"

definition firstSigningKey :: "crypto \<Rightarrow> string \<Rightarrow> string \<Rightarrow> string result" where
  "firstSigningKey cr secret date = Inr (hmac_sha256 cr (''aliyun_v4'' @ secret) date)"

definition regionSigningKey :: "crypto \<Rightarrow> string \<Rightarrow> string \<Rightarrow> string \<Rightarrow> string result" where
  "regionSigningKey cr secret date region =
     (case firstSigningKey cr secret date of
        Inl err \<Rightarrow> Inl err
      | Inr firstSignkey \<Rightarrow> Inr (hmac_sha256 cr firstSignkey region))"

definition finalSigningKey :: "crypto \<Rightarrow> string \<Rightarrow> string \<Rightarrow> string \<Rightarrow> string \<Rightarrow> string result" where
  "finalSigningKey cr secret date region productCode =
     (case regionSigningKey cr secret date region of
        Inl err \<Rightarrow> Inl err
      | Inr secondSignkey \<Rightarrow>
          Inr (hmac_sha256 cr (hmac_sha256 cr secondSignkey productCode) ''aliyun_v4_request''))"

definition finalSigningKeyString :: "crypto \<Rightarrow> string \<Rightarrow> string \<Rightarrow> string \<Rightarrow> string \<Rightarrow> string result" where
  "finalSigningKeyString cr secret date region productCode =
     (case finalSigningKey cr secret date region productCode of
        Inl err \<Rightarrow> Inl err
      | Inr finalKey \<Rightarrow> Inr (base64 cr finalKey))"

definition finalSigningKeyStringWithDefaultInfo ::
  "crypto \<Rightarrow> string \<Rightarrow> string \<Rightarrow> string \<Rightarrow> string result" where
  "finalSigningKeyStringWithDefaultInfo cr date secret region =
     finalSigningKeyString cr secret date region ''mse''"

section \<open>Injection of signatures\<close>

record RamContext =
  rx_SignatureRegionId :: string
  rx_AccessKey :: string
  rx_SecretKey :: string
  rx_SecurityToken :: string
  rx_EphemeralAccessKeyId :: bool

definition zero_RamContext :: RamContext where
  "zero_RamContext = \<lparr>rx_SignatureRegionId = [], rx_AccessKey = [], rx_SecretKey = [],
     rx_SecurityToken = [], rx_EphemeralAccessKeyId = False\<rparr>"

definition trySignatureWithV4 :: "crypto \<Rightarrow> string \<Rightarrow> RamContext \<Rightarrow> params \<Rightarrow> string \<times> params" where
  "trySignatureWithV4 cr date ramContext param =
     (if rx_SignatureRegionId ramContext = [] then (rx_SecretKey ramContext, param)
      else case finalSigningKeyStringWithDefaultInfo cr date (rx_SecretKey ramContext)
                  (rx_SignatureRegionId ramContext) of
             Inl err \<Rightarrow> (rx_SecretKey ramContext, param)
           | Inr signatureV4 \<Rightarrow> (signatureV4, AList.update ''signatureVersion'' ''v4'' param))"

definition getGroupedServiceName :: "RequestResource \<Rightarrow> string" where
  "getGroupedServiceName resource =
     (if contains_str (rr_resource resource) SERVICE_INFO_SPLITER \<or> rr_group resource = []
      then rr_resource resource
      else rr_group resource @ SERVICE_INFO_SPLITER @ rr_resource resource)"

definition getSignData :: "int \<Rightarrow> string \<Rightarrow> string" where
  "getSignData ms serviceName =
     (if serviceName \<noteq> [] then itoa ms @ SERVICE_INFO_SPLITER @ serviceName else itoa ms)"

definition naming_calculateSignature ::
  "crypto \<Rightarrow> int \<Rightarrow> RequestResource \<Rightarrow> string \<Rightarrow> params" where
  "naming_calculateSignature cr ms resource secretKey =
     (let signData = getSignData ms (getGroupedServiceName resource)
      in case Sign cr signData secretKey of
           Inl err \<Rightarrow> []
         | Inr signature \<Rightarrow> AList.update ''data'' signData (AList.update ''signature'' signature []))"

definition inject_common ::
  "string \<Rightarrow> crypto \<Rightarrow> string \<Rightarrow> RamContext \<Rightarrow> params \<Rightarrow> string \<times> params" where
  "inject_common akField cr date ramContext param =
     (let p1 = AList.update akField (rx_AccessKey ramContext) param;
          p2 = (if rx_EphemeralAccessKeyId ramContext
                then AList.update ''Spas-SecurityToken'' (rx_SecurityToken ramContext) p1 else p1)
      in trySignatureWithV4 cr date ramContext p2)"

definition naming_doInject ::
  "crypto \<Rightarrow> string \<Rightarrow> int \<Rightarrow> RequestResource \<Rightarrow> RamContext \<Rightarrow> params \<Rightarrow> params" where
  "naming_doInject cr date ms resource ramContext param =
     (let (secretKey, p) = inject_common ''ak'' cr date ramContext param
      in put_all p (naming_calculateSignature cr ms resource secretKey))"

definition getResourceName :: "RequestResource \<Rightarrow> string" where
  "getResourceName resource =
     (if rr_namespace resource \<noteq> [] then rr_namespace resource @ ''+'' @ rr_group resource
      else rr_group resource)"

definition getSignHeaders :: "crypto \<Rightarrow> int \<Rightarrow> string \<Rightarrow> string \<Rightarrow> params" where
  "getSignHeaders cr ms resource secretKey =
     (let timeStamp = itoa ms;
          header = AList.update ''Timestamp'' timeStamp []
      in if secretKey \<noteq> []
         then AList.update ''Spas-Signature''
                (if trim_space resource = [] then signWithHmacSha1Encrypt cr timeStamp secretKey
                 else signWithHmacSha1Encrypt cr (resource @ ''+'' @ timeStamp) secretKey) header
         else header)"

definition config_calculateSignature :: "crypto \<Rightarrow> int \<Rightarrow> RequestResource \<Rightarrow> string \<Rightarrow> params" where
  "config_calculateSignature cr ms resource secretKey =
     put_all [] (getSignHeaders cr ms (getResourceName resource) secretKey)"

definition config_doInject ::
  "crypto \<Rightarrow> string \<Rightarrow> int \<Rightarrow> RequestResource \<Rightarrow> RamContext \<Rightarrow> params \<Rightarrow> params" where
  "config_doInject cr date ms resource ramContext param =
     (let (secretKey, p) = inject_common ''Spas-AccessKey'' cr date ramContext param
      in put_all p (config_calculateSignature cr ms resource secretKey))"

section \<open>Credential providers\<close>

definition GetNacosProperties :: "(string \<Rightarrow> string) \<Rightarrow> string \<Rightarrow> string \<Rightarrow> string" where
  "GetNacosProperties getenv prop envKey = (if prop \<noteq> [] then prop else getenv envKey)"

definition ENV_PREFIX :: string where "ENV_PREFIX = ''ALIBABA_CLOUD_''"

definition acs_accessKey :: "(string \<Rightarrow> string) \<Rightarrow> ClientConfig \<Rightarrow> string" where
  "acs_accessKey getenv cfg = GetNacosProperties getenv (cl_AccessKey cfg) (ENV_PREFIX @ ''ACCESS_KEY_ID'')"

definition acs_secretKey :: "(string \<Rightarrow> string) \<Rightarrow> ClientConfig \<Rightarrow> string" where
  "acs_secretKey getenv cfg =
     GetNacosProperties getenv (cl_SecretKey cfg) (ENV_PREFIX @ ''ACCESS_KEY_SECRET'')"

definition acs_region :: "(string \<Rightarrow> string) \<Rightarrow> RamConfig \<Rightarrow> string" where
  "acs_region getenv ram =
     GetNacosProperties getenv (ram_SignatureRegionId ram) (ENV_PREFIX @ ''SIGNATURE_REGION_ID'')"

definition acs_roleArn :: "(string \<Rightarrow> string) \<Rightarrow> RamConfig \<Rightarrow> string" where
  "acs_roleArn getenv ram = GetNacosProperties getenv (ram_RoleArn ram) (ENV_PREFIX @ ''ROLE_ARN'')"

definition acs_roleSessionName :: "(string \<Rightarrow> string) \<Rightarrow> RamConfig \<Rightarrow> string" where
  "acs_roleSessionName getenv ram =
     GetNacosProperties getenv (ram_RoleSessionName ram) (ENV_PREFIX @ ''ROLE_SESSION_NAME'')"

definition acs_oidcArn :: "(string \<Rightarrow> string) \<Rightarrow> RamConfig \<Rightarrow> string" where
  "acs_oidcArn getenv ram =
     GetNacosProperties getenv (ram_OIDCProviderArn ram) (ENV_PREFIX @ ''OIDC_PROVIDER_ARN'')"

definition acs_oidcFile :: "(string \<Rightarrow> string) \<Rightarrow> RamConfig \<Rightarrow> string" where
  "acs_oidcFile getenv ram =
     GetNacosProperties getenv (ram_OIDCTokenFilePath ram) (ENV_PREFIX @ ''OIDC_TOKEN_FILE'')"

definition acs_roleName :: "(string \<Rightarrow> string) \<Rightarrow> RamConfig \<Rightarrow> string" where
  "acs_roleName getenv ram = GetNacosProperties getenv (ram_RamRoleName ram) (ENV_PREFIX @ ''RAM_ROLE_NAME'')"

definition acs_uri :: "(string \<Rightarrow> string) \<Rightarrow> RamConfig \<Rightarrow> string" where
  "acs_uri getenv ram =
     GetNacosProperties getenv (ram_CredentialsURI ram) (ENV_PREFIX @ ''CREDENTIALS_URI'')"

definition acs_secretName :: "(string \<Rightarrow> string) \<Rightarrow> RamConfig \<Rightarrow> string" where
  "acs_secretName getenv ram = GetNacosProperties getenv (ram_SecretName ram) (ENV_PREFIX @ ''SECRET_NAME'')"

definition acs_token :: "(string \<Rightarrow> string) \<Rightarrow> RamConfig \<Rightarrow> string" where
  "acs_token getenv ram =
     GetNacosProperties getenv (ram_SecurityToken ram) (ENV_PREFIX @ ''SECURITY_TOKEN'')"

definition acs_policy :: "(string \<Rightarrow> string) \<Rightarrow> RamConfig \<Rightarrow> string" where
  "acs_policy getenv ram = GetNacosProperties getenv (ram_Policy ram) (ENV_PREFIX @ ''POLICY'')"

datatype provider_kind =
    RamRoleArn | EcsRamRole | OIDCRoleArn | CredentialsURI | AutoRotate | StsToken | AccessKey | Custom

text \<open>\<open>MatchProvider\<close> of every provider, and the call through the interface.\<close>

definition accessKey_Match :: "(string \<Rightarrow> string) \<Rightarrow> ClientConfig \<Rightarrow> bool" where
  [simp]: "accessKey_Match getenv cfg \<longleftrightarrow>
     acs_accessKey getenv cfg \<noteq> [] \<and> acs_secretKey getenv cfg \<noteq> []"

definition autoRotate_Match :: "(string \<Rightarrow> string) \<Rightarrow> ClientConfig \<Rightarrow> bool" where
  [simp]: "autoRotate_Match getenv cfg \<longleftrightarrow>
     (case cl_RamConfig cfg of None \<Rightarrow> False | Some ram \<Rightarrow> acs_secretName getenv ram \<noteq> [])"

definition stsToken_Match :: "(string \<Rightarrow> string) \<Rightarrow> ClientConfig \<Rightarrow> bool" where
  [simp]: "stsToken_Match getenv cfg \<longleftrightarrow>
     (case cl_RamConfig cfg of
        None \<Rightarrow> False
      | Some ram \<Rightarrow> acs_accessKey getenv cfg \<noteq> [] \<and> acs_secretKey getenv cfg \<noteq> [] \<and> acs_token getenv ram \<noteq> [])"

definition ecsRamRole_Match :: "(string \<Rightarrow> string) \<Rightarrow> ClientConfig \<Rightarrow> bool" where
  [simp]: "ecsRamRole_Match getenv cfg \<longleftrightarrow>
     (case cl_RamConfig cfg of None \<Rightarrow> False | Some ram \<Rightarrow> acs_roleName getenv ram \<noteq> [])"

definition ramRoleArn_Match :: "(string \<Rightarrow> string) \<Rightarrow> ClientConfig \<Rightarrow> bool" where
  [simp]: "ramRoleArn_Match getenv cfg \<longleftrightarrow>
     (case cl_RamConfig cfg of
        None \<Rightarrow> False
      | Some ram \<Rightarrow> acs_accessKey getenv cfg = [] \<and> acs_secretKey getenv cfg = [] \<and>
          acs_roleArn getenv ram \<noteq> [] \<and> acs_roleSessionName getenv ram \<noteq> [] \<and> acs_oidcArn getenv ram = [])"

definition oidcRoleArn_Match :: "(string \<Rightarrow> string) \<Rightarrow> ClientConfig \<Rightarrow> bool" where
  [simp]: "oidcRoleArn_Match getenv cfg \<longleftrightarrow>
     (case cl_RamConfig cfg of
        None \<Rightarrow> False
      | Some ram \<Rightarrow> acs_roleArn getenv ram \<noteq> [] \<and> acs_roleSessionName getenv ram \<noteq> [] \<and>
          acs_oidcArn getenv ram \<noteq> [] \<and> acs_oidcFile getenv ram \<noteq> [])"

definition credentialsURI_Match :: "(string \<Rightarrow> string) \<Rightarrow> ClientConfig \<Rightarrow> bool" where
  [simp]: "credentialsURI_Match getenv cfg \<longleftrightarrow>
     (case cl_RamConfig cfg of None \<Rightarrow> False | Some ram \<Rightarrow> acs_uri getenv ram \<noteq> [])"

fun MatchProvider :: "(string \<Rightarrow> string) \<Rightarrow> bool \<Rightarrow> ClientConfig \<Rightarrow> provider_kind \<Rightarrow> bool" where
  "MatchProvider getenv custom cfg AccessKey = accessKey_Match getenv cfg"
| "MatchProvider getenv custom cfg AutoRotate = autoRotate_Match getenv cfg"
| "MatchProvider getenv custom cfg StsToken = stsToken_Match getenv cfg"
| "MatchProvider getenv custom cfg EcsRamRole = ecsRamRole_Match getenv cfg"
| "MatchProvider getenv custom cfg RamRoleArn = ramRoleArn_Match getenv cfg"
| "MatchProvider getenv custom cfg OIDCRoleArn = oidcRoleArn_Match getenv cfg"
| "MatchProvider getenv custom cfg CredentialsURI = credentialsURI_Match getenv cfg"
| "MatchProvider getenv custom cfg Custom = custom"

text \<open>The settings handed to the credential library.\<close>

record CredConfig =
  cred_type :: string
  cred_accessKeyId :: string
  cred_accessKeySecret :: string
  cred_roleArn :: string
  cred_roleSessionName :: string
  cred_roleName :: string
  cred_oidcArn :: string
  cred_oidcFile :: string
  cred_url :: string
  cred_expiration :: "int option"
  cred_policy :: string

definition zero_CredConfig :: CredConfig where
  "zero_CredConfig = \<lparr>cred_type = [], cred_accessKeyId = [], cred_accessKeySecret = [], cred_roleArn = [],
     cred_roleSessionName = [], cred_roleName = [], cred_oidcArn = [], cred_oidcFile = [], cred_url = [],
     cred_expiration = None, cred_policy = []\<rparr>"

definition with_expiration ::
  "(string \<Rightarrow> string) \<Rightarrow> RamConfig \<Rightarrow> CredConfig \<Rightarrow> CredConfig" where
  "with_expiration getenv ram c =
     (let roleSessionExpiration = GetNacosProperties getenv (itoa (ram_RoleSessionExpiration ram))
            (ENV_PREFIX @ ''ROLE_SESSION_EXPIRATION'')
      in if roleSessionExpiration \<noteq> []
         then (case atoi roleSessionExpiration of
                 (t, None) \<Rightarrow> c\<lparr>cred_expiration := Some (if t = 0 then 3600 else t)\<rparr>
               | (_, Some _) \<Rightarrow> c)
         else c)"

definition with_policy :: "(string \<Rightarrow> string) \<Rightarrow> RamConfig \<Rightarrow> CredConfig \<Rightarrow> CredConfig" where
  "with_policy getenv ram c =
     (if acs_policy getenv ram \<noteq> [] then c\<lparr>cred_policy := acs_policy getenv ram\<rparr> else c)"

fun provider_config :: "(string \<Rightarrow> string) \<Rightarrow> ClientConfig \<Rightarrow> RamConfig \<Rightarrow> provider_kind \<Rightarrow> CredConfig" where
  "provider_config getenv cfg ram RamRoleArn =
     with_policy getenv ram (with_expiration getenv ram
       (zero_CredConfig\<lparr>cred_type := ''ram_role_arn'', cred_accessKeyId := acs_accessKey getenv cfg,
          cred_accessKeySecret := acs_secretKey getenv cfg, cred_roleArn := acs_roleArn getenv ram,
          cred_roleSessionName := acs_roleSessionName getenv ram\<rparr>))"
| "provider_config getenv cfg ram OIDCRoleArn =
     with_policy getenv ram (with_expiration getenv ram
       (zero_CredConfig\<lparr>cred_type := ''oidc_role_arn'', cred_roleArn := acs_roleArn getenv ram,
          cred_roleSessionName := acs_roleSessionName getenv ram, cred_oidcArn := acs_oidcArn getenv ram,
          cred_oidcFile := acs_oidcFile getenv ram\<rparr>))"
| "provider_config getenv cfg ram EcsRamRole =
     zero_CredConfig\<lparr>cred_type := ''ecs_ram_role'', cred_roleName := acs_roleName getenv ram\<rparr>"
| "provider_config getenv cfg ram CredentialsURI =
     zero_CredConfig\<lparr>cred_type := ''credentials_uri'', cred_url := acs_uri getenv ram\<rparr>"
| "provider_config getenv cfg ram _ = zero_CredConfig"

text \<open>What a provider holds after \<open>Init\<close>.\<close>

datatype 'c provider_state =
    NotInitialised
  | KeyPair string string string
  | TokenTriple string string string string
  | WithClient 'c string
  | WithSecret string string

text \<open>
  The library: a client for a configuration or an error, the credential a client returns now
  (\<open>None\<close> on error), the secret of a name in the secret manager, and the outcome of initialising a
  provider that the caller passed in.
\<close>

record 'c cred_lib =
  lib_new :: "CredConfig \<Rightarrow> 'c result"
  lib_get :: "'c \<Rightarrow> (string \<times> string \<times> string) option"
  lib_secrets :: "unit result"
  lib_secret :: "string \<Rightarrow> params option"
  lib_custom :: "'c provider_state result"

text \<open>\<open>Init\<close> runs only on a provider that matched, so the RAM configuration is there.\<close>

definition accessKey_Init :: "(string \<Rightarrow> string) \<Rightarrow> 'c cred_lib \<Rightarrow> ClientConfig \<Rightarrow> 'c provider_state result" where
  [simp]: "accessKey_Init getenv lib cfg =
     Inr (KeyPair (acs_accessKey getenv cfg) (acs_secretKey getenv cfg)
            (case cl_RamConfig cfg of Some ram \<Rightarrow> acs_region getenv ram | None \<Rightarrow> []))"

definition stsToken_Init :: "(string \<Rightarrow> string) \<Rightarrow> 'c cred_lib \<Rightarrow> ClientConfig \<Rightarrow> 'c provider_state result" where
  [simp]: "stsToken_Init getenv lib cfg =
     (case cl_RamConfig cfg of
        None \<Rightarrow> Inr NotInitialised
      | Some ram \<Rightarrow> Inr (TokenTriple (acs_accessKey getenv cfg) (acs_secretKey getenv cfg)
                          (acs_token getenv ram) (acs_region getenv ram)))"

definition autoRotate_Init :: "(string \<Rightarrow> string) \<Rightarrow> 'c cred_lib \<Rightarrow> ClientConfig \<Rightarrow> 'c provider_state result" where
  [simp]: "autoRotate_Init getenv lib cfg =
     (case cl_RamConfig cfg of
        None \<Rightarrow> Inr NotInitialised
      | Some ram \<Rightarrow>
          (case lib_secrets lib of
             Inl err \<Rightarrow> Inl err
           | Inr _ \<Rightarrow> Inr (WithSecret (acs_secretName getenv ram) (acs_region getenv ram))))"

text \<open>The providers that hold a client of the credential library.\<close>

definition client_Init :: "provider_kind \<Rightarrow> (string \<Rightarrow> string) \<Rightarrow> 'c cred_lib \<Rightarrow> ClientConfig \<Rightarrow> 'c provider_state result" where
  [simp]: "client_Init kind getenv lib cfg =
     (case cl_RamConfig cfg of
        None \<Rightarrow> Inr NotInitialised
      | Some ram \<Rightarrow>
          (case lib_new lib (provider_config getenv cfg ram kind) of
             Inl err \<Rightarrow> Inl err
           | Inr c \<Rightarrow> Inr (WithClient c (acs_region getenv ram))))"

definition ecsRamRole_Init :: "(string \<Rightarrow> string) \<Rightarrow> 'c cred_lib \<Rightarrow> ClientConfig \<Rightarrow> 'c provider_state result" where [simp]: "ecsRamRole_Init = client_Init EcsRamRole"
definition ramRoleArn_Init :: "(string \<Rightarrow> string) \<Rightarrow> 'c cred_lib \<Rightarrow> ClientConfig \<Rightarrow> 'c provider_state result" where [simp]: "ramRoleArn_Init = client_Init RamRoleArn"
definition oidcRoleArn_Init :: "(string \<Rightarrow> string) \<Rightarrow> 'c cred_lib \<Rightarrow> ClientConfig \<Rightarrow> 'c provider_state result" where [simp]: "oidcRoleArn_Init = client_Init OIDCRoleArn"
definition credentialsURI_Init :: "(string \<Rightarrow> string) \<Rightarrow> 'c cred_lib \<Rightarrow> ClientConfig \<Rightarrow> 'c provider_state result" where [simp]: "credentialsURI_Init = client_Init CredentialsURI"

fun Init :: "(string \<Rightarrow> string) \<Rightarrow> 'c cred_lib \<Rightarrow> ClientConfig \<Rightarrow> provider_kind \<Rightarrow> 'c provider_state result" where
  "Init getenv lib cfg AccessKey = accessKey_Init getenv lib cfg"
| "Init getenv lib cfg StsToken = stsToken_Init getenv lib cfg"
| "Init getenv lib cfg AutoRotate = autoRotate_Init getenv lib cfg"
| "Init getenv lib cfg EcsRamRole = ecsRamRole_Init getenv lib cfg"
| "Init getenv lib cfg RamRoleArn = ramRoleArn_Init getenv lib cfg"
| "Init getenv lib cfg OIDCRoleArn = oidcRoleArn_Init getenv lib cfg"
| "Init getenv lib cfg CredentialsURI = credentialsURI_Init getenv lib cfg"
| "Init getenv lib cfg Custom = lib_custom lib"

definition accessKey_GetCredentials :: "string \<Rightarrow> string \<Rightarrow> string \<Rightarrow> RamContext" where
  [simp]: "accessKey_GetCredentials ak sk region =
     zero_RamContext\<lparr>rx_AccessKey := ak, rx_SecretKey := sk, rx_SignatureRegionId := region\<rparr>"

definition stsToken_GetCredentials :: "string \<Rightarrow> string \<Rightarrow> string \<Rightarrow> string \<Rightarrow> RamContext" where
  [simp]: "stsToken_GetCredentials ak sk token region =
     \<lparr>rx_SignatureRegionId = region, rx_AccessKey = ak, rx_SecretKey = sk, rx_SecurityToken = token,
      rx_EphemeralAccessKeyId = True\<rparr>"

definition client_GetCredentials :: "'c cred_lib \<Rightarrow> 'c \<Rightarrow> string \<Rightarrow> RamContext" where
  [simp]: "client_GetCredentials lib c region =
     (case lib_get lib c of
        None \<Rightarrow> zero_RamContext
      | Some (ak, sk, token) \<Rightarrow>
          \<lparr>rx_SignatureRegionId = region, rx_AccessKey = ak, rx_SecretKey = sk, rx_SecurityToken = token,
           rx_EphemeralAccessKeyId = True\<rparr>)"

definition autoRotate_GetCredentials :: "'c cred_lib \<Rightarrow> string \<Rightarrow> string \<Rightarrow> RamContext" where
  [simp]: "autoRotate_GetCredentials lib secretName region =
     (if secretName = [] then zero_RamContext
      else case lib_secret lib secretName of
             None \<Rightarrow> zero_RamContext
           | Some m \<Rightarrow>
               zero_RamContext\<lparr>rx_AccessKey := get_or_empty m ''AccessKeyId'',
                 rx_SecretKey := get_or_empty m ''AccessKeySecret'', rx_SignatureRegionId := region\<rparr>)"

fun GetCredentialsForNacosClient :: "'c cred_lib \<Rightarrow> 'c provider_state \<Rightarrow> RamContext" where
  "GetCredentialsForNacosClient lib NotInitialised = zero_RamContext"
| "GetCredentialsForNacosClient lib (KeyPair ak sk region) = accessKey_GetCredentials ak sk region"
| "GetCredentialsForNacosClient lib (TokenTriple ak sk token region) = stsToken_GetCredentials ak sk token region"
| "GetCredentialsForNacosClient lib (WithClient c region) = client_GetCredentials lib c region"
| "GetCredentialsForNacosClient lib (WithSecret secretName region) = autoRotate_GetCredentials lib secretName region"

text \<open>
  The provider for the role of another account matches only without an access key, and asks the library for credentials
  with that key: the request to assume the role is made with empty keys.
\<close>

lemma ram_role_arn_without_keys:
  assumes "MatchProvider getenv custom cfg RamRoleArn" and "cl_RamConfig cfg = Some ram"
  shows "cred_accessKeyId (provider_config getenv cfg ram RamRoleArn) = [] \<and>
    cred_accessKeySecret (provider_config getenv cfg ram RamRoleArn) = []"
  using assms by (simp add: with_policy_def with_expiration_def zero_CredConfig_def Let_def split: prod.split option.split)

section \<open>The RAM client\<close>

record 'c RamAuthClient =
  ra_clientConfig :: ClientConfig
  ra_providers :: "provider_kind list"
  ra_matched :: "(provider_kind \<times> 'c provider_state) option"

definition NewRamAuthClient :: "ClientConfig \<Rightarrow> 'c RamAuthClient" where
  "NewRamAuthClient cfg =
     \<lparr>ra_clientConfig = cfg,
      ra_providers = [RamRoleArn, EcsRamRole, OIDCRoleArn, CredentialsURI, AutoRotate, StsToken, AccessKey],
      ra_matched = None\<rparr>"

definition NewRamAuthClientWithProvider :: "ClientConfig \<Rightarrow> bool \<Rightarrow> 'c RamAuthClient" where
  "NewRamAuthClientWithProvider cfg hasProvider =
     (let c = NewRamAuthClient cfg
      in if hasProvider then c\<lparr>ra_providers := ra_providers c @ [Custom]\<rparr> else c)"

text \<open>
  \<open>Login\<close> takes the first provider that matches; a provider that is matched again is initialised
  again and keeps what it held when that fails.
\<close>

definition ram_Login ::
  "(string \<Rightarrow> string) \<Rightarrow> bool \<Rightarrow> 'c cred_lib \<Rightarrow> 'c RamAuthClient \<Rightarrow> 'c RamAuthClient \<times> bool \<times> go_error option" where
  "ram_Login getenv custom lib rac =
     (let matched = (case find (MatchProvider getenv custom (ra_clientConfig rac)) (ra_providers rac) of
                       None \<Rightarrow> ra_matched rac
                     | Some k \<Rightarrow> (case ra_matched rac of
                                    None \<Rightarrow> Some (k, NotInitialised)
                                  | Some (k', st) \<Rightarrow> if k' = k then Some (k', st) else Some (k, NotInitialised)))
      in case matched of
           None \<Rightarrow> (rac, False, None)
         | Some (k, st) \<Rightarrow>
             (case Init getenv lib (ra_clientConfig rac) k of
                Inl err \<Rightarrow> (rac\<lparr>ra_matched := Some (k, st)\<rparr>, False, Some err)
              | Inr st' \<Rightarrow> (rac\<lparr>ra_matched := Some (k, st')\<rparr>, True, None)))"

definition ram_GetSecurityInfo ::
  "crypto \<Rightarrow> string \<Rightarrow> int \<Rightarrow> 'c cred_lib \<Rightarrow> 'c RamAuthClient \<Rightarrow> RequestResource \<Rightarrow> params outcome" where
  "ram_GetSecurityInfo cr date ms lib rac resource =
     (case ra_matched rac of
        None \<Rightarrow> Ret []
      | Some (k, st) \<Rightarrow>
          let ramContext = GetCredentialsForNacosClient lib st
          in if rr_requestType resource = REQUEST_TYPE_NAMING
             then Ret (naming_doInject cr date ms resource ramContext [])
             else if rr_requestType resource = REQUEST_TYPE_CONFIG
             then Ret (config_doInject cr date ms resource ramContext [])
             else Panic ''nil pointer dereference'')"

end
