(* ===== verification/Auth_Client.thy ===== *)
theory Auth_Client
  imports Security
begin

text \<open>
  \<open>common/security/nacos_auth_client.go\<close> and \<open>SecurityProxy\<close> of \<open>security_proxy.go\<close>.

  \<open>post\<close> is the HTTP agent (the error, or the status code and the body), \<open>decode\<close> the decoding of a
  JSON object. A login reads the clock twice: before the request and after it.
\<close>

section \<open>The user name and password client\<close>

datatype jval = JStr string | JNum rat | JNull | JOther

record NacosAuthClient =
  na_username :: string
  na_password :: string
  na_accessToken :: "jval option"
  na_tokenTtl :: int
  na_lastRefreshTime :: int
  na_tokenRefreshWindow :: int
  na_timeoutMs :: u64
  na_serverCfgs :: "ServerConfig list"

definition NewNacosAuthClient :: "ClientConfig \<Rightarrow> ServerConfig list \<Rightarrow> NacosAuthClient" where
  "NewNacosAuthClient cfg servers =
     \<lparr>na_username = cl_Username cfg, na_password = cl_Password cfg, na_accessToken = None,
      na_tokenTtl = 0, na_lastRefreshTime = 0, na_tokenRefreshWindow = 0,
      na_timeoutMs = cl_TimeoutMs cfg, na_serverCfgs = servers\<rparr>"

text \<open>A value loaded from the atomic that is not a string fails the type assertion.\<close>

definition GetAccessToken :: "NacosAuthClient \<Rightarrow> string outcome" where
  "GetAccessToken ac =
     (case na_accessToken ac of
        None \<Rightarrow> Ret []
      | Some (JStr s) \<Rightarrow> Ret s
      | Some _ \<Rightarrow> Panic ''interface conversion'')"

definition na_GetSecurityInfo :: "NacosAuthClient \<Rightarrow> params outcome" where
  "na_GetSecurityInfo ac =
     (case na_accessToken ac of
        None \<Rightarrow> Ret []
      | Some (JStr s) \<Rightarrow> Ret (AList.update KEY_ACCESS_TOKEN s [])
      | Some _ \<Rightarrow> Panic ''interface conversion'')"

definition na_UpdateServerList :: "ServerConfig list \<Rightarrow> NacosAuthClient \<Rightarrow> NacosAuthClient" where
  "na_UpdateServerList servers ac = ac\<lparr>na_serverCfgs := servers\<rparr>"

text \<open>\<open>atomic.Value.Store\<close> refuses \<open>nil\<close> and a value of another type than the one stored.\<close>

fun same_type :: "jval \<Rightarrow> jval \<Rightarrow> bool" where
  "same_type (JStr _) (JStr _) = True"
| "same_type (JNum _) (JNum _) = True"
| "same_type JOther JOther = True"
| "same_type _ _ = False"

definition store_token :: "jval \<Rightarrow> NacosAuthClient \<Rightarrow> NacosAuthClient outcome" where
  "store_token val ac =
     (if val = JNull then Panic ''store of nil value into Value''
      else case na_accessToken ac of
             None \<Rightarrow> Ret (ac\<lparr>na_accessToken := Some val\<rparr>)
           | Some old \<Rightarrow>
               if same_type old val then Ret (ac\<lparr>na_accessToken := Some val\<rparr>)
               else Panic ''store of inconsistently typed value into Value'')"

definition login_path :: "string \<Rightarrow> string" where
  "login_path contextPath =
     (let p1 = (if \<not> has_prefix contextPath ''/'' then ''/'' @ contextPath else contextPath)
      in if has_suffix p1 ''/'' then take (length p1 - 1) p1 else p1)"

definition login_url :: "ServerConfig \<Rightarrow> string" where
  "login_url server =
     (if sc_Scheme server = [] then ''http'' else sc_Scheme server) @ ''://'' @ sc_IpAddr server @ '':'' @
     itoa (sint (sc_Port server)) @ login_path (sc_ContextPath server) @ ''/v1/auth/users/login''"

text \<open>Whether the token is still fresh: two refresh windows before it expires.\<close>

definition token_fresh :: "int \<Rightarrow> NacosAuthClient \<Rightarrow> bool" where
  "token_fresh now ac \<longleftrightarrow> na_lastRefreshTime ac > 0 \<and> na_tokenTtl ac > 0 \<and>
     now < na_lastRefreshTime ac + na_tokenTtl ac - 2 * na_tokenRefreshWindow ac"

definition login_reply ::
  "(string \<Rightarrow> (string, jval) gomap result) \<Rightarrow> int \<Rightarrow> NacosAuthClient \<Rightarrow> int \<times> string \<Rightarrow>
   (NacosAuthClient \<times> bool \<times> go_error option) outcome" where
  "login_reply decode now' ac resp =
     (if fst resp \<noteq> RESPONSE_CODE_SUCCESS then Ret (ac, False, Some (Err (snd resp)))
      else case decode (snd resp) of
             Inl err \<Rightarrow> Ret (ac, False, Some err)
           | Inr result \<Rightarrow>
               (case map_of result KEY_ACCESS_TOKEN of
                  None \<Rightarrow> Ret (ac, True, None)
                | Some val \<Rightarrow>
                    (case store_token val ac of
                       Panic e \<Rightarrow> Panic e
                     | Ret ac1 \<Rightarrow>
                         (case map_of result KEY_TOKEN_TTL of
                            Some (JNum n) \<Rightarrow>
                              Ret (ac1\<lparr>na_lastRefreshTime := now', na_tokenTtl := trunc_int n,
                                       na_tokenRefreshWindow := trunc_int (of_int (trunc_int n) / 10)\<rparr>,
                                   True, None)
                          | _ \<Rightarrow> Panic ''interface conversion''))))"

definition na_login ::
  "(string \<Rightarrow> params \<Rightarrow> (int \<times> string) result) \<Rightarrow> (string \<Rightarrow> (string, jval) gomap result) \<Rightarrow> int \<Rightarrow> int \<Rightarrow>
   NacosAuthClient \<Rightarrow> ServerConfig \<Rightarrow> (NacosAuthClient \<times> bool \<times> go_error option) outcome" where
  "na_login post decode now now' ac server =
     (if token_fresh now ac then Ret (ac, True, None)
      else if na_username ac = [] then Ret (ac\<lparr>na_lastRefreshTime := now\<rparr>, True, None)
      else case post (login_url server) [(''username'', na_username ac), (''password'', na_password ac)] of
             Inl err \<Rightarrow> Ret (ac, False, Some err)
           | Inr resp \<Rightarrow> login_reply decode now' ac resp)"

text \<open>The loop of \<open>Login\<close>: the clock readings and the answers may differ from server to server.\<close>

fun na_Login ::
  "(string \<Rightarrow> params \<Rightarrow> (int \<times> string) result) \<Rightarrow> (string \<Rightarrow> (string, jval) gomap result) \<Rightarrow> (nat \<Rightarrow> int \<times> int) \<Rightarrow>
   nat \<Rightarrow> ServerConfig list \<Rightarrow> go_error option \<Rightarrow> NacosAuthClient \<Rightarrow>
   (NacosAuthClient \<times> bool \<times> go_error option) outcome" where
  "na_Login post decode clk i [] throwable ac = Ret (ac, False, throwable)"
| "na_Login post decode clk i (s # ss) throwable ac =
     (case na_login post decode (fst (clk i)) (snd (clk i)) ac s of
        Panic e \<Rightarrow> Panic e
      | Ret (ac', result, err) \<Rightarrow>
          if result then Ret (ac', True, None) else na_Login post decode clk (i + 1) ss err ac')"

text \<open>The pause of \<open>AutoRefresh\<close> before the next login, in seconds.\<close>

definition na_AutoRefresh_first :: "NacosAuthClient \<Rightarrow> int" where
  "na_AutoRefresh_first ac =
     (if na_lastRefreshTime ac > 0 \<and> na_tokenTtl ac > 0 \<and> na_tokenRefreshWindow ac > 0
      then na_tokenTtl ac - na_tokenRefreshWindow ac else 5)"

definition na_AutoRefresh_next :: "NacosAuthClient \<times> bool \<times> go_error option \<Rightarrow> int" where
  "na_AutoRefresh_next r =
     (case r of (ac, ok, err) \<Rightarrow>
        if err \<noteq> None then 5 else na_tokenTtl ac - na_tokenRefreshWindow ac)"

section \<open>The proxy\<close>

record 'c SecurityProxy =
  sp_nacos :: NacosAuthClient
  sp_ram :: "'c RamAuthClient"

definition NewSecurityProxyWithRamCredentialProvider ::
  "ClientConfig \<Rightarrow> ServerConfig list \<Rightarrow> bool \<Rightarrow> 'c SecurityProxy" where
  "NewSecurityProxyWithRamCredentialProvider cfg servers hasProvider =
     \<lparr>sp_nacos = NewNacosAuthClient cfg servers, sp_ram = NewRamAuthClientWithProvider cfg hasProvider\<rparr>"

definition sp_Login ::
  "(string \<Rightarrow> params \<Rightarrow> (int \<times> string) result) \<Rightarrow> (string \<Rightarrow> (string, jval) gomap result) \<Rightarrow> (nat \<Rightarrow> int \<times> int) \<Rightarrow>
   (string \<Rightarrow> string) \<Rightarrow> bool \<Rightarrow> 'c cred_lib \<Rightarrow> 'c SecurityProxy \<Rightarrow> 'c SecurityProxy outcome" where
  "sp_Login post decode clk getenv custom lib sp =
     (case na_Login post decode clk 0 (na_serverCfgs (sp_nacos sp)) None (sp_nacos sp) of
        Panic e \<Rightarrow> Panic e
      | Ret (ac, _, _) \<Rightarrow>
          Ret \<lparr>sp_nacos = ac, sp_ram = fst (ram_Login getenv custom lib (sp_ram sp))\<rparr>)"

definition sp_GetSecurityInfo ::
  "crypto \<Rightarrow> string \<Rightarrow> int \<Rightarrow> 'c cred_lib \<Rightarrow> 'c SecurityProxy \<Rightarrow> RequestResource \<Rightarrow> params outcome" where
  "sp_GetSecurityInfo cr date ms lib sp resource =
     (case na_GetSecurityInfo (sp_nacos sp) of
        Panic e \<Rightarrow> Panic e
      | Ret i1 \<Rightarrow>
          (case ram_GetSecurityInfo cr date ms lib (sp_ram sp) resource of
             Panic e \<Rightarrow> Panic e
           | Ret i2 \<Rightarrow> Ret (put_all (put_all [] i1) i2)))"

definition sp_UpdateServerList :: "ServerConfig list \<Rightarrow> 'c SecurityProxy \<Rightarrow> 'c SecurityProxy" where
  "sp_UpdateServerList servers sp = sp\<lparr>sp_nacos := na_UpdateServerList servers (sp_nacos sp)\<rparr>"

section \<open>Facts\<close>

text \<open>A fresh token is kept, without a request.\<close>

lemma na_Login_fresh:
  "token_fresh (fst (clk i)) ac \<Longrightarrow> na_Login post decode clk i (s # ss) thr ac = Ret (ac, True, None)"
  by (simp add: na_login_def)

lemma window_div: "trunc_int (of_int t / 10) = (if 0 \<le> t then t div 10 else - ((- t) div 10))"
proof (cases "0 \<le> t")
  case True
  then have "trunc_int (of_int t / 10) = \<lfloor>of_int t / (of_int 10 :: rat)\<rfloor>" by (simp add: trunc_int_def)
  also have "\<dots> = t div 10" by (rule floor_divide_of_int_eq)
  finally show ?thesis using True by simp
next
  case False
  then have "trunc_int (of_int t / 10) = \<lceil>of_int t / (of_int 10 :: rat)\<rceil>" by (simp add: trunc_int_def)
  also have "\<dots> = - ((- t) div 10)" by (rule ceiling_divide_eq_div)
  finally show ?thesis using False by simp
qed

text \<open>A reply of the server that carries a token and its time to live.\<close>

definition good_reply :: "(string \<Rightarrow> (string, jval) gomap result) \<Rightarrow> string \<Rightarrow> int \<Rightarrow> string \<Rightarrow> bool" where
  "good_reply decode token ttl body \<longleftrightarrow>
     (\<exists>m. decode body = Inr m \<and> map_of m KEY_ACCESS_TOKEN = Some (JStr token) \<and>
          map_of m KEY_TOKEN_TTL = Some (JNum (of_int ttl)))"

definition token_is_string :: "NacosAuthClient \<Rightarrow> bool" where
  "token_is_string ac \<longleftrightarrow> (\<forall>v. na_accessToken ac = Some v \<longrightarrow> (\<exists>s. v = JStr s))"

lemma trunc_int_of_int [simp]: "trunc_int (of_int n) = n"
  by (simp add: trunc_int_def)

lemma login_reply_good:
  assumes "token_is_string ac" and "good_reply decode token ttl body" and "0 \<le> ttl"
  shows "login_reply decode now' ac (200, body) =
    Ret (ac\<lparr>na_accessToken := Some (JStr token), na_lastRefreshTime := now', na_tokenTtl := ttl,
            na_tokenRefreshWindow := ttl div 10\<rparr>, True, None)"
proof -
  have "store_token (JStr token) ac = Ret (ac\<lparr>na_accessToken := Some (JStr token)\<rparr>)"
    using assms(1) by (auto simp: store_token_def token_is_string_def split: option.split)
  with assms(2,3) show ?thesis
    by (auto simp: login_reply_def good_reply_def RESPONSE_CODE_SUCCESS_def window_div)
qed


definition demo_auth :: NacosAuthClient where
  "demo_auth = \<lparr>na_username = ''nacos'', na_password = ''pw'', na_accessToken = None, na_tokenTtl = 0,
     na_lastRefreshTime = 0, na_tokenRefreshWindow = 0, na_timeoutMs = 1000, na_serverCfgs = []\<rparr>"

definition demo_decode :: "string \<Rightarrow> (string, jval) gomap result" where
  "demo_decode body = Inr [(KEY_ACCESS_TOKEN, JStr ''tok''), (KEY_TOKEN_TTL, JNum 30)]"

definition demo_server :: ServerConfig where
  "demo_server = \<lparr>sc_Scheme = ''http'', sc_ContextPath = ''/nacos'', sc_IpAddr = ''127.0.0.1'',
     sc_Port = 8848, sc_GrpcPort = 9848\<rparr>"


end
