(* ===== verification/Nacos_Server.thy ===== *)
theory Nacos_Server
  imports Auth_Client
begin

text \<open>
  \<open>common/nacos_server/nacos_server.go\<close>: the server list and its refresh from an address server, the
  choice of the next server for a gRPC connection, and the requests to the servers over HTTP.

  \<open>http\<close> is the HTTP agent and \<open>uid\<close> the generator of request identifiers; both thread a state \<open>'w\<close>
  of the outside world. \<open>sec\<close> is \<open>GetSecurityInfo\<close> of the security proxy at the time of the call;
  \<open>r\<close> the value of \<open>rand.Intn\<close>. The signal channel is the number of signals sent to it.
\<close>

section \<open>State\<close>

type_synonym headers = "(string, string list) gomap"
type_synonym 'w http = "string \<Rightarrow> string \<Rightarrow> headers \<Rightarrow> u64 \<Rightarrow> params \<Rightarrow> 'w \<Rightarrow> 'w \<times> (int \<times> string) result"
type_synonym 'w uid = "'w \<Rightarrow> 'w \<times> string result"

record 'c NacosServer =
  ns_securityLogin :: "'c SecurityProxy"
  ns_serverList :: "ServerConfig list option"
  ns_timeoutMs :: u64
  ns_endpoint :: string
  ns_lastSrvRefTime :: int
  ns_vipSrvRefInterMills :: int
  ns_contextPath :: string
  ns_endpointContextPath :: string
  ns_endpointQueryParams :: string
  ns_endpointQueryHeader :: headers
  ns_clusterName :: string
  ns_currentIndex :: i32
  ns_signals :: nat

definition GetServerList :: "'c NacosServer \<Rightarrow> ServerConfig list" where
  "GetServerList server = slice (ns_serverList server)"

section \<open>Addresses and calls\<close>

definition getAddress :: "ServerConfig \<Rightarrow> string" where
  "getAddress cfg =
     (if contains_str (sc_IpAddr cfg) ''http://'' \<or> contains_str (sc_IpAddr cfg) ''https://''
      then sc_IpAddr cfg @ '':'' @ itoa (int_of_u64 (sc_Port cfg))
      else sc_Scheme cfg @ ''://'' @ sc_IpAddr cfg @ '':'' @ itoa (int_of_u64 (sc_Port cfg)))"

definition InjectSecurityInfo ::
  "(RequestResource \<Rightarrow> params outcome) \<Rightarrow> params \<Rightarrow> RequestResource \<Rightarrow> params outcome" where
  "InjectSecurityInfo sec param resource =
     (case sec resource of Panic e \<Rightarrow> Panic e | Ret securityInfo \<Rightarrow> Ret (put_all param securityInfo))"

definition callConfigServer ::
  "'w http \<Rightarrow> 'w uid \<Rightarrow> string \<Rightarrow> params \<Rightarrow> params \<Rightarrow> string \<Rightarrow> string \<Rightarrow> string \<Rightarrow> u64 \<Rightarrow> 'w \<Rightarrow>
   'w \<times> string result" where
  "callConfigServer http uid api params newHeaders method curServer contextPath timeoutMS w =
     (let contextPath = (if contextPath = [] then WEB_CONTEXT else contextPath);
          url = curServer @ contextPath @ api;
          h0 = put_all [] (map (\<lambda>(k, v). (k, [v]))
                 (filter (\<lambda>(k, v). k \<noteq> ''accessKey'' \<and> k \<noteq> ''secretKey'') newHeaders));
          h1 = put_all h0 [(''Client-Version'', [CLIENT_VERSION]), (''User-Agent'', [CLIENT_VERSION]),
                 (''Connection'', [''Keep-Alive'']), (''exConfigInfo'', [''true''])];
          (w1, u) = uid w
      in case u of
           Inl err \<Rightarrow> (w1, Inl err)
         | Inr rid \<Rightarrow>
             let h2 = put_all h1 [(''RequestId'', [rid]),
                        (''Content-Type'', [''application/x-www-form-urlencoded;charset=utf-8''])];
                 (w2, response) = http method url h2 timeoutMS params w1
             in case response of
                  Inl err \<Rightarrow> (w2, Inl err)
                | Inr (statusCode, body) \<Rightarrow>
                    if statusCode = RESPONSE_CODE_SUCCESS then (w2, Inr body)
                    else (w2, Inl (NacosErr (itoa statusCode) body)))"

definition callServer ::
  "'w http \<Rightarrow> 'w uid \<Rightarrow> u64 \<Rightarrow> string \<Rightarrow> params \<Rightarrow> string \<Rightarrow> string \<Rightarrow> string \<Rightarrow> 'w \<Rightarrow> 'w \<times> string result" where
  "callServer http uid timeoutMs api params method curServer contextPath w =
     (let contextPath = (if contextPath = [] then WEB_CONTEXT else contextPath);
          url = curServer @ contextPath @ api;
          h1 = [(''Client-Version'', [CLIENT_VERSION]), (''User-Agent'', [CLIENT_VERSION]),
                (''Connection'', [''Keep-Alive''])];
          (w1, u) = uid w
      in case u of
           Inl err \<Rightarrow> (w1, Inl err)
         | Inr rid \<Rightarrow>
             let h2 = put_all h1 [(''RequestId'', [rid]), (''Request-Module'', [''Naming'']),
                        (''Content-Type'', [''application/x-www-form-urlencoded;charset=utf-8''])];
                 (w2, response) = http method url h2 timeoutMs params w1
             in case response of
                  Inl err \<Rightarrow> (w2, Inl err)
                | Inr (statusCode, body) \<Rightarrow>
                    if statusCode = RESPONSE_CODE_SUCCESS then (w2, Inr body)
                    else (w2, Inl (Err (''request return error code '' @ itoa statusCode))))"

section \<open>Retries\<close>

definition retry_failed :: "go_error \<Rightarrow> go_error" where
  "retry_failed err =
     Wrapped (''retry '' @ itoa (int REQUEST_DOMAIN_RETRY_TIME) @ '' times request failed!'') err"

text \<open>The loop for one server: the same call, \<open>n\<close> times at most.\<close>

fun retry_one :: "('w \<Rightarrow> 'w \<times> string result) \<Rightarrow> nat \<Rightarrow> go_error \<Rightarrow> 'w \<Rightarrow> 'w \<times> string result" where
  "retry_one call 0 err w = (w, Inl (retry_failed err))"
| "retry_one call (Suc n) err w =
     (case call w of
        (w', Inr result) \<Rightarrow> (w', Inr result)
      | (w', Inl err') \<Rightarrow> retry_one call n err' w')"

text \<open>
  The loop for several servers: iteration \<open>i\<close> of \<open>1\<close> to \<open>n\<close> calls the server at \<open>index\<close> and then adds
  \<open>i\<close> to the index.
\<close>

fun rotate_servers ::
  "(ServerConfig \<Rightarrow> 'w \<Rightarrow> 'w \<times> string result) \<Rightarrow> ServerConfig list \<Rightarrow> nat \<Rightarrow> nat \<Rightarrow> nat \<Rightarrow> go_error \<Rightarrow> 'w \<Rightarrow>
   'w \<times> string result" where
  "rotate_servers call srvs index i 0 err w = (w, Inl (retry_failed err))"
| "rotate_servers call srvs index i (Suc left) err w =
     (case call (srvs ! index) w of
        (w', Inr result) \<Rightarrow> (w', Inr result)
      | (w', Inl err') \<Rightarrow>
          rotate_servers call srvs ((index + i) mod length srvs) (i + 1) left err' w')"

definition no_error :: go_error where "no_error = Err []"

definition req_servers ::
  "(ServerConfig \<Rightarrow> 'w \<Rightarrow> 'w \<times> string result) \<Rightarrow> ServerConfig list \<Rightarrow> nat \<Rightarrow> 'w \<Rightarrow> 'w \<times> string result" where
  "req_servers call srvs r w =
     (if length srvs = 1 then retry_one (call (srvs ! 0)) REQUEST_DOMAIN_RETRY_TIME no_error w
      else rotate_servers call srvs r 1 (length srvs) no_error w)"

definition ReqConfigApi ::
  "'w http \<Rightarrow> 'w uid \<Rightarrow> (RequestResource \<Rightarrow> params outcome) \<Rightarrow> nat \<Rightarrow> 'c NacosServer \<Rightarrow> string \<Rightarrow> params \<Rightarrow> params \<Rightarrow>
   string \<Rightarrow> u64 \<Rightarrow> 'w \<Rightarrow> ('w \<times> string result) outcome" where
  "ReqConfigApi http uid sec r server api params headers method timeoutMS w =
     (let srvs = GetServerList server
      in if length srvs = 0 then Ret (w, Inl (Err ''server list is empty''))
         else case InjectSecurityInfo sec params
                     (BuildConfigResource (get_or_empty params ''tenant'') (get_or_empty params ''group'')
                        (get_or_empty params ''dataId'')) of
                Panic e \<Rightarrow> Panic e
              | Ret params' \<Rightarrow>
                  Ret (req_servers (\<lambda>s. callConfigServer http uid api params' headers method (getAddress s)
                                       (sc_ContextPath s) timeoutMS) srvs r w))"

text \<open>The arguments of \<open>BuildNamingResource\<close> are in the order in which \<open>ReqApi\<close> passes them.\<close>

definition naming_api_resource :: "params \<Rightarrow> RequestResource" where
  "naming_api_resource params =
     BuildNamingResource (get_or_empty params ''namespaceId'') (get_or_empty params ''serviceName'')
       (get_or_empty params ''groupName'')"

definition ReqApi ::
  "'w http \<Rightarrow> 'w uid \<Rightarrow> (RequestResource \<Rightarrow> params outcome) \<Rightarrow> nat \<Rightarrow> 'c NacosServer \<Rightarrow> string \<Rightarrow> params \<Rightarrow>
   string \<Rightarrow> 'w \<Rightarrow> ('w \<times> string result) outcome" where
  "ReqApi http uid sec r server api params method w =
     (let srvs = GetServerList server
      in if length srvs = 0 then Ret (w, Inl (Err ''server list is empty''))
         else case InjectSecurityInfo sec params (naming_api_resource params) of
                Panic e \<Rightarrow> Panic e
              | Ret params' \<Rightarrow>
                  Ret (req_servers (\<lambda>s. callServer http uid (ns_timeoutMs server) api params' method
                                       (getAddress s) (sc_ContextPath s)) srvs r w))"

section \<open>The server list\<close>

definition parse_server_line :: "string \<Rightarrow> string \<Rightarrow> ServerConfig option" where
  "parse_server_line contextPath line =
     (if line = [] then None
      else
        let splitLine = split_str (trim_space line) '':'';
            (port, err) = (if length splitLine = 2 then atoi (splitLine ! 1) else (8848, None))
        in if err \<noteq> None then None
           else Some \<lparr>sc_Scheme = DEFAULT_SERVER_SCHEME, sc_ContextPath = contextPath,
                      sc_IpAddr = splitLine ! 0, sc_Port = word_of_int port, sc_GrpcPort = 0\<rparr>)"

definition parse_server_list :: "string \<Rightarrow> string \<Rightarrow> ServerConfig list" where
  "parse_server_list contextPath result =
     collect_some (parse_server_line contextPath) (split_str result [CHR 0x0A])"

text \<open>\<open>result\<close> is the body the address server returned, empty when the request failed.\<close>

definition refreshServerSrvIfNeed :: "int \<Rightarrow> int \<Rightarrow> string \<Rightarrow> 'c NacosServer \<Rightarrow> 'c NacosServer" where
  "refreshServerSrvIfNeed now now' result server =
     (if now - ns_lastSrvRefTime server < ns_vipSrvRefInterMills server \<and> length (GetServerList server) > 0
      then server
      else
        let contextPath = (if length (ns_contextPath server) = 0 then WEB_CONTEXT else ns_contextPath server);
            servers = parse_server_list contextPath result
        in if length servers > 0 \<and> ns_serverList server \<noteq> Some servers
           then server\<lparr>ns_serverList := Some servers,
                       ns_signals := ns_signals server + (if ns_serverList server \<noteq> None then 1 else 0),
                       ns_lastSrvRefTime := now',
                       ns_securityLogin := sp_UpdateServerList servers (ns_securityLogin server)\<rparr>
           else server)"

definition endpoint_url :: "'c NacosServer \<Rightarrow> string" where
  "endpoint_url server =
     (let contextPath = (if length (trim_space (ns_endpointContextPath server)) = 0 then ''nacos''
                         else ns_endpointContextPath server);
          clusterName = (if length (trim_space (ns_clusterName server)) = 0 then ''serverlist''
                         else ns_clusterName server)
      in ''http://'' @ ns_endpoint server @ ''/'' @ trim_space contextPath @ ''/'' @ trim_space clusterName @
         (if length (trim_space (ns_endpointQueryParams server)) \<noteq> 0
          then ''?'' @ ns_endpointQueryParams server else []))"

text \<open>The part of \<open>initRefreshSrvIfNeed\<close> before the loop that repeats the refresh every ten seconds.\<close>

definition initRefreshSrvIfNeed ::
  "int \<Rightarrow> int \<Rightarrow> (string \<Rightarrow> headers \<Rightarrow> string) \<Rightarrow> 'c NacosServer \<Rightarrow> 'c NacosServer" where
  "initRefreshSrvIfNeed now now' fetch server =
     (if ns_endpoint server = [] then server
      else
        let s1 = (if length (trim_space (ns_endpointContextPath server)) = 0
                  then server\<lparr>ns_endpointContextPath := ''nacos''\<rparr> else server);
            s2 = (if length (trim_space (ns_clusterName s1)) = 0
                  then s1\<lparr>ns_clusterName := ''serverlist''\<rparr> else s1)
        in refreshServerSrvIfNeed now now' (fetch (endpoint_url s2) (ns_endpointQueryHeader s2)) s2)"

text \<open>The constructor, up to the first login, which the caller of the model runs next.\<close>

definition NewNacosServerWithRamCredentialProvider ::
  "int \<Rightarrow> int \<Rightarrow> (string \<Rightarrow> headers \<Rightarrow> string) \<Rightarrow> nat \<Rightarrow> ServerConfig list \<Rightarrow> ClientConfig \<Rightarrow> u64 \<Rightarrow> string \<Rightarrow>
   headers \<Rightarrow> bool \<Rightarrow> 'c NacosServer result" where
  "NewNacosServerWithRamCredentialProvider now now' fetch r serverList clientCfg timeoutMs endpoint
     endpointQueryHeader hasProvider =
     (if length serverList = 0 \<and> endpoint = [] then Inl (Err ''both serverlist  and  endpoint are empty'')
      else
        let ns = \<lparr>ns_securityLogin = NewSecurityProxyWithRamCredentialProvider clientCfg serverList hasProvider,
                  ns_serverList = (if serverList = [] then None else Some serverList),
                  ns_timeoutMs = timeoutMs, ns_endpoint = endpoint, ns_lastSrvRefTime = 0,
                  ns_vipSrvRefInterMills = 10000, ns_contextPath = cl_ContextPath clientCfg,
                  ns_endpointContextPath = cl_EndpointContextPath clientCfg,
                  ns_endpointQueryParams = cl_EndpointQueryParams clientCfg,
                  ns_endpointQueryHeader = endpointQueryHeader, ns_clusterName = cl_ClusterName clientCfg,
                  ns_currentIndex = 0, ns_signals = 0\<rparr>
        in if length serverList > 0 then Inr (ns\<lparr>ns_currentIndex := word_of_nat r\<rparr>)
           else Inr (initRefreshSrvIfNeed now now' fetch ns))"

text \<open>
  \<open>GetNextServer\<close>: the counter is a signed 32-bit integer that wraps, the remainder has the sign of
  the counter, and a negative index panics.
\<close>

definition go_rem :: "int \<Rightarrow> int \<Rightarrow> int" where
  "go_rem a b = (if 0 \<le> a then a mod \<bar>b\<bar> else - ((- a) mod \<bar>b\<bar>))"

definition GetNextServer :: "'c NacosServer \<Rightarrow> ('c NacosServer \<times> ServerConfig result) outcome" where
  "GetNextServer server =
     (let serverLen = length (GetServerList server)
      in if serverLen = 0 then Ret (server, Inl (Err ''server is empty''))
         else
           let c = ns_currentIndex server + 1;
               index = go_rem (sint c) (sint (word_of_nat serverLen :: i32))
           in if 0 \<le> index \<and> index < int serverLen
              then Ret (server\<lparr>ns_currentIndex := c\<rparr>, Inr (GetServerList server ! nat index))
              else Panic ''index out of range'')"

section \<open>Which servers a request tries\<close>

text \<open>The offsets the loop adds up are the triangular numbers.\<close>

definition tri :: "nat \<Rightarrow> nat" where
  "tri j = j * (j + 1) div 2"

lemma tri_0 [simp]: "tri 0 = 0"
  by (simp add: tri_def)

lemma tri_Suc [simp]: "tri (Suc j) = tri j + Suc j"
  by (simp add: tri_def algebra_simps)

lemma two_tri: "2 * tri j = j * (j + 1)"
  by (induction j) auto

lemma tri_mono: "i \<le> j \<Longrightarrow> tri i \<le> tri j"
  by (rule lift_Suc_mono_le[of tri]) auto

lemma index_step: "((r + tri i) mod n + Suc i) mod n = (r + tri (Suc i)) mod n"
  using mod_add_left_eq[of "r + tri i" n "Suc i"] by (simp add: add_ac)

text \<open>A request succeeds when one of the servers it tries always answers.\<close>

lemma rotate_servers_live:
  assumes "i \<le> k" and "k < i + left"
    and "\<And>w. \<exists>w' y. call (srvs ! ((r + tri k) mod length srvs)) w = (w', Inr y)"
  shows "\<exists>w' y. rotate_servers call srvs ((r + tri i) mod length srvs) (Suc i) left err w = (w', Inr y)"
  using assms(1,2)
proof (induction left arbitrary: i err w)
  case (Suc left)
  obtain w1 a where c: "call (srvs ! ((r + tri i) mod length srvs)) w = (w1, a)" by fastforce
  show ?case
  proof (cases a)
    case (Inl e)
    with c assms(3)[of w] have "k \<noteq> i" by fastforce
    with Suc.prems have "Suc i \<le> k" "k < Suc i + left" by auto
    from Suc.IH[OF this] c Inl show ?thesis
      by (simp only: rotate_servers.simps index_step) (simp del: tri_Suc)
  qed (use c in simp)
qed simp

text \<open>A request fails when every server it tries fails.\<close>

lemma rotate_servers_dead:
  assumes "\<And>k w. i \<le> k \<Longrightarrow> k < i + left \<Longrightarrow> \<exists>w' e. call (srvs ! ((r + tri k) mod length srvs)) w = (w', Inl e)"
  shows "\<exists>w' e. rotate_servers call srvs ((r + tri i) mod length srvs) (Suc i) left err w = (w', Inl e)"
  using assms
proof (induction left arbitrary: i err w)
  case (Suc left)
  obtain w1 e where c: "call (srvs ! ((r + tri i) mod length srvs)) w = (w1, Inl e)"
    using Suc.prems[of i w] by auto
  have "\<exists>w' e. rotate_servers call srvs ((r + tri (Suc i)) mod length srvs) (Suc (Suc i)) left e0 w0 = (w', Inl e)"
    for e0 w0 by (rule Suc.IH) (use Suc.prems in auto)
  with c show ?case by (simp only: rotate_servers.simps index_step) (simp del: tri_Suc)
qed simp

text \<open>The first \<open>2 ^ m\<close> triangular numbers are different modulo \<open>2 ^ m\<close>.\<close>

lemma tri_inj_pow2:
  assumes "i < j" and "j < 2 ^ m"
  shows "tri i mod 2 ^ m \<noteq> tri j mod 2 ^ m"
proof
  assume "tri i mod 2 ^ m = tri j mod 2 ^ m"
  then have "2 ^ m dvd tri j - tri i"
    using tri_mono[of i j] assms(1) mod_eq_dvd_iff_nat[of "tri i" "tri j" "2 ^ m"] by simp
  then have "2 * 2 ^ m dvd 2 * (tri j - tri i)" by (rule mult_dvd_mono[OF dvd_refl])
  moreover have "2 * (tri j - tri i) = (j - i) * (j + i + 1)"
  proof -
    obtain d where d: "j = i + d" using assms(1) less_imp_add_positive by blast
    have "(i + d) * (i + d + 1) = i * (i + 1) + d * (2 * i + d + 1)" by (simp add: algebra_simps)
    then show ?thesis by (simp add: diff_mult_distrib2 two_tri d)
  qed
  ultimately have dvd: "2 ^ Suc m dvd (j - i) * (j + i + 1)" by simp
  show False
  proof (cases "even (j - i)")
    case True
    then have "odd (j + i + 1)" using assms(1) by auto
    then have "coprime (2 ^ Suc m) (j + i + 1)" by simp
    then have "2 ^ Suc m dvd j - i" using dvd coprime_dvd_mult_left_iff by blast
    then show False using assms by (auto dest!: dvd_imp_le)
  next
    case False
    then have "coprime (2 ^ Suc m) (j - i)" by simp
    then have "2 ^ Suc m dvd j + i + 1" using dvd coprime_dvd_mult_right_iff by blast
    then show False using assms by (auto dest!: dvd_imp_le)
  qed
qed

lemma shift_inj:
  fixes n :: nat
  assumes "0 < n" and "(r + a) mod n = (r + b) mod n"
  shows "a mod n = b mod n"
proof (cases "b \<le> a")
  case True
  then have "n dvd (r + a) - (r + b)"
    using assms(2) mod_eq_dvd_iff_nat[of "r + b" "r + a" n] by simp
  with True show ?thesis using mod_eq_dvd_iff_nat[of b a n] by simp
next
  case False
  then have "n dvd (r + b) - (r + a)"
    using assms(2) mod_eq_dvd_iff_nat[of "r + a" "r + b" n] by simp
  with False show ?thesis using mod_eq_dvd_iff_nat[of a b n] by simp
qed

lemma visits_all_pow2:
  assumes "n = 2 ^ m" and "p < n"
  shows "\<exists>k < n. (r + tri k) mod n = p"
proof -
  have n: "0 < n" using assms(1) by simp
  let ?f = "\<lambda>k. (r + tri k) mod n"
  have "inj_on ?f {..<n}"
  proof (rule linorder_inj_onI)
    show "?f i \<noteq> ?f j" if "i < j" "i \<in> {..<n}" "j \<in> {..<n}" for i j
      using tri_inj_pow2[of i j m] shift_inj[OF n, of r "tri i" "tri j"] that assms(1) by auto
  qed auto
  then have "?f ` {..<n} = {..<n}"
    by (rule endo_inj_surj[rotated 2]) (use n in auto)
  with assms(2) have "p \<in> ?f ` {..<n}" by blast
  then show ?thesis by auto
qed

text \<open>For an odd number of servers the last try repeats the first one.\<close>

lemma visits_miss_odd:
  assumes "odd n" and "2 < n"
  shows "\<exists>p < n. \<forall>k < n. (r + tri k) mod n \<noteq> p"
proof -
  let ?f = "\<lambda>k. (r + tri k) mod n"
  have "2 * tri (n - 1) = n * (n - 1)"
    using assms(2) two_tri[of "n - 1"] by (simp add: mult.commute)
  moreover have "even (n - 1)" using assms by simp
  then obtain q where "n - 1 = 2 * q" by blast
  ultimately have "tri (n - 1) = n * q" by simp
  then have "?f (n - 1) = ?f 0" by simp
  moreover have "n - 1 \<noteq> 0" using assms(2) by simp
  ultimately have "\<not> inj_on ?f {..<n}"
    using assms(2) unfolding inj_on_def
    by (metis One_nat_def diff_less lessThan_iff less_Suc0 not_less_eq zero_less_Suc less_nat_zero_code neq0_conv)
  then have "card (?f ` {..<n}) \<noteq> n" using eq_card_imp_inj_on[of "{..<n}" ?f] by auto
  moreover have "?f ` {..<n} \<subseteq> {..<n}" using assms(2) by auto
  ultimately have "?f ` {..<n} \<noteq> {..<n}" by auto
  with \<open>?f ` {..<n} \<subseteq> {..<n}\<close> show ?thesis by auto
qed

text \<open>
  C6: With \<open>2 ^ m\<close> servers, \<open>m\<close> at least 1, a request reaches every server before it gives up: if one
  server always answers, then the request succeeds, whatever the start and whatever the others do.
\<close>

theorem request_reaches_live_server:
  assumes "length srvs = 2 ^ m" and "0 < m" and "r < length srvs" and "live \<in> set srvs"
    and "\<And>w. \<exists>w' y. call live w = (w', Inr y)"
  shows "\<exists>w' y. req_servers call srvs r w = (w', Inr y)"
proof -
  obtain p where p: "p < length srvs" "srvs ! p = live" using assms(4) by (auto simp: in_set_conv_nth)
  from visits_all_pow2[OF assms(1) p(1)] obtain k
    where k: "k < length srvs" "(r + tri k) mod length srvs = p" by blast
  have "\<exists>w' y. rotate_servers call srvs ((r + tri 0) mod length srvs) (Suc 0) (length srvs) no_error w = (w', Inr y)"
    by (rule rotate_servers_live[of 0 k]) (use k p(2) assms(5) in auto)
  moreover have "length srvs \<noteq> 1" using assms(1,2) by simp
  ultimately show ?thesis using assms(3) by (simp add: req_servers_def)
qed

definition demo_servers :: "nat \<Rightarrow> ServerConfig list" where
  "demo_servers n = map (\<lambda>i. \<lparr>sc_Scheme = ''http'', sc_ContextPath = ''/nacos'', sc_IpAddr = replicate i CHR ''0'' @ ''h'',
     sc_Port = 8848, sc_GrpcPort = 9848\<rparr>) [0..<n]"

definition only_first :: "ServerConfig \<Rightarrow> unit \<Rightarrow> unit \<times> string result" where
  "only_first s w = (w, if sc_IpAddr s = ''h'' then Inr ''ok'' else Inl (Err ''down''))"

theorem request_reaches_live_server_witness:
  "\<exists>y. req_servers only_first (demo_servers 4) 3 () = ((), Inr y)"
proof -
  have "demo_servers 4 ! 0 \<in> set (demo_servers 4)" by (rule nth_mem) (simp add: demo_servers_def)
  from request_reaches_live_server[of "demo_servers 4" 2 3, OF _ _ _ this, of only_first "()"] show ?thesis
    by (simp add: demo_servers_def only_first_def)
qed

text \<open>
  C7: With an odd number of servers, at least three, a request does not reach every server: from every
  start there is a server that is never tried, and the request fails when all the others fail.
\<close>

theorem request_misses_a_server:
  assumes "odd (length srvs)" and "2 < length srvs" and "distinct srvs" and "r < length srvs"
  shows "\<exists>live \<in> set srvs. \<forall>call :: ServerConfig \<Rightarrow> 'w \<Rightarrow> 'w \<times> string result.
     (\<forall>s \<in> set srvs - {live}. \<forall>w. \<exists>w' e. call s w = (w', Inl e)) \<longrightarrow>
     (\<forall>w. \<exists>w' e. req_servers call srvs r w = (w', Inl e))"
proof -
  let ?n = "length srvs"
  obtain p where p: "p < ?n" and miss: "\<And>k. k < ?n \<Longrightarrow> (r + tri k) mod ?n \<noteq> p"
    using visits_miss_odd[OF assms(1,2)] by blast
  have "\<exists>w' e. req_servers call srvs r w = (w', Inl e)"
    if fail: "\<forall>s \<in> set srvs - {srvs ! p}. \<forall>w. \<exists>w' e. call s w = (w', Inl e)"
    for call :: "ServerConfig \<Rightarrow> 'w \<Rightarrow> 'w \<times> string result" and w
  proof -
    have other: "srvs ! ((r + tri k) mod ?n) \<in> set srvs - {srvs ! p}" if "k < ?n" for k
    proof -
      have "(r + tri k) mod ?n < ?n" by (rule mod_less_divisor) (use assms(2) in linarith)
      with miss[OF that] p assms(3) show ?thesis by (simp add: nth_eq_iff_index_eq)
    qed
    have "\<exists>w' e. rotate_servers call srvs ((r + tri 0) mod ?n) (Suc 0) ?n no_error w = (w', Inl e)"
      by (rule rotate_servers_dead) (use other fail in auto)
    with assms(2,4) show ?thesis by (simp add: req_servers_def)
  qed
  with p show ?thesis by (intro bexI[of _ "srvs ! p"]) auto
qed

lemma distinct_demo_servers: "distinct (demo_servers 3)"
  by (simp add: demo_servers_def upt_rec)

theorem request_misses_a_server_witness:
  "\<exists>live \<in> set (demo_servers 3). \<forall>call :: ServerConfig \<Rightarrow> unit \<Rightarrow> unit \<times> string result.
     (\<forall>s \<in> set (demo_servers 3) - {live}. \<forall>w. \<exists>w' e. call s w = (w', Inl e)) \<longrightarrow>
     (\<forall>w. \<exists>w' e. req_servers call (demo_servers 3) 0 w = (w', Inl e))"
  by (rule request_misses_a_server) (simp_all add: distinct_demo_servers, simp_all add: demo_servers_def)

text \<open>
  The resource that \<open>ReqApi\<close> signs has the service and the group in the wrong places. A naming
  request carries the service name with its group as prefix; the name to sign for it is that name, as
  it is when the arguments are in order, but \<open>ReqApi\<close> signs the name with the group added at its end.
\<close>

theorem req_api_signs_wrong_name:
  assumes "map_of params ''serviceName'' = Some (GetGroupName s g)"
    and "map_of params ''groupName'' = Some g" and "no_at g"
  shows "getGroupedServiceName (BuildNamingResource ns g (GetGroupName s g)) = GetGroupName s g \<and>
         getGroupedServiceName (naming_api_resource params) = GetGroupName s g @ ''@@'' @ g"
proof -
  have "\<not> contains_str g ''@@''" using assms(3) by (auto simp: contains_str_iff no_at_def)
  moreover have "contains_str (GetGroupName s g) ''@@''" by (auto simp: contains_str_iff key_defs)
  ultimately show ?thesis using assms(1,2)
    by (simp add: getGroupedServiceName_def naming_api_resource_def BuildNamingResource_def get_or_empty_def
        key_defs)
qed

theorem req_api_signs_wrong_name_witness:
  "getGroupedServiceName (naming_api_resource
     [(''serviceName'', ''DEFAULT_GROUP@@demo''), (''groupName'', ''DEFAULT_GROUP'')]) =
   ''DEFAULT_GROUP@@demo@@DEFAULT_GROUP''"
  using req_api_signs_wrong_name[of "[(''serviceName'', ''DEFAULT_GROUP@@demo''), (''groupName'', ''DEFAULT_GROUP'')]"
      "''demo''" "''DEFAULT_GROUP''"]
  by (simp add: key_defs no_at_def)

section \<open>The next server\<close>

text \<open>The servers that \<open>k\<close> calls of \<open>GetNextServer\<close> return.\<close>

fun next_servers :: "nat \<Rightarrow> 'c NacosServer \<Rightarrow> ServerConfig list outcome" where
  "next_servers 0 server = Ret []"
| "next_servers (Suc k) server =
     (case GetNextServer server of
        Panic e \<Rightarrow> Panic e
      | Ret (server', Inl err) \<Rightarrow> Ret []
      | Ret (server', Inr s) \<Rightarrow>
          (case next_servers k server' of Panic e \<Rightarrow> Panic e | Ret ss \<Rightarrow> Ret (s # ss)))"

lemma sint_len: "n < 2 ^ 31 \<Longrightarrow> sint (word_of_nat n :: i32) = int n"
  by (simp add: signed_of_nat signed_take_bit_int_eq_self)

lemma sint_Suc:
  assumes "sint (c :: i32) + 1 < 2 ^ 31"
  shows "sint (c + 1) = sint c + 1"
proof -
  have "- (2 ^ 31) \<le> sint c" using sint_ge[of c] by simp
  with assms show ?thesis
    by (simp add: sint_word_ariths signed_take_bit_int_eq_self)
qed

lemma GetNextServer_step:
  assumes "0 \<le> sint (ns_currentIndex server)" and "sint (ns_currentIndex server) + 1 < 2 ^ 31"
    and "GetServerList server = srvs" and "srvs \<noteq> []" and "length srvs < 2 ^ 31"
  shows "GetNextServer server = Ret (server\<lparr>ns_currentIndex := ns_currentIndex server + 1\<rparr>,
           Inr (srvs ! (nat (sint (ns_currentIndex server) + 1) mod length srvs)))"
proof -
  let ?i = "sint (ns_currentIndex server) + 1"
  have "go_rem ?i (int (length srvs)) = int (nat ?i mod length srvs)"
    using assms(1) by (simp add: go_rem_def zmod_int)
  with assms show ?thesis by (simp add: GetNextServer_def Let_def sint_len sint_Suc)
qed

lemma next_servers_eq:
  assumes "0 \<le> sint (ns_currentIndex server)" and "sint (ns_currentIndex server) + int k < 2 ^ 31"
    and "GetServerList server = srvs" and "srvs \<noteq> []" and "length srvs < 2 ^ 31"
  shows "next_servers k server =
    Ret (map (\<lambda>j. srvs ! ((nat (sint (ns_currentIndex server)) + j) mod length srvs)) [1..<Suc k])"
  using assms
proof (induction k arbitrary: server)
  case (Suc k)
  let ?c = "sint (ns_currentIndex server)" and ?s' = "server\<lparr>ns_currentIndex := ns_currentIndex server + 1\<rparr>"
  have c1: "sint (ns_currentIndex ?s') = ?c + 1" using Suc.prems by (simp add: sint_Suc)
  have "GetServerList ?s' = srvs" using Suc.prems(3) by (simp add: GetServerList_def)
  then have "next_servers k ?s' = Ret (map (\<lambda>j. srvs ! ((nat ?c + Suc j) mod length srvs)) [1..<Suc k])"
    using Suc.IH[of ?s'] Suc.prems c1 by (simp add: nat_add_distrib del: upt_Suc)
  moreover have "map (\<lambda>j. srvs ! ((nat ?c + Suc j) mod length srvs)) [1..<Suc k] =
      map (\<lambda>j. srvs ! ((nat ?c + j) mod length srvs)) [2..<Suc (Suc k)]"
    by (rule nth_equalityI) (auto simp del: upt_Suc)
  moreover have "[1..<Suc (Suc k)] = 1 # [2..<Suc (Suc k)]" by (simp add: upt_rec numeral_2_eq_2)
  ultimately show ?case
    using GetNextServer_step[of server srvs] Suc.prems by (simp add: nat_add_distrib del: upt_Suc)
qed simp

text \<open>
  C8: The choice of the next server is a round robin. As long as the counter does not overflow, as many
  calls as there are servers return every server exactly once, in the order of the list from the one
  after the counter on.
\<close>

theorem next_server_round_robin:
  assumes "0 \<le> sint (ns_currentIndex server)"
    and "sint (ns_currentIndex server) + int (length (GetServerList server)) < 2 ^ 31"
    and "GetServerList server \<noteq> []"
  shows "next_servers (length (GetServerList server)) server =
    Ret (rotate (nat (sint (ns_currentIndex server)) + 1) (GetServerList server))"
proof -
  let ?srvs = "GetServerList server" and ?c = "nat (sint (ns_currentIndex server))"
  have "int (length ?srvs) < 2 ^ 31" using assms(1,2) by linarith
  then have len: "length ?srvs < 2 ^ 31" by simp
  have "map (\<lambda>j. ?srvs ! ((?c + j) mod length ?srvs)) [1..<Suc (length ?srvs)] = rotate (?c + 1) ?srvs"
    by (rule nth_equalityI) (simp_all add: nth_rotate add_ac del: upt_Suc rotate_Suc)
  with next_servers_eq[OF assms(1,2) refl assms(3) len] show ?thesis by simp
qed

definition demo_ns :: "i32 \<Rightarrow> unit NacosServer" where
  "demo_ns c = \<lparr>ns_securityLogin = \<lparr>sp_nacos = demo_auth, sp_ram = NewRamAuthClient zero_ClientConfig\<rparr>,
     ns_serverList = Some (demo_servers 3), ns_timeoutMs = 1000, ns_endpoint = [], ns_lastSrvRefTime = 0,
     ns_vipSrvRefInterMills = 10000, ns_contextPath = [], ns_endpointContextPath = [],
     ns_endpointQueryParams = [], ns_endpointQueryHeader = [], ns_clusterName = [], ns_currentIndex = c,
     ns_signals = 0\<rparr>"

lemma demo_ns_list: "GetServerList (demo_ns c) = demo_servers 3" "ns_currentIndex (demo_ns c) = c"
  "length (demo_servers 3) = 3" "demo_servers 3 \<noteq> []"
  by (simp_all add: demo_ns_def GetServerList_def demo_servers_def)

theorem next_server_round_robin_witness:
  "next_servers 3 (demo_ns 1) = Ret (rotate 2 (demo_servers 3))"
  using next_server_round_robin[of "demo_ns 1"] by (simp only: demo_ns_list) (simp add: numeral_2_eq_2)

text \<open>
  C9: After \<open>2 ^ 31\<close> calls the counter overflows to a negative number; unless the number of servers is
  a power of two, the index is then negative and the call panics.
\<close>

theorem next_server_overflow_panics:
  assumes "ns_currentIndex server = 0x7FFFFFFF" and "GetServerList server \<noteq> []"
    and "length (GetServerList server) < 2 ^ 31" and "\<not> length (GetServerList server) dvd 2 ^ 31"
  shows "is_panic (GetNextServer server)"
proof -
  let ?n = "length (GetServerList server)"
  have "ns_currentIndex server + 1 = 0x80000000" using assms(1) by simp
  then have c: "sint (ns_currentIndex server + 1) = - (2 ^ 31)" by simp
  have "(2 ^ 31 :: int) mod int ?n \<noteq> 0"
    using assms(4) by (metis dvd_eq_mod_eq_0 int_dvd_int_iff of_nat_numeral of_nat_power)
  moreover have "0 \<le> (2 ^ 31 :: int) mod int ?n" using assms(2) by (simp add: pos_mod_sign)
  ultimately have "go_rem (- (2 ^ 31)) (int ?n) < 0" by (simp add: go_rem_def)
  then show ?thesis
    using assms(2) by (simp add: GetNextServer_def Let_def c sint_len[OF assms(3)])
qed

theorem next_server_overflow_panics_witness: "is_panic (GetNextServer (demo_ns 0x7FFFFFFF))"
proof -
  have "\<not> (3 :: nat) dvd 2 ^ 31" by simp
  then show ?thesis by (intro next_server_overflow_panics) (simp_all add: demo_ns_list)
qed

end
