(* ===== verification/Naming_Grpc.thy ===== *)
theory Naming_Grpc
  imports Naming_Cache Nacos_Server
begin

text \<open>
  \<open>clients/naming_client/naming_grpc\<close>: the gRPC naming proxy (\<open>naming_grpc_proxy.go\<close>) and the
  listener that repeats registrations and subscriptions on a new connection
  (\<open>connection_event_listener.go\<close>).

  \<open>rq\<close> is \<open>RpcClient.Request\<close> on a state \<open>'r\<close> of the connection, \<open>sec\<close> the security information, and
  \<open>pe\<close> the parameters of \<open>ProcessService\<close>. The service cache is shared with the other components, so
  it is part of the state.
\<close>

section \<open>State\<close>

datatype RedoItem = OneInstance Instance | ManyInstances "Instance list"

record proc_env =
  pe_to_json :: "Service \<Rightarrow> string"
  pe_srt :: "Instance sorter"
  pe_io :: io_env
  pe_now :: int

record 'r NamingState =
  n_cfg :: ClientConfig
  n_holder :: ServiceInfoHolder
  n_fs :: fs
  n_notes :: "notification list"
  n_rpc :: 'r
  n_registered :: "RedoItem ConcurrentMap"
  n_subscribes :: "unit ConcurrentMap"

type_synonym 'r rpc_request = "IRequest \<Rightarrow> 'r \<Rightarrow> 'r \<times> IResponse result"
type_synonym sec_info = "RequestResource \<Rightarrow> params outcome"

text \<open>\<open>ProcessService\<close> on the shared cache; the callbacks it calls are appended to the trace.\<close>

definition process :: "proc_env \<Rightarrow> Service option \<Rightarrow> 'r NamingState \<Rightarrow> 'r NamingState" where
  "process pe svc st =
     (let (h, s, ns) = ProcessService (pe_to_json pe) (pe_srt pe) (pe_io pe) (pe_now pe) (n_holder st)
                         (n_fs st) svc
      in st\<lparr>n_holder := h, n_fs := s, n_notes := n_notes st @ ns\<rparr>)"

section \<open>The redo cache\<close>

definition CacheInstanceForRedo :: "string \<Rightarrow> string \<Rightarrow> Instance \<Rightarrow> 'r NamingState \<Rightarrow> 'r NamingState" where
  "CacheInstanceForRedo serviceName groupName inst st =
     st\<lparr>n_registered := cm_Set (n_registered st) (GetGroupName serviceName groupName) (OneInstance inst)\<rparr>"

definition CacheInstancesForRedo ::
  "string \<Rightarrow> string \<Rightarrow> Instance list \<Rightarrow> 'r NamingState \<Rightarrow> 'r NamingState" where
  "CacheInstancesForRedo serviceName groupName instances st =
     st\<lparr>n_registered := cm_Set (n_registered st) (GetGroupName serviceName groupName) (ManyInstances instances)\<rparr>"

definition RemoveInstanceForRedo :: "string \<Rightarrow> string \<Rightarrow> Instance \<Rightarrow> 'r NamingState \<Rightarrow> 'r NamingState" where
  "RemoveInstanceForRedo serviceName groupName inst st =
     (let key = GetGroupName serviceName groupName
      in if cm_Get (n_registered st) key = None then st
         else st\<lparr>n_registered := cm_Remove (n_registered st) key\<rparr>)"

definition IsSubscriberCached :: "string \<Rightarrow> 'r NamingState \<Rightarrow> bool" where
  "IsSubscriberCached key st = (cm_Get (n_subscribes st) key \<noteq> None)"

definition CacheSubscriberForRedo :: "string \<Rightarrow> string \<Rightarrow> 'r NamingState \<Rightarrow> 'r NamingState" where
  "CacheSubscriberForRedo fullServiceName clusters st =
     (let key = GetServiceCacheKey fullServiceName clusters
      in if \<not> IsSubscriberCached key st then st\<lparr>n_subscribes := cm_Set (n_subscribes st) key ()\<rparr> else st)"

definition RemoveSubscriberForRedo :: "string \<Rightarrow> string \<Rightarrow> 'r NamingState \<Rightarrow> 'r NamingState" where
  "RemoveSubscriberForRedo fullServiceName clusters st =
     st\<lparr>n_subscribes := cm_Remove (n_subscribes st) (GetServiceCacheKey fullServiceName clusters)\<rparr>"

section \<open>The proxy\<close>

definition requestToServer ::
  "sec_info \<Rightarrow> 'r rpc_request \<Rightarrow> IRequest \<Rightarrow> 'r NamingState \<Rightarrow> ('r NamingState \<times> IResponse result) outcome" where
  "requestToServer sec rq request st =
     obind (InjectSecurityInfo sec (slice (GetHeaders request)) (BuildNamingResourceByRequest request))
       (\<lambda>hs. let (r', response) = rq (set_headers (Some hs) request) (n_rpc st)
             in Ret (st\<lparr>n_rpc := r'\<rparr>, response))"

definition success_of :: "'s \<times> IResponse result \<Rightarrow> ('s \<times> bool result) outcome" where
  "success_of p =
     (case p of (st, Inl err) \<Rightarrow> Ret (st, Inl err) | (st, Inr response) \<Rightarrow> Ret (st, Inr (IsSuccess response)))"

definition grpc_RegisterInstance ::
  "sec_info \<Rightarrow> 'r rpc_request \<Rightarrow> string \<Rightarrow> string \<Rightarrow> Instance \<Rightarrow> 'r NamingState \<Rightarrow>
   ('r NamingState \<times> bool result) outcome" where
  "grpc_RegisterInstance sec rq serviceName groupName inst st =
     (let st1 = CacheInstanceForRedo serviceName groupName inst st;
          instanceRequest = NewInstanceRequest (cl_NamespaceId (n_cfg st)) serviceName groupName
                              ''registerInstance'' inst
      in obind (requestToServer sec rq instanceRequest st1) success_of)"

definition grpc_BatchRegisterInstance ::
  "sec_info \<Rightarrow> 'r rpc_request \<Rightarrow> string \<Rightarrow> string \<Rightarrow> Instance list \<Rightarrow> 'r NamingState \<Rightarrow>
   ('r NamingState \<times> bool result) outcome" where
  "grpc_BatchRegisterInstance sec rq serviceName groupName instances st =
     (let st1 = CacheInstancesForRedo serviceName groupName instances st;
          batchInstanceRequest = NewBatchInstanceRequest (cl_NamespaceId (n_cfg st)) serviceName groupName
                                   ''batchRegisterInstance'' instances
      in obind (requestToServer sec rq batchInstanceRequest st1) success_of)"

definition grpc_DeregisterInstance ::
  "sec_info \<Rightarrow> 'r rpc_request \<Rightarrow> string \<Rightarrow> string \<Rightarrow> Instance \<Rightarrow> 'r NamingState \<Rightarrow>
   ('r NamingState \<times> bool result) outcome" where
  "grpc_DeregisterInstance sec rq serviceName groupName inst st =
     (let instanceRequest = NewInstanceRequest (cl_NamespaceId (n_cfg st)) serviceName groupName
                              ''deregisterInstance'' inst
      in obind (requestToServer sec rq instanceRequest st)
           (\<lambda>(st1, response). success_of (RemoveInstanceForRedo serviceName groupName inst st1, response)))"

text \<open>The selector is its type and its JSON form; only a selector of type \<open>label\<close> is sent.\<close>

definition grpc_GetServiceList ::
  "sec_info \<Rightarrow> 'r rpc_request \<Rightarrow> u32 \<Rightarrow> u32 \<Rightarrow> string \<Rightarrow> string \<Rightarrow> (string \<times> string) option \<Rightarrow> 'r NamingState \<Rightarrow>
   ('r NamingState \<times> ServiceList result) outcome" where
  "grpc_GetServiceList sec rq pageNo pageSize groupName namespaceId selector st =
     (let selectorStr = (case selector of Some (t, js) \<Rightarrow> if t = ''label'' then js else [] | None \<Rightarrow> [])
      in obind (requestToServer sec rq (NewServiceListRequest namespaceId [] groupName (uint pageNo)
                  (uint pageSize) selectorStr) st)
           (\<lambda>(st1, response).
              case response of
                Inl err \<Rightarrow> Ret (st1, Inl err)
              | Inr (ServiceListResponse _ cnt names) \<Rightarrow> Ret (st1, Inr \<lparr>sl_Count = cnt, sl_Doms = names\<rparr>)
              | Inr _ \<Rightarrow> Panic ''interface conversion''))"

definition grpc_QueryInstancesOfService ::
  "sec_info \<Rightarrow> 'r rpc_request \<Rightarrow> string \<Rightarrow> string \<Rightarrow> string \<Rightarrow> int \<Rightarrow> bool \<Rightarrow> 'r NamingState \<Rightarrow>
   ('r NamingState \<times> Service result) outcome" where
  "grpc_QueryInstancesOfService sec rq serviceName groupName cluster udpPort healthyOnly st =
     obind (requestToServer sec rq (NewServiceQueryRequest (cl_NamespaceId (n_cfg st)) serviceName groupName
              cluster healthyOnly udpPort) st)
       (\<lambda>(st1, response).
          case response of
            Inl err \<Rightarrow> Ret (st1, Inl err)
          | Inr (QueryServiceResponse _ svc) \<Rightarrow> Ret (st1, Inr svc)
          | Inr _ \<Rightarrow> Panic ''interface conversion'')"

definition grpc_IsSubscribed :: "string \<Rightarrow> string \<Rightarrow> string \<Rightarrow> 'r NamingState \<Rightarrow> bool" where
  "grpc_IsSubscribed serviceName groupName clusters st =
     IsSubscriberCached (GetServiceCacheKey (GetGroupName serviceName groupName) clusters) st"

definition subscribe_request :: "ClientConfig \<Rightarrow> string \<Rightarrow> string \<Rightarrow> string \<Rightarrow> IRequest" where
  "subscribe_request cfg serviceName groupName clusters =
     (let request = NewSubscribeServiceRequest (cl_NamespaceId cfg) serviceName groupName clusters True
      in set_headers (Some (AList.update ''app'' (cl_AppName cfg) (slice (GetHeaders request)))) request)"

definition grpc_Subscribe ::
  "sec_info \<Rightarrow> 'r rpc_request \<Rightarrow> string \<Rightarrow> string \<Rightarrow> string \<Rightarrow> 'r NamingState \<Rightarrow>
   ('r NamingState \<times> Service result) outcome" where
  "grpc_Subscribe sec rq serviceName groupName clusters st =
     (let st1 = CacheSubscriberForRedo (GetGroupName serviceName groupName) clusters st
      in obind (requestToServer sec rq (subscribe_request (n_cfg st) serviceName groupName clusters) st1)
           (\<lambda>(st2, response).
              case response of
                Inl err \<Rightarrow> Ret (st2, Inl err)
              | Inr (SubscribeServiceResponse _ svc) \<Rightarrow> Ret (st2, Inr svc)
              | Inr _ \<Rightarrow> Panic ''interface conversion''))"

definition grpc_Unsubscribe ::
  "sec_info \<Rightarrow> 'r rpc_request \<Rightarrow> string \<Rightarrow> string \<Rightarrow> string \<Rightarrow> 'r NamingState \<Rightarrow>
   ('r NamingState \<times> go_error option) outcome" where
  "grpc_Unsubscribe sec rq serviceName groupName clusters st =
     (let st1 = RemoveSubscriberForRedo (GetGroupName serviceName groupName) clusters st
      in obind (requestToServer sec rq (NewSubscribeServiceRequest (cl_NamespaceId (n_cfg st)) serviceName
                  groupName clusters False) st1)
           (\<lambda>(st2, response). Ret (st2, case response of Inl err \<Rightarrow> Some err | Inr _ \<Rightarrow> None)))"

section \<open>Redo on a new connection\<close>

text \<open>A key without a separator makes the index expression \<open>info[1]\<close> panic.\<close>

fun redo_subscribe_loop ::
  "sec_info \<Rightarrow> 'r rpc_request \<Rightarrow> proc_env \<Rightarrow> string list \<Rightarrow> 'r NamingState \<Rightarrow> 'r NamingState outcome" where
  "redo_subscribe_loop sec rq pe [] st = Ret st"
| "redo_subscribe_loop sec rq pe (key # keys) st =
     (let info = split_str key SERVICE_INFO_SPLITER
      in if length info < 2 then Panic ''index out of range''
         else obind (grpc_Subscribe sec rq (info ! 1) (info ! 0) (if 2 < length info then info ! 2 else []) st)
                (\<lambda>(st1, r). redo_subscribe_loop sec rq pe keys
                   (case r of Inl err \<Rightarrow> st1 | Inr service \<Rightarrow> process pe (Some service) st1)))"

definition redoSubscribe ::
  "sec_info \<Rightarrow> 'r rpc_request \<Rightarrow> proc_env \<Rightarrow> 'r NamingState \<Rightarrow> 'r NamingState outcome" where
  "redoSubscribe sec rq pe st = redo_subscribe_loop sec rq pe (cm_Keys (n_subscribes st)) st"

fun redo_register_loop ::
  "sec_info \<Rightarrow> 'r rpc_request \<Rightarrow> (string \<times> RedoItem) list \<Rightarrow> 'r NamingState \<Rightarrow> 'r NamingState outcome" where
  "redo_register_loop sec rq [] st = Ret st"
| "redo_register_loop sec rq ((k, v) # kvs) st =
     (let info = split_str k SERVICE_INFO_SPLITER
      in if length info < 2 then Panic ''index out of range''
         else obind (case v of
                       OneInstance inst \<Rightarrow> grpc_RegisterInstance sec rq (info ! 1) (info ! 0) inst st
                     | ManyInstances instances \<Rightarrow>
                         grpc_BatchRegisterInstance sec rq (info ! 1) (info ! 0) instances st)
                (\<lambda>(st1, _). redo_register_loop sec rq kvs st1))"

definition redoRegisterEachService ::
  "sec_info \<Rightarrow> 'r rpc_request \<Rightarrow> 'r NamingState \<Rightarrow> 'r NamingState outcome" where
  "redoRegisterEachService sec rq st = redo_register_loop sec rq (cm_Items (n_registered st)) st"

definition OnConnected ::
  "sec_info \<Rightarrow> 'r rpc_request \<Rightarrow> proc_env \<Rightarrow> 'r NamingState \<Rightarrow> 'r NamingState outcome" where
  "OnConnected sec rq pe st = obind (redoSubscribe sec rq pe st) (redoRegisterEachService sec rq)"

section \<open>Facts\<close>

lemma process_simps [simp]:
  "n_cfg (process pe svc st) = n_cfg st" "n_rpc (process pe svc st) = n_rpc st"
  "n_registered (process pe svc st) = n_registered st" "n_subscribes (process pe svc st) = n_subscribes st"
  by (simp_all add: process_def Let_def split: prod.split)

text \<open>
  What the redo relies on: the security information is there, the connection records what it is given,
  and a subscription is answered by a subscription response.
\<close>

definition rpc_ok :: "sec_info \<Rightarrow> 'r rpc_request \<Rightarrow> ('r \<Rightarrow> IRequest list) \<Rightarrow> bool" where
  "rpc_ok sec rq sent \<longleftrightarrow>
     (\<forall>res. \<exists>ps. sec res = Ret ps) \<and>
     (\<forall>q r. sent (fst (rq q r)) = sent r @ [q]) \<and>
     (\<forall>q r. GetRequestType q = ''SubscribeServiceRequest'' \<longrightarrow>
        (\<exists>e. snd (rq q r) = Inl e) \<or> (\<exists>b svc. snd (rq q r) = Inr (SubscribeServiceResponse b svc)))"

lemma rpc_okD:
  assumes "rpc_ok sec rq sent"
  shows "\<exists>ps. sec res = Ret ps" and "sent (fst (rq q r)) = sent r @ [q]"
    and "GetRequestType q = ''SubscribeServiceRequest'' \<Longrightarrow>
      (\<exists>e. snd (rq q r) = Inl e) \<or> (\<exists>b svc. snd (rq q r) = Inr (SubscribeServiceResponse b svc))"
  using assms unfolding rpc_ok_def by simp_all

abbreviation bare :: "IRequest \<Rightarrow> IRequest" where
  "bare \<equiv> ClearHeaders"

lemma bare_set_headers [simp]: "bare (set_headers h q) = bare q"
  by (simp add: ClearHeaders_def)

lemma requestToServer_sends:
  assumes "rpc_ok sec rq sent"
  shows "\<exists>h r'. requestToServer sec rq q st =
      Ret (st\<lparr>n_rpc := r'\<rparr>, snd (rq (set_headers h q) (n_rpc st))) \<and> sent r' = sent (n_rpc st) @ [set_headers h q]"
proof -
  obtain ps where "sec (BuildNamingResourceByRequest q) = Ret ps" using rpc_okD(1)[OF assms] by blast
  then have "requestToServer sec rq q st = (let h = Some (put_all (slice (GetHeaders q)) ps)
      in Ret (st\<lparr>n_rpc := fst (rq (set_headers h q) (n_rpc st))\<rparr>, snd (rq (set_headers h q) (n_rpc st))))"
    by (simp add: requestToServer_def InjectSecurityInfo_def Let_def split_beta)
  then show ?thesis using rpc_okD(2)[OF assms] unfolding Let_def by blast
qed

definition sub_request :: "ClientConfig \<Rightarrow> string \<Rightarrow> string \<Rightarrow> string \<Rightarrow> IRequest" where
  "sub_request cfg s g c = bare (NewSubscribeServiceRequest (cl_NamespaceId cfg) s g c True)"

lemma grpc_Subscribe_sends:
  assumes "rpc_ok sec rq sent"
    and "IsSubscriberCached (GetServiceCacheKey (GetGroupName s g) c) st"
  shows "\<exists>r' res. grpc_Subscribe sec rq s g c st = Ret (st\<lparr>n_rpc := r'\<rparr>, res) \<and>
     map bare (sent r') = map bare (sent (n_rpc st)) @ [sub_request (n_cfg st) s g c]"
proof -
  let ?q = "subscribe_request (n_cfg st) s g c"
  have cached: "CacheSubscriberForRedo (GetGroupName s g) c st = st"
    using assms(2) by (simp add: CacheSubscriberForRedo_def)
  obtain h r' where run: "requestToServer sec rq ?q st =
      Ret (st\<lparr>n_rpc := r'\<rparr>, snd (rq (set_headers h ?q) (n_rpc st)))"
    and sent: "sent r' = sent (n_rpc st) @ [set_headers h ?q]"
    using requestToServer_sends[OF assms(1)] by blast
  have type: "GetRequestType (set_headers h ?q) = ''SubscribeServiceRequest''"
    by (simp add: subscribe_request_def NewSubscribeServiceRequest_def Let_def)
  have bare: "bare ?q = sub_request (n_cfg st) s g c"
    by (simp add: subscribe_request_def sub_request_def Let_def)
  from rpc_okD(3)[OF assms(1) type, of "n_rpc st"] consider e where "snd (rq (set_headers h ?q) (n_rpc st)) = Inl e"
    | b svc where "snd (rq (set_headers h ?q) (n_rpc st)) = Inr (SubscribeServiceResponse b svc)"
    by blast
  then show ?thesis
    by cases (use run sent bare cached in \<open>auto simp: grpc_Subscribe_def Let_def\<close>)
qed

text \<open>The keys the proxy caches are built from names without \<open>@\<close>.\<close>

definition service_parts :: "string \<Rightarrow> string \<times> string \<times> string \<Rightarrow> bool" where
  "service_parts key p \<longleftrightarrow>
     (case p of (s, g, c) \<Rightarrow> no_at s \<and> no_at g \<and> no_at c \<and> key = GetServiceCacheKey (GetGroupName s g) c)"

lemma service_parts_split:
  assumes "service_parts key (s, g, c)"
  shows "2 \<le> length (split_str key SERVICE_INFO_SPLITER)"
    and "split_str key SERVICE_INFO_SPLITER ! 0 = g" and "split_str key SERVICE_INFO_SPLITER ! 1 = s"
    and "(if 2 < length (split_str key SERVICE_INFO_SPLITER) then split_str key SERVICE_INFO_SPLITER ! 2 else []) = c"
  using assms split_service_key[of g s c] by (auto simp: service_parts_def)

lemma redo_subscribe_loop_sends:
  assumes "rpc_ok sec rq sent" and "list_all2 service_parts keys ps"
    and "\<forall>k \<in> set keys. IsSubscriberCached k st"
  shows "\<exists>st'. redo_subscribe_loop sec rq pe keys st = Ret st' \<and> n_cfg st' = n_cfg st \<and>
     n_registered st' = n_registered st \<and> n_subscribes st' = n_subscribes st \<and>
     map bare (sent (n_rpc st')) =
       map bare (sent (n_rpc st)) @ map (\<lambda>(s, g, c). sub_request (n_cfg st) s g c) ps"
  using assms(2,3)
proof (induction keys ps arbitrary: st rule: list_all2_induct)
  case (Cons key keys p ps)
  obtain s g c where p: "p = (s, g, c)" by (cases p) auto
  note parts = service_parts_split[OF Cons(1)[unfolded p]]
  have "IsSubscriberCached (GetServiceCacheKey (GetGroupName s g) c) st"
    using Cons(1,4) p by (auto simp: service_parts_def)
  then obtain r' res where sub: "grpc_Subscribe sec rq s g c st = Ret (st\<lparr>n_rpc := r'\<rparr>, res)"
    and sent: "map bare (sent r') = map bare (sent (n_rpc st)) @ [sub_request (n_cfg st) s g c]"
    using grpc_Subscribe_sends[OF assms(1)] by blast
  define st1 where "st1 = (case res of Inl err \<Rightarrow> st\<lparr>n_rpc := r'\<rparr> | Inr svc \<Rightarrow> process pe (Some svc) (st\<lparr>n_rpc := r'\<rparr>))"
  have st1: "n_cfg st1 = n_cfg st" "n_registered st1 = n_registered st" "n_subscribes st1 = n_subscribes st"
    "n_rpc st1 = r'"
    by (simp_all add: st1_def split: sum.split)
  have step: "redo_subscribe_loop sec rq pe (key # keys) st = redo_subscribe_loop sec rq pe keys st1"
    using parts sub by (simp add: Let_def st1_def del: One_nat_def)
  have "\<forall>k \<in> set keys. IsSubscriberCached k st1" using Cons(4) st1 by (simp add: IsSubscriberCached_def)
  from Cons(3)[OF this] step st1 sent show ?case by (auto simp: p)
qed simp

definition reg_request :: "ClientConfig \<Rightarrow> string \<Rightarrow> string \<Rightarrow> RedoItem \<Rightarrow> IRequest" where
  "reg_request cfg s g v = bare (case v of
     OneInstance inst \<Rightarrow> NewInstanceRequest (cl_NamespaceId cfg) s g ''registerInstance'' inst
   | ManyInstances is \<Rightarrow> NewBatchInstanceRequest (cl_NamespaceId cfg) s g ''batchRegisterInstance'' is)"

lemma redo_register_loop_sends:
  assumes "rpc_ok sec rq sent"
    and "list_all2 (\<lambda>kv p. service_parts (fst kv) p \<and> snd (snd p) = []) kvs ps"
  shows "\<exists>st'. redo_register_loop sec rq kvs st = Ret st' \<and> n_cfg st' = n_cfg st \<and>
     n_subscribes st' = n_subscribes st \<and>
     map bare (sent (n_rpc st')) =
       map bare (sent (n_rpc st)) @ map2 (\<lambda>(s, g, c) kv. reg_request (n_cfg st) s g (snd kv)) ps kvs"
  using assms(2)
proof (induction kvs ps arbitrary: st rule: list_all2_induct)
  case (Cons kv kvs p ps)
  obtain s g c k v where p: "p = (s, g, c)" and kv: "kv = (k, v)" by (cases p, cases kv) auto
  have "service_parts k (s, g, c)" using Cons(1) unfolding p kv fst_conv by (rule conjunct1)
  note parts = service_parts_split[OF this]
  define call where "call = (case v of
      OneInstance inst \<Rightarrow> grpc_RegisterInstance sec rq s g inst st
    | ManyInstances is \<Rightarrow> grpc_BatchRegisterInstance sec rq s g is st)"
  have "\<exists>st1 b. call = Ret (st1, b) \<and> n_cfg st1 = n_cfg st \<and> n_subscribes st1 = n_subscribes st \<and>
      map bare (sent (n_rpc st1)) = map bare (sent (n_rpc st)) @ [reg_request (n_cfg st) s g v]"
  proof (cases v)
    case (OneInstance inst)
    show ?thesis
      using requestToServer_sends[OF assms(1),
          of "NewInstanceRequest (cl_NamespaceId (n_cfg st)) s g ''registerInstance'' inst"
            "CacheInstanceForRedo s g inst st"]
      by (auto simp: call_def OneInstance grpc_RegisterInstance_def success_of_def reg_request_def
          CacheInstanceForRedo_def Let_def split: sum.splits)
  next
    case (ManyInstances xs)
    show ?thesis
      using requestToServer_sends[OF assms(1),
          of "NewBatchInstanceRequest (cl_NamespaceId (n_cfg st)) s g ''batchRegisterInstance'' xs"
            "CacheInstancesForRedo s g xs st"]
      by (auto simp: call_def ManyInstances grpc_BatchRegisterInstance_def success_of_def reg_request_def
          CacheInstancesForRedo_def Let_def split: sum.splits)
  qed
  then obtain st1 b where st1: "call = Ret (st1, b)" "n_cfg st1 = n_cfg st" "n_subscribes st1 = n_subscribes st"
    "map bare (sent (n_rpc st1)) = map bare (sent (n_rpc st)) @ [reg_request (n_cfg st) s g v]" by blast
  have "redo_register_loop sec rq (kv # kvs) st = redo_register_loop sec rq kvs st1"
    using parts st1(1) by (cases v) (simp_all add: p kv Let_def call_def del: One_nat_def)
  then show ?case using Cons(3)[of st1] st1 by (auto simp: p kv)
qed simp

definition redo_inv :: "'r NamingState \<Rightarrow> bool" where
  "redo_inv st \<longleftrightarrow> cm_inv (n_registered st) \<and> cm_inv (n_subscribes st) \<and>
     (\<forall>k \<in> dom (cm_Get (n_subscribes st)). \<exists>p. service_parts k p) \<and>
     (\<forall>k \<in> dom (cm_Get (n_registered st)). \<exists>s g. service_parts k (s, g, []))"

lemma redo_inv_ops:
  assumes "redo_inv st" and "no_at s" "no_at g" "no_at c"
  shows "redo_inv (CacheInstanceForRedo s g inst st)" and "redo_inv (CacheInstancesForRedo s g insts st)"
    and "redo_inv (RemoveInstanceForRedo s g inst st)"
    and "redo_inv (CacheSubscriberForRedo (GetGroupName s g) c st)"
    and "redo_inv (RemoveSubscriberForRedo (GetGroupName s g) c st)"
proof -
  have key: "service_parts (GetGroupName s g) (s, g, [])"
    "service_parts (GetServiceCacheKey (GetGroupName s g) c) (s, g, c)"
    using assms(2-4) by (simp_all add: service_parts_def GetServiceCacheKey_def no_at_def)
  then show "redo_inv (CacheInstanceForRedo s g inst st)" "redo_inv (CacheInstancesForRedo s g insts st)"
    "redo_inv (CacheSubscriberForRedo (GetGroupName s g) c st)"
    using assms(1)
    by (auto simp: redo_inv_def CacheInstanceForRedo_def CacheInstancesForRedo_def CacheSubscriberForRedo_def
        cm_Get_Set Let_def dom_def split: if_splits)
  show "redo_inv (RemoveInstanceForRedo s g inst st)" "redo_inv (RemoveSubscriberForRedo (GetGroupName s g) c st)"
    using assms(1)
    by (auto simp: redo_inv_def RemoveInstanceForRedo_def RemoveSubscriberForRedo_def cm_Get_Remove Let_def
        dom_def split: if_splits)
qed

lemma list_all2_choice: "\<forall>x \<in> set xs. \<exists>y. P x y \<Longrightarrow> \<exists>ys. list_all2 P xs ys"
  by (induction xs) (auto intro: list_all2_Cons[THEN iffD2])

lemma list_all2_zip_set:
  assumes "list_all2 P xs ys" and "\<And>x y z. P x y \<Longrightarrow> P x z \<Longrightarrow> y = z"
  shows "set (zip ys xs) = {(y, x). x \<in> set xs \<and> P x y}"
  using assms(1) by (induction rule: list_all2_induct) (use assms(2) in auto)

lemma list_all2_set:
  assumes "list_all2 P xs ys" and "\<And>x y z. P x y \<Longrightarrow> P x z \<Longrightarrow> y = z"
  shows "set ys = {y. \<exists>x \<in> set xs. P x y}"
  using assms(1) by (induction rule: list_all2_induct) (use assms(2) in auto)

text \<open>The parts of a key are determined by the key.\<close>

lemma service_parts_unique: "service_parts k p \<Longrightarrow> service_parts k q \<Longrightarrow> p = q"
  using service_parts_split[of k] by (cases p, cases q) metis

lemma redo_requests:
  assumes "rpc_ok sec rq sent" and "redo_inv st"
  shows "\<exists>st' ps qs. OnConnected sec rq pe st = Ret st' \<and>
     list_all2 service_parts (cm_Keys (n_subscribes st)) ps \<and>
     list_all2 (\<lambda>kv p. service_parts (fst kv) p \<and> snd (snd p) = []) (cm_Items (n_registered st)) qs \<and>
     map bare (sent (n_rpc st')) = map bare (sent (n_rpc st)) @
       map (\<lambda>(s, g, c). sub_request (n_cfg st) s g c) ps @
       map2 (\<lambda>(s, g, c) kv. reg_request (n_cfg st) s g (snd kv)) qs (cm_Items (n_registered st))"
proof -
  have inv: "cm_inv (n_registered st)" "cm_inv (n_subscribes st)" using assms(2) by (auto simp: redo_inv_def)
  have keys: "set (cm_Keys (n_subscribes st)) = dom (cm_Get (n_subscribes st))" by (rule set_cm_Keys[OF inv(2)])
  obtain ps where ps: "list_all2 service_parts (cm_Keys (n_subscribes st)) ps"
    using list_all2_choice[of "cm_Keys (n_subscribes st)" service_parts] assms(2) keys
    by (auto simp: redo_inv_def)
  have "\<forall>kv \<in> set (cm_Items (n_registered st)). \<exists>p. service_parts (fst kv) p \<and> snd (snd p) = []"
  proof
    fix kv assume "kv \<in> set (cm_Items (n_registered st))"
    then have "cm_Get (n_registered st) (fst kv) = Some (snd kv)"
      using cm_Items_iff[OF inv(1), of "fst kv" "snd kv"] by simp
    then have "fst kv \<in> dom (cm_Get (n_registered st))" by (rule domI)
    then obtain s g where "service_parts (fst kv) (s, g, [])" using assms(2) unfolding redo_inv_def by blast
    then show "\<exists>p. service_parts (fst kv) p \<and> snd (snd p) = []" by (intro exI[of _ "(s, g, [])"]) simp
  qed
  then obtain qs where qs: "list_all2 (\<lambda>kv p. service_parts (fst kv) p \<and> snd (snd p) = [])
      (cm_Items (n_registered st)) qs"
    by (rule list_all2_choice[THEN exE])
  have "\<forall>k \<in> set (cm_Keys (n_subscribes st)). IsSubscriberCached k st"
    using keys by (auto simp: IsSubscriberCached_def)
  from redo_subscribe_loop_sends[OF assms(1) ps this, of pe] obtain st1 where st1:
    "redoSubscribe sec rq pe st = Ret st1" "n_cfg st1 = n_cfg st" "n_registered st1 = n_registered st"
    "map bare (sent (n_rpc st1)) =
       map bare (sent (n_rpc st)) @ map (\<lambda>(s, g, c). sub_request (n_cfg st) s g c) ps"
    by (auto simp: redoSubscribe_def)
  from redo_register_loop_sends[OF assms(1) qs, of st1] st1 ps qs show ?thesis
    by (auto simp: OnConnected_def redoRegisterEachService_def)
qed

text \<open>
  C19: A new connection restores the session. For every answer of the server the listener sends, after
  what was sent before, exactly one subscription for each service subscribed through the proxy, with
  its name, group and clusters, and one registration for each service with registered instances, with
  the instances last registered; it sends nothing else and never panics.
\<close>

theorem redo_restores_session:
  assumes "rpc_ok sec rq sent" and "redo_inv st"
  shows "\<exists>st' reqs. OnConnected sec rq pe st = Ret st' \<and>
     map bare (sent (n_rpc st')) = map bare (sent (n_rpc st)) @ reqs \<and>
     length reqs = card (dom (cm_Get (n_subscribes st))) + card (dom (cm_Get (n_registered st))) \<and>
     set reqs =
       {sub_request (n_cfg st) s g c | s g c. no_at s \<and> no_at g \<and> no_at c \<and>
          cm_Get (n_subscribes st) (GetServiceCacheKey (GetGroupName s g) c) = Some ()} \<union>
       {reg_request (n_cfg st) s g v | s g v. no_at s \<and> no_at g \<and>
          cm_Get (n_registered st) (GetGroupName s g) = Some v}"
proof -
  have inv: "cm_inv (n_registered st)" "cm_inv (n_subscribes st)" using assms(2) by (auto simp: redo_inv_def)
  obtain st' ps qs where run: "OnConnected sec rq pe st = Ret st'"
    and ps: "list_all2 service_parts (cm_Keys (n_subscribes st)) ps"
    and qs: "list_all2 (\<lambda>kv p. service_parts (fst kv) p \<and> snd (snd p) = []) (cm_Items (n_registered st)) qs"
    and sent: "map bare (sent (n_rpc st')) = map bare (sent (n_rpc st)) @
       map (\<lambda>(s, g, c). sub_request (n_cfg st) s g c) ps @
       map2 (\<lambda>(s, g, c) kv. reg_request (n_cfg st) s g (snd kv)) qs (cm_Items (n_registered st))"
    using redo_requests[OF assms] by blast
  let ?subs = "map (\<lambda>(s, g, c). sub_request (n_cfg st) s g c) ps"
  let ?regs = "map2 (\<lambda>(s, g, c) kv. reg_request (n_cfg st) s g (snd kv)) qs (cm_Items (n_registered st))"
  have "set ps = {p. \<exists>k \<in> dom (cm_Get (n_subscribes st)). service_parts k p}"
    using list_all2_set[OF ps service_parts_unique] set_cm_Keys[OF inv(2)] by simp
  also have "\<dots> = {(s, g, c). no_at s \<and> no_at g \<and> no_at c \<and>
      cm_Get (n_subscribes st) (GetServiceCacheKey (GetGroupName s g) c) = Some ()}"
    by (auto simp: service_parts_def)
  finally have subs: "set ?subs = {sub_request (n_cfg st) s g c | s g c. no_at s \<and> no_at g \<and> no_at c \<and>
      cm_Get (n_subscribes st) (GetServiceCacheKey (GetGroupName s g) c) = Some ()}"
    unfolding set_map by (simp only:) (auto simp: image_def)
  have "set (zip qs (cm_Items (n_registered st))) =
      {(p, kv). kv \<in> set (cm_Items (n_registered st)) \<and> service_parts (fst kv) p \<and> snd (snd p) = []}"
    by (rule list_all2_zip_set[OF qs]) (use service_parts_unique in blast)
  also have "\<dots> = {((s, g, c), (k, v)). no_at s \<and> no_at g \<and> c = [] \<and> k = GetGroupName s g \<and>
      cm_Get (n_registered st) (GetGroupName s g) = Some v}"
    by (auto simp: service_parts_def cm_Items_iff[OF inv(1)] GetServiceCacheKey_def no_at_def)
  finally have regs: "set ?regs = {reg_request (n_cfg st) s g v | s g v. no_at s \<and> no_at g \<and>
      cm_Get (n_registered st) (GetGroupName s g) = Some v}"
    unfolding set_map by (simp only:) (auto simp: image_def)
  have "length ?subs = card (dom (cm_Get (n_subscribes st)))"
    using list_all2_lengthD[OF ps] distinct_card[OF distinct_cm_Keys[OF inv(2)]] set_cm_Keys[OF inv(2)] by simp
  moreover have "length ?regs = card (dom (cm_Get (n_registered st)))"
    using list_all2_lengthD[OF qs] card_dom_wf[OF wf_map_cm_Items, of "n_registered st"]
    unfolding map_of_cm_Items[OF inv(1)] by simp
  ultimately show ?thesis
    using run sent subs regs by (intro exI[of _ st'] exI[of _ "?subs @ ?regs"]) simp
qed

definition demo_naming :: "IRequest list NamingState" where
  "demo_naming = \<lparr>n_cfg = zero_ClientConfig, n_holder = demo_holder, n_fs = \<lparr>fs_files = [], fs_dirs = []\<rparr>,
     n_notes = [], n_rpc = [], n_registered = NewConcurrentMap, n_subscribes = NewConcurrentMap\<rparr>"

definition demo_rq :: "IRequest list rpc_request" where
  "demo_rq q r = (r @ [q], Inl (Err ''down''))"

definition demo_pe :: proc_env where
  "demo_pe = \<lparr>pe_to_json = (\<lambda>_. []), pe_srt = insertion_sort, pe_io = all_ok, pe_now = 0\<rparr>"

theorem redo_restores_session_witness:
  "let st = CacheInstanceForRedo ''s'' ''g'' (demo_instance ''1'' 80) demo_naming
   in \<exists>st'. OnConnected (\<lambda>_. Ret []) demo_rq demo_pe st = Ret st' \<and>
        set (map bare (n_rpc st')) = {reg_request zero_ClientConfig ''s'' ''g'' (OneInstance (demo_instance ''1'' 80))}"
proof -
  define st where "st = CacheInstanceForRedo ''s'' ''g'' (demo_instance ''1'' 80) demo_naming"
  have ok: "rpc_ok (\<lambda>_. Ret []) demo_rq id" by (simp add: rpc_ok_def demo_rq_def)
  have "redo_inv demo_naming" by (simp add: redo_inv_def demo_naming_def cm_Get_New_fun)
  then have inv: "redo_inv st" unfolding st_def by (rule redo_inv_ops[where c = "[]"]) (simp_all add: no_at_def)
  have get: "cm_Get (n_registered st) k = (if k = ''g@@s'' then Some (OneInstance (demo_instance ''1'' 80)) else None)"
    and sub: "cm_Get (n_subscribes st) k = None" for k
    by (simp_all add: st_def CacheInstanceForRedo_def demo_naming_def cm_Get_Set key_defs)
  have cfg: "n_cfg st = zero_ClientConfig" "n_rpc st = []"
    by (simp_all add: st_def CacheInstanceForRedo_def demo_naming_def)
  have names: "GetGroupName s g = ''g@@s'' \<and> no_at s \<and> no_at g \<longleftrightarrow> s = ''s'' \<and> g = ''g''" for s g
    using group_name_inject[of "''g''" "''s''" g s] by (auto simp: key_defs no_at_def)
  have only: "no_at s \<and> no_at g \<and> cm_Get (n_registered st) (GetGroupName s g) = Some v \<longleftrightarrow>
      s = ''s'' \<and> g = ''g'' \<and> v = OneInstance (demo_instance ''1'' 80)" for s g v
    unfolding get using names[of s g] by auto
  obtain st' reqs where run: "OnConnected (\<lambda>_. Ret []) demo_rq demo_pe st = Ret st'"
    and sent: "map bare (id (n_rpc st')) = map bare (id (n_rpc st)) @ reqs"
    and set: "set reqs =
       {sub_request (n_cfg st) s g c | s g c. no_at s \<and> no_at g \<and> no_at c \<and>
          cm_Get (n_subscribes st) (GetServiceCacheKey (GetGroupName s g) c) = Some ()} \<union>
       {reg_request (n_cfg st) s g v | s g v. no_at s \<and> no_at g \<and>
          cm_Get (n_registered st) (GetGroupName s g) = Some v}"
    using redo_restores_session[OF ok inv, of demo_pe] by blast
  have "set reqs = {reg_request zero_ClientConfig ''s'' ''g'' (OneInstance (demo_instance ''1'' 80))}"
    unfolding set only sub cfg by simp
  then show ?thesis unfolding Let_def st_def[symmetric] using run sent cfg(2) by (simp del: set_map)
qed

text \<open>
  The redo cache has one entry per service. Registering a second instance of a service replaces the
  first, so that only the second is registered again on a new connection, and deregistering any
  instance of the service removes the entry of all of them, also when the request to the server fails.
\<close>

theorem redo_keeps_one_entry:
  assumes "cm_inv (n_registered st)"
  shows "cm_Get (n_registered (CacheInstanceForRedo s g b (CacheInstanceForRedo s g a st))) (GetGroupName s g) =
           Some (OneInstance b) \<and>
         (case grpc_DeregisterInstance sec rq s g b (CacheInstanceForRedo s g a st) of
            Panic e \<Rightarrow> is_panic (requestToServer sec rq (NewInstanceRequest (cl_NamespaceId (n_cfg st)) s g
              ''deregisterInstance'' b) (CacheInstanceForRedo s g a st))
          | Ret (st', _) \<Rightarrow> cm_Get (n_registered st') (GetGroupName s g) = None)"
proof -
  let ?st = "CacheInstanceForRedo s g a st" and ?k = "GetGroupName s g"
  let ?q = "NewInstanceRequest (cl_NamespaceId (n_cfg st)) s g ''deregisterInstance'' b"
  have inv: "cm_inv (n_registered ?st)" "cm_inv (n_registered (?st\<lparr>n_rpc := r\<rparr>))" for r
    using assms by (simp_all add: CacheInstanceForRedo_def)
  have "cm_Get (n_registered (CacheInstanceForRedo s g b ?st)) ?k = Some (OneInstance b)"
    unfolding CacheInstanceForRedo_def[of s g b] using inv(1) by (simp add: cm_Get_Set)
  moreover have gone: "cm_Get (n_registered (RemoveInstanceForRedo s g b (?st\<lparr>n_rpc := r\<rparr>))) ?k = None" for r
    using inv(2)[of r] by (simp add: RemoveInstanceForRedo_def cm_Get_Remove Let_def)
  ultimately show ?thesis
  proof (cases "requestToServer sec rq ?q ?st")
    case (Ret p)
    then obtain r x where p: "p = (?st\<lparr>n_rpc := r\<rparr>, x)"
      by (auto simp: requestToServer_def obind_Ret_iff Let_def split_beta)
    have "n_cfg ?st = n_cfg st" by (simp add: CacheInstanceForRedo_def)
    with Ret p gone \<open>cm_Get _ _ = Some (OneInstance b)\<close> show ?thesis
      by (cases x) (simp_all add: grpc_DeregisterInstance_def success_of_def Let_def)
  next
    case (Panic e)
    have "n_cfg ?st = n_cfg st" by (simp add: CacheInstanceForRedo_def)
    with Panic \<open>cm_Get _ _ = Some (OneInstance b)\<close> show ?thesis
      by (simp add: grpc_DeregisterInstance_def Let_def)
  qed
qed

theorem redo_keeps_one_entry_witness:
  "cm_Get (n_registered (CacheInstanceForRedo ''s'' ''g'' (demo_instance ''2'' 80)
     (CacheInstanceForRedo ''s'' ''g'' (demo_instance ''1'' 80) demo_naming))) (GetGroupName ''s'' ''g'') =
   Some (OneInstance (demo_instance ''2'' 80))"
proof -
  have "cm_inv (n_registered demo_naming)" by (simp add: demo_naming_def)
  from redo_keeps_one_entry[OF this, THEN conjunct1] show ?thesis .
qed

end
