(* ===== verification/Naming_Http.thy ===== *)
theory Naming_Http
  imports Naming_Grpc
begin

text \<open>
  \<open>clients/naming_client/naming_http\<close>: the heart beats (\<open>beat_reactor.go\<close>), the HTTP naming proxy
  (\<open>naming_http_proxy.go\<close>) and the handling of UDP pushes (\<open>push_receiver.go\<close>).

  A beat is shared by pointer between the map and its goroutine, so beats live in a heap: a pointer is
  an index of the list \<open>br_heap\<close>. The goroutines started are the entries of \<open>br_tasks\<close>. \<open>req\<close> is
  \<open>ReqApi\<close> (path, parameters, method) on a state \<open>'w\<close>; \<open>get_int\<close>, \<open>get_string\<close> and \<open>get_array\<close> are the
  JSON parser; \<open>js\<close> prints a value as JSON and \<open>fmt_float\<close> a float.
\<close>

section \<open>Heart beats\<close>

type_synonym 'w api = "string \<Rightarrow> params \<Rightarrow> string \<Rightarrow> 'w \<Rightarrow> 'w \<times> string result"

record BeatReactor =
  br_beatMap :: "nat ConcurrentMap"
  br_beatRecordMap :: "int ConcurrentMap"
  br_heap :: "BeatInfo list"
  br_tasks :: "(string \<times> nat) list"

definition NewBeatReactor :: BeatReactor where
  "NewBeatReactor = \<lparr>br_beatMap = NewConcurrentMap, br_beatRecordMap = NewConcurrentMap, br_heap = [],
     br_tasks = []\<rparr>"

definition buildKey :: "string \<Rightarrow> string \<Rightarrow> u64 \<Rightarrow> string" where
  "buildKey serviceName ip port =
     serviceName @ NAMING_INSTANCE_ID_SPLITTER @ ip @ NAMING_INSTANCE_ID_SPLITTER @ itoa (int_of_u64 port)"

definition set_state :: "nat \<Rightarrow> int \<Rightarrow> BeatReactor \<Rightarrow> BeatReactor" where
  "set_state p s br = br\<lparr>br_heap := (br_heap br)[p := (br_heap br ! p)\<lparr>bi_State := s\<rparr>]\<rparr>"

text \<open>\<open>AddBeatInfo\<close> of the beat at \<open>p\<close>; a beat already there replaces the argument.\<close>

definition AddBeatInfo :: "string \<Rightarrow> nat \<Rightarrow> BeatReactor \<Rightarrow> BeatReactor" where
  "AddBeatInfo serviceName p br =
     (let k = buildKey serviceName (bi_Ip (br_heap br ! p)) (bi_Port (br_heap br ! p));
          (q, br1) = (case cm_Get (br_beatMap br) k of
                        None \<Rightarrow> (p, br)
                      | Some data \<Rightarrow>
                          (data, (set_state data StateShutdown br)\<lparr>br_beatMap := cm_Remove (br_beatMap br) k\<rparr>));
          b = br_heap br1 ! q
      in br1\<lparr>br_beatMap := cm_Set (br_beatMap br1) k q,
             br_heap := (br_heap br1)[q := b\<lparr>bi_Metadata := Some (DeepCopyMap (slice (bi_Metadata b)))\<rparr>],
             br_tasks := br_tasks br1 @ [(k, q)]\<rparr>)"

definition RemoveBeatInfo :: "string \<Rightarrow> string \<Rightarrow> u64 \<Rightarrow> BeatReactor \<Rightarrow> BeatReactor" where
  "RemoveBeatInfo serviceName ip port br =
     (let k = buildKey serviceName ip port;
          br1 = (case cm_Get (br_beatMap br) k of None \<Rightarrow> br | Some data \<Rightarrow> set_state data StateShutdown br)
      in br1\<lparr>br_beatMap := cm_Remove (br_beatMap br1) k\<rparr>)"

definition SendBeat ::
  "'w api \<Rightarrow> (string \<Rightarrow> string \<Rightarrow> int result) \<Rightarrow> (BeatInfo \<Rightarrow> string) \<Rightarrow> string \<Rightarrow> BeatInfo \<Rightarrow> 'w \<Rightarrow> 'w \<times> int result" where
  "SendBeat req get_int js namespaceId info w =
     (let params = [(''namespaceId'', namespaceId), (''serviceName'', bi_ServiceName info), (''beat'', js info)];
          (w', result) = req (SERVICE_BASE_PATH @ ''/instance/beat'') params ''PUT'' w
      in case result of
           Inl err \<Rightarrow> (w', Inl err)
         | Inr body \<Rightarrow>
             if body \<noteq> []
             then (case get_int body ''clientBeatInterval'' of
                     Inl err \<Rightarrow> (w', Inl (Wrapped ''get 'clientBeatInterval' error'' err))
                   | Inr interVal \<Rightarrow> (w', Inr interVal))
             else (w', Inr 0))"

text \<open>
  One round of the loop of \<open>sendInstanceBeat\<close>: \<open>None\<close> when the goroutine returns because the beat was
  shut down, otherwise the pause before the next round, in nanoseconds.
\<close>

definition beat_round ::
  "'w api \<Rightarrow> (string \<Rightarrow> string \<Rightarrow> int result) \<Rightarrow> (BeatInfo \<Rightarrow> string) \<Rightarrow> string \<Rightarrow> int \<Rightarrow> string \<Rightarrow> nat \<Rightarrow>
   BeatReactor \<Rightarrow> 'w \<Rightarrow> BeatReactor \<times> 'w \<times> int option" where
  "beat_round req get_int js namespaceId now k p br w =
     (let b = br_heap br ! p
      in if bi_State b = StateShutdown then (br, w, None)
         else case SendBeat req get_int js namespaceId b w of
                (w', Inl err) \<Rightarrow> (br, w', Some (bi_Period b))
              | (w', Inr beatInterval) \<Rightarrow>
                  let period = (if 0 < beatInterval then 1000000 * beatInterval else bi_Period b)
                  in (br\<lparr>br_heap := (br_heap br)[p := b\<lparr>bi_Period := period\<rparr>],
                         br_beatRecordMap := cm_Set (br_beatRecordMap br) k now\<rparr>, w', Some period))"

section \<open>The proxy\<close>

record 'w HttpProxy =
  hp_cfg :: ClientConfig
  hp_beats :: BeatReactor
  hp_world :: 'w

definition METHOD_POST :: string where "METHOD_POST = ''POST''"

definition register_params ::
  "(rat \<Rightarrow> string) \<Rightarrow> (params option \<Rightarrow> string) \<Rightarrow> ClientConfig \<Rightarrow> string \<Rightarrow> string \<Rightarrow> Instance \<Rightarrow> params" where
  "register_params fmt_float js cfg serviceName groupName inst =
     [(''namespaceId'', cl_NamespaceId cfg), (''serviceName'', serviceName), (''groupName'', groupName),
      (''app'', cl_AppName cfg), (''clusterName'', ins_ClusterName inst), (''ip'', ins_Ip inst),
      (''port'', itoa (int_of_u64 (ins_Port inst))), (''weight'', fmt_float (ins_Weight inst)),
      (''enable'', format_bool (ins_Enable inst)), (''healthy'', format_bool (ins_Healthy inst)),
      (''metadata'', js (ins_Metadata inst)), (''ephemeral'', format_bool (ins_Ephemeral inst))]"

definition http_RegisterInstance ::
  "'w api \<Rightarrow> (rat \<Rightarrow> string) \<Rightarrow> (params option \<Rightarrow> string) \<Rightarrow> string \<Rightarrow> string \<Rightarrow> Instance \<Rightarrow> 'w HttpProxy \<Rightarrow>
   'w HttpProxy \<times> bool result" where
  "http_RegisterInstance req fmt_float js serviceName0 groupName inst proxy =
     (let serviceName = GetGroupName serviceName0 groupName;
          params = register_params fmt_float js (hp_cfg proxy) serviceName groupName inst;
          (w', result) = req SERVICE_PATH params METHOD_POST (hp_world proxy);
          proxy1 = proxy\<lparr>hp_world := w'\<rparr>
      in case result of
           Inl err \<Rightarrow> (proxy1, Inl err)
         | Inr _ \<Rightarrow>
             if ins_Ephemeral inst
             then let beatInfo = \<lparr>bi_Ip = ins_Ip inst, bi_Port = ins_Port inst, bi_Weight = ins_Weight inst,
                        bi_ServiceName = GetGroupName serviceName groupName, bi_Cluster = ins_ClusterName inst,
                        bi_Metadata = ins_Metadata inst, bi_Scheduled = False,
                        bi_Period = GetDurationWithDefault (ins_Metadata inst) HEART_BEAT_INTERVAL 5000000000,
                        bi_State = StateRunning\<rparr>;
                      br = hp_beats proxy1;
                      br1 = br\<lparr>br_heap := br_heap br @ [beatInfo]\<rparr>
                  in (proxy1\<lparr>hp_beats := AddBeatInfo (GetGroupName serviceName groupName) (length (br_heap br)) br1\<rparr>,
                      Inr True)
             else (proxy1, Inr True))"

definition http_DeregisterInstance ::
  "'w api \<Rightarrow> string \<Rightarrow> string \<Rightarrow> Instance \<Rightarrow> 'w HttpProxy \<Rightarrow> 'w HttpProxy \<times> bool result" where
  "http_DeregisterInstance req serviceName0 groupName inst proxy =
     (let serviceName = GetGroupName serviceName0 groupName;
          proxy1 = proxy\<lparr>hp_beats := RemoveBeatInfo serviceName (ins_Ip inst) (ins_Port inst) (hp_beats proxy)\<rparr>;
          params = [(''namespaceId'', cl_NamespaceId (hp_cfg proxy)), (''serviceName'', serviceName),
                    (''clusterName'', ins_ClusterName inst), (''ip'', ins_Ip inst),
                    (''port'', itoa (int_of_u64 (ins_Port inst))), (''ephemeral'', format_bool (ins_Ephemeral inst))];
          (w', result) = req SERVICE_PATH params ''DELETE'' (hp_world proxy1);
          proxy2 = proxy1\<lparr>hp_world := w'\<rparr>
      in case result of Inl err \<Rightarrow> (proxy2, Inl err) | Inr _ \<Rightarrow> (proxy2, Inr True))"

definition http_BatchRegisterInstance ::
  "string \<Rightarrow> string \<Rightarrow> Instance list \<Rightarrow> 'w HttpProxy \<Rightarrow> ('w HttpProxy \<times> bool result) outcome" where
  "http_BatchRegisterInstance serviceName groupName instances proxy = Panic ''implement me''"

definition http_GetServiceList ::
  "'w api \<Rightarrow> (string \<Rightarrow> string \<Rightarrow> int result) \<Rightarrow> (string \<Rightarrow> string \<Rightarrow> string list result) \<Rightarrow> u32 \<Rightarrow> u32 \<Rightarrow> string \<Rightarrow>
   string \<Rightarrow> (string \<times> string) option \<Rightarrow> 'w HttpProxy \<Rightarrow> 'w HttpProxy \<times> ServiceList result" where
  "http_GetServiceList req get_int get_array pageNo pageSize groupName namespaceId selector proxy =
     (let params0 = [(''namespaceId'', namespaceId), (''groupName'', groupName),
                     (''pageNo'', itoa (uint pageNo)), (''pageSize'', itoa (uint pageSize))];
          params = (case selector of
                      Some (t, s) \<Rightarrow> if t = ''label'' then AList.update ''selector'' s params0 else params0
                    | None \<Rightarrow> params0);
          (w', result) = req (SERVICE_BASE_PATH @ ''/service/list'') params ''GET'' (hp_world proxy);
          proxy1 = proxy\<lparr>hp_world := w'\<rparr>
      in case result of
           Inl err \<Rightarrow> (proxy1, Inl err)
         | Inr body \<Rightarrow>
             if body = [] then (proxy1, Inl (Err ''request server return empty''))
             else (case get_int body ''count'' of
                     Inl err \<Rightarrow> (proxy1, Inl (Wrapped ''get 'count' error'' err))
                   | Inr cnt \<Rightarrow>
                       (case get_array body ''doms'' of
                          Inl err \<Rightarrow> (proxy1, Inl (Wrapped ''get 'doms' error'' err))
                        | Inr doms \<Rightarrow> (proxy1, Inr \<lparr>sl_Count = cnt, sl_Doms = doms\<rparr>))))"

definition http_ServerHealthy ::
  "'w api \<Rightarrow> (string \<Rightarrow> string \<Rightarrow> string result) \<Rightarrow> 'w HttpProxy \<Rightarrow> 'w HttpProxy \<times> bool" where
  "http_ServerHealthy req get_string proxy =
     (let (w', result) = req (SERVICE_BASE_PATH @ ''/operator/metrics'') [] ''GET'' (hp_world proxy);
          proxy1 = proxy\<lparr>hp_world := w'\<rparr>
      in case result of
           Inl err \<Rightarrow> (proxy1, False)
         | Inr body \<Rightarrow>
             if body \<noteq> []
             then (case get_string body ''status'' of
                     Inl err \<Rightarrow> (proxy1, False)
                   | Inr status \<Rightarrow> (proxy1, status = ''UP''))
             else (proxy1, False))"

definition http_QueryInstancesOfService ::
  "'w api \<Rightarrow> (string \<Rightarrow> Service option) \<Rightarrow> string \<Rightarrow> string \<Rightarrow> string \<Rightarrow> string \<Rightarrow> int \<Rightarrow> bool \<Rightarrow> 'w HttpProxy \<Rightarrow>
   'w HttpProxy \<times> Service option result" where
  "http_QueryInstancesOfService req from_json localIP serviceName groupName clusters udpPort healthyOnly proxy =
     (let param = [(''namespaceId'', cl_NamespaceId (hp_cfg proxy)),
                   (''serviceName'', GetGroupName serviceName groupName), (''app'', cl_AppName (hp_cfg proxy)),
                   (''clusters'', clusters), (''udpPort'', itoa udpPort),
                   (''healthyOnly'', format_bool healthyOnly), (''clientIP'', localIP)];
          (w', result) = req (SERVICE_PATH @ ''/list'') param ''GET'' (hp_world proxy);
          proxy1 = proxy\<lparr>hp_world := w'\<rparr>
      in case result of Inl err \<Rightarrow> (proxy1, Inl err) | Inr body \<Rightarrow> (proxy1, Inr (from_json body)))"

definition http_Subscribe :: "string \<Rightarrow> string \<Rightarrow> string \<Rightarrow> Service result" where
  "http_Subscribe serviceName groupName clusters = Inr zero_Service"

definition http_Unsubscribe :: "string \<Rightarrow> string \<Rightarrow> string \<Rightarrow> go_error option" where
  "http_Unsubscribe serviceName groupName clusters = None"

section \<open>Pushes\<close>

record PushData =
  pd_PushType :: string
  pd_Data :: string
  pd_LastRefTime :: int

definition IsGzipFile :: "string \<Rightarrow> bool" where
  "IsGzipFile data = (if length data < 2 then False else has_prefix data [CHR 0x1F, CHR 0x8B])"

definition TryDecompressData :: "(string \<Rightarrow> string result) \<Rightarrow> string \<Rightarrow> string" where
  "TryDecompressData gunzip data =
     (if \<not> IsGzipFile data then data else case gunzip data of Inl err \<Rightarrow> [] | Inr bs \<Rightarrow> bs)"

text \<open>
  \<open>handleClient\<close> on a datagram of at most 4024 bytes (a longer one is cut): the acknowledgement sent
  back, if any. \<open>dump\<close> prints the service cache.
\<close>

definition handleClient ::
  "(string \<Rightarrow> string result) \<Rightarrow> (string \<Rightarrow> PushData result) \<Rightarrow> (string \<Rightarrow> Service option) \<Rightarrow>
   (Service sync_map \<Rightarrow> string) \<Rightarrow> proc_env \<Rightarrow> string \<Rightarrow> 'r NamingState \<Rightarrow> 'r NamingState \<times> params option" where
  "handleClient gunzip unmarshal from_json dump pe datagram st =
     (let s = TryDecompressData gunzip (take 4024 datagram)
      in case unmarshal s of
           Inl err \<Rightarrow> (st, None)
         | Inr pushData \<Rightarrow>
             if pd_PushType pushData = ''dom'' \<or> pd_PushType pushData = ''service''
             then (process pe (from_json (pd_Data pushData)) st,
                   Some [(''type'', ''push-ack''), (''lastRefTime'', itoa (pd_LastRefTime pushData)), (''data'', [])])
             else if pd_PushType pushData = ''dump''
             then (st, Some [(''type'', ''dump-ack''), (''lastRefTime'', itoa (pd_LastRefTime pushData)),
                             (''data'', dump (h_ServiceInfoMap (n_holder st)))])
             else (st, Some [(''type'', ''unknow-ack''), (''lastRefTime'', itoa (pd_LastRefTime pushData)),
                             (''data'', [])]))"

section \<open>Facts\<close>

lemma set_state_simps [simp]:
  "br_beatMap (set_state p s br) = br_beatMap br" "br_tasks (set_state p s br) = br_tasks br"
  "br_beatRecordMap (set_state p s br) = br_beatRecordMap br"
  "length (br_heap (set_state p s br)) = length (br_heap br)"
  "p < length (br_heap br) \<Longrightarrow> bi_State (br_heap (set_state p s br) ! p) = s"
  by (simp_all add: set_state_def)

lemma beat_round_shutdown:
  "bi_State (br_heap br ! p) = StateShutdown \<Longrightarrow>
   beat_round req get_int js ns now k p br w = (br, w, None)"
  by (simp add: beat_round_def)

text \<open>
  Removing a beat ends it. After \<open>RemoveBeatInfo\<close> for a beat in the map, the next round of its
  goroutine returns without a request, and the map no longer has the key; the other keys and the state
  of the other beats are left alone.
\<close>

theorem removed_beat_stops:
  assumes "cm_inv (br_beatMap br)" and "cm_Get (br_beatMap br) (buildKey sn ip port) = Some p"
    and "p < length (br_heap br)"
  shows "let br' = RemoveBeatInfo sn ip port br
         in beat_round req get_int js ns now k p br' w = (br', w, None) \<and>
            cm_Get (br_beatMap br') = (cm_Get (br_beatMap br))(buildKey sn ip port := None) \<and>
            (\<forall>q. q \<noteq> p \<longrightarrow> br_heap br' ! q = br_heap br ! q)"
proof -
  let ?br' = "RemoveBeatInfo sn ip port br"
  have eq: "?br' = (set_state p StateShutdown br)\<lparr>br_beatMap := cm_Remove (br_beatMap br) (buildKey sn ip port)\<rparr>"
    using assms(2) by (simp add: RemoveBeatInfo_def Let_def)
  have "bi_State (br_heap ?br' ! p) = StateShutdown"
    using assms(3) by (simp add: eq set_state_def)
  moreover have "cm_Get (br_beatMap ?br') = (cm_Get (br_beatMap br))(buildKey sn ip port := None)"
    using assms(1) by (simp add: eq cm_Get_Remove fun_eq_iff)
  moreover have "br_heap ?br' ! q = br_heap br ! q" if "q \<noteq> p" for q
    using that by (simp add: eq set_state_def)
  ultimately show ?thesis by (simp add: Let_def beat_round_shutdown)
qed

definition demo_beat :: BeatInfo where
  "demo_beat = \<lparr>bi_Ip = ''1'', bi_Port = 80, bi_Weight = 1, bi_ServiceName = ''g@@s'', bi_Cluster = [],
     bi_Metadata = None, bi_Scheduled = False, bi_Period = 5000000000, bi_State = StateRunning\<rparr>"

definition demo_reactor :: BeatReactor where
  "demo_reactor = \<lparr>br_beatMap = cm_Set NewConcurrentMap (buildKey ''g@@s'' ''1'' 80) 0,
     br_beatRecordMap = NewConcurrentMap, br_heap = [demo_beat, demo_beat], br_tasks = []\<rparr>"

lemma demo_reactor_facts:
  "cm_inv (br_beatMap demo_reactor)" "cm_Get (br_beatMap demo_reactor) (buildKey ''g@@s'' ''1'' 80) = Some 0"
  "0 < length (br_heap demo_reactor)"
  by (simp_all add: demo_reactor_def cm_Get_Set)

theorem removed_beat_stops_witness:
  "let br' = RemoveBeatInfo ''g@@s'' ''1'' 80 demo_reactor
   in beat_round (\<lambda>_ _ _ w. (w, Inr [])) (\<lambda>_ _. Inr 0) (\<lambda>_. []) ''public'' 0 ''k'' 0 br' () = (br', (), None)"
  using removed_beat_stops[OF demo_reactor_facts, of "\<lambda>_ _ _ w. (w, Inr [])" "\<lambda>_ _. Inr 0" "\<lambda>_. []" "''public''" 0 "''k''" "()"]
  by (simp add: Let_def)

text \<open>
  Adding a beat whose key is already in the map stops its heart beats. The old beat is marked as shut
  down and put back in place of the new one, so the goroutine that is started returns in its first
  round, and so does the one that was running.
\<close>

theorem readded_beat_never_beats:
  assumes "cm_inv (br_beatMap br)" and "p < length (br_heap br)" and "q < length (br_heap br)"
    and "key = buildKey sn (bi_Ip (br_heap br ! p)) (bi_Port (br_heap br ! p))"
    and "cm_Get (br_beatMap br) key = Some q"
  shows "let br' = AddBeatInfo sn p br
         in cm_Get (br_beatMap br') key = Some q \<and> br_tasks br' = br_tasks br @ [(key, q)] \<and>
            beat_round req get_int js ns now key q br' w = (br', w, None)"
proof -
  let ?br1 = "(set_state q StateShutdown br)\<lparr>br_beatMap := cm_Remove (br_beatMap br) key\<rparr>"
  let ?b = "br_heap ?br1 ! q"
  have eq: "AddBeatInfo sn p br = ?br1\<lparr>br_beatMap := cm_Set (cm_Remove (br_beatMap br) key) key q,
      br_heap := (br_heap ?br1)[q := ?b\<lparr>bi_Metadata := Some (DeepCopyMap (slice (bi_Metadata ?b)))\<rparr>],
      br_tasks := br_tasks br @ [(key, q)]\<rparr>"
    using assms(5) unfolding AddBeatInfo_def assms(4)[symmetric] by (simp add: Let_def)
  have "bi_State (br_heap (AddBeatInfo sn p br) ! q) = StateShutdown"
    using assms(3) by (simp add: eq set_state_def)
  moreover have "cm_Get (br_beatMap (AddBeatInfo sn p br)) key = Some q"
    using assms(1) by (simp add: eq cm_Get_Set)
  moreover have "br_tasks (AddBeatInfo sn p br) = br_tasks br @ [(key, q)]" by (simp add: eq)
  ultimately show ?thesis by (simp add: Let_def beat_round_shutdown)
qed

theorem readded_beat_never_beats_witness:
  "let br' = AddBeatInfo ''g@@s'' 1 demo_reactor
   in beat_round (\<lambda>_ _ _ w. (w, Inr [])) (\<lambda>_ _. Inr 0) (\<lambda>_. []) ''public'' 0 (buildKey ''g@@s'' ''1'' 80) 0 br' () =
      (br', (), None)"
proof -
  have "1 < length (br_heap demo_reactor)"
    "buildKey ''g@@s'' ''1'' 80 = buildKey ''g@@s'' (bi_Ip (br_heap demo_reactor ! 1)) (bi_Port (br_heap demo_reactor ! 1))"
    by (simp_all add: demo_reactor_def demo_beat_def)
  from readded_beat_never_beats[OF demo_reactor_facts(1) this(1) demo_reactor_facts(3) this(2) demo_reactor_facts(2),
      of "\<lambda>_ _ _ w. (w, Inr [])" "\<lambda>_ _. Inr 0" "\<lambda>_. []" "''public''" 0 "()"]
  show ?thesis by (simp add: Let_def)
qed

text \<open>
  Registering an instance over HTTP prefixes the group twice in the key of its beat, deregistering
  only once. The beat of a registered ephemeral instance is therefore not found when the instance is
  deregistered: it stays in the map, and running.
\<close>

theorem http_deregister_leaves_beat:
  assumes "cm_inv (br_beatMap (hp_beats proxy))"
    and "\<forall>k q. cm_Get (br_beatMap (hp_beats proxy)) k = Some q \<longrightarrow> q < length (br_heap (hp_beats proxy))"
    and "ins_Ephemeral inst"
    and "\<forall>w. \<exists>w' body. req SERVICE_PATH (register_params fmt_float js (hp_cfg proxy) (GetGroupName s g) g inst)
           METHOD_POST w = (w', Inr body)"
    and "cm_Get (br_beatMap (hp_beats proxy)) (buildKey (GetGroupName (GetGroupName s g) g) (ins_Ip inst) (ins_Port inst)) = None"
  shows "let (p1, r1) = http_RegisterInstance req fmt_float js s g inst proxy;
             (p2, r2) = http_DeregisterInstance req s g inst p1;
             key = buildKey (GetGroupName (GetGroupName s g) g) (ins_Ip inst) (ins_Port inst);
             p = length (br_heap (hp_beats proxy))
         in r1 = Inr True \<and> cm_Get (br_beatMap (hp_beats p2)) key = Some p \<and>
            bi_State (br_heap (hp_beats p2) ! p) = StateRunning"
proof -
  let ?key = "buildKey (GetGroupName (GetGroupName s g) g) (ins_Ip inst) (ins_Port inst)"
  let ?bad = "buildKey (GetGroupName s g) (ins_Ip inst) (ins_Port inst)" and ?br = "hp_beats proxy"
  let ?p = "length (br_heap ?br)"
  have keys: "?bad \<noteq> ?key" by (simp add: buildKey_def key_defs)
  obtain w' body where post: "req SERVICE_PATH (register_params fmt_float js (hp_cfg proxy) (GetGroupName s g) g inst)
      METHOD_POST (hp_world proxy) = (w', Inr body)" using assms(4) by blast
  obtain p1 where reg: "http_RegisterInstance req fmt_float js s g inst proxy = (p1, Inr True)"
    and map1: "br_beatMap (hp_beats p1) = cm_Set (br_beatMap ?br) ?key ?p"
    and len1: "length (br_heap (hp_beats p1)) = Suc ?p"
    and run1: "bi_State (br_heap (hp_beats p1) ! ?p) = StateRunning"
    using assms(3,5) post by (simp add: http_RegisterInstance_def AddBeatInfo_def Let_def)
  define br2 where "br2 = RemoveBeatInfo (GetGroupName s g) (ins_Ip inst) (ins_Port inst) (hp_beats p1)"
  have inv1: "cm_inv (cm_Set (br_beatMap ?br) ?key ?p)" using assms(1) by simp
  have get: "cm_Get (br_beatMap (hp_beats p1)) ?bad = cm_Get (br_beatMap ?br) ?bad"
    using keys assms(1) by (simp add: map1 cm_Get_Set)
  have "cm_Get (br_beatMap br2) ?key = Some ?p"
    using keys inv1 assms(1) by (simp add: br2_def RemoveBeatInfo_def Let_def get map1 cm_Get_Remove cm_Get_Set split: option.split)
  moreover have "bi_State (br_heap br2 ! ?p) = StateRunning"
  proof (cases "cm_Get (br_beatMap ?br) ?bad")
    case None
    with run1 show ?thesis by (simp add: br2_def RemoveBeatInfo_def Let_def get)
  next
    case (Some q)
    then have "q \<noteq> ?p" using assms(2) by fastforce
    with Some run1 show ?thesis by (simp add: br2_def RemoveBeatInfo_def Let_def get set_state_def)
  qed
  moreover have "hp_beats (fst (http_DeregisterInstance req s g inst p1)) = br2"
    by (simp add: http_DeregisterInstance_def br2_def Let_def split_beta split: sum.split)
  ultimately show ?thesis by (simp add: reg Let_def split_beta)
qed

definition demo_http :: "unit HttpProxy" where
  "demo_http = \<lparr>hp_cfg = zero_ClientConfig, hp_beats = NewBeatReactor, hp_world = ()\<rparr>"

theorem http_deregister_leaves_beat_witness:
  "let inst = (demo_instance ''1'' 80)\<lparr>ins_Ephemeral := True\<rparr>; req = (\<lambda>_ _ _ w. (w, Inr ''ok''));
       (p1, r1) = http_RegisterInstance req (\<lambda>_. []) (\<lambda>_. []) ''s'' ''g'' inst demo_http;
       (p2, r2) = http_DeregisterInstance req ''s'' ''g'' inst p1
   in cm_Get (br_beatMap (hp_beats p2)) (buildKey ''g@@g@@s'' ''1'' 80) = Some 0"
proof -
  have e: "cm_inv (br_beatMap (hp_beats demo_http))" "cm_Get (br_beatMap (hp_beats demo_http)) k = None"
    "length (br_heap (hp_beats demo_http)) = 0" for k
    by (simp_all add: demo_http_def NewBeatReactor_def)
  show ?thesis
    using http_deregister_leaves_beat[of demo_http "(demo_instance ''1'' 80)\<lparr>ins_Ephemeral := True\<rparr>"
        "\<lambda>_ _ _ w. (w, Inr ''ok'')" "\<lambda>_. []" "\<lambda>_. []" "''s''" "''g''"] e
    by (simp add: Let_def split_beta key_defs demo_instance_def)
qed

end
