(* ===== verification/Naming_Select.thy ===== *)
theory Naming_Select
  imports Naming_Cache
begin

text \<open>
  The choice of an instance: \<open>naming_instance_chooser.go\<close>, and \<open>selectInstances\<close> and
  \<open>selectOneHealthyInstances\<close> of \<open>naming_client.go\<close>. \<open>srt\<close> is \<open>sort.Sort\<close>; \<open>r\<close> is the value of
  \<open>rand.Intn(max)\<close>, a number below \<open>max\<close>.
\<close>

section \<open>Definitions\<close>

record Chooser =
  ch_data :: "Instance list"
  ch_totals :: "int list"
  ch_max :: int

definition weight_Less :: "Instance \<Rightarrow> Instance \<Rightarrow> bool" where
  "weight_Less a b \<longleftrightarrow> ins_Weight a < ins_Weight b"

text \<open>The loop of \<open>newChooser\<close>: the totals and the final running total.\<close>

fun running_totals :: "int \<Rightarrow> Instance list \<Rightarrow> int list \<times> int" where
  "running_totals runningTotal [] = ([], runningTotal)"
| "running_totals runningTotal (c # cs) =
     (let t = runningTotal + trunc_int (ins_Weight c);
          (ts, m) = running_totals t cs
      in (t # ts, m))"

definition newChooser :: "Instance sorter \<Rightarrow> Instance list \<Rightarrow> Chooser" where
  "newChooser srt instances =
     (let sorted_instances = srt weight_Less instances;
          (totals, runningTotal) = running_totals 0 sorted_instances
      in \<lparr>ch_data = sorted_instances, ch_totals = totals, ch_max = runningTotal\<rparr>)"

definition pick_pos :: "Chooser \<Rightarrow> nat \<Rightarrow> nat" where
  "pick_pos chs r = search_ints (ch_totals chs) (int r + 1)"

text \<open>\<open>rand.Intn\<close> panics when its argument is not positive.\<close>

definition pick :: "Chooser \<Rightarrow> nat \<Rightarrow> Instance outcome" where
  "pick chs r =
     (if ch_max chs \<le> 0 then Panic ''invalid argument to Intn''
      else if pick_pos chs r < length (ch_data chs) then Ret (ch_data chs ! pick_pos chs r)
      else Panic ''index out of range'')"

definition selectInstances :: "Service \<Rightarrow> bool \<Rightarrow> Instance list option result" where
  "selectInstances service healthy =
     (if length (slice (svc_Hosts service)) = 0 then Inl (Err ''instance list is empty!'')
      else
        let result = filter (\<lambda>host. ins_Healthy host = healthy \<and> ins_Enable host \<and> 0 < ins_Weight host)
                       (slice (svc_Hosts service))
        in Inr (if result = [] then None else Some result))"

definition selectOneHealthyInstances ::
  "Instance sorter \<Rightarrow> nat \<Rightarrow> Service \<Rightarrow> Instance result outcome" where
  "selectOneHealthyInstances srt r service =
     (if length (slice (svc_Hosts service)) = 0 then Ret (Inl (Err ''instance list is empty!''))
      else
        let result = filter (\<lambda>host. ins_Healthy host \<and> ins_Enable host \<and> 0 < ins_Weight host)
                       (slice (svc_Hosts service))
        in if length result = 0 then Ret (Inl (Err ''healthy instance list is empty!''))
           else case pick (newChooser srt result) r of
                  Panic e \<Rightarrow> Panic e
                | Ret inst \<Rightarrow> Ret (Inr inst))"

section \<open>The totals\<close>

definition tw :: "Instance \<Rightarrow> int" where
  "tw c = trunc_int (ins_Weight c)"

lemma running_totals_length: "length (fst (running_totals t cs)) = length cs"
  by (induction t cs rule: running_totals.induct) (auto simp: Let_def split: prod.splits)

lemma running_totals_nth:
  "i < length cs \<Longrightarrow> fst (running_totals t cs) ! i = t + sum_list (map tw (take (Suc i) cs))"
proof (induction t cs arbitrary: i rule: running_totals.induct)
  case (2 t c cs)
  then show ?case by (cases i) (auto simp: Let_def tw_def split: prod.splits)
qed simp

lemma running_totals_max: "snd (running_totals t cs) = t + sum_list (map tw cs)"
  by (induction t cs rule: running_totals.induct) (auto simp: Let_def tw_def split: prod.splits)

lemma newChooser_simps:
  "ch_data (newChooser srt is) = srt weight_Less is"
  "ch_max (newChooser srt is) = sum_list (map tw (srt weight_Less is))"
  "length (ch_totals (newChooser srt is)) = length (srt weight_Less is)"
  "i < length (srt weight_Less is) \<Longrightarrow>
     ch_totals (newChooser srt is) ! i = sum_list (map tw (take (Suc i) (srt weight_Less is)))"
  using running_totals_max[of 0 "srt weight_Less is"] running_totals_length[of 0 "srt weight_Less is"]
    running_totals_nth[of i "srt weight_Less is" 0]
  by (auto simp: newChooser_def Let_def split: prod.splits)

text \<open>With weights that are not negative the totals do not decrease.\<close>

lemma sum_take_mono:
  assumes "\<forall>c \<in> set cs. 0 \<le> tw c" and "i \<le> j"
  shows "sum_list (map tw (take i cs)) \<le> sum_list (map tw (take j cs))"
proof -
  have "take j cs = take i cs @ take (j - i) (drop i cs)" using assms(2) by (metis le_add_diff_inverse take_add)
  moreover have "0 \<le> sum_list (map tw (take (j - i) (drop i cs)))"
    by (rule sum_list_nonneg) (use assms(1) in \<open>auto dest!: in_set_takeD in_set_dropD\<close>)
  ultimately show ?thesis by simp
qed

lemma least_true_unique:
  assumes "least_true f i j a" and "i \<le> b" "b < j" "f b" and "\<And>k. i \<le> k \<Longrightarrow> k < b \<Longrightarrow> \<not> f k"
  shows "a = b"
proof (rule ccontr)
  assume "a \<noteq> b"
  then consider "a < b" | "b < a" by linarith
  then show False
    using assms by cases (auto simp: least_true_def)
qed

lemma pick_pos_iff:
  assumes nonneg: "\<forall>c \<in> set cs. 0 \<le> tw c" and cs: "cs = srt weight_Less is" and k: "k < length cs"
  shows "pick_pos (newChooser srt is) r = k \<longleftrightarrow>
    sum_list (map tw (take k cs)) \<le> int r \<and> int r < sum_list (map tw (take (Suc k) cs))"
    (is "?pos = k \<longleftrightarrow> ?S k \<le> int r \<and> int r < ?S (Suc k)")
proof -
  let ?ts = "ch_totals (newChooser srt is)"
  have len: "length ?ts = length cs" and nth: "\<And>i. i < length cs \<Longrightarrow> ?ts ! i = ?S (Suc i)"
    using newChooser_simps by (auto simp: cs)
  have "sorted ?ts"
    unfolding sorted_iff_nth_mono using nth len sum_take_mono[OF nonneg] by simp
  from search_ints_correct[OF this, of "int r + 1"]
  have least: "least_true (\<lambda>i. int r + 1 \<le> ?ts ! i) 0 (length cs) ?pos"
    by (simp add: pick_pos_def len)
  show ?thesis
  proof
    assume "?pos = k"
    with least have "int r + 1 \<le> ?ts ! k" and below: "\<And>i. i < k \<Longrightarrow> \<not> int r + 1 \<le> ?ts ! i"
      using k by (auto simp: least_true_def)
    moreover have "?S k \<le> int r"
    proof (cases k)
      case (Suc i)
      with below[of i] k nth[of i] show ?thesis by simp
    qed simp
    ultimately show "?S k \<le> int r \<and> int r < ?S (Suc k)" using nth[OF k] by simp
  next
    assume a: "?S k \<le> int r \<and> int r < ?S (Suc k)"
    show "?pos = k"
    proof (rule least_true_unique[OF least])
      show "int r + 1 \<le> ?ts ! k" using a nth[OF k] by simp
      show "\<not> int r + 1 \<le> ?ts ! i" if "i < k" for i
        using a that k nth[of i] sum_take_mono[OF nonneg, of "Suc i" k] by simp
    qed (use k in auto)
  qed
qed

lemma pick_pos_less:
  assumes nonneg: "\<forall>c \<in> set cs. 0 \<le> tw c" and cs: "cs = srt weight_Less is"
    and r: "int r < sum_list (map tw cs)"
  shows "pick_pos (newChooser srt is) r < length cs"
proof -
  have "cs \<noteq> []" using r by auto
  define k where "k = (LEAST k. int r < sum_list (map tw (take (Suc k) cs)))"
  have last: "int r < sum_list (map tw (take (Suc (length cs - 1)) cs))" using r \<open>cs \<noteq> []\<close> by simp
  then have "int r < sum_list (map tw (take (Suc k) cs))" unfolding k_def by (rule LeastI)
  moreover have "k \<le> length cs - 1" unfolding k_def by (rule Least_le) (rule last)
  moreover have "sum_list (map tw (take k cs)) \<le> int r"
  proof (cases k)
    case (Suc i)
    then have "i < k" by simp
    then have "\<not> int r < sum_list (map tw (take (Suc i) cs))" unfolding k_def by (rule not_less_Least)
    with Suc show ?thesis by simp
  qed simp
  ultimately have "k < length cs" "pick_pos (newChooser srt is) r = k"
    using pick_pos_iff[where srt = srt, OF nonneg cs, of k r] \<open>cs \<noteq> []\<close> by (cases cs; simp)+
  then show ?thesis by simp
qed

lemma chooser_weights:
  assumes "go_sort srt" and "\<forall>c \<in> set is. 0 \<le> ins_Weight c"
  shows "mset (ch_data (newChooser srt is)) = mset is"
    and "set (srt weight_Less is) = set is"
    and "\<forall>c \<in> set (srt weight_Less is). 0 \<le> tw c"
proof -
  show "mset (ch_data (newChooser srt is)) = mset is"
    by (simp add: newChooser_simps go_sort.sort_perm[OF assms(1)])
  show set: "set (srt weight_Less is) = set is" by (rule go_sort.sort_set[OF assms(1)])
  show "\<forall>c \<in> set (srt weight_Less is). 0 \<le> tw c"
    using assms(2) by (simp add: set tw_def trunc_int_nonneg)
qed

lemma pick_Ret:
  assumes "go_sort srt" and "\<forall>c \<in> set is. 0 \<le> ins_Weight c" and "int r < ch_max (newChooser srt is)"
  shows "pick (newChooser srt is) r = Ret (ch_data (newChooser srt is) ! pick_pos (newChooser srt is) r)"
    and "ch_data (newChooser srt is) ! pick_pos (newChooser srt is) r \<in> set is"
proof -
  have "pick_pos (newChooser srt is) r < length (srt weight_Less is)"
    by (rule pick_pos_less[where srt = srt, OF chooser_weights(3)[OF assms(1,2)] refl]) (use assms(3) newChooser_simps(2) in simp)
  then show "pick (newChooser srt is) r = Ret (ch_data (newChooser srt is) ! pick_pos (newChooser srt is) r)"
    and "ch_data (newChooser srt is) ! pick_pos (newChooser srt is) r \<in> set is"
    using assms(3) chooser_weights(2)[OF assms(1,2)] nth_mem by (auto simp: pick_def newChooser_simps(1))
qed

lemma chooser_max_pos:
  assumes "go_sort srt" and "\<forall>c \<in> set is. 0 \<le> ins_Weight c"
  shows "0 < ch_max (newChooser srt is) \<longleftrightarrow> (\<exists>c \<in> set is. 1 \<le> ins_Weight c)"
proof -
  let ?cs = "srt weight_Less is"
  have nonneg: "\<forall>x \<in> set (map tw ?cs). 0 \<le> x" using chooser_weights(3)[OF assms] by simp
  have "0 < sum_list (map tw ?cs) \<longleftrightarrow> (\<exists>x \<in> set (map tw ?cs). x \<noteq> 0)"
    using sum_list_nonneg_eq_0_iff[of "map tw ?cs"] sum_list_nonneg[of "map tw ?cs"] nonneg by fastforce
  moreover have "tw c \<noteq> 0 \<longleftrightarrow> 1 \<le> ins_Weight c" if "c \<in> set is" for c
  proof -
    have "0 \<le> \<lfloor>ins_Weight c\<rfloor>" and "tw c = \<lfloor>ins_Weight c\<rfloor>"
      using that assms(2) by (simp_all add: tw_def trunc_int_def)
    then show ?thesis using one_le_floor[of "ins_Weight c"] by linarith
  qed
  ultimately show ?thesis
    using chooser_weights(2)[OF assms] by (simp add: newChooser_simps(2))
qed





end
