(* ===== verification/Naming_Client.thy ===== *)
theory Naming_Client
  imports Naming_Http Naming_Select
begin

text \<open>
  The naming client: the delegate that routes to the gRPC or the HTTP proxy
  (\<open>naming_proxy_delegate.go\<close>), the operations of \<open>naming_client.go\<close> and the periodic refresh of
  \<open>service_info_updater.go\<close>. What the client calls outside the model is collected in a record of
  functions; a callback is known by the address of the field that holds it in the parameter struct.
\<close>

section \<open>State and environment\<close>

record ('r, 'w) naming_env =
  e_sec :: sec_info
  e_rq :: "'r rpc_request"
  e_running :: "'r \<Rightarrow> bool"
  e_shutdown :: "'r \<Rightarrow> 'r"
  e_pe :: proc_env
  e_api :: "'w api"
  e_fmt_float :: "rat \<Rightarrow> string"
  e_js :: "params option \<Rightarrow> string"
  e_get_string :: "string \<Rightarrow> string \<Rightarrow> string result"

record ('r, 'w) NamingClient =
  nw_st :: "'r NamingState"
  nw_http :: "'w HttpProxy"
  nw_isClosed :: bool

section \<open>The delegate\<close>

datatype proxy_kind = GrpcProxy | HttpProxyKind

definition getExecuteClientProxy :: "Instance \<Rightarrow> proxy_kind" where
  "getExecuteClientProxy inst = (if ins_Ephemeral inst then GrpcProxy else HttpProxyKind)"

definition delegate_RegisterInstance ::
  "('r, 'w) naming_env \<Rightarrow> string \<Rightarrow> string \<Rightarrow> Instance \<Rightarrow> ('r, 'w) NamingClient \<Rightarrow>
   (('r, 'w) NamingClient \<times> bool result) outcome" where
  "delegate_RegisterInstance env serviceName groupName inst nw =
     (case getExecuteClientProxy inst of
        GrpcProxy \<Rightarrow>
          obind (grpc_RegisterInstance (e_sec env) (e_rq env) serviceName groupName inst (nw_st nw))
            (\<lambda>(st, r). Ret (nw\<lparr>nw_st := st\<rparr>, r))
      | HttpProxyKind \<Rightarrow>
          let (hp, r) = http_RegisterInstance (e_api env) (e_fmt_float env) (e_js env) serviceName groupName inst
                          (nw_http nw)
          in Ret (nw\<lparr>nw_http := hp\<rparr>, r))"

definition delegate_BatchRegisterInstance ::
  "('r, 'w) naming_env \<Rightarrow> string \<Rightarrow> string \<Rightarrow> Instance list \<Rightarrow> ('r, 'w) NamingClient \<Rightarrow>
   (('r, 'w) NamingClient \<times> bool result) outcome" where
  "delegate_BatchRegisterInstance env serviceName groupName instances nw =
     obind (grpc_BatchRegisterInstance (e_sec env) (e_rq env) serviceName groupName instances (nw_st nw))
       (\<lambda>(st, r). Ret (nw\<lparr>nw_st := st\<rparr>, r))"

definition delegate_DeregisterInstance ::
  "('r, 'w) naming_env \<Rightarrow> string \<Rightarrow> string \<Rightarrow> Instance \<Rightarrow> ('r, 'w) NamingClient \<Rightarrow>
   (('r, 'w) NamingClient \<times> bool result) outcome" where
  "delegate_DeregisterInstance env serviceName groupName inst nw =
     (case getExecuteClientProxy inst of
        GrpcProxy \<Rightarrow>
          obind (grpc_DeregisterInstance (e_sec env) (e_rq env) serviceName groupName inst (nw_st nw))
            (\<lambda>(st, r). Ret (nw\<lparr>nw_st := st\<rparr>, r))
      | HttpProxyKind \<Rightarrow>
          let (hp, r) = http_DeregisterInstance (e_api env) serviceName groupName inst (nw_http nw)
          in Ret (nw\<lparr>nw_http := hp\<rparr>, r))"

definition delegate_GetServiceList ::
  "('r, 'w) naming_env \<Rightarrow> u32 \<Rightarrow> u32 \<Rightarrow> string \<Rightarrow> string \<Rightarrow> (string \<times> string) option \<Rightarrow> ('r, 'w) NamingClient \<Rightarrow>
   (('r, 'w) NamingClient \<times> ServiceList result) outcome" where
  "delegate_GetServiceList env pageNo pageSize groupName namespaceId selector nw =
     obind (grpc_GetServiceList (e_sec env) (e_rq env) pageNo pageSize groupName namespaceId selector (nw_st nw))
       (\<lambda>(st, r). Ret (nw\<lparr>nw_st := st\<rparr>, r))"

definition delegate_ServerHealthy ::
  "('r, 'w) naming_env \<Rightarrow> ('r, 'w) NamingClient \<Rightarrow> ('r, 'w) NamingClient \<times> bool" where
  "delegate_ServerHealthy env nw =
     (if e_running env (n_rpc (nw_st nw)) then (nw, True)
      else let (hp, b) = http_ServerHealthy (e_api env) (e_get_string env) (nw_http nw)
           in (nw\<lparr>nw_http := hp\<rparr>, b))"

definition delegate_QueryInstancesOfService ::
  "('r, 'w) naming_env \<Rightarrow> string \<Rightarrow> string \<Rightarrow> string \<Rightarrow> int \<Rightarrow> bool \<Rightarrow> ('r, 'w) NamingClient \<Rightarrow>
   (('r, 'w) NamingClient \<times> Service result) outcome" where
  "delegate_QueryInstancesOfService env serviceName groupName clusters udpPort healthyOnly nw =
     obind (grpc_QueryInstancesOfService (e_sec env) (e_rq env) serviceName groupName clusters udpPort healthyOnly
              (nw_st nw))
       (\<lambda>(st, r). Ret (nw\<lparr>nw_st := st\<rparr>, r))"

definition delegate_Subscribe ::
  "('r, 'w) naming_env \<Rightarrow> string \<Rightarrow> string \<Rightarrow> string \<Rightarrow> ('r, 'w) NamingClient \<Rightarrow>
   (('r, 'w) NamingClient \<times> Service result) outcome" where
  "delegate_Subscribe env serviceName groupName clusters nw =
     (let st = nw_st nw;
          isSubscribed = grpc_IsSubscribed serviceName groupName clusters st;
          serviceNameWithGroup = GetServiceCacheKey (GetGroupName serviceName groupName) clusters
      in case (if isSubscribed then map_of (h_ServiceInfoMap (n_holder st)) serviceNameWithGroup else None) of
           Some service \<Rightarrow> Ret (nw\<lparr>nw_st := process (e_pe env) (Some service) st\<rparr>, Inr service)
         | None \<Rightarrow>
             obind (grpc_Subscribe (e_sec env) (e_rq env) serviceName groupName clusters st)
               (\<lambda>(st1, r). case r of
                  Inl err \<Rightarrow> Ret (nw\<lparr>nw_st := st1\<rparr>, Inl err)
                | Inr service \<Rightarrow> Ret (nw\<lparr>nw_st := process (e_pe env) (Some service) st1\<rparr>, Inr service)))"

definition delegate_Unsubscribe ::
  "('r, 'w) naming_env \<Rightarrow> string \<Rightarrow> string \<Rightarrow> string \<Rightarrow> ('r, 'w) NamingClient \<Rightarrow>
   (('r, 'w) NamingClient \<times> go_error option) outcome" where
  "delegate_Unsubscribe env serviceName groupName clusters nw =
     (let st = nw_st nw;
          st1 = st\<lparr>n_holder := StopUpdateIfContain (n_holder st) (GetGroupName serviceName groupName) clusters\<rparr>
      in obind (grpc_Unsubscribe (e_sec env) (e_rq env) serviceName groupName clusters st1)
           (\<lambda>(st2, r). Ret (nw\<lparr>nw_st := st2\<rparr>, r)))"

definition delegate_CloseClient ::
  "('r, 'w) naming_env \<Rightarrow> ('r, 'w) NamingClient \<Rightarrow> ('r, 'w) NamingClient" where
  "delegate_CloseClient env nw = nw\<lparr>nw_st := (nw_st nw)\<lparr>n_rpc := e_shutdown env (n_rpc (nw_st nw))\<rparr>\<rparr>"

section \<open>The client\<close>

definition default_group :: "string \<Rightarrow> string" where
  "default_group groupName = (if length groupName = 0 then DEFAULT_GROUP else groupName)"

definition instance_of_param :: "RegisterInstanceParam \<Rightarrow> params option \<Rightarrow> Instance" where
  "instance_of_param param metadata = zero_Instance\<lparr>ins_Ip := rip_Ip param, ins_Port := rip_Port param,
     ins_Metadata := metadata, ins_ClusterName := rip_ClusterName param, ins_Healthy := rip_Healthy param,
     ins_Enable := rip_Enable param, ins_Weight := rip_Weight param, ins_Ephemeral := rip_Ephemeral param\<rparr>"

definition RegisterInstance ::
  "('r, 'w) naming_env \<Rightarrow> RegisterInstanceParam \<Rightarrow> ('r, 'w) NamingClient \<Rightarrow>
   (('r, 'w) NamingClient \<times> bool result) outcome" where
  "RegisterInstance env param sc =
     (if rip_ServiceName param = [] then Ret (sc, Inl (Err ''serviceName cannot be empty!''))
      else
        let metadata = (case rip_Metadata param of None \<Rightarrow> Some [] | Some m \<Rightarrow> Some m)
        in delegate_RegisterInstance env (rip_ServiceName param) (default_group (rip_GroupName param))
             (instance_of_param param metadata) sc)"

definition BatchRegisterInstance ::
  "('r, 'w) naming_env \<Rightarrow> BatchRegisterInstanceParam \<Rightarrow> ('r, 'w) NamingClient \<Rightarrow>
   (('r, 'w) NamingClient \<times> bool result) outcome" where
  "BatchRegisterInstance env param sc =
     (if brp_ServiceName param = [] then Ret (sc, Inl (Err ''serviceName cannot be empty!''))
      else if length (brp_Instances param) = 0 then Ret (sc, Inl (Err ''instances cannot be empty!''))
      else case find (\<lambda>p. \<not> rip_Ephemeral p) (brp_Instances param) of
             Some p \<Rightarrow> Ret (sc, Inl (Err ''Batch registration does not allow persistent instance registration!''))
           | None \<Rightarrow>
               delegate_BatchRegisterInstance env (brp_ServiceName param) (default_group (brp_GroupName param))
                 (map (\<lambda>p. instance_of_param p (rip_Metadata p)) (brp_Instances param)) sc)"

definition DeregisterInstance ::
  "('r, 'w) naming_env \<Rightarrow> DeregisterInstanceParam \<Rightarrow> ('r, 'w) NamingClient \<Rightarrow>
   (('r, 'w) NamingClient \<times> bool result) outcome" where
  "DeregisterInstance env param sc =
     delegate_DeregisterInstance env (dip_ServiceName param) (default_group (dip_GroupName param))
       (zero_Instance\<lparr>ins_Ip := dip_Ip param, ins_Port := dip_Port param, ins_ClusterName := dip_Cluster param,
          ins_Ephemeral := dip_Ephemeral param\<rparr>) sc"

definition UpdateInstance ::
  "('r, 'w) naming_env \<Rightarrow> UpdateInstanceParam \<Rightarrow> ('r, 'w) NamingClient \<Rightarrow>
   (('r, 'w) NamingClient \<times> bool result) outcome" where
  "UpdateInstance env param sc =
     (if rip_ServiceName param = [] then Ret (sc, Inl (Err ''serviceName cannot be empty!''))
      else
        let metadata = (case rip_Metadata param of None \<Rightarrow> Some [] | Some m \<Rightarrow> Some m)
        in delegate_RegisterInstance env (rip_ServiceName param) (default_group (rip_GroupName param))
             (instance_of_param param metadata) sc)"

text \<open>The cached service, or the one a subscription returns: the common start of the queries.\<close>

definition cached_or_subscribe ::
  "('r, 'w) naming_env \<Rightarrow> string \<Rightarrow> string \<Rightarrow> ('r, 'w) NamingClient \<Rightarrow>
   (('r, 'w) NamingClient \<times> Service result) outcome" where
  "cached_or_subscribe env serviceName groupName sc =
     (let (service, ok) = GetServiceInfo (n_holder (nw_st sc)) serviceName groupName []
      in if ok then Ret (sc, Inr service) else delegate_Subscribe env serviceName groupName [] sc)"

definition GetService ::
  "('r, 'w) naming_env \<Rightarrow> GetServiceParam \<Rightarrow> ('r, 'w) NamingClient \<Rightarrow>
   (('r, 'w) NamingClient \<times> Service \<times> go_error option) outcome" where
  "GetService env param sc =
     obind (cached_or_subscribe env (gsp_ServiceName param) (default_group (gsp_GroupName param)) sc)
       (\<lambda>(sc1, r).
          let (service, err) = (case r of Inl e \<Rightarrow> (zero_Service, Some e) | Inr s \<Rightarrow> (s, None));
              service1 = service\<lparr>svc_Clusters := join_str (gsp_Clusters param) '',''\<rparr>
          in Ret (sc1, service1\<lparr>svc_Hosts := SelectInstance (NewClusterSelector (gsp_Clusters param)) service1\<rparr>, err))"

definition GetAllServicesInfo ::
  "('r, 'w) naming_env \<Rightarrow> string \<Rightarrow> string \<Rightarrow> u32 \<Rightarrow> u32 \<Rightarrow> ('r, 'w) NamingClient \<Rightarrow>
   (('r, 'w) NamingClient \<times> ServiceList result) outcome" where
  "GetAllServicesInfo env nameSpace groupName pageNo pageSize sc =
     (let ns = (if length nameSpace = 0
                then (if length (cl_NamespaceId (n_cfg (nw_st sc))) = 0 then DEFAULT_NAMESPACE_ID
                      else cl_NamespaceId (n_cfg (nw_st sc)))
                else nameSpace)
      in delegate_GetServiceList env pageNo pageSize (default_group groupName) ns (Some ([], [])) sc)"

definition SelectAllInstances ::
  "('r, 'w) naming_env \<Rightarrow> SelectAllInstancesParam \<Rightarrow> ('r, 'w) NamingClient \<Rightarrow>
   (('r, 'w) NamingClient \<times> Instance list result) outcome" where
  "SelectAllInstances env param sc =
     obind (cached_or_subscribe env (gsp_ServiceName param) (default_group (gsp_GroupName param)) sc)
       (\<lambda>(sc1, r). case r of
          Inl err \<Rightarrow> Ret (sc1, Inl err)
        | Inr service \<Rightarrow> Ret (sc1, Inr (slice (SelectInstance (NewClusterSelector (gsp_Clusters param)) service))))"

definition SelectInstances ::
  "('r, 'w) naming_env \<Rightarrow> SelectInstancesParam \<Rightarrow> ('r, 'w) NamingClient \<Rightarrow>
   (('r, 'w) NamingClient \<times> Instance list option result) outcome" where
  "SelectInstances env param sc =
     obind (cached_or_subscribe env (gsp_ServiceName param) (default_group (gsp_GroupName param)) sc)
       (\<lambda>(sc1, r). case r of
          Inl err \<Rightarrow> Ret (sc1, Inl err)
        | Inr service \<Rightarrow>
            Ret (sc1, selectInstances (service\<lparr>svc_Hosts :=
                   SelectInstance (NewClusterSelector (gsp_Clusters param)) service\<rparr>) (sip_HealthyOnly param)))"

definition SelectOneHealthyInstance ::
  "('r, 'w) naming_env \<Rightarrow> nat \<Rightarrow> SelectOneHealthInstanceParam \<Rightarrow> ('r, 'w) NamingClient \<Rightarrow>
   (('r, 'w) NamingClient \<times> Instance result) outcome" where
  "SelectOneHealthyInstance env rnd param sc =
     obind (cached_or_subscribe env (gsp_ServiceName param) (default_group (gsp_GroupName param)) sc)
       (\<lambda>(sc1, r). case r of
          Inl err \<Rightarrow> Ret (sc1, Inl err)
        | Inr service \<Rightarrow>
            obind (selectOneHealthyInstances (pe_srt (e_pe env)) rnd (service\<lparr>svc_Hosts :=
                     SelectInstance (NewClusterSelector (gsp_Clusters param)) service\<rparr>))
              (\<lambda>i. Ret (sc1, i)))"

record SubscribeParam =
  sbp_ServiceName :: string
  sbp_Clusters :: "string list"
  sbp_GroupName :: string
  sbp_Callback :: nat

text \<open>\<open>Subscribe\<close> writes the default group into the parameter of its caller, which is returned.\<close>

definition Subscribe ::
  "('r, 'w) naming_env \<Rightarrow> SubscribeParam \<Rightarrow> ('r, 'w) NamingClient \<Rightarrow>
   (('r, 'w) NamingClient \<times> SubscribeParam \<times> go_error option) outcome" where
  "Subscribe env param0 sc =
     (let param = param0\<lparr>sbp_GroupName := default_group (sbp_GroupName param0)\<rparr>
      in obind (NewSubscribeCallbackFuncWrapper (Some (NewClusterSelector (sbp_Clusters param)))
                  (Some (sbp_Callback param)))
           (\<lambda>w. let st = nw_st sc;
                    st1 = st\<lparr>n_holder := RegisterCallback (n_holder st)
                              (GetGroupName (sbp_ServiceName param) (sbp_GroupName param)) [] w\<rparr>
                in obind (delegate_Subscribe env (sbp_ServiceName param) (sbp_GroupName param) [] (sc\<lparr>nw_st := st1\<rparr>))
                     (\<lambda>(sc2, r). Ret (sc2, param, case r of Inl err \<Rightarrow> Some err | Inr _ \<Rightarrow> None))))"

definition Unsubscribe ::
  "('r, 'w) naming_env \<Rightarrow> SubscribeParam \<Rightarrow> ('r, 'w) NamingClient \<Rightarrow>
   (('r, 'w) NamingClient \<times> go_error option) outcome" where
  "Unsubscribe env param sc =
     obind (NewSubscribeCallbackFuncWrapper (Some (NewClusterSelector (sbp_Clusters param)))
              (Some (sbp_Callback param)))
       (\<lambda>w. let serviceFullName = GetGroupName (sbp_ServiceName param) (sbp_GroupName param);
                st = nw_st sc;
                h1 = DeregisterCallback (n_holder st) serviceFullName [] w;
                sc1 = sc\<lparr>nw_st := st\<lparr>n_holder := h1\<rparr>\<rparr>
            in if \<not> holder_IsSubscribed h1 serviceFullName []
               then delegate_Unsubscribe env (sbp_ServiceName param) (sbp_GroupName param) [] sc1
               else Ret (sc1, None))"

definition ServerHealthy ::
  "('r, 'w) naming_env \<Rightarrow> ('r, 'w) NamingClient \<Rightarrow> ('r, 'w) NamingClient \<times> bool" where
  "ServerHealthy env sc = delegate_ServerHealthy env sc"

definition CloseClient :: "('r, 'w) naming_env \<Rightarrow> ('r, 'w) NamingClient \<Rightarrow> ('r, 'w) NamingClient" where
  "CloseClient env sc = (if nw_isClosed sc then sc else (delegate_CloseClient env sc)\<lparr>nw_isClosed := True\<rparr>)"

section \<open>The periodic refresh\<close>

text \<open>Whether a service is due: the difference of the 64-bit clock readings wraps.\<close>

definition update_due :: "int \<Rightarrow> ServiceInfoHolder \<Rightarrow> Service \<Rightarrow> bool" where
  "update_due now h service =
     (let lastRefTime = (case map_of (h_UpdateTimeMap h) (service_key service) of None \<Rightarrow> 0 | Some t \<Rightarrow> t)
      in svc_CacheMillis service < word_of_int now - lastRefTime)"

definition updateServiceNow ::
  "('r, 'w) naming_env \<Rightarrow> string \<Rightarrow> string \<Rightarrow> string \<Rightarrow> ('r, 'w) NamingClient \<Rightarrow> ('r, 'w) NamingClient outcome" where
  "updateServiceNow env serviceName groupName clusters sc =
     obind (delegate_QueryInstancesOfService env serviceName groupName clusters 0 False sc)
       (\<lambda>(sc1, r). case r of
          Inl err \<Rightarrow> Ret sc1
        | Inr result \<Rightarrow> Ret (sc1\<lparr>nw_st := process (e_pe env) (Some result) (nw_st sc1)\<rparr>))"

text \<open>The services one pass of \<open>asyncUpdateService\<close> starts an update for.\<close>

definition update_targets :: "int \<Rightarrow> ServiceInfoHolder \<Rightarrow> (string \<times> string \<times> string) list" where
  "update_targets now h =
     map (\<lambda>s. (svc_Name s, svc_GroupName s, svc_Clusters s))
       (filter (update_due now h) (map snd (h_ServiceInfoMap h)))"

section \<open>Facts\<close>

definition callbacks :: "('r, 'w) NamingClient \<Rightarrow> SubscribeCallback" where
  "callbacks sc = h_subCallback (n_holder (nw_st sc))"

definition registered :: "('r, 'w) NamingClient \<Rightarrow> string \<Rightarrow> Wrapper list" where
  "registered sc k = (case cm_Get (callbacks sc) k of None \<Rightarrow> [] | Some ws \<Rightarrow> ws)"

definition param_wrapper :: "SubscribeParam \<Rightarrow> Wrapper" where
  "param_wrapper param = \<lparr>w_Selector = NewClusterSelector (sbp_Clusters param),
     w_CallbackFunc = Some (sbp_Callback param)\<rparr>"

lemma process_callbacks [simp]: "h_subCallback (n_holder (process pe svc st)) = h_subCallback (n_holder st)"
  using ProcessService_h(2)[of "pe_to_json pe" "pe_srt pe" "pe_io pe" "pe_now pe" "n_holder st" "n_fs st" svc]
  by (simp add: process_def Let_def split_beta)

lemma requestToServer_keeps:
  "requestToServer sec rq q st = Ret (st', r) \<Longrightarrow> \<exists>x. st' = st\<lparr>n_rpc := x\<rparr>"
  by (auto simp: requestToServer_def obind_Ret_iff Let_def split_beta)

lemma CacheSubscriberForRedo_holder [simp]: "n_holder (CacheSubscriberForRedo s c st) = n_holder st"
  by (simp add: CacheSubscriberForRedo_def Let_def)

lemma grpc_Subscribe_keeps:
  "grpc_Subscribe sec rq s g c st = Ret (st', r) \<Longrightarrow>
   n_holder st' = n_holder st \<and> n_subscribes st' = n_subscribes (CacheSubscriberForRedo (GetGroupName s g) c st)"
  by (auto simp: grpc_Subscribe_def Let_def elim!: obind_RetE split: sum.split_asm IResponse.split_asm
      dest!: requestToServer_keeps)

lemma delegate_Subscribe_keeps:
  assumes "delegate_Subscribe env s g c nw = Ret (nw', r)"
  shows "callbacks nw' = callbacks nw"
    and "n_subscribes (nw_st nw') \<in> {n_subscribes (nw_st nw),
           n_subscribes (CacheSubscriberForRedo (GetGroupName s g) c (nw_st nw))}"
proof -
  let ?st = "nw_st nw"
  define cached where "cached = (if grpc_IsSubscribed s g c ?st
      then map_of (h_ServiceInfoMap (n_holder ?st)) (GetServiceCacheKey (GetGroupName s g) c) else None)"
  have "callbacks nw' = callbacks nw \<and> n_subscribes (nw_st nw') \<in> {n_subscribes ?st,
      n_subscribes (CacheSubscriberForRedo (GetGroupName s g) c ?st)}"
  proof (cases cached)
    case (Some service)
    then show ?thesis using assms by (auto simp: delegate_Subscribe_def Let_def cached_def[symmetric] callbacks_def)
  next
    case None
    then obtain st1 res where "grpc_Subscribe (e_sec env) (e_rq env) s g c ?st = Ret (st1, res)"
      and nw': "nw' = nw\<lparr>nw_st := (case res of Inl err \<Rightarrow> st1 | Inr svc \<Rightarrow> process (e_pe env) (Some svc) st1)\<rparr>"
      using assms
      by (auto simp: delegate_Subscribe_def Let_def cached_def[symmetric] elim!: obind_RetE split: sum.split_asm)
    from grpc_Subscribe_keeps[OF this(1)] show ?thesis
      by (auto simp: nw' callbacks_def split: sum.split)
  qed
  then show "callbacks nw' = callbacks nw" and "n_subscribes (nw_st nw') \<in> {n_subscribes ?st,
      n_subscribes (CacheSubscriberForRedo (GetGroupName s g) c ?st)}" by auto
qed

lemma grpc_Unsubscribe_keeps:
  assumes "grpc_Unsubscribe sec rq s g c st = Ret (st', r)"
  shows "n_holder st' = n_holder st"
    and "n_subscribes st' = cm_Remove (n_subscribes st) (GetServiceCacheKey (GetGroupName s g) c)"
  using assms
  by (auto simp: grpc_Unsubscribe_def Let_def RemoveSubscriberForRedo_def elim!: obind_RetE
      dest!: requestToServer_keeps)

lemma Subscribe_callbacks:
  assumes "Subscribe env param sc = Ret (sc', param', e)"
  shows "param' = param\<lparr>sbp_GroupName := default_group (sbp_GroupName param)\<rparr>"
    and "callbacks sc' = AddCallbackFunc (callbacks sc)
           (GetGroupName (sbp_ServiceName param) (default_group (sbp_GroupName param))) [] (param_wrapper param)"
    and "cm_inv (n_subscribes (nw_st sc)) \<Longrightarrow> cm_inv (n_subscribes (nw_st sc'))"
proof -
  let ?g = "default_group (sbp_GroupName param)" and ?s = "sbp_ServiceName param"
  let ?st1 = "(nw_st sc)\<lparr>n_holder := RegisterCallback (n_holder (nw_st sc)) (GetGroupName ?s ?g) [] (param_wrapper param)\<rparr>"
  from assms obtain r where sub: "delegate_Subscribe env ?s ?g [] (sc\<lparr>nw_st := ?st1\<rparr>) = Ret (sc', r)"
    and param': "param' = param\<lparr>sbp_GroupName := ?g\<rparr>"
    by (auto simp: Subscribe_def Let_def NewSubscribeCallbackFuncWrapper_def obind_Ret_iff param_wrapper_def)
  show "param' = param\<lparr>sbp_GroupName := ?g\<rparr>" by (rule param')
  show "callbacks sc' = AddCallbackFunc (callbacks sc) (GetGroupName ?s ?g) [] (param_wrapper param)"
    using delegate_Subscribe_keeps(1)[OF sub] by (simp add: callbacks_def RegisterCallback_def)
  show "cm_inv (n_subscribes (nw_st sc))  \<Longrightarrow> cm_inv (n_subscribes (nw_st sc'))"
    using delegate_Subscribe_keeps(2)[OF sub] by (auto simp: CacheSubscriberForRedo_def Let_def split: if_splits)
qed

lemma Unsubscribe_callbacks:
  assumes "Unsubscribe env param sc = Ret (sc', e)"
  defines "k \<equiv> GetGroupName (sbp_ServiceName param) (sbp_GroupName param)"
  shows "callbacks sc' = RemoveCallbackFunc (callbacks sc) k [] (param_wrapper param)"
    and "\<not> cb_IsSubscribed (callbacks sc') k [] \<Longrightarrow> map_of (h_ServiceInfoMap (n_holder (nw_st sc'))) k = None \<and>
           n_subscribes (nw_st sc') = cm_Remove (n_subscribes (nw_st sc)) k"
proof -
  let ?s = "sbp_ServiceName param" and ?g = "sbp_GroupName param"
  let ?h1 = "DeregisterCallback (n_holder (nw_st sc)) k [] (param_wrapper param)"
  have key: "GetServiceCacheKey x [] = x" for x by (simp add: GetServiceCacheKey_def)
  have run: "(if \<not> holder_IsSubscribed ?h1 k [] then delegate_Unsubscribe env ?s ?g [] (sc\<lparr>nw_st := (nw_st sc)\<lparr>n_holder := ?h1\<rparr>\<rparr>)
      else Ret (sc\<lparr>nw_st := (nw_st sc)\<lparr>n_holder := ?h1\<rparr>\<rparr>, None)) = Ret (sc', e)"
    using assms(1)
    unfolding Unsubscribe_def Let_def NewSubscribeCallbackFuncWrapper_def option.case obind.simps
      param_wrapper_def k_def .
  have cb1: "h_subCallback ?h1 = RemoveCallbackFunc (callbacks sc) k [] (param_wrapper param)"
    by (simp add: DeregisterCallback_def callbacks_def)
  have "callbacks sc' = h_subCallback ?h1 \<and> (\<not> cb_IsSubscribed (h_subCallback ?h1) k [] \<longrightarrow>
      map_of (h_ServiceInfoMap (n_holder (nw_st sc'))) k = None \<and>
      n_subscribes (nw_st sc') = cm_Remove (n_subscribes (nw_st sc)) k)"
  proof (cases "holder_IsSubscribed ?h1 k []")
    case True
    with run show ?thesis by (auto simp: callbacks_def holder_IsSubscribed_def)
  next
    case False
    let ?st = "(nw_st sc)\<lparr>n_holder := StopUpdateIfContain ?h1 k []\<rparr>"
    from False run obtain st2 r where un: "grpc_Unsubscribe (e_sec env) (e_rq env) ?s ?g [] ?st = Ret (st2, r)"
      and sc': "nw_st sc' = st2"
      by (auto simp: delegate_Unsubscribe_def Let_def k_def elim!: obind_RetE)
    from grpc_Unsubscribe_keeps[OF un] show ?thesis
      by (simp add: sc' callbacks_def StopUpdateIfContain_def key k_def)
  qed
  with cb1 show "callbacks sc' = RemoveCallbackFunc (callbacks sc) k [] (param_wrapper param)"
    and "\<not> cb_IsSubscribed (callbacks sc') k [] \<Longrightarrow> map_of (h_ServiceInfoMap (n_holder (nw_st sc'))) k = None \<and>
           n_subscribes (nw_st sc') = cm_Remove (n_subscribes (nw_st sc)) k"
    by auto
qed

lemma registered_Add:
  assumes "cm_inv ed"
  shows "cm_inv (AddCallbackFunc ed s [] w)"
    and "(case cm_Get (AddCallbackFunc ed s [] w) k of None \<Rightarrow> [] | Some ws \<Rightarrow> ws) =
      (case cm_Get ed k of None \<Rightarrow> [] | Some ws \<Rightarrow> ws) @ (if k = s then [w] else [])"
  using assms by (auto simp: AddCallbackFunc_def Let_def cm_Get_Set GetServiceCacheKey_def)

lemma registered_Remove:
  assumes "cm_inv ed"
  shows "(case cm_Get (RemoveCallbackFunc ed s [] w) k of None \<Rightarrow> [] | Some ws \<Rightarrow> ws) =
      (if k = s then filter (keeps w) else id) (case cm_Get ed k of None \<Rightarrow> [] | Some ws \<Rightarrow> ws)"
    and "cb_IsSubscribed (RemoveCallbackFunc ed s [] w) s [] \<longleftrightarrow>
      filter (keeps w) (case cm_Get ed s of None \<Rightarrow> [] | Some ws \<Rightarrow> ws) \<noteq> []"
  using assms
  by (auto simp: RemoveCallbackFunc_def remove_read_def remove_write_def cm_Get_Set GetServiceCacheKey_def
      cb_IsSubscribed_def split: option.split)

lemma keeps_same: "\<not> keeps w w"
  by (simp add: keeps_def selector_Equals_def)

text \<open>
  C20: Unsubscribing with the parameter that was used to subscribe undoes the subscription. Whatever the
  server answers, the callback is no longer registered, the other callbacks of the service are those
  that were there before apart from equal ones, and the callbacks of the other services are unchanged.
  When no callback of the service is left, the service is neither cached nor subscribed again on a new
  connection.
\<close>

theorem subscribe_unsubscribe:
  assumes "cm_inv (callbacks sc)" and "cm_inv (n_subscribes (nw_st sc))"
    and "Subscribe env param sc = Ret (sc1, param1, e1)" and "Unsubscribe env param1 sc1 = Ret (sc2, e2)"
  shows "let k = GetGroupName (sbp_ServiceName param1) (sbp_GroupName param1)
         in registered sc1 k = registered sc k @ [param_wrapper param] \<and>
            registered sc2 k = filter (keeps (param_wrapper param)) (registered sc k) \<and>
            param_wrapper param \<notin> set (registered sc2 k) \<and>
            (\<forall>k'. k' \<noteq> k \<longrightarrow> registered sc2 k' = registered sc k') \<and>
            (registered sc2 k = [] \<longrightarrow>
               map_of (h_ServiceInfoMap (n_holder (nw_st sc2))) k = None \<and>
               \<not> grpc_IsSubscribed (sbp_ServiceName param1) (sbp_GroupName param1) [] (nw_st sc2))"
proof -
  let ?w = "param_wrapper param" and ?k = "GetGroupName (sbp_ServiceName param1) (sbp_GroupName param1)"
  note sub = Subscribe_callbacks[OF assms(3)] and unsub = Unsubscribe_callbacks[OF assms(4)]
  have w1: "param_wrapper param1 = ?w" and k1: "?k = GetGroupName (sbp_ServiceName param) (default_group (sbp_GroupName param))"
    using sub(1) by (simp_all add: param_wrapper_def)
  have cb1: "callbacks sc1 = AddCallbackFunc (callbacks sc) ?k [] ?w" using sub(2) k1 by simp
  have inv1: "cm_inv (callbacks sc1)" unfolding cb1 by (rule registered_Add(1)[OF assms(1)])
  have cb2: "callbacks sc2 = RemoveCallbackFunc (callbacks sc1) ?k [] ?w" using unsub(1) w1 by simp
  have reg1: "registered sc1 k = registered sc k @ (if k = ?k then [?w] else [])" for k
    unfolding registered_def cb1 by (rule registered_Add(2)[OF assms(1)])
  have reg2: "registered sc2 k = (if k = ?k then filter (keeps ?w) (registered sc k) else registered sc k)" for k
    using registered_Remove(1)[OF inv1, of ?k ?w k] reg1[of k] keeps_same
    unfolding registered_def[symmetric] cb2[symmetric] by (auto simp: registered_def[symmetric])
  have none: "map_of (h_ServiceInfoMap (n_holder (nw_st sc2))) ?k = None \<and>
      \<not> grpc_IsSubscribed (sbp_ServiceName param1) (sbp_GroupName param1) [] (nw_st sc2)"
    if "registered sc2 ?k = []"
  proof -
    have "\<not> cb_IsSubscribed (callbacks sc2) ?k []"
      using registered_Remove(2)[OF inv1, of ?k ?w] that reg1[of ?k] reg2[of ?k] keeps_same
      unfolding cb2 by (simp add: registered_def[symmetric])
    from unsub(2)[OF this] sub(3)[OF assms(2)] show ?thesis
      by (simp add: grpc_IsSubscribed_def IsSubscriberCached_def GetServiceCacheKey_def cm_Get_Remove)
  qed
  show ?thesis unfolding Let_def using reg1[of ?k] reg2 none keeps_same by auto
qed

definition demo_env :: "(unit, unit) naming_env" where
  "demo_env = \<lparr>e_sec = (\<lambda>_. Ret []), e_rq = (\<lambda>q r. (r, Inl (Err ''down''))), e_running = (\<lambda>_. True),
     e_shutdown = id, e_pe = demo_pe, e_api = (\<lambda>_ _ _ w. (w, Inr [])), e_fmt_float = (\<lambda>_. []),
     e_js = (\<lambda>_. []), e_get_string = (\<lambda>_ _. Inr [])\<rparr>"

definition demo_client :: "(unit, unit) NamingClient" where
  "demo_client = \<lparr>nw_st = \<lparr>n_cfg = zero_ClientConfig, n_holder = demo_holder,
     n_fs = \<lparr>fs_files = [], fs_dirs = []\<rparr>, n_notes = [], n_rpc = (), n_registered = NewConcurrentMap,
     n_subscribes = NewConcurrentMap\<rparr>, nw_http = demo_http, nw_isClosed = False\<rparr>"

definition demo_param :: SubscribeParam where
  "demo_param = \<lparr>sbp_ServiceName = ''s'', sbp_Clusters = [], sbp_GroupName = [], sbp_Callback = 7\<rparr>"

lemma demo_request: "requestToServer (e_sec demo_env) (e_rq demo_env) q st = Ret (st, Inl (Err ''down''))"
  by (simp add: requestToServer_def InjectSecurityInfo_def demo_env_def)

lemma demo_client_inv: "cm_inv (callbacks demo_client)" "cm_inv (n_subscribes (nw_st demo_client))"
  by (simp_all add: demo_client_def callbacks_def demo_holder_def NewSubscribeCallback_def)

lemma demo_subscribe_runs: "\<exists>sc p e. Subscribe demo_env demo_param sc0 = Ret (sc, p, e)"
  by (simp add: Subscribe_def Let_def NewSubscribeCallbackFuncWrapper_def delegate_Subscribe_def grpc_Subscribe_def
      demo_request split: option.split)

lemma demo_unsubscribe_runs: "\<exists>sc e. Unsubscribe demo_env p sc0 = Ret (sc, e)"
  by (simp add: Unsubscribe_def Let_def NewSubscribeCallbackFuncWrapper_def delegate_Unsubscribe_def
      grpc_Unsubscribe_def demo_request)

theorem subscribe_unsubscribe_witness:
  "\<exists>sc1 p1 e1 sc2 e2. Subscribe demo_env demo_param demo_client = Ret (sc1, p1, e1) \<and>
     Unsubscribe demo_env p1 sc1 = Ret (sc2, e2) \<and>
     param_wrapper demo_param \<notin> set (registered sc2 (GetGroupName (sbp_ServiceName p1) (sbp_GroupName p1)))"
proof -
  obtain sc1 p1 e1 where s: "Subscribe demo_env demo_param demo_client = Ret (sc1, p1, e1)"
    using demo_subscribe_runs by blast
  obtain sc2 e2 where u: "Unsubscribe demo_env p1 sc1 = Ret (sc2, e2)" using demo_unsubscribe_runs by blast
  from subscribe_unsubscribe[OF demo_client_inv s u] s u show ?thesis unfolding Let_def by blast
qed

text \<open>
  \<open>Unsubscribe\<close> does not fill in the default group. A service subscribed without a group and
  unsubscribed with an equal parameter, also without a group, stays subscribed: the callback is still
  registered under the default group.
\<close>

theorem unsubscribe_without_group:
  assumes "cm_inv (callbacks sc)" and "sbp_GroupName param = []"
    and "Subscribe env param sc = Ret (sc1, param1, e1)" and "Unsubscribe env param sc1 = Ret (sc2, e2)"
  shows "let k = GetGroupName (sbp_ServiceName param) DEFAULT_GROUP
         in registered sc2 k = registered sc k @ [param_wrapper param]"
proof -
  let ?w = "param_wrapper param" and ?k = "GetGroupName (sbp_ServiceName param) DEFAULT_GROUP"
  let ?bad = "GetGroupName (sbp_ServiceName param) []"
  have cb1: "callbacks sc1 = AddCallbackFunc (callbacks sc) ?k [] ?w"
    using Subscribe_callbacks(2)[OF assms(3)] assms(2) by (simp add: default_group_def)
  have inv1: "cm_inv (callbacks sc1)" unfolding cb1 by (rule registered_Add(1)[OF assms(1)])
  have cb2: "callbacks sc2 = RemoveCallbackFunc (callbacks sc1) ?bad [] ?w"
    using Unsubscribe_callbacks(1)[OF assms(4)] assms(2) by simp
  have "?k \<noteq> ?bad" by (simp add: key_defs DEFAULT_GROUP_def)
  then show ?thesis
    using registered_Remove(1)[OF inv1, of ?bad ?w ?k] registered_Add(2)[OF assms(1), of ?k ?w ?k]
    by (simp add: Let_def registered_def cb2[symmetric] cb1[symmetric])
qed

theorem unsubscribe_without_group_witness:
  "\<exists>sc1 p1 e1 sc2 e2. Subscribe demo_env demo_param demo_client = Ret (sc1, p1, e1) \<and>
     Unsubscribe demo_env demo_param sc1 = Ret (sc2, e2) \<and>
     param_wrapper demo_param \<in> set (registered sc2 (GetGroupName ''s'' DEFAULT_GROUP))"
proof -
  obtain sc1 p1 e1 where s: "Subscribe demo_env demo_param demo_client = Ret (sc1, p1, e1)"
    using demo_subscribe_runs by blast
  obtain sc2 e2 where u: "Unsubscribe demo_env demo_param sc1 = Ret (sc2, e2)" using demo_unsubscribe_runs by blast
  have p: "sbp_GroupName demo_param = []" "sbp_ServiceName demo_param = ''s''" by (simp_all add: demo_param_def)
  from unsubscribe_without_group[OF demo_client_inv(1) p(1) s u] s u p(2) show ?thesis
    by (auto simp: Let_def)
qed

end
