(* ===== verification/Rpc_Client.thy ===== *)
theory Rpc_Client
  imports Nacos_Server
begin

text \<open>
  \<open>common/remote/rpc/rpc_client.go\<close> and \<open>server_request_handler.go\<close>: the status of a connection to the
  servers, requests with retries, health checks, the change of server, shutdown, and the handlers of
  the requests a server sends.

  A state is a client with a state \<open>'w\<close> of the outside world. What the client calls is in
  \<open>rpc_env\<close>: \<open>connectToServer\<close> of the transport, \<open>request\<close> and \<open>close\<close> of a connection, the clock
  and \<open>time.Sleep\<close>. Connecting, requesting and sleeping take time in which other goroutines run, so
  these three return a changed client too. A channel is the list of the values sent to it and not
  yet received.
\<close>

section \<open>State\<close>

datatype RpcClientStatus = INITIALIZED | STARTING | UNHEALTHY | RUNNING | SHUTDOWN

fun getDesc :: "RpcClientStatus \<Rightarrow> string" where
  "getDesc INITIALIZED = ''INITIALIZED''"
| "getDesc STARTING = ''STARTING''"
| "getDesc UNHEALTHY = ''UNHEALTHY''"
| "getDesc RUNNING = ''RUNNING''"
| "getDesc SHUTDOWN = ''SHUTDOWN''"

datatype ConnectionStatus = DISCONNECTED | CONNECTED

record ServerInfo =
  si_serverIp :: string
  si_serverPort :: u64
  si_serverGrpcPort :: u64

definition zero_ServerInfo :: ServerInfo where
  "zero_ServerInfo = \<lparr>si_serverIp = [], si_serverPort = 0, si_serverGrpcPort = 0\<rparr>"

record Connection =
  conn_connectionId :: string
  conn_abandon :: bool
  conn_serverInfo :: ServerInfo

definition setAbandon :: "bool \<Rightarrow> Connection \<Rightarrow> Connection" where
  "setAbandon flag c = c\<lparr>conn_abandon := flag\<rparr>"

record ReconnectContext =
  rx_onRequestFail :: bool
  rx_serverInfo :: ServerInfo

text \<open>
  The handlers of the SDK, and the table of them: an entry has the empty request its function builds.
\<close>

datatype server_handler =
    ConnectResetRequestHandler
  | ClientDetectionRequestHandler
  | NamingPushRequestHandler
  | ConfigChangeNotifyRequestHandler

record 'c RpcClient =
  rc_name :: string
  rc_labels :: params
  rc_currentConnection :: "Connection option"
  rc_rpcClientStatus :: RpcClientStatus
  rc_eventChan :: "ConnectionStatus list"
  rc_reconnectionChan :: "ReconnectContext list"
  rc_connectionEventListeners :: "nat list"
  rc_lastActiveTimestamp :: int
  rc_nacosServer :: "'c NacosServer"
  rc_serverRequestHandlerMapping :: "(string, IRequest \<times> server_handler) gomap"
  rc_Tenant :: string
  rc_TLSConfig :: TLSConfig

type_synonym ('c, 'w) rpc = "'c RpcClient \<times> 'w"

record ('c, 'w) rpc_env =
  re_connect :: "ServerInfo \<Rightarrow> ('c, 'w) rpc \<Rightarrow> ('c, 'w) rpc \<times> Connection option \<times> go_error option"
  re_request :: "Connection \<Rightarrow> IRequest \<Rightarrow> int \<Rightarrow> ('c, 'w) rpc \<Rightarrow> ('c, 'w) rpc \<times> IResponse result"
  re_close :: "Connection \<Rightarrow> 'w \<Rightarrow> 'w"
  re_nanos :: "'w \<Rightarrow> int"
  re_sleep :: "int \<Rightarrow> ('c, 'w) rpc \<Rightarrow> ('c, 'w) rpc"

definition CurrentMillis :: "('c, 'w) rpc_env \<Rightarrow> ('c, 'w) rpc \<Rightarrow> int" where
  "CurrentMillis env s = re_nanos env (snd s) div 1000000"

section \<open>Status and channels\<close>

definition set_status :: "RpcClientStatus \<Rightarrow> 'c RpcClient \<Rightarrow> 'c RpcClient" where
  "set_status st rc = rc\<lparr>rc_rpcClientStatus := st\<rparr>"

text \<open>\<open>atomic.CompareAndSwapInt32\<close> on the status.\<close>

definition cas_status :: "RpcClientStatus \<Rightarrow> RpcClientStatus \<Rightarrow> 'c RpcClient \<Rightarrow> bool \<times> 'c RpcClient" where
  "cas_status old new rc =
     (if rc_rpcClientStatus rc = old then (True, set_status new rc) else (False, rc))"

definition isShutdown :: "'c RpcClient \<Rightarrow> bool" where
  "isShutdown rc \<longleftrightarrow> rc_rpcClientStatus rc = SHUTDOWN"

definition IsRunning :: "'c RpcClient \<Rightarrow> bool" where
  "IsRunning rc \<longleftrightarrow> rc_rpcClientStatus rc = RUNNING"

definition IsInitialized :: "'c RpcClient \<Rightarrow> bool" where
  "IsInitialized rc \<longleftrightarrow> rc_rpcClientStatus rc = INITIALIZED"

definition notifyConnectionChange :: "ConnectionStatus \<Rightarrow> 'c RpcClient \<Rightarrow> 'c RpcClient" where
  "notifyConnectionChange eventType rc = rc\<lparr>rc_eventChan := rc_eventChan rc @ [eventType]\<rparr>"

definition switchServerAsync :: "ServerInfo \<Rightarrow> bool \<Rightarrow> 'c RpcClient \<Rightarrow> 'c RpcClient" where
  "switchServerAsync recommendServerInfo onRequestFail rc =
     rc\<lparr>rc_reconnectionChan := rc_reconnectionChan rc @
          [\<lparr>rx_onRequestFail = onRequestFail, rx_serverInfo = recommendServerInfo\<rparr>]\<rparr>"

definition closeConnection :: "('c, 'w) rpc_env \<Rightarrow> ('c, 'w) rpc \<Rightarrow> ('c, 'w) rpc" where
  "closeConnection env s =
     (case rc_currentConnection (fst s) of
        None \<Rightarrow> s
      | Some c \<Rightarrow> (notifyConnectionChange DISCONNECTED (fst s), re_close env c (snd s)))"

definition server_info :: "ServerConfig \<Rightarrow> ServerInfo" where
  "server_info cfg = \<lparr>si_serverIp = sc_IpAddr cfg, si_serverPort = sc_Port cfg, si_serverGrpcPort = sc_GrpcPort cfg\<rparr>"

definition nextRpcServer :: "'c RpcClient \<Rightarrow> ('c RpcClient \<times> ServerInfo result) outcome" where
  "nextRpcServer rc =
     obind (GetNextServer (rc_nacosServer rc)) (\<lambda>(ns, r).
       Ret (rc\<lparr>rc_nacosServer := ns\<rparr>,
         (case r of Inl err \<Rightarrow> Inl err | Inr cfg \<Rightarrow> Inr (server_info cfg))))"

section \<open>Health check and change of server\<close>

definition sendHealthCheck :: "('c, 'w) rpc_env \<Rightarrow> ('c, 'w) rpc \<Rightarrow> ('c, 'w) rpc \<times> bool" where
  "sendHealthCheck env s =
     (case rc_currentConnection (fst s) of
        None \<Rightarrow> (s, False)
      | Some c \<Rightarrow>
          (case re_request env c NewHealthCheckRequest DEFAULT_TIMEOUT_MILLS s of
             (s', Inl err) \<Rightarrow> (s', False)
           | (s', Inr response) \<Rightarrow>
               if \<not> IsSuccess response
               then (s', 300 \<le> GetErrorCode response \<and> GetErrorCode response < 400)
               else (s', True)))"

text \<open>A new connection replaces the current one, which is marked as abandoned and closed.\<close>

definition adopt_connection :: "('c, 'w) rpc_env \<Rightarrow> Connection \<Rightarrow> ('c, 'w) rpc \<Rightarrow> ('c, 'w) rpc" where
  "adopt_connection env c s =
     (let s1 = (case rc_currentConnection (fst s) of
                  None \<Rightarrow> s
                | Some old \<Rightarrow>
                    closeConnection env ((fst s)\<lparr>rc_currentConnection := Some (setAbandon True old)\<rparr>, snd s))
      in (notifyConnectionChange CONNECTED
            (set_status RUNNING ((fst s1)\<lparr>rc_currentConnection := Some c\<rparr>)), snd s1))"

text \<open>
  The counting at the end of an iteration that failed: after every round of the server list the pause
  gets longer, up to fifty times 100 milliseconds. The remainder panics when the list is empty.
\<close>

definition next_turns :: "nat \<Rightarrow> nat \<Rightarrow> nat \<Rightarrow> nat outcome" where
  "next_turns reConnectTimes retryTurns n =
     (if 0 < reConnectTimes
      then if n = 0 then Panic ''integer divide by zero''
           else Ret (if reConnectTimes mod n = 0 \<and> retryTurns < 50 then retryTurns + 1 else retryTurns)
      else Ret retryTurns)"

definition choose_server :: "bool \<Rightarrow> ServerInfo \<Rightarrow> 'c RpcClient \<Rightarrow> ('c RpcClient \<times> ServerInfo result) outcome" where
  "choose_server serverInfoFlag serverInfo rc =
     (if serverInfoFlag then nextRpcServer rc else Ret (rc, Inr serverInfo))"

text \<open>The end of an iteration that failed: the connection of a client that was shut down is closed; the pause.\<close>

definition after_failure :: "('c, 'w) rpc_env \<Rightarrow> nat \<Rightarrow> ('c, 'w) rpc \<Rightarrow> ('c, 'w) rpc" where
  "after_failure env retryTurns s =
     (if \<not> IsRunning (fst s) then re_sleep env (int (min retryTurns 50) * 100) s else s)"

definition close_if_shutdown :: "('c, 'w) rpc_env \<Rightarrow> ('c, 'w) rpc \<Rightarrow> ('c, 'w) rpc" where
  "close_if_shutdown env s = (if isShutdown (fst s) then closeConnection env s else s)"

text \<open>
  The loop of \<open>reconnect\<close>. It may run forever: then its value is \<open>None\<close>.
\<close>

partial_function (option) reconnect_loop ::
  "('c, 'w) rpc_env \<Rightarrow> bool \<Rightarrow> ServerInfo \<Rightarrow> nat \<Rightarrow> nat \<Rightarrow> ('c, 'w) rpc \<Rightarrow> ('c, 'w) rpc outcome option" where
  "reconnect_loop env serverInfoFlag serverInfo reConnectTimes retryTurns s =
     (if isShutdown (fst s) then Some (Ret s)
      else
        (case choose_server serverInfoFlag serverInfo (fst s) of
           Panic e \<Rightarrow> Some (Panic e)
         | Ret x \<Rightarrow>
             (case snd x of
                Inl err \<Rightarrow> Some (Ret (fst x, snd s))
              | Inr si \<Rightarrow>
                  (let y = re_connect env si (fst x, snd s)
                   in if fst (snd y) \<noteq> None \<and> snd (snd y) = None
                      then Some (Ret (adopt_connection env (the (fst (snd y))) (fst y)))
                      else
                        (let s2 = close_if_shutdown env (fst y)
                         in case next_turns reConnectTimes retryTurns
                                   (length (GetServerList (rc_nacosServer (fst s2)))) of
                              Panic e \<Rightarrow> Some (Panic e)
                            | Ret turns \<Rightarrow>
                                reconnect_loop env serverInfoFlag si (reConnectTimes + 1) turns
                                  (after_failure env turns s2))))))"

definition reconnect_new ::
  "('c, 'w) rpc_env \<Rightarrow> ServerInfo \<Rightarrow> ('c, 'w) rpc \<Rightarrow> ('c, 'w) rpc outcome option" where
  "reconnect_new env serverInfo s = reconnect_loop env (serverInfo = zero_ServerInfo) serverInfo 0 0 s"

definition reconnect ::
  "('c, 'w) rpc_env \<Rightarrow> ServerInfo \<Rightarrow> bool \<Rightarrow> ('c, 'w) rpc \<Rightarrow> ('c, 'w) rpc outcome option" where
  "reconnect env serverInfo onRequestFail s =
     (if onRequestFail
      then (case sendHealthCheck env s of
              (s1, True) \<Rightarrow> Some (Ret (notifyConnectionChange CONNECTED (set_status RUNNING (fst s1)), snd s1))
            | (s1, False) \<Rightarrow> reconnect_new env serverInfo s1)
      else reconnect_new env serverInfo s)"

definition healthCheck :: "('c, 'w) rpc_env \<Rightarrow> ('c, 'w) rpc \<Rightarrow> ('c, 'w) rpc outcome option" where
  "healthCheck env s =
     (if re_nanos env (snd s) - rc_lastActiveTimestamp (fst s) < KEEP_ALIVE_TIME * 1000000000
      then Some (Ret s)
      else
        (case sendHealthCheck env s of
           (s1, True) \<Rightarrow> Some (Ret ((fst s1)\<lparr>rc_lastActiveTimestamp := re_nanos env (snd s1)\<rparr>, snd s1))
         | (s1, False) \<Rightarrow>
             if rc_currentConnection (fst s1) = None \<or> isShutdown (fst s1) then Some (Ret s1)
             else reconnect env zero_ServerInfo False (set_status UNHEALTHY (fst s1), snd s1)))"

text \<open>What the goroutine of \<open>Start\<close> does with a value received from the reconnection channel.\<close>

definition appoint :: "'c RpcClient \<Rightarrow> ServerInfo \<Rightarrow> ServerInfo" where
  "appoint rc serverInfo =
     (if serverInfo = zero_ServerInfo then serverInfo
      else case find (\<lambda>v. si_serverIp serverInfo = sc_IpAddr v) (GetServerList (rc_nacosServer rc)) of
             None \<Rightarrow> zero_ServerInfo
           | Some v \<Rightarrow> serverInfo\<lparr>si_serverPort := sc_Port v, si_serverGrpcPort := sc_GrpcPort v\<rparr>)"

definition handle_reconnection ::
  "('c, 'w) rpc_env \<Rightarrow> ReconnectContext \<Rightarrow> ('c, 'w) rpc \<Rightarrow> ('c, 'w) rpc outcome option" where
  "handle_reconnection env rx s =
     reconnect env (appoint (fst s) (rx_serverInfo rx)) (rx_onRequestFail rx) s"

definition notifyServerSrvChange :: "'c RpcClient \<Rightarrow> 'c RpcClient" where
  "notifyServerSrvChange rc =
     (case rc_currentConnection rc of
        None \<Rightarrow> switchServerAsync zero_ServerInfo False rc
      | Some c \<Rightarrow>
          if \<exists>ele \<in> set (GetServerList (rc_nacosServer rc)). sc_IpAddr ele = si_serverIp (conn_serverInfo c)
          then rc
          else switchServerAsync zero_ServerInfo False rc)"

section \<open>Handlers, listeners, start and shutdown\<close>

definition RegisterServerRequestHandler :: "IRequest \<Rightarrow> server_handler \<Rightarrow> 'c RpcClient \<Rightarrow> 'c RpcClient" where
  "RegisterServerRequestHandler request handler rc =
     (let requestType = GetRequestType request
      in if requestType = [] then rc
         else rc\<lparr>rc_serverRequestHandlerMapping :=
                   AList.update requestType (request, handler) (rc_serverRequestHandlerMapping rc)\<rparr>)"

definition registerServerRequestHandlers :: "'c RpcClient \<Rightarrow> 'c RpcClient" where
  "registerServerRequestHandlers rc =
     RegisterServerRequestHandler (ClientDetectionRequest NewInternalRequest) ClientDetectionRequestHandler
       (RegisterServerRequestHandler (ConnectResetRequest NewInternalRequest [] []) ConnectResetRequestHandler rc)"

definition RegisterConnectionListener :: "nat \<Rightarrow> 'c RpcClient \<Rightarrow> 'c RpcClient" where
  "RegisterConnectionListener listener rc =
     rc\<lparr>rc_connectionEventListeners := rc_connectionEventListeners rc @ [listener]\<rparr>"

text \<open>
  The calls to the listeners for one event. The message written before them reads the identifier of
  the current connection, which panics when there is none.
\<close>

definition notifyConnectionEvent :: "ConnectionStatus \<Rightarrow> 'c RpcClient \<Rightarrow> (nat \<times> ConnectionStatus) list outcome" where
  "notifyConnectionEvent event rc =
     (if rc_connectionEventListeners rc = [] then Ret []
      else if rc_currentConnection rc = None then Panic ''nil pointer dereference''
      else Ret (map (\<lambda>v. (v, event)) (rc_connectionEventListeners rc)))"

fun start_up ::
  "('c, 'w) rpc_env \<Rightarrow> nat \<Rightarrow> ('c, 'w) rpc \<Rightarrow> (('c, 'w) rpc \<times> Connection option) outcome" where
  "start_up env 0 s = Ret (s, None)"
| "start_up env (Suc startUpRetryTimes) s =
     obind (nextRpcServer (fst s)) (\<lambda>(rc, r).
       case r of
         Inl err \<Rightarrow> Ret ((rc, snd s), None)
       | Inr serverInfo \<Rightarrow>
           (let (s1, cn, err) = re_connect env serverInfo (rc, snd s)
            in case err of
                 Some e \<Rightarrow> start_up env startUpRetryTimes s1
               | None \<Rightarrow> Ret (s1, cn)))"

definition Start :: "('c, 'w) rpc_env \<Rightarrow> ('c, 'w) rpc \<Rightarrow> ('c, 'w) rpc outcome" where
  "Start env s =
     (case cas_status INITIALIZED STARTING (fst s) of
        (False, rc) \<Rightarrow> Ret s
      | (True, rc) \<Rightarrow>
          obind (start_up env REQUEST_DOMAIN_RETRY_TIME (registerServerRequestHandlers rc, snd s)) (\<lambda>(s1, cn).
            case cn of
              Some c \<Rightarrow>
                Ret (notifyConnectionChange CONNECTED
                       (set_status RUNNING ((fst s1)\<lparr>rc_currentConnection := Some c\<rparr>)), snd s1)
            | None \<Rightarrow> Ret (switchServerAsync zero_ServerInfo False (fst s1), snd s1)))"

text \<open>\<open>Shutdown\<close>; the removal from the table of clients is in theory \<open>Rpc_Labels\<close>.\<close>

definition Shutdown :: "('c, 'w) rpc_env \<Rightarrow> ('c, 'w) rpc \<Rightarrow> ('c, 'w) rpc" where
  "Shutdown env s = closeConnection env (set_status SHUTDOWN (fst s), snd s)"

section \<open>Requests\<close>

definition waitReconnect :: "('c, 'w) rpc_env \<Rightarrow> int \<Rightarrow> ('c, 'w) rpc \<Rightarrow> ('c, 'w) rpc" where
  "waitReconnect env timeoutMills s = re_sleep env (min 100 (timeoutMills div 3)) s"

definition not_connected :: "'c RpcClient \<Rightarrow> go_error" where
  "not_connected rc = Err (''client not connected, current status:'' @ getDesc (rc_rpcClientStatus rc))"

text \<open>
  One iteration of the loop: the response to return, or the error with which the next iteration starts.
\<close>

definition request_once ::
  "('c, 'w) rpc_env \<Rightarrow> IRequest \<Rightarrow> int \<Rightarrow> ('c, 'w) rpc \<Rightarrow> ('c, 'w) rpc \<times> IResponse result" where
  "request_once env request timeoutMills s =
     (case rc_currentConnection (fst s) of
        None \<Rightarrow> (s, Inl (not_connected (fst s)))
      | Some c \<Rightarrow>
          if \<not> IsRunning (fst s)
          then (s, Inl (not_connected (fst s)))
          else
            (case re_request env c request timeoutMills s of
               (s1, Inl err) \<Rightarrow> (s1, Inl err)
             | (s1, Inr response) \<Rightarrow>
                 (case response of
                    ErrorResponse b \<Rightarrow>
                      (let s2 = (if rs_ErrorCode b = UN_REGISTER
                                 then (case cas_status RUNNING UNHEALTHY (fst s1) of
                                         (True, rc) \<Rightarrow> (switchServerAsync zero_ServerInfo False rc, snd s1)
                                       | (False, rc) \<Rightarrow> s1)
                                 else s1)
                       in (s2, Inl (Err (rs_Message b))))
                  | _ \<Rightarrow>
                      (((fst s1)\<lparr>rc_lastActiveTimestamp := re_nanos env (snd s1)\<rparr>, snd s1), Inr response))))"

text \<open>The loop; \<open>left\<close> is the number of attempts that remain and \<open>until\<close> the time at which it stops.\<close>

fun request_loop ::
  "('c, 'w) rpc_env \<Rightarrow> IRequest \<Rightarrow> int \<Rightarrow> int \<Rightarrow> nat \<Rightarrow> go_error option \<Rightarrow> ('c, 'w) rpc \<Rightarrow>
   ('c, 'w) rpc \<times> (go_error option + IResponse)" where
  "request_loop env request timeoutMills until 0 currentErr s = (s, Inl currentErr)"
| "request_loop env request timeoutMills until (Suc left) currentErr s =
     (if CurrentMillis env s < until
      then (case request_once env request timeoutMills s of
              (s1, Inr response) \<Rightarrow> (s1, Inr response)
            | (s1, Inl err) \<Rightarrow>
                request_loop env request timeoutMills until left (Some err)
                  (waitReconnect env timeoutMills s1))
      else (s, Inl currentErr))"

definition rpc_Request ::
  "('c, 'w) rpc_env \<Rightarrow> IRequest \<Rightarrow> int \<Rightarrow> ('c, 'w) rpc \<Rightarrow> ('c, 'w) rpc \<times> IResponse result" where
  "rpc_Request env request timeoutMills s =
     (case request_loop env request timeoutMills (CurrentMillis env s + timeoutMills)
             REQUEST_DOMAIN_RETRY_TIME None s of
        (s1, Inr response) \<Rightarrow> (s1, Inr response)
      | (s1, Inl currentErr) \<Rightarrow>
          ((case cas_status RUNNING UNHEALTHY (fst s1) of
              (True, rc) \<Rightarrow> (switchServerAsync zero_ServerInfo True rc, snd s1)
            | (False, rc) \<Rightarrow> s1),
           Inl (case currentErr of Some e \<Rightarrow> e | None \<Rightarrow> Err ''request fail, unknown error'')))"

section \<open>Requests from the server\<close>

definition reply_ok :: Response where
  "reply_ok = zero_Response\<lparr>rs_ResultCode := RESPONSE_CODE_SUCCESS\<rparr>"

text \<open>
  \<open>RequestReply\<close> of the two handlers of every client; \<open>None\<close> is the missing response. The port of a
  reset request is a 64-bit integer that is converted to an unsigned one.
\<close>

definition connect_reset_reply :: "IRequest \<Rightarrow> 'c RpcClient \<Rightarrow> 'c RpcClient \<times> IResponse option" where
  "connect_reset_reply request rc =
     (case request of
        ConnectResetRequest b serverIp serverPort \<Rightarrow>
          if IsRunning rc
          then if serverIp \<noteq> []
               then (case atoi serverPort of
                       (_, Some err) \<Rightarrow> (rc, None)
                     | (serverPortNum, None) \<Rightarrow>
                         (switchServerAsync \<lparr>si_serverIp = serverIp, si_serverPort = word_of_int serverPortNum,
                            si_serverGrpcPort = 0\<rparr> False rc, Some (ConnectResetResponse reply_ok)))
               else (switchServerAsync zero_ServerInfo True rc, Some (ConnectResetResponse reply_ok))
          else (rc, Some (ConnectResetResponse reply_ok))
      | _ \<Rightarrow> (rc, None))"

definition client_detection_reply :: "IRequest \<Rightarrow> IResponse option" where
  "client_detection_reply request =
     (case request of ClientDetectionRequest b \<Rightarrow> Some (ClientDetectionResponse reply_ok) | _ \<Rightarrow> None)"

end
