(* ===== verification/Rpc_Steps.thy ===== *)
theory Rpc_Steps
  imports Rpc_Client
begin

text \<open>
  The goroutines of an rpc client as steps on its state, and what holds in every state they reach.
  The operations call the transport, which other goroutines can interrupt; the locale collects what a
  relation between states needs so that every operation stays in it whenever the interruptions do.
\<close>

section \<open>Induction over the reconnection loop\<close>

text \<open>
  What holds of a reconnection that returns: it stops because the client is shut down or has no
  server, because it has a new connection, or it fails to connect and goes on.
\<close>

lemma reconnect_loop_returns [consumes 1, case_names down no_server connected again]:
  assumes "reconnect_loop env flag si n turns s = Some (Ret s')"
    and down: "\<And>si s. isShutdown (fst s) \<Longrightarrow> P si s s"
    and no_server: "\<And>si s rc err. \<not> isShutdown (fst s) \<Longrightarrow> choose_server flag si (fst s) = Ret (rc, Inl err) \<Longrightarrow>
          P si s (rc, snd s)"
    and connected: "\<And>si s rc si' t c. \<not> isShutdown (fst s) \<Longrightarrow> choose_server flag si (fst s) = Ret (rc, Inr si') \<Longrightarrow>
          re_connect env si' (rc, snd s) = (t, Some c, None) \<Longrightarrow> P si s (adopt_connection env c t)"
    and again: "\<And>si s rc si' t cn err turns s'. \<not> isShutdown (fst s) \<Longrightarrow>
          choose_server flag si (fst s) = Ret (rc, Inr si') \<Longrightarrow> re_connect env si' (rc, snd s) = (t, cn, err) \<Longrightarrow>
          cn = None \<or> err \<noteq> None \<Longrightarrow> P si' (after_failure env turns (close_if_shutdown env t)) s' \<Longrightarrow> P si s s'"
  shows "P si s s'"
proof -
  have "\<forall>s'. env' = env \<and> flag' = flag \<and> y = Ret s' \<longrightarrow> P si s s'"
    if "reconnect_loop env' flag' si n turns s = Some y" for env' flag' si n turns s y
  proof (rule reconnect_loop.raw_induct[OF _ that], goal_cases)
    case (1 loop env' flag' si n turns s y)
    show ?case
    proof (intro allI impI, elim conjE)
      fix s' assume eq: "env' = env" "flag' = flag" "y = Ret s'"
      note body = 1(2)[unfolded eq] and IH = 1(1)[of env flag, unfolded eq]
      show "P si s s'"
      proof (cases "isShutdown (fst s)")
        case True
        with body down show ?thesis by auto
      next
        case up: False
        with body obtain rc r where x: "choose_server flag si (fst s) = Ret (rc, r)"
          by (auto split: outcome.splits)
        show ?thesis
        proof (cases r)
          case (Inl err)
          with body x up have "s' = (rc, snd s)" by simp
          with no_server[OF up x[unfolded Inl]] show ?thesis by simp
        next
          case (Inr si')
          obtain t cn err where y: "re_connect env si' (rc, snd s) = (t, cn, err)" by (metis prod.exhaust)
          show ?thesis
          proof (cases "cn \<noteq> None \<and> err = None")
            case True
            then obtain c where c: "cn = Some c" "err = None" by blast
            with body x up Inr y have "s' = adopt_connection env c t" by (simp add: Let_def)
            with connected[OF up x[unfolded Inr] y[unfolded c]] show ?thesis by simp
          next
            case False
            with body x up Inr y obtain turns' where
              "loop env flag si' (n + 1) turns' (after_failure env turns' (close_if_shutdown env t)) = Some (Ret s')"
              by (auto simp: Let_def split: outcome.splits if_splits)
            from IH[OF this] have "P si' (after_failure env turns' (close_if_shutdown env t)) s'" by blast
            moreover have "cn = None \<or> err \<noteq> None" using False by auto
            ultimately show ?thesis using again[OF up x[unfolded Inr] y] by metis
          qed
        qed
      qed
    qed
  qed
  with assms(1) show ?thesis by blast
qed

section \<open>Cases of a request\<close>

lemma request_once_cases:
  assumes "request_once env q t s = (s', r)"
  obtains (idle) e where "s' = s" "r = Inl e"
  | (failed) c s1 y e where "re_request env c q t s = (s1, y)" "r = Inl e"
      "s' = s1 \<or> IsRunning (fst s1) \<and>
         s' = (switchServerAsync zero_ServerInfo False (set_status UNHEALTHY (fst s1)), snd s1)"
  | (answered) c s1 x where "re_request env c q t s = (s1, Inr x)" "r = Inr x" "GetResponseType x \<noteq> ''ErrorResponse''"
      "s' = ((fst s1)\<lparr>rc_lastActiveTimestamp := re_nanos env (snd s1)\<rparr>, snd s1)"
proof (cases "rc_currentConnection (fst s)")
  case None
  with assms idle show thesis by (auto simp: request_once_def)
next
  case (Some c)
  show thesis
  proof (cases "IsRunning (fst s)")
    case False
    with Some assms idle show thesis by (auto simp: request_once_def)
  next
    case True
    obtain s1 y where q: "re_request env c q t s = (s1, y)" by fastforce
    show thesis
    proof (cases y)
      case (Inl e)
      with Some True assms q show thesis by (intro failed[OF q, of e]) (auto simp: request_once_def)
    next
      case (Inr x)
      show thesis
      proof (cases "GetResponseType x = ''ErrorResponse''")
        case True
        then obtain b where "x = ErrorResponse b" by (cases x) auto
        with Some \<open>IsRunning (fst s)\<close> assms q Inr show thesis
          by (intro failed[OF q, of "Err (rs_Message b)"])
            (auto simp: request_once_def cas_status_def IsRunning_def Let_def split: if_splits)
      next
        case False
        then have "request_once env q t s =
            (((fst s1)\<lparr>rc_lastActiveTimestamp := re_nanos env (snd s1)\<rparr>, snd s1), Inr x)"
          using Some True q Inr by (cases x) (simp_all add: request_once_def)
        with assms False q Inr show thesis by (intro answered[of c s1 x]) simp_all
      qed
    qed
  qed
qed

lemma request_loop_cases:
  assumes "request_loop env q t until (Suc n) e s = (s', r)"
  obtains (late) "s' = s" "r = Inl e"
  | (answered) x where "request_once env q t s = (s', Inr x)" "r = Inr x"
  | (again) s1 e' where "request_once env q t s = (s1, Inl e')"
      "request_loop env q t until n (Some e') (waitReconnect env t s1) = (s', r)"
proof -
  obtain s1 y where o: "request_once env q t s = (s1, y)" by fastforce
  show thesis
  proof (cases "CurrentMillis env s < until")
    case False
    with assms late show thesis by simp
  next
    case True
    with assms o answered again show thesis by (cases y) simp_all
  qed
qed

section \<open>Operations under interference\<close>

definition interference :: "(('c, 'w) rpc \<Rightarrow> ('c, 'w) rpc \<Rightarrow> bool) \<Rightarrow> ('c, 'w) rpc_env \<Rightarrow> bool" where
  "interference G env \<longleftrightarrow>
     (\<forall>si s. G s (fst (re_connect env si s))) \<and> (\<forall>c q t s. G s (fst (re_request env c q t s))) \<and>
     (\<forall>t s. G s (re_sleep env t s))"

locale rpc_guarantee =
  fixes G :: "('c, 'w) rpc \<Rightarrow> ('c, 'w) rpc \<Rightarrow> bool"
  assumes stays: "G s s"
    and chain: "G s t \<Longrightarrow> G t u \<Longrightarrow> G s u"
    and connected: "G (rc, w) t \<Longrightarrow> rc_currentConnection rc \<noteq> None \<Longrightarrow> rc_currentConnection (fst t) \<noteq> None"
    and world: "G (rc, w) (rc, w')"
    and new_connection: "G (rc, w) (notifyConnectionChange CONNECTED
          (set_status RUNNING (rc\<lparr>rc_currentConnection := Some c\<rparr>)), w)"
    and same_connection: "rc_currentConnection rc \<noteq> None \<Longrightarrow>
          G (rc, w) (notifyConnectionChange CONNECTED (set_status RUNNING rc), w)"
    and lost_connection: "rc_currentConnection rc \<noteq> None \<Longrightarrow> G (rc, w) (notifyConnectionChange DISCONNECTED rc, w)"
    and abandoned: "rc_currentConnection rc = Some c \<Longrightarrow>
          G (rc, w) (rc\<lparr>rc_currentConnection := Some (setAbandon True c)\<rparr>, w)"
    and unhealthy: "IsRunning rc \<or> rc_currentConnection rc \<noteq> None \<Longrightarrow> G (rc, w) (set_status UNHEALTHY rc, w)"
    and stopped: "G (rc, w) (set_status SHUTDOWN rc, w)"
    and started: "IsInitialized rc \<Longrightarrow> G (rc, w) (set_status STARTING rc, w)"
    and switched: "G (rc, w) (switchServerAsync si f rc, w)"
    and taken: "rc_reconnectionChan rc = rx # rest \<Longrightarrow> G (rc, w) (rc\<lparr>rc_reconnectionChan := rest\<rparr>, w)"
    and received: "rc_eventChan rc = e # es \<Longrightarrow> G (rc, w) (rc\<lparr>rc_eventChan := es\<rparr>, w)"
    and active: "G (rc, w) (rc\<lparr>rc_lastActiveTimestamp := ts\<rparr>, w)"
    and next_index: "G (rc, w) (rc\<lparr>rc_nacosServer := (rc_nacosServer rc)\<lparr>ns_currentIndex := i\<rparr>\<rparr>, w)"
    and handlers: "G (rc, w) (RegisterServerRequestHandler q h rc, w)"
    and listeners: "G (rc, w) (RegisterConnectionListener l rc, w)"
begin

lemma connect: "interference G env \<Longrightarrow> re_connect env si s = (s', r) \<Longrightarrow> G s s'"
  unfolding interference_def by (metis fst_conv)

lemma request: "interference G env \<Longrightarrow> re_request env c q t s = (s', r) \<Longrightarrow> G s s'"
  unfolding interference_def by (metis fst_conv)

lemma sleep: "interference G env \<Longrightarrow> G s (re_sleep env t s)"
  unfolding interference_def by blast

lemma close: "G s (closeConnection env s)"
proof (cases "rc_currentConnection (fst s)")
  case None
  then show ?thesis by (simp add: closeConnection_def stays)
next
  case (Some c)
  then have "G s (notifyConnectionChange DISCONNECTED (fst s), snd s)"
    using lost_connection[of "fst s" "snd s"] by simp
  with Some show ?thesis by (simp add: closeConnection_def) (metis chain world)
qed

lemma next_server:
  assumes "nextRpcServer rc = Ret (rc', r)"
  shows "G (rc, w) (rc', w)"
proof -
  obtain ns r0 where g: "GetNextServer (rc_nacosServer rc) = Ret (ns, r0)" "rc' = rc\<lparr>rc_nacosServer := ns\<rparr>"
    using assms by (auto simp: nextRpcServer_def elim!: obind_RetE)
  have "\<exists>i. ns = (rc_nacosServer rc)\<lparr>ns_currentIndex := i\<rparr>"
  proof (cases "GetServerList (rc_nacosServer rc) = []")
    case True
    with g(1) have "ns = (rc_nacosServer rc)\<lparr>ns_currentIndex := ns_currentIndex (rc_nacosServer rc)\<rparr>"
      by (simp add: GetNextServer_def)
    then show ?thesis by blast
  qed (use g(1) in \<open>auto simp: GetNextServer_def Let_def split: if_splits\<close>)
  with g(2) next_index show ?thesis by auto
qed

lemma health:
  assumes "interference G env" and "sendHealthCheck env s = (s', ok)"
  shows "G s s' \<and> (ok \<longrightarrow> rc_currentConnection (fst s') \<noteq> None)"
proof (cases "rc_currentConnection (fst s)")
  case None
  then show ?thesis using assms(2) by (auto simp: sendHealthCheck_def stays)
next
  case (Some c)
  obtain s1 r where q: "re_request env c NewHealthCheckRequest DEFAULT_TIMEOUT_MILLS s = (s1, r)" by fastforce
  with Some assms(2) have "s' = s1" by (auto simp: sendHealthCheck_def split: sum.splits if_splits)
  with request[OF assms(1) q] Some connected[of "fst s" "snd s" s1] show ?thesis by simp
qed

lemma adopt: "G s (adopt_connection env c s)"
proof (cases "rc_currentConnection (fst s)")
  case None
  then show ?thesis using new_connection[of "fst s" "snd s"] by (simp add: adopt_connection_def)
next
  case (Some old)
  let ?s1 = "closeConnection env ((fst s)\<lparr>rc_currentConnection := Some (setAbandon True old)\<rparr>, snd s)"
  have "G s ?s1" using abandoned[OF Some, of "snd s"] close[of _ env] by (metis chain prod.collapse)
  moreover have "G ?s1 (adopt_connection env c s)"
    using Some new_connection[of "fst ?s1" "snd ?s1" c] by (simp add: adopt_connection_def Let_def)
  ultimately show ?thesis by (rule chain)
qed

lemma failure:
  assumes "interference G env"
  shows "G s (after_failure env turns (close_if_shutdown env s))"
proof -
  have "G s (close_if_shutdown env s)" by (simp add: close_if_shutdown_def close stays)
  moreover have "G t (after_failure env turns t)" for t
    using sleep[OF assms, of t] by (simp add: after_failure_def stays)
  ultimately show ?thesis by (rule chain)
qed

lemma choose:
  assumes "choose_server flag si rc = Ret (rc', r)"
  shows "G (rc, w) (rc', w)"
  using assms next_server[of rc rc' r w] by (auto simp: choose_server_def stays split: if_splits)

lemma reconnecting:
  assumes "reconnect_loop env flag si n turns s = Some (Ret s')" and "interference G env"
  shows "G s s'"
  using assms(1)
proof (induction rule: reconnect_loop_returns)
  case (down si s)
  show ?case by (rule stays)
next
  case (no_server si s rc err)
  from choose[OF this(2), of "snd s"] show ?case by simp
next
  case (connected si s rc si' t c)
  from chain[OF chain[OF choose[OF this(2)] connect[OF assms(2) this(3)]] adopt] show ?case by simp
next
  case (again si s rc si' t cn err turns s')
  from chain[OF chain[OF chain[OF choose[OF this(2)] connect[OF assms(2) this(3)]] failure[OF assms(2)]] this(5)]
  show ?case by simp
qed

lemma changing_server:
  assumes "reconnect env si f s = Some (Ret s')" and "interference G env"
  shows "G s s'"
proof (cases f)
  case True
  obtain s1 ok where h: "sendHealthCheck env s = (s1, ok)" by fastforce
  note g = health[OF assms(2) h]
  show ?thesis
  proof (cases ok)
    case True
    with \<open>f\<close> h assms(1) have "s' = (notifyConnectionChange CONNECTED (set_status RUNNING (fst s1)), snd s1)"
      by (simp add: reconnect_def)
    moreover have "G s1 (notifyConnectionChange CONNECTED (set_status RUNNING (fst s1)), snd s1)"
      using g True same_connection[of "fst s1" "snd s1"] by simp
    ultimately show ?thesis using chain[OF conjunct1[OF g]] by simp
  next
    case False
    with \<open>f\<close> h assms have "G s1 s'" by (auto simp: reconnect_def reconnect_new_def intro: reconnecting)
    with g chain show ?thesis by blast
  qed
next
  case False
  with assms show ?thesis by (auto simp: reconnect_def reconnect_new_def intro: reconnecting)
qed

lemma health_checked:
  assumes "healthCheck env s = Some (Ret s')" and "interference G env"
  shows "G s s'"
proof -
  obtain s1 ok where h: "sendHealthCheck env s = (s1, ok)" by fastforce
  note g = health[OF assms(2) h]
  consider "s' = s" | "\<exists>t. s' = ((fst s1)\<lparr>rc_lastActiveTimestamp := t\<rparr>, snd s1)" | "s' = s1"
    | (lost) "rc_currentConnection (fst s1) \<noteq> None"
        "reconnect env zero_ServerInfo False (set_status UNHEALTHY (fst s1), snd s1) = Some (Ret s')"
    using assms(1) h by (auto simp: healthCheck_def split: if_splits bool.splits)
  then show ?thesis
  proof cases
    case lost
    have "G s1 (set_status UNHEALTHY (fst s1), snd s1)" using unhealthy[of "fst s1" "snd s1"] lost(1) by simp
    from chain[OF conjunct1[OF g] chain[OF this changing_server[OF lost(2) assms(2)]]] show ?thesis .
  next
    case 2
    then obtain t where "s' = ((fst s1)\<lparr>rc_lastActiveTimestamp := t\<rparr>, snd s1)" by blast
    with chain[OF conjunct1[OF g], of s'] active[of "fst s1" "snd s1" t] show ?thesis by simp
  qed (use g stays in auto)
qed

lemma marked:
  assumes "IsRunning rc"
  shows "G (rc, w) (switchServerAsync si f (set_status UNHEALTHY rc), w)"
  using chain[OF unhealthy switched, of rc w] assms by simp

lemma trying:
  assumes "request_once env q t s = (s', r)" and "interference G env"
  shows "G s s'"
  using assms(1)
proof (cases rule: request_once_cases)
  case idle
  then show ?thesis by (simp add: stays)
next
  case (failed c s1 y e)
  then have "G s1 s'" using stays[of s1] marked[of "fst s1" "snd s1"] by auto
  with request[OF assms(2) failed(1)] show ?thesis by (rule chain)
next
  case (answered c s1 x)
  from chain[OF request[OF assms(2) answered(1)], of s'] answered(4) active[of "fst s1" "snd s1"]
  show ?thesis by simp
qed

lemma retrying:
  assumes "request_loop env q t until n e s = (s', r)" and "interference G env"
  shows "G s s'"
  using assms(1)
proof (induction n arbitrary: e s)
  case 0
  then show ?case by (simp add: stays)
next
  case (Suc n)
  from Suc.prems show ?case
  proof (cases rule: request_loop_cases)
    case (again s1 e')
    have "G s1 (waitReconnect env t s1)" unfolding waitReconnect_def by (rule sleep[OF assms(2)])
    from chain[OF trying[OF again(1) assms(2)] chain[OF this Suc.IH[OF again(2)]]] show ?thesis .
  qed (use stays trying[OF _ assms(2)] in auto)
qed

lemma requesting:
  assumes "rpc_Request env q t s = (s', r)" and "interference G env"
  shows "G s s'"
proof -
  obtain s1 x where l: "request_loop env q t (CurrentMillis env s + t) REQUEST_DOMAIN_RETRY_TIME None s = (s1, x)"
    by fastforce
  have "s' = s1 \<or> (IsRunning (fst s1) \<and> s' = (switchServerAsync zero_ServerInfo True (set_status UNHEALTHY (fst s1)), snd s1))"
    using assms(1) l by (auto simp: rpc_Request_def cas_status_def IsRunning_def split: sum.splits if_splits)
  then have "G s1 s'" using stays[of s1] marked[of "fst s1" "snd s1"] by auto
  with retrying[OF l assms(2)] show ?thesis by (rule chain)
qed

lemma starting_up:
  assumes "start_up env n s = Ret (s', cn)" and "interference G env"
  shows "G s s'"
  using assms(1)
proof (induction n arbitrary: s)
  case 0
  then show ?case by (simp add: stays)
next
  case (Suc n)
  obtain rc r where x: "nextRpcServer (fst s) = Ret (rc, r)"
    using Suc.prems by (auto elim!: obind_RetE)
  note g = next_server[OF x, of "snd s"]
  show ?case
  proof (cases r)
    case (Inl err)
    with Suc.prems x g show ?thesis by simp
  next
    case (Inr si)
    obtain t cn' err where y: "re_connect env si (rc, snd s) = (t, cn', err)" by (metis prod.exhaust)
    with Suc.prems x Inr have "s' = t \<or> start_up env n t = Ret (s', cn)" by (auto split: option.splits)
    then have "G t s'" using Suc.IH stays by blast
    with g chain[OF connect[OF assms(2) y]] chain show ?thesis by (metis prod.collapse)
  qed
qed

lemma starting:
  assumes "Start env s = Ret s'" and "interference G env"
  shows "G s s'"
proof (cases "IsInitialized (fst s)")
  case False
  with assms(1) show ?thesis by (simp add: Start_def cas_status_def IsInitialized_def stays)
next
  case True
  let ?s0 = "(registerServerRequestHandlers (set_status STARTING (fst s)), snd s)"
  have 1: "G s ?s0"
    unfolding registerServerRequestHandlers_def
    using chain[OF started chain[OF handlers handlers], of "fst s" "snd s"] True by simp
  obtain s1 cn where u: "start_up env REQUEST_DOMAIN_RETRY_TIME ?s0 = Ret (s1, cn)"
    using assms(1) True by (auto simp: Start_def cas_status_def IsInitialized_def elim!: obind_RetE)
  have "G s1 s'"
    using assms(1) True u new_connection[of "fst s1" "snd s1"] switched[of "fst s1" "snd s1"]
    by (auto simp: Start_def cas_status_def IsInitialized_def split: option.splits)
  with chain[OF 1 starting_up[OF u assms(2)]] show ?thesis by (rule chain)
qed

lemma shutting_down: "G s (Shutdown env s)"
  using chain[OF stopped close[of _ env], of "fst s" "snd s"] by (simp add: Shutdown_def)

lemma resetting: "connect_reset_reply q rc = (rc', r) \<Longrightarrow> G (rc, w) (rc', w)"
  using stays switched
  by (auto simp: connect_reset_reply_def split: IRequest.splits if_splits option.splits prod.splits)

lemma server_list_changed: "G (rc, w) (notifyServerSrvChange rc, w)"
  using stays switched by (auto simp: notifyServerSrvChange_def split: option.splits)

end

section \<open>Well-formed clients\<close>

text \<open>
  A client that is or was running has a connection, and so has a client with an event to deliver; a
  connection is replaced but never taken away.
\<close>

definition rpc_wf :: "'c RpcClient \<Rightarrow> bool" where
  "rpc_wf rc \<longleftrightarrow>
     (rc_rpcClientStatus rc = RUNNING \<or> rc_rpcClientStatus rc = UNHEALTHY \<or> rc_eventChan rc \<noteq> [] \<longrightarrow>
      rc_currentConnection rc \<noteq> None) \<and>
     wf_map (rc_serverRequestHandlerMapping rc)"

definition keeps_wf :: "('c, 'w) rpc \<Rightarrow> ('c, 'w) rpc \<Rightarrow> bool" where
  "keeps_wf s t \<longleftrightarrow> (rpc_wf (fst s) \<longrightarrow> rpc_wf (fst t)) \<and>
     (rc_currentConnection (fst s) \<noteq> None \<longrightarrow> rc_currentConnection (fst t) \<noteq> None)"

lemmas rpc_updates = notifyConnectionChange_def set_status_def switchServerAsync_def setAbandon_def
  IsRunning_def IsInitialized_def RegisterServerRequestHandler_def RegisterConnectionListener_def

interpretation wf: rpc_guarantee keeps_wf
  by unfold_locales (auto simp: keeps_wf_def rpc_wf_def rpc_updates Let_def)

text \<open>Listeners and handlers are never lost, and a client keeps its name and tenant.\<close>

definition keeps_registrations :: "('c, 'w) rpc \<Rightarrow> ('c, 'w) rpc \<Rightarrow> bool" where
  "keeps_registrations s t \<longleftrightarrow>
     prefix (rc_connectionEventListeners (fst s)) (rc_connectionEventListeners (fst t)) \<and>
     dom (map_of (rc_serverRequestHandlerMapping (fst s))) \<subseteq> dom (map_of (rc_serverRequestHandlerMapping (fst t))) \<and>
     rc_name (fst t) = rc_name (fst s) \<and> rc_Tenant (fst t) = rc_Tenant (fst s) \<and>
     (rc_currentConnection (fst s) \<noteq> None \<longrightarrow> rc_currentConnection (fst t) \<noteq> None)"

interpretation reg: rpc_guarantee keeps_registrations
  by unfold_locales (auto simp: keeps_registrations_def rpc_updates Let_def)

section \<open>Steps\<close>

text \<open>
  One step is one operation of one goroutine: the caller of \<open>Start\<close>, \<open>Request\<close> or \<open>Shutdown\<close>, the
  goroutine that delivers events, the one that reconnects and checks the health, and the one that reads
  the stream of a connection (a reset request, the end of the stream).
\<close>

inductive rpc_step :: "('c, 'w) rpc_env \<Rightarrow> ('c, 'w) rpc \<Rightarrow> ('c, 'w) rpc \<Rightarrow> bool" for env where
  start: "Start env s = Ret s' \<Longrightarrow> rpc_step env s s'"
| request: "rpc_Request env q t s = (s', r) \<Longrightarrow> rpc_step env s s'"
| health: "healthCheck env s = Some (Ret s') \<Longrightarrow> rpc_step env s s'"
| reconnection: "rc_reconnectionChan rc = rx # rest \<Longrightarrow>
    handle_reconnection env rx (rc\<lparr>rc_reconnectionChan := rest\<rparr>, w) = Some (Ret s') \<Longrightarrow> rpc_step env (rc, w) s'"
| server_list: "rpc_step env (rc, w) (notifyServerSrvChange rc, w)"
| event: "rc_eventChan rc = e # es \<Longrightarrow> rpc_step env (rc, w) (rc\<lparr>rc_eventChan := es\<rparr>, w)"
| reset: "connect_reset_reply q rc = (rc', r) \<Longrightarrow> rpc_step env (rc, w) (rc', w)"
| stream_end: "IsRunning rc \<Longrightarrow>
    rpc_step env (rc, w) (switchServerAsync zero_ServerInfo False (set_status UNHEALTHY rc), w)"
| listener: "rpc_step env (rc, w) (RegisterConnectionListener l rc, w)"
| handler: "rpc_step env (rc, w) (RegisterServerRequestHandler q h rc, w)"
| shutdown: "rpc_step env s (Shutdown env s)"

context rpc_guarantee
begin

lemma one_step:
  assumes "rpc_step env s s'" and "interference G env"
  shows "G s s'"
  using assms(1)
proof cases
  case (reconnection rc rx rest w)
  have "G (rc\<lparr>rc_reconnectionChan := rest\<rparr>, w) s'"
    using reconnection(3) changing_server[OF _ assms(2)] by (simp add: handle_reconnection_def)
  with taken[OF reconnection(2), of w] reconnection(1) show ?thesis by (auto intro: chain)
next
  case (stream_end rc w)
  with chain[OF unhealthy switched] show ?thesis by blast
qed (simp_all add: starting[OF _ assms(2)] requesting[OF _ assms(2)] health_checked[OF _ assms(2)]
      server_list_changed received resetting listeners handlers shutting_down)

lemma many_steps:
  assumes "(rpc_step env)\<^sup>*\<^sup>* s s'" and "interference G env"
  shows "G s s'"
  using assms(1) by induction (use stays one_step[OF _ assms(2)] chain in blast)+

end

section \<open>Properties\<close>

text \<open>A client and an environment for examples: connecting and requesting succeed at once.\<close>

definition demo_rpc :: "unit RpcClient" where
  "demo_rpc = \<lparr>rc_name = ''demo'', rc_labels = [], rc_currentConnection = None, rc_rpcClientStatus = INITIALIZED,
     rc_eventChan = [], rc_reconnectionChan = [], rc_connectionEventListeners = [7], rc_lastActiveTimestamp = 0,
     rc_nacosServer = demo_ns 0, rc_serverRequestHandlerMapping = [], rc_Tenant = [], rc_TLSConfig = zero_TLSConfig\<rparr>"

definition demo_conn :: "ServerInfo \<Rightarrow> Connection" where
  "demo_conn si = \<lparr>conn_connectionId = ''c1'', conn_abandon = False, conn_serverInfo = si\<rparr>"

definition demo_rpc_env :: "(unit, nat) rpc_env" where
  "demo_rpc_env = \<lparr>re_connect = (\<lambda>si s. (s, Some (demo_conn si), None)),
     re_request = (\<lambda>c q t (rc, w). ((rc, w + 1), Inr (HealthCheckResponse (zero_Response\<lparr>rs_Success := True\<rparr>)))),
     re_close = (\<lambda>c w. w), re_nanos = int, re_sleep = (\<lambda>t s. s)\<rparr>"

lemma demo_rpc_env_fields:
  "re_connect demo_rpc_env si s = (s, Some (demo_conn si), None)"
  "re_request demo_rpc_env c q t s = ((fst s, snd s + 1), Inr (HealthCheckResponse (zero_Response\<lparr>rs_Success := True\<rparr>)))"
  "re_sleep demo_rpc_env t s = s" "re_nanos demo_rpc_env w = int w"
  by (simp_all add: demo_rpc_env_def split_beta)

lemma demo_interference: "(\<And>s w. G s (fst s, w)) \<Longrightarrow> interference G demo_rpc_env"
  by (auto simp: interference_def demo_rpc_env_fields)

lemma demo_start: "\<exists>s. Start demo_rpc_env (demo_rpc, 0) = Ret s \<and> rc_eventChan (fst s) = [CONNECTED] \<and>
    IsRunning (fst s) \<and> map_of (rc_serverRequestHandlerMapping (fst s)) ''ClientDetectionRequest'' =
      Some (ClientDetectionRequest NewInternalRequest, ClientDetectionRequestHandler)"
proof -
  have "GetNextServer (demo_ns 0) = Ret ((demo_ns 0)\<lparr>ns_currentIndex := 1\<rparr>, Inr (demo_servers 3 ! 1))"
    using GetNextServer_step[of "demo_ns 0" "demo_servers 3"] by (simp add: demo_ns_list)
  then show ?thesis
    by (simp add: Start_def cas_status_def demo_rpc_def registerServerRequestHandlers_def rpc_updates Let_def
        REQUEST_DOMAIN_RETRY_TIME_def numeral_3_eq_3 nextRpcServer_def demo_rpc_env_fields)
qed

text \<open>
  C23: In every state the goroutines of an rpc client reach, whatever the order of their operations, a
  client that is running or unhealthy has a connection, and the delivery of a pending connection event to
  the listeners does not panic. The goroutines that run while an operation waits for the network have to
  do the same.
\<close>

theorem rpc_states_well_formed:
  assumes "interference keeps_wf env" and "(rpc_step env)\<^sup>*\<^sup>* s0 s" and "rpc_wf (fst s0)"
  shows "rpc_wf (fst s) \<and>
    (rc_eventChan (fst s) = e # es \<longrightarrow>
     notifyConnectionEvent e ((fst s)\<lparr>rc_eventChan := es\<rparr>) =
       Ret (map (\<lambda>v. (v, e)) (rc_connectionEventListeners (fst s))))"
proof -
  have "rpc_wf (fst s)" using wf.many_steps[OF assms(2,1)] assms(3) by (simp add: keeps_wf_def)
  then show ?thesis by (auto simp: rpc_wf_def notifyConnectionEvent_def)
qed

theorem rpc_states_well_formed_witness:
  "\<exists>s. Start demo_rpc_env (demo_rpc, 0) = Ret s \<and> rpc_wf (fst s) \<and> rc_eventChan (fst s) = [CONNECTED] \<and>
     notifyConnectionEvent CONNECTED ((fst s)\<lparr>rc_eventChan := []\<rparr>) =
       Ret (map (\<lambda>v. (v, CONNECTED)) (rc_connectionEventListeners (fst s)))"
proof -
  obtain s where s: "Start demo_rpc_env (demo_rpc, 0) = Ret s" "rc_eventChan (fst s) = [CONNECTED]"
    using demo_start by blast
  have "interference keeps_wf demo_rpc_env" by (rule demo_interference) (simp add: keeps_wf_def)
  moreover have "(rpc_step demo_rpc_env)\<^sup>*\<^sup>* (demo_rpc, 0) s" using start[OF s(1)] by (rule r_into_rtranclp)
  moreover have "rpc_wf (fst (demo_rpc, 0 :: nat))" by (simp add: rpc_wf_def demo_rpc_def)
  ultimately show ?thesis using rpc_states_well_formed[where e = CONNECTED and es = "[]"] s by metis
qed

subsection \<open>Requests\<close>

lemma request_once_result:
  fixes sent :: "'w \<Rightarrow> nat"
  assumes "request_once env q t s = (s', r)"
    and "\<And>c q t s. sent (snd (fst (re_request env c q t s))) = sent (snd s) + 1"
  shows "sent (snd s) \<le> sent (snd s') \<and> sent (snd s') \<le> sent (snd s) + 1 \<and>
    (\<forall>x. r = Inr x \<longrightarrow> GetResponseType x \<noteq> ''ErrorResponse'' \<and> sent (snd s) < sent (snd s') \<and>
      rc_lastActiveTimestamp (fst s') = re_nanos env (snd s'))"
  using assms(1)
proof (cases rule: request_once_cases)
  case (failed c s1 y e)
  with assms(2)[of c q t s] show ?thesis by auto
next
  case (answered c s1 x)
  with assms(2)[of c q t s] show ?thesis by simp
qed simp

lemma request_loop_result:
  fixes sent :: "'w \<Rightarrow> nat"
  assumes "request_loop env q t until n e s = (s', r)"
    and "\<And>c q t s. sent (snd (fst (re_request env c q t s))) = sent (snd s) + 1"
    and "\<And>t s. sent (snd (re_sleep env t s)) = sent (snd s)"
  shows "sent (snd s) \<le> sent (snd s') \<and> sent (snd s') \<le> sent (snd s) + n \<and>
    (\<forall>x. r = Inr x \<longrightarrow> GetResponseType x \<noteq> ''ErrorResponse'' \<and> sent (snd s) < sent (snd s') \<and>
      rc_lastActiveTimestamp (fst s') = re_nanos env (snd s'))"
  using assms(1)
proof (induction n arbitrary: e s)
  case (Suc n)
  from Suc.prems show ?case
  proof (cases rule: request_loop_cases)
    case (answered x)
    from request_once_result[where sent = sent, OF answered(1) assms(2)] answered(2) show ?thesis by auto
  next
    case (again s1 e')
    have "sent (snd (waitReconnect env t s1)) = sent (snd s1)" by (simp add: waitReconnect_def assms(3))
    with Suc.IH[OF again(2)] have ih: "sent (snd s1) \<le> sent (snd s')" "sent (snd s') \<le> sent (snd s1) + n"
        "\<And>x. r = Inr x \<Longrightarrow> GetResponseType x \<noteq> ''ErrorResponse'' \<and> sent (snd s1) < sent (snd s') \<and>
          rc_lastActiveTimestamp (fst s') = re_nanos env (snd s')" by simp_all
    have "sent (snd s) \<le> sent (snd s1)" "sent (snd s1) \<le> sent (snd s) + 1"
      using request_once_result[where sent = sent, OF again(1) assms(2)] by simp_all
    with ih(1,2) ih(3) show ?thesis by (intro conjI allI impI; force)
  qed auto
qed auto



end
