(* ===== verification/Rpc_Liveness.thy ===== *)
theory Rpc_Liveness
  imports Rpc_Steps
begin

text \<open>
  When the reconnection of an rpc client returns: with a server that can be reached it does, within one
  round of the server list; with an appointed server that cannot be reached it does not, whatever the
  other servers do. And what a shutdown during a reconnection is worth.
\<close>

section \<open>A round of the server list\<close>

text \<open>
  \<open>steady env\<close>: while the client connects or waits, nobody changes its server list or shuts it down.
\<close>

definition unchanged :: "('c, 'w) rpc \<Rightarrow> ('c, 'w) rpc \<Rightarrow> bool" where
  "unchanged s t \<longleftrightarrow> rc_nacosServer (fst t) = rc_nacosServer (fst s) \<and> (isShutdown (fst t) \<longrightarrow> isShutdown (fst s))"

definition steady :: "('c, 'w) rpc_env \<Rightarrow> bool" where
  "steady env \<longleftrightarrow> (\<forall>si s. unchanged s (fst (re_connect env si s))) \<and> (\<forall>t s. unchanged s (re_sleep env t s))"

lemma steadyD:
  assumes "steady env"
  shows "re_connect env si s = (t, r) \<Longrightarrow> unchanged s t" and "unchanged s (re_sleep env d s)"
  using assms unfolding steady_def by (metis fst_conv, blast)

lemma steady_failure:
  assumes "steady env" and "\<not> isShutdown (fst s)"
  shows "close_if_shutdown env s = s" and "unchanged s (after_failure env turns s)"
  using assms(2) steadyD(2)[OF assms(1), of s "int (min turns 50) * 100"]
  by (auto simp: close_if_shutdown_def after_failure_def unchanged_def)

lemma choose_next_server:
  assumes "0 \<le> sint (ns_currentIndex (rc_nacosServer rc))"
    and "sint (ns_currentIndex (rc_nacosServer rc)) + 1 < 2 ^ 31"
    and "GetServerList (rc_nacosServer rc) = srvs" and "srvs \<noteq> []" and "length srvs < 2 ^ 31"
  shows "choose_server True si rc =
    Ret (rc\<lparr>rc_nacosServer := (rc_nacosServer rc)\<lparr>ns_currentIndex := ns_currentIndex (rc_nacosServer rc) + 1\<rparr>\<rparr>,
      Inr (server_info (srvs ! (nat (sint (ns_currentIndex (rc_nacosServer rc)) + 1) mod length srvs))))"
  using GetNextServer_step[OF assms] by (simp add: choose_server_def nextRpcServer_def)

lemma adopt_running:
  "IsRunning (fst (adopt_connection env c s)) \<and> rc_currentConnection (fst (adopt_connection env c s)) = Some c \<and>
   rc_eventChan (fst (adopt_connection env c s)) \<noteq> [] \<and> last (rc_eventChan (fst (adopt_connection env c s))) = CONNECTED"
  by (simp add: adopt_connection_def Let_def rpc_updates)

lemma next_turns_total: "0 < n \<Longrightarrow> \<exists>turns'. next_turns m turns n = Ret turns'"
  by (simp add: next_turns_def)

text \<open>One iteration that fails to connect.\<close>

lemma reconnect_loop_retry:
  assumes "steady env" and "\<not> isShutdown (fst s)" and "choose_server flag si (fst s) = Ret (rc, Inr si')"
    and "\<not> isShutdown rc" and "GetServerList (rc_nacosServer rc) \<noteq> []"
    and "re_connect env si' (rc, snd s) = (t, cn, err)" and "cn = None \<or> err \<noteq> None"
  shows "\<exists>turns' s'. reconnect_loop env flag si n turns s = reconnect_loop env flag si' (n + 1) turns' s' \<and>
    unchanged (rc, snd s) s'"
proof -
  have t: "unchanged (rc, snd s) t" by (rule steadyD(1)[OF assms(1,6)])
  with assms(4) have "\<not> isShutdown (fst t)" by (auto simp: unchanged_def)
  note f = steady_failure[OF assms(1) this]
  have list: "GetServerList (rc_nacosServer (fst t)) \<noteq> []" using t assms(5) by (simp add: unchanged_def)
  then obtain turns' where "next_turns n turns (length (GetServerList (rc_nacosServer (fst t)))) = Ret turns'"
    using next_turns_total by blast
  then have "reconnect_loop env flag si n turns s = reconnect_loop env flag si' (n + 1) turns' (after_failure env turns' t)"
    using assms f(1) by (subst reconnect_loop.simps) (auto simp: Let_def)
  moreover have "unchanged (rc, snd s) (after_failure env turns' t)"
    using t f(2)[of turns'] by (auto simp: unchanged_def)
  ultimately show ?thesis by blast
qed

lemma reconnect_loop_connects:
  assumes "\<not> isShutdown (fst s)" and "choose_server flag si (fst s) = Ret (rc, Inr si')"
    and "re_connect env si' (rc, snd s) = (t, Some c, None)"
  shows "reconnect_loop env flag si n turns s = Some (Ret (adopt_connection env c t))"
  using assms by (subst reconnect_loop.simps) (simp add: Let_def)

text \<open>The server that can be reached is \<open>d\<close> steps further in the round robin.\<close>

lemma reconnect_in_round:
  assumes "steady env" and "GetServerList (rc_nacosServer (fst s)) = srvs" and "srvs \<noteq> []" and "length srvs < 2 ^ 31"
    and "\<And>t. \<exists>t' c. re_connect env (server_info cfg) t = (t', Some c, None)"
    and "srvs ! (nat (sint (ns_currentIndex (rc_nacosServer (fst s))) + 1 + int d) mod length srvs) = cfg"
    and "0 \<le> sint (ns_currentIndex (rc_nacosServer (fst s)))"
    and "sint (ns_currentIndex (rc_nacosServer (fst s))) + 1 + int d < 2 ^ 31"
    and "\<not> isShutdown (fst s)"
  shows "\<exists>c t. reconnect_loop env True si n turns s = Some (Ret (adopt_connection env c t))"
  using assms(2,6-9)
proof (induction d arbitrary: s si n turns)
  case (0 s)
  have i: "sint (ns_currentIndex (rc_nacosServer (fst s))) + 1 < 2 ^ 31" using 0(4) by simp
  note choose = choose_next_server[of "fst s" srvs si, OF 0(3) i 0(1) assms(3,4)]
  obtain t c where y: "re_connect env (server_info cfg) ((fst s)\<lparr>rc_nacosServer :=
      (rc_nacosServer (fst s))\<lparr>ns_currentIndex := ns_currentIndex (rc_nacosServer (fst s)) + 1\<rparr>\<rparr>, snd s) = (t, Some c, None)"
    using assms(5) by blast
  have "nat (sint (ns_currentIndex (rc_nacosServer (fst s))) + 1 + int 0) = nat (sint (ns_currentIndex (rc_nacosServer (fst s))) + 1)"
    by simp
  with 0(2) choose have "choose_server True si (fst s) = Ret ((fst s)\<lparr>rc_nacosServer :=
      (rc_nacosServer (fst s))\<lparr>ns_currentIndex := ns_currentIndex (rc_nacosServer (fst s)) + 1\<rparr>\<rparr>, Inr (server_info cfg))"
    by simp
  from reconnect_loop_connects[OF 0(5) this y] show ?case by blast
next
  case (Suc d s)
  let ?ns = "rc_nacosServer (fst s)"
  let ?rc = "(fst s)\<lparr>rc_nacosServer := ?ns\<lparr>ns_currentIndex := ns_currentIndex ?ns + 1\<rparr>\<rparr>"
  let ?si = "server_info (srvs ! (nat (sint (ns_currentIndex ?ns) + 1) mod length srvs))"
  have choose: "choose_server True si (fst s) = Ret (?rc, Inr ?si)"
    using choose_next_server[of "fst s" srvs si, OF Suc(4) _ Suc(2) assms(3,4)] Suc(5) by simp
  have rc: "\<not> isShutdown ?rc" "GetServerList (rc_nacosServer ?rc) = srvs"
    "sint (ns_currentIndex (rc_nacosServer ?rc)) = sint (ns_currentIndex ?ns) + 1"
    using Suc by (auto simp: isShutdown_def GetServerList_def sint_Suc)
  obtain t cn err where y: "re_connect env ?si (?rc, snd s) = (t, cn, err)" by (metis prod.exhaust)
  show ?case
  proof (cases "cn \<noteq> None \<and> err = None")
    case True
    then obtain c where "cn = Some c" "err = None" by blast
    with reconnect_loop_connects[OF Suc(6) choose, of env t c n turns] y show ?thesis by blast
  next
    case False
    then have "cn = None \<or> err \<noteq> None" by auto
    with reconnect_loop_retry[OF assms(1) Suc(6) choose rc(1) _ y, of n turns] rc(2) assms(3)
    obtain turns' s' where s': "reconnect_loop env True si n turns s = reconnect_loop env True ?si (n + 1) turns' s'"
      "unchanged (?rc, snd s) s'" by auto
    from s'(2) rc(1) have ns': "rc_nacosServer (fst s') = rc_nacosServer ?rc" "\<not> isShutdown (fst s')"
      by (auto simp: unchanged_def)
    have "\<exists>c t. reconnect_loop env True ?si (n + 1) turns' s' = Some (Ret (adopt_connection env c t))"
      by (rule Suc.IH) (use Suc.prems rc ns' in \<open>simp_all add: add.assoc\<close>)
    with s'(1) show ?thesis by simp
  qed
qed

lemma round_reaches:
  assumes "k < (n :: nat)"
  shows "\<exists>d < n. (a + d) mod n = k"
proof (intro exI conjI)
  let ?d = "(k + (n - a mod n)) mod n"
  show "?d < n" using assms by simp
  have "(a + ?d) mod n = (a mod n + (k + (n - a mod n))) mod n" by (simp add: mod_simps)
  also have "a mod n + (k + (n - a mod n)) = k + n" using assms mod_less_divisor[of n a] by linarith
  also have "(k + n) mod n = k" using assms by simp
  finally show "(a + ?d) mod n = k" .
qed


lemma demo_reconnect_facts:
  "steady demo_rpc_env" "\<not> isShutdown demo_rpc" "rc_nacosServer demo_rpc = demo_ns 0"
  by (simp_all add: steady_def unchanged_def demo_rpc_env_fields isShutdown_def demo_rpc_def)


section \<open>An appointed server\<close>

lemma appointed_loop:
  assumes "reconnect_loop env flag si n turns s = Some y"
    and "steady env" and "\<And>t. fst (snd (re_connect env si t)) = None \<or> snd (snd (re_connect env si t)) \<noteq> None"
  shows "\<not> flag \<longrightarrow> \<not> isShutdown (fst s) \<longrightarrow> GetServerList (rc_nacosServer (fst s)) = []"
proof -
  have "env' = env \<and> si' = si \<and> \<not> flag \<and> \<not> isShutdown (fst s) \<longrightarrow> GetServerList (rc_nacosServer (fst s)) = []"
    if "reconnect_loop env' flag si' n turns s = Some y" for env' flag si' n turns s y
  proof (rule reconnect_loop.raw_induct[OF _ that], goal_cases)
    case (1 loop env' flag si' n turns s y)
    show ?case
    proof (intro impI, elim conjE)
      assume eq: "env' = env" "si' = si" and up: "\<not> flag" "\<not> isShutdown (fst s)"
      obtain t cn err where y: "re_connect env si s = (t, cn, err)" by (metis prod.exhaust)
      with assms(3)[of s] have f: "cn = None \<or> err \<noteq> None" by simp
      have u: "unchanged s t" by (rule steadyD(1)[OF assms(2) y])
      with up have "\<not> isShutdown (fst t)" by (auto simp: unchanged_def)
      note g = steady_failure[OF assms(2) this]
      show "GetServerList (rc_nacosServer (fst s)) = []"
      proof (rule ccontr)
        assume "GetServerList (rc_nacosServer (fst s)) \<noteq> []"
        then have l: "GetServerList (rc_nacosServer (fst t)) \<noteq> []" using u by (simp add: unchanged_def)
        then obtain turns' where "next_turns n turns (length (GetServerList (rc_nacosServer (fst t)))) = Ret turns'"
          using next_turns_total by blast
        with 1(2) have "loop env flag si (n + 1) turns' (after_failure env turns' t) = Some y"
          using up y f g(1) unfolding eq by (auto simp: choose_server_def Let_def)
        from 1(1)[OF this] up have "\<not> isShutdown (fst (after_failure env turns' t)) \<longrightarrow>
          GetServerList (rc_nacosServer (fst (after_failure env turns' t))) = []" by simp
        with g(2)[of turns'] u up l show False by (auto simp: unchanged_def)
      qed
    qed
  qed
  with assms(1) show ?thesis by blast
qed

text \<open>
  C26: A reconnection to a server that the current server recommended tries no other server: when the
  recommended one cannot be reached, it never returns, whatever servers there are besides.
\<close>

theorem appointed_server_never_left:
  assumes "steady env" and "\<not> isShutdown (fst s)" and "GetServerList (rc_nacosServer (fst s)) \<noteq> []"
    and "si \<noteq> zero_ServerInfo"
    and "\<And>t. fst (snd (re_connect env si t)) = None \<or> snd (snd (re_connect env si t)) \<noteq> None"
  shows "reconnect env si False s = None"
proof (rule ccontr)
  assume "reconnect env si False s \<noteq> None"
  then obtain y where "reconnect_loop env False si 0 0 s = Some y"
    using assms(4) by (auto simp: reconnect_def reconnect_new_def)
  from appointed_loop[OF this assms(1,5)] assms(2,3) show False by simp
qed

text \<open>Servers other than the first can be reached.\<close>

definition demo_down_env :: "(unit, nat) rpc_env" where
  "demo_down_env = demo_rpc_env\<lparr>re_connect := (\<lambda>si s.
     if si = server_info (demo_servers 3 ! 0) then (s, None, Some (Err ''refused'')) else (s, Some (demo_conn si), None))\<rparr>"

theorem appointed_server_never_left_witness:
  "reconnect demo_down_env (server_info (demo_servers 3 ! 0)) False (demo_rpc, 0) = None"
proof (rule appointed_server_never_left)
  show "steady demo_down_env"
    by (simp add: demo_down_env_def demo_rpc_env_def steady_def unchanged_def)
  show "server_info (demo_servers 3 ! 0) \<noteq> zero_ServerInfo"
    by (simp add: server_info_def zero_ServerInfo_def demo_servers_def)
qed (simp_all add: demo_reconnect_facts demo_ns_list demo_down_env_def)

section \<open>Shutdown during a reconnection\<close>

text \<open>
  C27: A shutdown does not last when it falls into the time in which a reconnection waits for the new
  connection: the client is running afterwards, with the new connection open, and nothing closes it.
\<close>

theorem shutdown_undone:
  assumes "\<not> isShutdown (fst s)" and "nextRpcServer (fst s) = Ret (rc, Inr si)"
    and "re_connect env si (rc, snd s) = (Shutdown env t, Some c, None)"
  shows "\<exists>s'. reconnect env zero_ServerInfo False s = Some (Ret s') \<and> IsRunning (fst s') \<and>
    rc_currentConnection (fst s') = Some c"
proof -
  have "choose_server True zero_ServerInfo (fst s) = Ret (rc, Inr si)" using assms(2) by (simp add: choose_server_def)
  from reconnect_loop_connects[OF assms(1) this assms(3)] adopt_running[of env c "Shutdown env t"]
  show ?thesis by (auto simp: reconnect_def reconnect_new_def)
qed

definition demo_shutdown_env :: "(unit, nat) rpc_env" where
  "demo_shutdown_env = demo_rpc_env\<lparr>re_connect := (\<lambda>si s. (Shutdown demo_rpc_env s, Some (demo_conn si), None))\<rparr>"

lemma shutdown_demo_env: "Shutdown demo_shutdown_env s = Shutdown demo_rpc_env s"
  by (simp add: Shutdown_def closeConnection_def demo_shutdown_env_def split: option.split)

theorem shutdown_undone_witness:
  "\<exists>s'. reconnect demo_shutdown_env zero_ServerInfo False (demo_rpc, 0) = Some (Ret s') \<and> IsRunning (fst s')"
proof -
  have "\<exists>rc si. nextRpcServer (fst (demo_rpc, 0 :: nat)) = Ret (rc, Inr si)"
    using GetNextServer_step[of "demo_ns 0" "demo_servers 3"]
    by (simp add: nextRpcServer_def demo_reconnect_facts demo_ns_list)
  then obtain rc si where n: "nextRpcServer (fst (demo_rpc, 0 :: nat)) = Ret (rc, Inr si)" by blast
  have "re_connect demo_shutdown_env si (rc, snd (demo_rpc, 0)) =
      (Shutdown demo_shutdown_env (rc, 0), Some (demo_conn si), None)"
    by (simp add: shutdown_demo_env) (simp add: demo_shutdown_env_def)
  from shutdown_undone[OF _ n this] show ?thesis using demo_reconnect_facts(2) by auto
qed

end
