(* ===== verification/Grpc_Client.thy ===== *)
theory Grpc_Client
  imports Rpc_Client
begin

text \<open>
  \<open>common/remote/rpc/grpc_client.go\<close> and \<open>grpc_connection.go\<close>: the settings of a connection, the steps
  that set it up, requests over it, and the dispatch of the requests a server sends.

  The gRPC library, the JSON codec, the environment variables and the local address are the fields of
  \<open>grpc_lib\<close>, over a state \<open>'w\<close> of the outside world; \<open>'k\<close> is the library's connection.
\<close>

section \<open>The library\<close>

record Payload =
  pl_Type :: string
  pl_Headers :: params
  pl_ClientIp :: string
  pl_Body :: string

record dial_options =
  do_MaxCallRecvMsgSize :: int
  do_KeepaliveTime :: u64
  do_InitialWindowSize :: i32
  do_InitialConnWindowSize :: i32
  do_tls :: "TLSConfig option"

text \<open>A \<open>ServerCheckResponse\<close> while it is decoded: its embedded pointer is \<open>nil\<close> at first.\<close>

type_synonym check_response = "Response option \<times> string"

record ('k, 'w) grpc_lib =
  gl_getenv :: "string \<Rightarrow> string"
  gl_LocalIP :: string
  gl_dial :: "string \<Rightarrow> dial_options \<Rightarrow> 'w \<Rightarrow> 'w \<times> 'k result"
  gl_Request :: "'k \<Rightarrow> int \<Rightarrow> Payload \<Rightarrow> 'w \<Rightarrow> 'w \<times> Payload result"
  gl_RequestBiStream :: "'k \<Rightarrow> 'w \<Rightarrow> 'w \<times> go_error option"
  gl_Send :: "'k \<Rightarrow> Payload \<Rightarrow> 'w \<Rightarrow> 'w \<times> go_error option"
  gl_Close :: "'k \<Rightarrow> 'w \<Rightarrow> 'w"
  gl_sleep :: "int \<Rightarrow> 'w \<Rightarrow> 'w"
  gl_request_json :: "IRequest \<Rightarrow> string"
  gl_response_json :: "IResponse \<Rightarrow> string"
  gl_decode_check :: "string \<Rightarrow> check_response \<Rightarrow> check_response result"
  gl_decode_response :: "string \<Rightarrow> IResponse \<Rightarrow> IResponse result"
  gl_decode_keys :: "string \<Rightarrow> string list result"
  gl_decode_request :: "string \<Rightarrow> IRequest \<Rightarrow> IRequest result"

definition convertRequest :: "('k, 'w) grpc_lib \<Rightarrow> IRequest \<Rightarrow> Payload" where
  "convertRequest lib r = \<lparr>pl_Type = GetRequestType r, pl_Headers = slice (GetHeaders r),
     pl_ClientIp = gl_LocalIP lib, pl_Body = gl_request_json lib r\<rparr>"

definition convertResponse :: "('k, 'w) grpc_lib \<Rightarrow> IResponse \<Rightarrow> Payload" where
  "convertResponse lib r = \<lparr>pl_Type = GetResponseType r, pl_Headers = [],
     pl_ClientIp = gl_LocalIP lib, pl_Body = gl_response_json lib r\<rparr>"

section \<open>Settings\<close>

definition env_int :: "('k, 'w) grpc_lib \<Rightarrow> string \<Rightarrow> int \<Rightarrow> int" where
  "env_int lib key dflt = (case atoi (gl_getenv lib key) of (n, None) \<Rightarrow> n | (_, Some err) \<Rightarrow> dflt)"

definition getMaxCallRecvMsgSize :: "('k, 'w) grpc_lib \<Rightarrow> int" where
  "getMaxCallRecvMsgSize lib = env_int lib ''nacos.remote.client.grpc.maxinbound.message.size'' (10 * 1024 * 1024)"

definition getInitialWindowSize :: "('k, 'w) grpc_lib \<Rightarrow> i32" where
  "getInitialWindowSize lib = word_of_int (env_int lib ''nacos.remote.client.grpc.initial.window.size'' (10 * 1024 * 1024))"

definition getInitialConnWindowSize :: "('k, 'w) grpc_lib \<Rightarrow> i32" where
  "getInitialConnWindowSize lib =
     word_of_int (env_int lib ''nacos.remote.client.grpc.initial.conn.window.size'' (10 * 1024 * 1024))"

definition getInitialGrpcTimeout :: "('k, 'w) grpc_lib \<Rightarrow> i32" where
  "getInitialGrpcTimeout lib = word_of_int (env_int lib ''nacos.remote.client.grpc.timeout'' DEFAULT_TIMEOUT_MILLS)"

text \<open>A duration is a 64-bit number of nanoseconds.\<close>

definition getKeepAliveTimeMillis :: "('k, 'w) grpc_lib \<Rightarrow> u64" where
  "getKeepAliveTimeMillis lib = word_of_int (env_int lib ''nacos.remote.grpc.keep.alive.millis'' (60 * 1000)) * 1000000"

definition getEnvTLSConfig :: "('k, 'w) grpc_lib \<Rightarrow> TLSConfig \<Rightarrow> TLSConfig" where
  "getEnvTLSConfig lib config =
     (if tls_Appointed config then config
      else
        let enable = parse_bool (gl_getenv lib ''nacos_remote_client_rpc_tls_enable'');
            c1 = (case enable of Some b \<Rightarrow> config\<lparr>tls_Enable := b\<rparr> | None \<Rightarrow> config)
        in if enable \<noteq> Some True then c1
           else
             let trustAll = parse_bool (gl_getenv lib ''nacos_remote_client_rpc_tls_trustAll'');
                 c2 = (case trustAll of Some b \<Rightarrow> c1\<lparr>tls_TrustAll := b\<rparr> | None \<Rightarrow> c1)
             in c2\<lparr>tls_CaFile := gl_getenv lib ''nacos_remote_client_rpc_tls_trustCollectionChainPath'',
                   tls_CertFile := gl_getenv lib ''nacos_remote_client_rpc_tls_certChainFile'',
                   tls_KeyFile := gl_getenv lib ''nacos_remote_client_rpc_tls_certPrivateKey''\<rparr>)"

definition rpcPort :: "ServerInfo \<Rightarrow> u64" where
  "rpcPort serverInfo =
     (if si_serverGrpcPort serverInfo = 0 then si_serverPort serverInfo + RpcPortOffset
      else si_serverGrpcPort serverInfo)"

text \<open>The configuration is shared, so what is read from the environment stays in it.\<close>

definition createNewConnection ::
  "('k, 'w) grpc_lib \<Rightarrow> ServerInfo \<Rightarrow> TLSConfig \<Rightarrow> 'w \<Rightarrow> TLSConfig \<times> 'w \<times> 'k result" where
  "createNewConnection lib serverInfo tls w =
     (let tls' = getEnvTLSConfig lib tls;
          opts = \<lparr>do_MaxCallRecvMsgSize = getMaxCallRecvMsgSize lib, do_KeepaliveTime = getKeepAliveTimeMillis lib,
                  do_InitialWindowSize = getInitialWindowSize lib,
                  do_InitialConnWindowSize = getInitialConnWindowSize lib,
                  do_tls = (if tls_Enable tls' then Some tls' else None)\<rparr>
      in (tls', gl_dial lib (si_serverIp serverInfo @ '':'' @ dec (unat (rpcPort serverInfo))) opts w))"

section \<open>Setting up a connection\<close>

definition not_ready :: go_error where
  "not_ready = Err ''the nacos server is not ready to work in 30 seconds, connect to server failed''"

text \<open>
  The loop of \<open>serverCheck\<close>, iteration \<open>30 - left\<close>. Every answer is decoded into the same response, so
  a field that is missing in an answer keeps the value of an earlier one. Reading the error code of a
  response without its embedded part panics.
\<close>

fun check_loop ::
  "('k, 'w) grpc_lib \<Rightarrow> 'k \<Rightarrow> nat \<Rightarrow> check_response \<Rightarrow> 'w \<Rightarrow> ('w \<times> check_response result) outcome" where
  "check_loop lib conn left response w =
     (case gl_Request lib conn (sint (getInitialGrpcTimeout lib)) (convertRequest lib NewServerCheckRequest) w of
        (w1, Inl err) \<Rightarrow> Ret (w1, Inl err)
      | (w1, Inr payload) \<Rightarrow>
          (case gl_decode_check lib (pl_Body payload) response of
             Inl err \<Rightarrow> Ret (w1, Inl err)
           | Inr response' \<Rightarrow>
               (case fst response' of
                  None \<Rightarrow> Panic ''nil pointer dereference''
                | Some b \<Rightarrow>
                    if 300 \<le> rs_ErrorCode b \<and> rs_ErrorCode b < 400
                    then (case left of
                            0 \<Rightarrow> Ret (w1, Inl not_ready)
                          | Suc left' \<Rightarrow> check_loop lib conn left' response' (gl_sleep lib 1000 w1))
                    else Ret (w1, Inr response'))))"

declare check_loop.simps [simp del]

definition serverCheck :: "('k, 'w) grpc_lib \<Rightarrow> 'k \<Rightarrow> 'w \<Rightarrow> ('w \<times> check_response result) outcome" where
  "serverCheck lib conn w = check_loop lib conn 30 (None, []) w"

record 'k GrpcConnection = Connection +
  gc_conn :: 'k

definition NewGrpcConnection :: "ServerInfo \<Rightarrow> string \<Rightarrow> 'k \<Rightarrow> 'k GrpcConnection" where
  "NewGrpcConnection serverInfo connectionId conn =
     \<lparr>conn_connectionId = connectionId, conn_abandon = False, conn_serverInfo = serverInfo, gc_conn = conn\<rparr>"

definition biStreamSend :: "('k, 'w) grpc_lib \<Rightarrow> 'k GrpcConnection \<Rightarrow> Payload \<Rightarrow> 'w \<Rightarrow> 'w \<times> go_error option" where
  "biStreamSend lib g payload w = gl_Send lib (gc_conn g) payload w"

definition sendConnectionSetupRequest ::
  "('k, 'w) grpc_lib \<Rightarrow> 'c RpcClient \<Rightarrow> 'k GrpcConnection \<Rightarrow> 'w \<Rightarrow> 'w \<times> go_error option" where
  "sendConnectionSetupRequest lib rc g w =
     (let csr = ConnectionSetupRequest NewInternalRequest CLIENT_VERSION (rc_Tenant rc) (Some (rc_labels rc));
          (w1, err) = biStreamSend lib g (convertRequest lib csr) w
      in (gl_sleep lib 100 w1, err))"

text \<open>
  \<open>connectToServer\<close>; the goroutine that reads the stream is started after the connection is built.
\<close>

definition connectToServer ::
  "('k, 'w) grpc_lib \<Rightarrow> ServerInfo \<Rightarrow> 'c RpcClient \<Rightarrow> 'w \<Rightarrow>
   ('c RpcClient \<times> 'w \<times> 'k GrpcConnection option \<times> go_error option) outcome" where
  "connectToServer lib serverInfo rc w =
     (let (tls, w1, dialed) = createNewConnection lib serverInfo (rc_TLSConfig rc) w;
          rc1 = rc\<lparr>rc_TLSConfig := tls\<rparr>
      in case dialed of
           Inl err \<Rightarrow> Ret (rc1, w1, None, Some (Wrapped ''grpc create new connection failed , err:'' err))
         | Inr conn \<Rightarrow>
             obind (serverCheck lib conn w1) (\<lambda>(w2, checked).
               case checked of
                 Inl err \<Rightarrow> Ret (rc1, gl_Close lib conn w2, None, Some (Wrapped ''server check request failed , err:'' err))
               | Inr response \<Rightarrow>
                   (case gl_RequestBiStream lib conn w2 of
                      (w3, Some err) \<Rightarrow> Ret (rc1, w3, None, Some (Wrapped ''create biStreamRequestClient failed , err:'' err))
                    | (w3, None) \<Rightarrow>
                        let g = NewGrpcConnection serverInfo (snd response) conn;
                            (w4, err) = sendConnectionSetupRequest lib rc1 g w3
                        in Ret (rc1, w4, Some g, err))))"

section \<open>Requests over a connection\<close>

definition grpc_request ::
  "('k, 'w) grpc_lib \<Rightarrow> 'k GrpcConnection \<Rightarrow> IRequest \<Rightarrow> int \<Rightarrow> 'w \<Rightarrow> 'w \<times> IResponse result" where
  "grpc_request lib g request timeoutMills w =
     (case gl_Request lib (gc_conn g) timeoutMills (convertRequest lib request) w of
        (w1, Inl err) \<Rightarrow> (w1, Inl err)
      | (w1, Inr responsePayload) \<Rightarrow>
          (case map_of ClientResponseMapping (pl_Type responsePayload) of
             None \<Rightarrow> (w1, Inl (Err (''request:'' @ GetRequestType request @ '',unsupported response type:'' @
                               pl_Type responsePayload)))
           | Some new \<Rightarrow>
               (w1, InnerResponseJsonUnmarshal (gl_decode_response lib) (gl_decode_keys lib)
                      (pl_Body responsePayload) new)))"

section \<open>Requests from the server\<close>

text \<open>
  \<open>push\<close> and \<open>config\<close> are \<open>RequestReply\<close> of the naming push handler and of the configuration change
  handler, which work on the state \<open>'n\<close> of their components.
\<close>

definition handler_reply ::
  "(IRequest \<Rightarrow> 'n \<Rightarrow> 'n \<times> IResponse option) \<Rightarrow> (IRequest \<Rightarrow> 'n \<Rightarrow> 'n \<times> IResponse option) \<Rightarrow> server_handler \<Rightarrow>
   IRequest \<Rightarrow> 'c RpcClient \<Rightarrow> 'n \<Rightarrow> 'c RpcClient \<times> 'n \<times> IResponse option" where
  "handler_reply push config handler request rc n =
     (case handler of
        ConnectResetRequestHandler \<Rightarrow> (let (rc', r) = connect_reset_reply request rc in (rc', n, r))
      | ClientDetectionRequestHandler \<Rightarrow> (rc, n, client_detection_reply request)
      | NamingPushRequestHandler \<Rightarrow> (rc, push request n)
      | ConfigChangeNotifyRequestHandler \<Rightarrow> (rc, config request n))"

definition handleServerRequest ::
  "('k, 'w) grpc_lib \<Rightarrow> (IRequest \<Rightarrow> 'n \<Rightarrow> 'n \<times> IResponse option) \<Rightarrow> (IRequest \<Rightarrow> 'n \<Rightarrow> 'n \<times> IResponse option) \<Rightarrow>
   Payload \<Rightarrow> 'k GrpcConnection \<Rightarrow> 'c RpcClient \<Rightarrow> 'n \<Rightarrow> 'w \<Rightarrow> 'c RpcClient \<times> 'n \<times> 'w" where
  "handleServerRequest lib push config p g rc n w =
     (case map_of (rc_serverRequestHandlerMapping rc) (pl_Type p) of
        None \<Rightarrow> (rc, n, w)
      | Some (new, handler) \<Rightarrow>
          (case gl_decode_request lib (pl_Body p) new of
             Inl err \<Rightarrow> (rc, n, w)
           | Inr serverRequest \<Rightarrow>
               let request = PutAllHeaders (pl_Headers p) serverRequest;
                   (rc', n', response) = handler_reply push config handler request rc n
               in case response of
                    None \<Rightarrow> (rc', n', w)
                  | Some r \<Rightarrow>
                      (rc', n', fst (biStreamSend lib g
                        (convertResponse lib (SetRequestId (GetRequestId request) r)) w))))"

text \<open>
  The end of the stream of a connection: what the goroutine that reads it does with an error. The result
  says whether the goroutine goes on.
\<close>

definition stream_error :: "Connection \<Rightarrow> 'c RpcClient \<Rightarrow> 'c RpcClient \<times> bool" where
  "stream_error g rc =
     (if IsRunning rc \<and> \<not> conn_abandon g
      then (case cas_status RUNNING UNHEALTHY rc of
              (True, rc') \<Rightarrow> (switchServerAsync zero_ServerInfo False rc', False)
            | (False, rc') \<Rightarrow> (rc', True))
      else (rc, False))"

definition NewGrpcClient :: "int \<Rightarrow> string \<Rightarrow> 'c NacosServer \<Rightarrow> TLSConfig \<Rightarrow> 'c RpcClient" where
  "NewGrpcClient now clientName nacosServer tlsConfig =
     \<lparr>rc_name = clientName, rc_labels = [], rc_currentConnection = None, rc_rpcClientStatus = INITIALIZED,
      rc_eventChan = [], rc_reconnectionChan = [], rc_connectionEventListeners = [],
      rc_lastActiveTimestamp = now, rc_nacosServer = nacosServer, rc_serverRequestHandlerMapping = [],
      rc_Tenant = [], rc_TLSConfig = tlsConfig\<rparr>"

end
