(* ===== verification/Grpc_Checks.thy ===== *)
theory Grpc_Checks
  imports Grpc_Client Rpc_Steps
begin

text \<open>
  What the gRPC transport guarantees: the check of a server before it is used ends and accepts only a
  server that is ready, and the table of handlers is typed, so that the requests a server sends reach the
  handlers with the type they are registered for and are answered.
\<close>

section \<open>The check of a server\<close>

definition ready_response :: "check_response \<Rightarrow> bool" where
  "ready_response r \<longleftrightarrow>
     (case fst r of None \<Rightarrow> False | Some b \<Rightarrow> \<not> (300 \<le> rs_ErrorCode b \<and> rs_ErrorCode b < 400))"

lemma check_loop_cases:
  assumes "check_loop lib conn left resp w = Ret (w', r)"
  obtains (ended) w1 p where "gl_Request lib conn (sint (getInitialGrpcTimeout lib))
        (convertRequest lib NewServerCheckRequest) w = (w1, p)" "w' = w1" "\<And>x. r = Inr x \<Longrightarrow> ready_response x"
  | (again) w1 p resp' left' where "gl_Request lib conn (sint (getInitialGrpcTimeout lib))
        (convertRequest lib NewServerCheckRequest) w = (w1, p)" "left = Suc left'"
      "check_loop lib conn left' resp' (gl_sleep lib 1000 w1) = Ret (w', r)"
proof -
  obtain w1 p where q: "gl_Request lib conn (sint (getInitialGrpcTimeout lib))
      (convertRequest lib NewServerCheckRequest) w = (w1, p)" by fastforce
  show thesis
  proof (cases "\<exists>payload resp' b. p = Inr payload \<and> gl_decode_check lib (pl_Body payload) resp = Inr resp' \<and>
      fst resp' = Some b \<and> 300 \<le> rs_ErrorCode b \<and> rs_ErrorCode b < 400 \<and> left \<noteq> 0")
    case True
    then show thesis using assms q again
      by (subst (asm) check_loop.simps) (auto split: nat.splits)
  next
    case False
    then have "w' = w1 \<and> (\<forall>x. r = Inr x \<longrightarrow> ready_response x)"
      using assms q by (subst (asm) check_loop.simps) (auto simp: ready_response_def split: sum.splits option.splits if_splits nat.splits)
    with q ended show thesis by blast
  qed
qed

lemma check_loop_bound:
  fixes sent :: "'w \<Rightarrow> nat"
  assumes "check_loop lib conn left resp w = Ret (w', r)"
    and "\<And>k t p w. sent (fst (gl_Request lib k t p w)) = sent w + 1"
    and "\<And>t w. sent (gl_sleep lib t w) = sent w"
  shows "sent w < sent w' \<and> sent w' \<le> sent w + left + 1 \<and> (\<forall>x. r = Inr x \<longrightarrow> ready_response x)"
  using assms(1)
proof (induction left arbitrary: resp w rule: less_induct)
  case (less left)
  from less.prems show ?case
  proof (cases rule: check_loop_cases)
    case (ended w1 p)
    have "sent w1 = sent w + 1" using ended(1) assms(2) by (metis fst_conv)
    with ended(2,3) show ?thesis by auto
  next
    case (again w1 p resp' left')
    have "sent w1 = sent w + 1" using again(1) assms(2) by (metis fst_conv)
    then have "sent (gl_sleep lib 1000 w1) = sent w + 1" by (simp add: assms(3))
    with less.IH[OF _ again(3)] again(2) show ?thesis by fastforce
  qed
qed

text \<open>
  The check of a server sends at least one and at most thirty-one requests, and accepts the server
  only after an answer that does not ask to wait (an error code between 300 and 399).
\<close>

theorem server_check_bounded:
  fixes sent :: "'w \<Rightarrow> nat"
  assumes "\<And>k t p w. sent (fst (gl_Request lib k t p w)) = sent w + 1"
    and "\<And>t w. sent (gl_sleep lib t w) = sent w"
    and "serverCheck lib conn w = Ret (w', r)"
  shows "sent w < sent w' \<and> sent w' \<le> sent w + 31 \<and> (\<forall>x. r = Inr x \<longrightarrow> ready_response x)"
  using check_loop_bound[where sent = sent, OF assms(3)[unfolded serverCheck_def] assms(1,2)] by simp

text \<open>A server that asks to wait until it has been asked \<open>n\<close> times.\<close>

definition demo_lib :: "nat \<Rightarrow> (unit, nat) grpc_lib" where
  "demo_lib n = \<lparr>gl_getenv = (\<lambda>_. []), gl_LocalIP = [], gl_dial = (\<lambda>_ _ w. (w, Inr ())),
     gl_Request = (\<lambda>_ _ p w. (w + 1, Inr (p\<lparr>pl_Body := (if w < n then ''wait'' else ''ok'')\<rparr>))),
     gl_RequestBiStream = (\<lambda>_ w. (w, None)), gl_Send = (\<lambda>_ _ w. (w, None)), gl_Close = (\<lambda>_ w. w),
     gl_sleep = (\<lambda>_ w. w), gl_request_json = (\<lambda>_. []), gl_response_json = (\<lambda>_. []),
     gl_decode_check = (\<lambda>b _. Inr (Some (zero_Response\<lparr>rs_ErrorCode := (if b = ''wait'' then 300 else 0)\<rparr>), ''c'')),
     gl_decode_response = (\<lambda>_ r. Inr r), gl_decode_keys = (\<lambda>_. Inr []), gl_decode_request = (\<lambda>_ r. Inr r)\<rparr>"

theorem server_check_bounded_witness:
  "\<exists>r. serverCheck (demo_lib 2) () 0 = Ret (3, Inr r) \<and> (3 :: nat) \<le> 0 + 31 \<and> ready_response r"
proof -
  have "serverCheck (demo_lib 2) () 0 = Ret (3, Inr (Some (zero_Response\<lparr>rs_ErrorCode := 0\<rparr>), ''c''))"
    by (simp add: serverCheck_def check_loop.simps demo_lib_def convertRequest_def zero_Response_def numeral_eq_Suc)
  from this server_check_bounded[where sent = "\<lambda>w. w", OF _ _ this] show ?thesis by (simp add: demo_lib_def)
qed

section \<open>The table of handlers\<close>

definition table_typed :: "'c RpcClient \<Rightarrow> bool" where
  "table_typed rc \<longleftrightarrow> (\<forall>t q h. map_of (rc_serverRequestHandlerMapping rc) t = Some (q, h) \<longrightarrow> GetRequestType q = t)"

definition keeps_types :: "('c, 'w) rpc \<Rightarrow> ('c, 'w) rpc \<Rightarrow> bool" where
  "keeps_types s t \<longleftrightarrow> (table_typed (fst s) \<longrightarrow> table_typed (fst t)) \<and>
     (rc_currentConnection (fst s) \<noteq> None \<longrightarrow> rc_currentConnection (fst t) \<noteq> None)"

lemma table_typed_updates:
  "table_typed (rc\<lparr>rc_currentConnection := a\<rparr>) = table_typed rc" "table_typed (rc\<lparr>rc_rpcClientStatus := b\<rparr>) = table_typed rc"
  "table_typed (rc\<lparr>rc_eventChan := c\<rparr>) = table_typed rc" "table_typed (rc\<lparr>rc_reconnectionChan := d\<rparr>) = table_typed rc"
  "table_typed (rc\<lparr>rc_connectionEventListeners := e\<rparr>) = table_typed rc" "table_typed (rc\<lparr>rc_nacosServer := f\<rparr>) = table_typed rc"
  "table_typed (rc\<lparr>rc_lastActiveTimestamp := g\<rparr>) = table_typed rc"
  by (simp_all add: table_typed_def)

lemma table_typed_register:
  "table_typed rc \<Longrightarrow> table_typed (rc\<lparr>rc_serverRequestHandlerMapping :=
     AList.update (GetRequestType q) (q, h) (rc_serverRequestHandlerMapping rc)\<rparr>)"
  by (simp add: table_typed_def)

interpretation types: rpc_guarantee keeps_types
  by unfold_locales (auto simp: keeps_types_def table_typed_updates rpc_updates Let_def intro: table_typed_register)

lemma GetRequestType_PutAllHeaders [simp]: "GetRequestType (PutAllHeaders hs q) = GetRequestType q"
  by (simp add: PutAllHeaders_def)

lemma GetRequestId_PutAllHeaders [simp]: "GetRequestId (PutAllHeaders hs q) = GetRequestId q"
  by (simp add: PutAllHeaders_def)

lemma detection_typed: "GetRequestType q = ''ClientDetectionRequest'' \<Longrightarrow>
    client_detection_reply q = Some (ClientDetectionResponse reply_ok)"
  by (cases q) (auto simp: client_detection_reply_def)

lemma reset_typed: "GetRequestType q = ''ConnectResetRequest'' \<Longrightarrow> \<exists>b ip port. q = ConnectResetRequest b ip port"
  by (cases q) auto



end
