(* ===== verification/Rpc_Labels.thy ===== *)
theory Rpc_Labels
  imports Grpc_Client
begin

text \<open>
  The labels of a connection and the table of clients, \<open>common/remote/rpc/rpc_client.go\<close>: labels come
  from the configuration and from two environment variables, get a prefix, and are joined with the labels
  of the client. \<open>getenv\<close> is \<open>os.Getenv\<close>.
\<close>

section \<open>Labels\<close>

text \<open>
  \<open>strings.ToLower\<close> as far as its result is compared with an ASCII word without \<open>k\<close> and \<open>s\<close>: no other
  rune is mapped to an ASCII letter.
\<close>

definition lower_char :: "char \<Rightarrow> char" where
  "lower_char c = (if 65 \<le> (of_char c :: nat) \<and> (of_char c :: nat) \<le> 90 then char_of (of_char c + 32 :: nat) else c)"

definition to_lower :: "string \<Rightarrow> string" where
  "to_lower s = map lower_char s"

definition mergeMaps :: "params \<Rightarrow> params \<Rightarrow> bool \<Rightarrow> params" where
  "mergeMaps m1 m2 preferFirst =
     fold (\<lambda>(k, v) result. if preferFirst \<and> map_of m1 k \<noteq> None then result else AList.update k v result)
       m2 (put_all [] m1)"

definition mergerAppLabels :: "(string \<Rightarrow> string) \<Rightarrow> params \<Rightarrow> params \<Rightarrow> params" where
  "mergerAppLabels getenv appLabelsAppointed appLabelsEnv =
     (let preferred = to_lower (getenv ''nacos_app_conn_labels_preferred'')
      in mergeMaps appLabelsAppointed appLabelsEnv (preferred \<noteq> ''env''))"

definition parse_label :: "params \<Rightarrow> string \<Rightarrow> params" where
  "parse_label resultMap label =
     (if trim_space label \<noteq> []
      then let kv = split_str label ''=''
           in if length kv = 2 then AList.update (trim_space (kv ! 0)) (trim_space (kv ! 1)) resultMap
              else resultMap
      else resultMap)"

definition parseLabels :: "string \<Rightarrow> params" where
  "parseLabels rawLabels =
     (if trim_space rawLabels = [] then []
      else foldl parse_label [] (split_str rawLabels '',''))"

definition getAppLabelsFromEnv :: "(string \<Rightarrow> string) \<Rightarrow> params" where
  "getAppLabelsFromEnv getenv =
     (let grayLabel = getenv ''nacos_config_gray_label'';
          gray = (if grayLabel \<noteq> [] then [(''nacos_config_gray_label'', grayLabel)] else []);
          connLabels = getenv ''nacos_app_conn_labels''
      in if connLabels \<noteq> [] then put_all gray (parseLabels connLabels) else gray)"

definition addPrefixForEachKey :: "params \<Rightarrow> string \<Rightarrow> params" where
  "addPrefixForEachKey m pre =
     (if length m = 0 then m
      else put_all [] (map (\<lambda>(k, v). (pre @ k, v)) (filter (\<lambda>(k, v). trim_space k \<noteq> []) m)))"

definition putAllLabels :: "params \<Rightarrow> 'c RpcClient \<Rightarrow> 'c RpcClient" where
  "putAllLabels labels r = r\<lparr>rc_labels := put_all (rc_labels r) labels\<rparr>"

section \<open>The table of clients\<close>

type_synonym 'c client_table = "(string, 'c RpcClient) gomap"

definition GRPC :: u32 where "GRPC = 0"

definition app_labels :: "(string \<Rightarrow> string) \<Rightarrow> params \<Rightarrow> params" where
  "app_labels getenv appConnLabels =
     addPrefixForEachKey (mergerAppLabels getenv appConnLabels (getAppLabelsFromEnv getenv)) ''app_''"

definition CreateClient ::
  "(string \<Rightarrow> string) \<Rightarrow> int \<Rightarrow> string \<Rightarrow> u32 \<Rightarrow> params \<Rightarrow> 'c NacosServer \<Rightarrow> TLSConfig \<Rightarrow> params \<Rightarrow> 'c client_table \<Rightarrow>
   'c client_table \<times> 'c RpcClient result" where
  "CreateClient getenv now clientName connectionType labels nacosServer tlsConfig appConnLabels clientMap =
     (case map_of clientMap clientName of
        Some client \<Rightarrow> (clientMap, Inr client)
      | None \<Rightarrow>
          if connectionType \<noteq> GRPC then (clientMap, Inl (Err ''unsupported connection type''))
          else
            let rpcClient = NewGrpcClient now clientName nacosServer tlsConfig;
                appConnLabelsFinal = app_labels getenv appConnLabels;
                c1 = (if length appConnLabelsFinal \<noteq> 0 then putAllLabels appConnLabelsFinal rpcClient else rpcClient);
                c2 = putAllLabels labels c1
            in (AList.update clientName c2 clientMap, Inr c2))"

text \<open>The part of \<open>Shutdown\<close> that concerns the table.\<close>

definition forget_client :: "'c RpcClient \<Rightarrow> 'c client_table \<Rightarrow> 'c client_table" where
  "forget_client r clientMap = AList.delete (rc_name r) clientMap"

section \<open>Facts\<close>

lemma map_of_filter_key: "map_of (filter (\<lambda>(k, v). P k) xs) k = (if P k then map_of xs k else None)"
  by (induction xs) auto

lemma map_of_fold_unless:
  "map_of (fold (\<lambda>(k, v) result. if P k then result else AList.update k v result) xs m) =
   map_of m ++ map_of (rev (filter (\<lambda>(k, v). \<not> P k) xs))"
proof (induction xs arbitrary: m)
  case (Cons x xs)
  obtain k v where "x = (k, v)" by fastforce
  with Cons show ?case by (cases "P k") (auto simp: map_add_def fun_eq_iff split: option.splits)
qed simp

lemma map_of_mergeMaps:
  assumes "wf_map m1" and "wf_map m2"
  shows "map_of (mergeMaps m1 m2 preferFirst) =
    (if preferFirst then map_of m2 ++ map_of m1 else map_of m1 ++ map_of m2)"
proof -
  let ?P = "\<lambda>k. preferFirst \<and> map_of m1 k \<noteq> None"
  let ?xs = "filter (\<lambda>(k, v). \<not> ?P k) m2"
  have "wf_map ?xs" using assms(2) by (simp add: wf_map_def distinct_map_filter)
  then have "map_of (rev ?xs) = map_of ?xs" by (rule map_of_rev_wf)
  then have "map_of (mergeMaps m1 m2 preferFirst) = map_of m1 ++ map_of ?xs"
    unfolding mergeMaps_def map_of_fold_unless[of ?P] using assms(1) by (simp add: map_of_put_all)
  moreover have "map_of ?xs = (\<lambda>k. if ?P k then None else map_of m2 k)"
    using map_of_filter_key[of "\<lambda>k. \<not> ?P k" m2] by auto
  ultimately show ?thesis by (auto simp: map_add_def fun_eq_iff split: option.splits)
qed

lemma wf_mergeMaps: "wf_map (mergeMaps m1 m2 preferFirst)"
proof -
  have "wf_map m \<Longrightarrow> wf_map (fold (\<lambda>(k, v) result. if P k then result else AList.update k v result) xs m)" for P xs m
    by (induction xs arbitrary: m) auto
  from this[of "put_all [] m1" "\<lambda>k. preferFirst \<and> map_of m1 k \<noteq> None" m2] show ?thesis
    unfolding mergeMaps_def by auto
qed

lemma map_of_prefixed: "map_of (map (\<lambda>(k, v). (p @ k, v)) xs) (p @ k) = map_of xs k"
  by (induction xs) auto

lemma map_of_not_prefixed:
  assumes "\<not> prefix p k"
  shows "map_of (map (\<lambda>(k, v). (p @ k, v)) xs) k = None"
proof -
  have "fst x \<noteq> k" if "x \<in> set (map (\<lambda>(k, v). (p @ k, v)) xs)" for x
    using that assms by auto
  then show ?thesis unfolding map_of_eq_None_iff by blast
qed

lemma map_of_addPrefix:
  assumes "wf_map m"
  shows "map_of (addPrefixForEachKey m p) (p @ k) = (if trim_space k = [] then None else map_of m k)"
    and "\<not> prefix p k \<Longrightarrow> map_of (addPrefixForEachKey m p) k = None"
proof -
  let ?xs = "map (\<lambda>(k, v). (p @ k, v)) (filter (\<lambda>(k, v). trim_space k \<noteq> []) m)"
  have "wf_map (filter (\<lambda>(k, v). trim_space k \<noteq> []) m)" using assms by (simp add: wf_map_def distinct_map_filter)
  then have "distinct (map (\<lambda>k. p @ k) (map fst (filter (\<lambda>(k, v). trim_space k \<noteq> []) m)))"
    unfolding wf_map_def by (simp only: distinct_map) (auto simp: inj_on_def)
  moreover have "map fst ?xs = map (\<lambda>k. p @ k) (map fst (filter (\<lambda>(k, v). trim_space k \<noteq> []) m))" by auto
  ultimately have "wf_map ?xs" unfolding wf_map_def by (simp only:)
  then have *: "map_of (addPrefixForEachKey m p) = (if m = [] then Map.empty else map_of ?xs)"
    by (simp add: addPrefixForEachKey_def map_of_put_all)
  show "map_of (addPrefixForEachKey m p) (p @ k) = (if trim_space k = [] then None else map_of m k)"
    unfolding * by (simp add: map_of_prefixed map_of_filter_key[of "\<lambda>k. trim_space k \<noteq> []"])
  show "\<not> prefix p k \<Longrightarrow> map_of (addPrefixForEachKey m p) k = None"
    unfolding * by (simp add: map_of_not_prefixed)
qed

lemma wf_addPrefix: "wf_map m \<Longrightarrow> wf_map (addPrefixForEachKey m p)"
  by (auto simp: addPrefixForEachKey_def)

text \<open>Parsing undoes printing, for parts without separators that start and end with a visible character.\<close>

definition clean_label :: "string \<Rightarrow> bool" where
  "clean_label s \<longleftrightarrow> s \<noteq> [] \<and> graphic (hd s) \<and> graphic (last s) \<and> CHR '','' \<notin> set s \<and> CHR ''='' \<notin> set s"

definition print_labels :: "params \<Rightarrow> string" where
  "print_labels ls = join_str (map (\<lambda>(k, v). k @ ''='' @ v) ls) '',''"

lemma parse_label_clean:
  assumes "clean_label k" and "clean_label v"
  shows "parse_label m (k @ ''='' @ v) = AList.update k v m"
proof -
  have "hd (k @ ''='' @ v) = hd k" "last (k @ ''='' @ v) = last v" using assms by (auto simp: clean_label_def)
  then have "trim_space (k @ ''='' @ v) = k @ ''='' @ v"
    using assms by (intro trim_space_graphic) (auto simp: clean_label_def)
  moreover have "split_str (k @ ''='' @ v) ''='' = [k, v]"
    using assms split_str_step[of "''=''" k v] split_str_single[of "''=''" v] by (simp add: clean_label_def)
  ultimately show ?thesis
    using assms trim_space_graphic[of k] trim_space_graphic[of v] by (simp add: parse_label_def clean_label_def)
qed

lemma join_str_ends:
  assumes "xs \<noteq> []"
  shows "hd xs \<noteq> [] \<Longrightarrow> join_str xs sep \<noteq> [] \<and> hd (join_str xs sep) = hd (hd xs)"
    and "last xs \<noteq> [] \<Longrightarrow> join_str xs sep \<noteq> [] \<and> last (join_str xs sep) = last (last xs)"
  using assms by (induction xs sep rule: join_str.induct) auto

lemma parse_print_labels:
  assumes "\<And>k v. (k, v) \<in> set ls \<Longrightarrow> clean_label k \<and> clean_label v"
  shows "parseLabels (print_labels ls) = put_all [] ls"
proof (cases ls)
  case Nil
  then show ?thesis by (simp add: print_labels_def parseLabels_def put_all_def)
next
  case (Cons a as)
  let ?xs = "map (\<lambda>(k, v). k @ ''='' @ v) ls"
  have "foldl parse_label m (map (\<lambda>(k, v). k @ ''='' @ v) ys) = put_all m ys" if "set ys \<subseteq> set ls" for m ys
    using that
  proof (induction ys arbitrary: m)
    case Nil
    show ?case by (simp add: put_all_def)
  next
    case (Cons y ys)
    then obtain k v where y: "y = (k, v)" "clean_label k" "clean_label v" using assms by (cases y) auto
    with Cons show ?case by (simp add: parse_label_clean[simplified] put_all_def)
  qed
  moreover have "split_str (join_str ?xs '','') '','' = ?xs"
    by (rule split_join) (use assms Cons in \<open>auto simp: clean_label_def\<close>)
  moreover have "trim_space (join_str ?xs '','') = join_str ?xs '',''"
  proof (rule trim_space_graphic)
    obtain k v where h: "hd ls = (k, v)" by fastforce
    obtain k' v' where l: "last ls = (k', v')" by fastforce
    have "(k, v) \<in> set ls" "(k', v') \<in> set ls" using Cons h l by (metis hd_in_set list.distinct(1), metis last_in_set list.distinct(1))
    then have "clean_label k" "clean_label v'" using assms by blast+
    moreover have "hd ?xs = k @ ''='' @ v" "last ?xs = k' @ ''='' @ v'"
      using Cons h l by (simp_all add: hd_map last_map del: list.map(2))
    ultimately have "graphic (hd (hd ?xs))" "graphic (last (last ?xs))" "hd ?xs \<noteq> []" "last ?xs \<noteq> []"
      by (auto simp: clean_label_def)
    with Cons join_str_ends[of ?xs "'',''"]
    show "join_str ?xs '','' \<noteq> []" "graphic (hd (join_str ?xs '',''))" "graphic (last (join_str ?xs '',''))" by auto
  qed
  moreover have "join_str ?xs '','' \<noteq> []"
    using Cons join_str_ends[of ?xs "'',''"] by (auto split: prod.splits)
  ultimately show ?thesis by (simp add: parseLabels_def print_labels_def)
qed

text \<open>
  C28: The labels of a new client. Its own labels come first; a label of the application has the prefix
  \<open>app_\<close>, and is the one of the configuration or the one of the environment, where the environment wins
  only if it says so; the labels listed in the environment variable are all found, and nothing else is a
  label.
\<close>

theorem connection_labels:
  assumes "map_of clientMap name = None" and "wf_map labels" and "wf_map conf" and "wf_map ls"
    and "getenv ''nacos_app_conn_labels'' = print_labels ls"
    and "\<And>k v. (k, v) \<in> set ls \<Longrightarrow> clean_label k \<and> clean_label v"
    and "getenv ''nacos_config_gray_label'' = []"
  shows "\<exists>c tab. CreateClient getenv now name GRPC labels ns tls conf clientMap = (tab, Inr c) \<and>
    map_of tab name = Some c \<and>
    (\<forall>k. map_of (rc_labels c) (''app_'' @ k) =
       (case map_of labels (''app_'' @ k) of
          Some v \<Rightarrow> Some v
        | None \<Rightarrow> if trim_space k = [] then None
                  else if to_lower (getenv ''nacos_app_conn_labels_preferred'') = ''env''
                  then (map_of conf ++ map_of ls) k else (map_of ls ++ map_of conf) k)) \<and>
    (\<forall>k. \<not> prefix ''app_'' k \<longrightarrow> map_of (rc_labels c) k = map_of labels k)"
proof -
  let ?m = "mergerAppLabels getenv conf (getAppLabelsFromEnv getenv)"
  let ?c = "putAllLabels labels (putAllLabels (app_labels getenv conf) (NewGrpcClient now name ns tls))"
  have env: "wf_map (getAppLabelsFromEnv getenv)" "map_of (getAppLabelsFromEnv getenv) = map_of ls"
  proof -
    have "getAppLabelsFromEnv getenv = (if print_labels ls = [] then [] else put_all [] (put_all [] ls))"
      using assms(5,7) parse_print_labels[OF assms(6)] by (simp add: getAppLabelsFromEnv_def)
    moreover have "ls = []" if "print_labels ls = []"
      using that join_str_ends(1)[of "map (\<lambda>(k, v). k @ ''='' @ v) ls" "'',''"]
      by (cases ls) (auto simp: print_labels_def)
    ultimately show "wf_map (getAppLabelsFromEnv getenv)" "map_of (getAppLabelsFromEnv getenv) = map_of ls"
      using assms(4) by (auto simp: map_of_put_all)
  qed
  have wf: "wf_map ?m" by (simp add: mergerAppLabels_def wf_mergeMaps)
  have m: "map_of ?m = (if to_lower (getenv ''nacos_app_conn_labels_preferred'') = ''env''
      then map_of conf ++ map_of ls else map_of ls ++ map_of conf)"
    using map_of_mergeMaps[OF assms(3) env(1)] env(2) by (simp add: mergerAppLabels_def Let_def)
  have labels: "map_of (rc_labels ?c) = map_of (app_labels getenv conf) ++ map_of labels"
    using assms(2) wf by (simp add: putAllLabels_def NewGrpcClient_def app_labels_def map_of_put_all wf_addPrefix)
  have "app_labels getenv conf = [] \<Longrightarrow> putAllLabels (app_labels getenv conf) (NewGrpcClient now name ns tls) =
      NewGrpcClient now name ns tls"
    by (simp add: putAllLabels_def put_all_def)
  then have "CreateClient getenv now name GRPC labels ns tls conf clientMap = (AList.update name ?c clientMap, Inr ?c)"
    using assms(1) by (simp add: CreateClient_def Let_def)
  then show ?thesis
    using labels map_of_addPrefix[OF wf, of "''app_''"] m
    by (auto simp: map_add_def app_labels_def split: option.splits)
qed

theorem connection_labels_witness:
  "\<exists>c tab. CreateClient (\<lambda>k. if k = ''nacos_app_conn_labels'' then ''a=1,b=2'' else []) 0 ''n'' GRPC
       [(''module'', ''naming'')] (demo_ns 0) zero_TLSConfig [(''a'', ''9'')] [] = (tab, Inr c) \<and>
     map_of (rc_labels c) (''app_'' @ ''a'') = Some ''9'' \<and> map_of (rc_labels c) (''app_'' @ ''b'') = Some ''2'' \<and>
     map_of (rc_labels c) ''module'' = Some ''naming''"
proof -
  let ?ls = "[(''a'', ''1''), (''b'', ''2'')]"
  have clean: "clean_label k \<and> clean_label v" if "(k, v) \<in> set ?ls" for k v
    using that by (auto simp: clean_label_def graphic_def)
  have trim: "trim_space ''a'' = ''a''" "trim_space ''b'' = ''b''"
    by (rule trim_space_graphic; simp add: graphic_def)+
  obtain c tab where c: "CreateClient (\<lambda>k. if k = ''nacos_app_conn_labels'' then ''a=1,b=2'' else []) 0 ''n'' GRPC
       [(''module'', ''naming'')] (demo_ns 0) zero_TLSConfig [(''a'', ''9'')] [] = (tab, Inr c)"
    and app: "\<And>k. map_of (rc_labels c) (''app_'' @ k) =
       (case map_of [(''module'', ''naming'')] (''app_'' @ k) of
          Some v \<Rightarrow> Some v
        | None \<Rightarrow> if trim_space k = [] then None
                  else if to_lower [] = ''env'' then (map_of [(''a'', ''9'')] ++ map_of ?ls) k
                  else (map_of ?ls ++ map_of [(''a'', ''9'')]) k)"
    and own: "\<And>k. \<not> prefix ''app_'' k \<Longrightarrow> map_of (rc_labels c) k = map_of [(''module'', ''naming'')] k"
    using connection_labels[where clientMap = "[]" and name = "''n''" and labels = "[(''module'', ''naming'')]"
        and conf = "[(''a'', ''9'')]" and ls = ?ls and ns = "demo_ns 0" and tls = zero_TLSConfig and now = 0
        and getenv = "\<lambda>k. if k = ''nacos_app_conn_labels'' then ''a=1,b=2'' else []", OF _ _ _ _ _ clean]
    by (auto simp: wf_map_def print_labels_def)
  have "to_lower [] = []" by (simp add: to_lower_def)
  with c app[of "''a''"] app[of "''b''"] own[of "''module''"] trim show ?thesis by (auto simp: map_add_def)
qed

end
