(* ===== verification/Encoding.thy ===== *)
theory Encoding
  imports Go_Num
begin

text \<open>
  \<open>common/encoding/encryption.go\<close>: the conversion between strings and UTF-8 bytes that goes through
  runes, and base 64. The functions of \<open>unicode/utf8\<close> and \<open>encoding/base64\<close> it calls come first. A rune
  is a natural number, a byte a character.
\<close>

abbreviation byte :: "char \<Rightarrow> nat" where
  "byte c \<equiv> of_char c"

section \<open>UTF-8\<close>

definition RuneError :: nat where "RuneError = 0xFFFD"

definition scalar :: "nat \<Rightarrow> bool" where
  "scalar r \<longleftrightarrow> r < 0xD800 \<or> (0xE000 \<le> r \<and> r < 0x110000)"

text \<open>The bytes of a scalar value.\<close>

definition encode_scalar :: "nat \<Rightarrow> string" where
  "encode_scalar r =
     (if r < 0x80 then [char_of r]
      else if r < 0x800 then [char_of (0xC0 + r div 64), char_of (0x80 + r mod 64)]
      else if r < 0x10000
      then [char_of (0xE0 + r div 4096), char_of (0x80 + r div 64 mod 64), char_of (0x80 + r mod 64)]
      else [char_of (0xF0 + r div 262144), char_of (0x80 + r div 4096 mod 64), char_of (0x80 + r div 64 mod 64),
            char_of (0x80 + r mod 64)])"

text \<open>\<open>utf8.EncodeRune\<close>: a number that is not a scalar value is replaced.\<close>

definition EncodeRune :: "nat \<Rightarrow> string" where
  "EncodeRune r = (if scalar r then encode_scalar r else encode_scalar RuneError)"

text \<open>
  The length that the first byte announces (0 for a byte that starts nothing) and the range of the
  second byte.
\<close>

definition lead_length :: "nat \<Rightarrow> nat" where
  "lead_length b =
     (if b < 0x80 then 1 else if b < 0xC2 then 0 else if b < 0xE0 then 2 else if b < 0xF0 then 3
      else if b < 0xF5 then 4 else 0)"

definition second_ok :: "nat \<Rightarrow> nat \<Rightarrow> bool" where
  "second_ok b0 b1 \<longleftrightarrow>
     (if b0 = 0xE0 then 0xA0 else if b0 = 0xF0 then 0x90 else 0x80) \<le> b1 \<and>
     b1 \<le> (if b0 = 0xED then 0x9F else if b0 = 0xF4 then 0x8F else 0xBF)"

definition cont :: "nat \<Rightarrow> bool" where
  "cont b \<longleftrightarrow> 0x80 \<le> b \<and> b \<le> 0xBF"

text \<open>\<open>utf8.DecodeRune\<close>: the rune and its width.\<close>

fun DecodeRune :: "string \<Rightarrow> nat \<times> nat" where
  "DecodeRune [] = (RuneError, 0)"
| "DecodeRune (c0 # cs) =
     (let b0 = byte c0
      in if lead_length b0 = 1 then (b0, 1)
         else if lead_length b0 = 2
         then (case cs of
                 c1 # _ \<Rightarrow> if second_ok b0 (byte c1) then ((b0 - 0xC0) * 64 + (byte c1 - 0x80), 2) else (RuneError, 1)
               | _ \<Rightarrow> (RuneError, 1))
         else if lead_length b0 = 3
         then (case cs of
                 c1 # c2 # _ \<Rightarrow>
                   if second_ok b0 (byte c1) \<and> cont (byte c2)
                   then ((b0 - 0xE0) * 4096 + (byte c1 - 0x80) * 64 + (byte c2 - 0x80), 3) else (RuneError, 1)
               | _ \<Rightarrow> (RuneError, 1))
         else if lead_length b0 = 4
         then (case cs of
                 c1 # c2 # c3 # _ \<Rightarrow>
                   if second_ok b0 (byte c1) \<and> cont (byte c2) \<and> cont (byte c3)
                   then ((b0 - 0xF0) * 262144 + (byte c1 - 0x80) * 4096 + (byte c2 - 0x80) * 64 + (byte c3 - 0x80), 4)
                   else (RuneError, 1)
               | _ \<Rightarrow> (RuneError, 1))
         else (RuneError, 1))"

text \<open>\<open>utf8.FullRune\<close>: the bytes start with a rune, or with something that can never become one.\<close>

fun FullRune :: "string \<Rightarrow> bool" where
  "FullRune [] = False"
| "FullRune (c0 # cs) =
     (let b0 = byte c0; n = length cs + 1
      in lead_length b0 \<le> n \<or>
         (n > 1 \<and> \<not> second_ok b0 (byte (cs ! 0))) \<or> (n > 2 \<and> \<not> cont (byte (cs ! 1))))"

text \<open>The conversion of a string to runes, one rune per unit of fuel, and its length as the fuel.\<close>

fun runes_fuel :: "nat \<Rightarrow> string \<Rightarrow> nat list" where
  "runes_fuel 0 s = []"
| "runes_fuel (Suc n) s =
     (if s = [] then [] else let (r, w) = DecodeRune s in r # runes_fuel n (drop w s))"

definition runes :: "string \<Rightarrow> nat list" where
  "runes s = runes_fuel (length s) s"

definition string_of_runes :: "nat list \<Rightarrow> string" where
  "string_of_runes rs = concat (map EncodeRune rs)"

section \<open>The conversions\<close>

definition DecodeString2Utf8Bytes :: "string \<Rightarrow> string" where
  "DecodeString2Utf8Bytes data = (if data = [] then [] else concat (map EncodeRune (runes data)))"

text \<open>
  The loop of \<open>EncodeUtf8Bytes2String\<close>: \<open>pending\<close> is \<open>bytes[startPos:endPos]\<close>, \<open>rest\<close> the bytes after it.
\<close>

definition take_rune :: "string \<Rightarrow> nat list \<Rightarrow> string \<times> nat list" where
  "take_rune pending resRunes =
     (if FullRune pending then ([], resRunes @ [fst (DecodeRune pending)]) else (pending, resRunes))"

fun utf8_loop :: "string \<Rightarrow> string \<Rightarrow> nat list \<Rightarrow> nat list" where
  "utf8_loop pending [] resRunes = snd (take_rune pending resRunes)"
| "utf8_loop pending (c # rest) resRunes =
     (let (pending', resRunes') = take_rune pending resRunes in utf8_loop (pending' @ [c]) rest resRunes')"

definition EncodeUtf8Bytes2String :: "string \<Rightarrow> string" where
  "EncodeUtf8Bytes2String bytes =
     (if bytes = [] then [] else string_of_runes (utf8_loop [] bytes []))"

section \<open>Base 64\<close>

text \<open>The standard alphabet: letters, digits, \<open>+\<close> and \<open>/\<close>.\<close>

definition b64_char :: "nat \<Rightarrow> char" where
  "b64_char n =
     (if n < 26 then char_of (n + 65) else if n < 52 then char_of (n + 71) else if n < 62 then char_of (n - 4)
      else if n = 62 then CHR ''+'' else CHR ''/'')"

definition b64_val :: "char \<Rightarrow> nat option" where
  "b64_val c =
     (let n = byte c
      in if 65 \<le> n \<and> n \<le> 90 then Some (n - 65)
         else if 97 \<le> n \<and> n \<le> 122 then Some (n - 71)
         else if 48 \<le> n \<and> n \<le> 57 then Some (n + 4)
         else if n = 43 then Some 62 else if n = 47 then Some 63 else None)"

fun b64_encode :: "string \<Rightarrow> string" where
  "b64_encode [] = []"
| "b64_encode [x] = [b64_char (byte x div 4), b64_char (byte x mod 4 * 16), CHR ''='', CHR ''='']"
| "b64_encode [x, y] =
     [b64_char (byte x div 4), b64_char (byte x mod 4 * 16 + byte y div 16), b64_char (byte y mod 16 * 4), CHR ''='']"
| "b64_encode (x # y # z # rest) =
     b64_char (byte x div 4) # b64_char (byte x mod 4 * 16 + byte y div 16) #
     b64_char (byte y mod 16 * 4 + byte z div 64) # b64_char (byte z mod 64) # b64_encode rest"

text \<open>
  Decoding of groups of four, after the line ends have been skipped; the last group may be padded. The
  bits of a padded group that belong to no byte are ignored.
\<close>

fun b64_groups :: "string \<Rightarrow> string option" where
  "b64_groups [] = Some []"
| "b64_groups (a # b # c # d # rest) =
     (case (b64_val a, b64_val b) of
        (Some va, Some vb) \<Rightarrow>
          (case b64_val c of
             None \<Rightarrow> if c = CHR ''='' \<and> d = CHR ''='' \<and> rest = [] then Some [char_of (va * 4 + vb div 16)] else None
           | Some vc \<Rightarrow>
               (case b64_val d of
                  None \<Rightarrow>
                    if d = CHR ''='' \<and> rest = []
                    then Some [char_of (va * 4 + vb div 16), char_of (vb mod 16 * 16 + vc div 4)] else None
                | Some vd \<Rightarrow>
                    map_option (\<lambda>bs. char_of (va * 4 + vb div 16) # char_of (vb mod 16 * 16 + vc div 4) #
                                     char_of (vc mod 4 * 64 + vd) # bs) (b64_groups rest)))
      | _ \<Rightarrow> None)"
| "b64_groups _ = None"

definition DecodeBase64 :: "string \<Rightarrow> string result" where
  "DecodeBase64 bytes =
     (case b64_groups (filter (\<lambda>c. c \<noteq> CHR 0x0A \<and> c \<noteq> CHR 0x0D) bytes) of
        None \<Rightarrow> Inl (Err ''illegal base64 data'')
      | Some dst \<Rightarrow> Inr dst)"

definition EncodeBase64 :: "string \<Rightarrow> string result" where
  "EncodeBase64 bytes = Inr (b64_encode bytes)"

section \<open>Facts about base 64\<close>

lemma byte_less [simp]: "byte c < 256"
  by (rule nat_of_char_less_256)

lemma byte_char_of: "n < 256 \<Longrightarrow> byte (char_of n) = n"
  by simp

lemma byte_b64_char:
  "n < 64 \<Longrightarrow> byte (b64_char n) =
     (if n < 26 then n + 65 else if n < 52 then n + 71 else if n < 62 then n - 4 else if n = 62 then 43 else 47)"
  by (simp add: b64_char_def)

lemma b64_val_char: "n < 64 \<Longrightarrow> b64_val (b64_char n) = Some n"
  by (simp only: b64_val_def byte_b64_char Let_def) auto

lemma b64_val_pad [simp]: "b64_val CHR ''='' = None"
  by (simp add: b64_val_def)

lemma b64_char_not_eol: "n < 64 \<Longrightarrow> b64_char n \<noteq> CHR 0x0A" "n < 64 \<Longrightarrow> b64_char n \<noteq> CHR 0x0D"
proof -
  have "byte (b64_char n) \<noteq> byte CHR 0x0A" "byte (b64_char n) \<noteq> byte CHR 0x0D" if "n < 64"
    using that unfolding byte_b64_char[OF that] by auto
  then show "n < 64 \<Longrightarrow> b64_char n \<noteq> CHR 0x0A" "n < 64 \<Longrightarrow> b64_char n \<noteq> CHR 0x0D" by metis+
qed

text \<open>The numbers of six bits that three bytes give, and back.\<close>

lemma split_bits: "y < k \<Longrightarrow> (x * k + y) div k = (x :: nat)" "y < k \<Longrightarrow> (x * k + y) mod k = (y :: nat)"
  by simp_all

lemma sextets [simp]:
  "byte x div 4 < 64" "byte x mod 4 * 16 + byte y div 16 < 64" "byte y mod 16 * 4 + byte z div 64 < 64"
  "byte x mod 4 * 16 < 64" "byte y mod 16 * 4 < 64"
proof -
  have "byte x < 256" "byte y div 16 < 16" "byte z div 64 < 4" "byte x mod 4 < 4" "byte y mod 16 < 16"
    using byte_less[of x] byte_less[of y] byte_less[of z] by (auto simp del: byte_less)
  then show "byte x mod 4 * 16 + byte y div 16 < 64" "byte y mod 16 * 4 + byte z div 64 < 64"
    "byte x mod 4 * 16 < 64" "byte y mod 16 * 4 < 64" "byte x div 4 < 64"
    by linarith+
qed

lemma sextet_bytes:
  "byte x div 4 * 4 + (byte x mod 4 * 16 + byte y div 16) div 16 = byte x"
  "(byte x mod 4 * 16 + byte y div 16) mod 16 * 16 + (byte y mod 16 * 4 + byte z div 64) div 4 = byte y"
  "(byte x mod 4 * 16 + byte y div 16) mod 16 * 16 + byte y mod 16 * 4 div 4 = byte y"
  "(byte y mod 16 * 4 + byte z div 64) mod 4 * 64 + byte z mod 64 = byte z"
proof -
  have b: "byte y div 16 < 16" and c: "byte z div 64 < 4"
    using byte_less[of y] byte_less[of z] by (auto simp del: byte_less)
  show "byte x div 4 * 4 + (byte x mod 4 * 16 + byte y div 16) div 16 = byte x"
    unfolding split_bits(1)[OF b] by (rule div_mult_mod_eq)
  show "(byte x mod 4 * 16 + byte y div 16) mod 16 * 16 + (byte y mod 16 * 4 + byte z div 64) div 4 = byte y"
    unfolding split_bits(2)[OF b] split_bits(1)[OF c] by (rule div_mult_mod_eq)
  show "(byte x mod 4 * 16 + byte y div 16) mod 16 * 16 + byte y mod 16 * 4 div 4 = byte y"
    unfolding split_bits(2)[OF b] by simp
  show "(byte y mod 16 * 4 + byte z div 64) mod 4 * 64 + byte z mod 64 = byte z"
    unfolding split_bits(2)[OF c] by (rule div_mult_mod_eq)
qed

lemma b64_no_eol: "c \<in> set (b64_encode bs) \<Longrightarrow> c \<noteq> CHR 0x0A \<and> c \<noteq> CHR 0x0D"
  by (induction bs rule: b64_encode.induct) (auto simp: b64_char_not_eol)

lemma b64_roundtrip: "b64_groups (b64_encode bs) = Some bs"
proof (induction bs rule: b64_encode.induct)
  case (2 x)
  have "byte x div 4 * 4 + byte x mod 4 * 16 div 16 = byte x" by simp
  then show ?case by (simp add: b64_val_char del: div_mult_mod_eq)
next
  case (3 x y)
  show ?case
    using sextet_bytes(1,3)[of x y] by (simp add: b64_val_char)
next
  case (4 x y z rest)
  then show ?case
    using sextet_bytes(1)[of x y] sextet_bytes(2)[of x y z] sextet_bytes(4)[of y z] by (simp add: b64_val_char)
qed simp

lemma DecodeBase64_Encode: "DecodeBase64 (b64_encode bs) = Inr bs"
proof -
  have "filter (\<lambda>c. c \<noteq> CHR 0x0A \<and> c \<noteq> CHR 0x0D) (b64_encode bs) = b64_encode bs"
    using b64_no_eol by (simp add: filter_id_conv)
  then show ?thesis by (simp add: DecodeBase64_def b64_roundtrip)
qed

section \<open>Facts about UTF-8\<close>

lemma digits64:
  fixes r :: nat
  shows "r div 64 * 64 + r mod 64 = r" and "r div 4096 * 4096 + r div 64 mod 64 * 64 + r mod 64 = r"
    and "r div 262144 * 262144 + r div 4096 mod 64 * 4096 + r div 64 mod 64 * 64 + r mod 64 = r"
proof -
  have 1: "r div 64 * 64 + r mod 64 = r" by (rule div_mult_mod_eq)
  have 2: "r div 4096 * 64 + r div 64 mod 64 = r div 64"
    using div_mult_mod_eq[of "r div 64" 64] by (simp add: div_mult2_eq[symmetric])
  have 3: "r div 262144 * 64 + r div 4096 mod 64 = r div 4096"
    using div_mult_mod_eq[of "r div 4096" 64] by (simp add: div_mult2_eq[symmetric])
  show "r div 64 * 64 + r mod 64 = r" by (rule 1)
  show "r div 4096 * 4096 + r div 64 mod 64 * 64 + r mod 64 = r" using 1 2 by linarith
  show "r div 262144 * 262144 + r div 4096 mod 64 * 4096 + r div 64 mod 64 * 64 + r mod 64 = r" using 1 2 3 by linarith
qed

lemma DecodeRune_two:
  assumes "0x80 \<le> r" and "r < 0x800"
  shows "lead_length (0xC0 + r div 64) = 2" "second_ok (0xC0 + r div 64) (0x80 + r mod 64)"
    "0xC0 + r div 64 < 256"
  using assms by (auto simp: lead_length_def second_ok_def)

lemma DecodeRune_three:
  assumes "0x800 \<le> r" and "r < 0x10000" and "scalar r"
  shows "lead_length (0xE0 + r div 4096) = 3" "second_ok (0xE0 + r div 4096) (0x80 + r div 64 mod 64)"
    "0xE0 + r div 4096 < 256"
proof -
  have d: "r div 4096 * 4096 + r div 64 mod 64 * 64 + r mod 64 = r" by (rule digits64)
  have m: "r mod 64 < 64" "r div 64 mod 64 < 64" by auto
  have "0x20 \<le> r div 64 mod 64" if "r div 4096 = 0" using that d m assms(1) by linarith
  moreover have "r div 64 mod 64 < 0x20" if "r div 4096 = 13"
  proof -
    from that d m assms(2) have "r < 0xE000" by linarith
    then have "r < 0xD800" using assms(3) by (auto simp: scalar_def)
    with that d m show ?thesis by linarith
  qed
  moreover have "r div 4096 < 16" using assms(2) by auto
  ultimately show "second_ok (0xE0 + r div 4096) (0x80 + r div 64 mod 64)"
    using m by (auto simp: second_ok_def)
qed (use assms in \<open>auto simp: lead_length_def\<close>)

lemma DecodeRune_four:
  assumes "0x10000 \<le> r" and "scalar r"
  shows "lead_length (0xF0 + r div 262144) = 4" "second_ok (0xF0 + r div 262144) (0x80 + r div 4096 mod 64)"
    "0xF0 + r div 262144 < 256"
proof -
  have r: "r < 0x110000" using assms by (auto simp: scalar_def)
  have d: "r div 262144 * 262144 + r div 4096 mod 64 * 4096 + r div 64 mod 64 * 64 + r mod 64 = r" by (rule digits64)
  have m: "r mod 64 < 64" "r div 64 mod 64 < 64" "r div 4096 mod 64 < 64" by auto
  have "0x10 \<le> r div 4096 mod 64" if "r div 262144 = 0" using that d m assms(1) by linarith
  moreover have "r div 4096 mod 64 < 0x10" if "r div 262144 = 4" using that d m r by linarith
  ultimately show "second_ok (0xF0 + r div 262144) (0x80 + r div 4096 mod 64)"
    using m by (auto simp: second_ok_def)
qed (use assms in \<open>auto simp: lead_length_def scalar_def\<close>)

lemma cont_mod [simp]: "cont (0x80 + n mod 64)"
  using mod_less_divisor[of 64 n] by (auto simp: cont_def)

lemma low_bytes [simp]: "0x80 + n mod 64 < (256 :: nat)"
  using mod_less_divisor[of 64 n] by linarith

text \<open>Decoding undoes encoding, and no proper prefix of an encoding is taken for a rune.\<close>

lemma encode_scalar_shape:
  assumes "scalar r"
  obtains c0 cs where "encode_scalar r = c0 # cs" "lead_length (byte c0) = length cs + 1"
    "cs \<noteq> [] \<Longrightarrow> second_ok (byte c0) (byte (cs ! 0))" "length cs > 1 \<Longrightarrow> cont (byte (cs ! 1))"
    "\<And>rest. DecodeRune (c0 # cs @ rest) = (r, length cs + 1)"
proof -
  consider (one) "r < 0x80" | (two) "0x80 \<le> r" "r < 0x800" | (three) "0x800 \<le> r" "r < 0x10000" | (four) "0x10000 \<le> r"
    by linarith
  then show thesis
  proof cases
    case one
    then have "lead_length r = 1" "byte (char_of r) = r" by (simp_all add: lead_length_def)
    with one show thesis by (intro that[of "char_of r" "[]"]) (simp_all add: encode_scalar_def)
  next
    case two
    note b = DecodeRune_two[OF two] low_bytes[of r]
    note bytes = byte_char_of[OF b(3)] byte_char_of[OF b(4)]
    show thesis
      using two b digits64(1)[of r]
      by (intro that[of "char_of (0xC0 + r div 64)" "[char_of (0x80 + r mod 64)]"])
        (simp_all only: encode_scalar_def bytes DecodeRune.simps Let_def list.size append.simps nth_Cons_0, auto)
  next
    case three
    note b = DecodeRune_three[OF three assms] low_bytes[of "r div 64"] low_bytes[of r]
    note bytes = byte_char_of[OF b(3)] byte_char_of[OF b(4)] byte_char_of[OF b(5)]
    show thesis
      using three b digits64(2)[of r] cont_mod[of r]
      by (intro that[of "char_of (0xE0 + r div 4096)" "[char_of (0x80 + r div 64 mod 64), char_of (0x80 + r mod 64)]"])
        (simp_all only: encode_scalar_def bytes DecodeRune.simps Let_def list.size append.simps nth_Cons_0, auto simp: bytes)
  next
    case four
    note b = DecodeRune_four[OF four assms] low_bytes[of "r div 4096"] low_bytes[of "r div 64"] low_bytes[of r]
    note bytes = byte_char_of[OF b(3)] byte_char_of[OF b(4)] byte_char_of[OF b(5)] byte_char_of[OF b(6)]
    show thesis
      using four b digits64(3)[of r] cont_mod[of r] cont_mod[of "r div 64"]
      by (intro that[of "char_of (0xF0 + r div 262144)" "[char_of (0x80 + r div 4096 mod 64),
          char_of (0x80 + r div 64 mod 64), char_of (0x80 + r mod 64)]"])
        (simp_all only: encode_scalar_def bytes DecodeRune.simps Let_def list.size append.simps nth_Cons_0, auto simp: bytes)
  qed
qed

definition valid_utf8 :: "string \<Rightarrow> bool" where
  "valid_utf8 s \<longleftrightarrow> (\<exists>rs. list_all scalar rs \<and> s = concat (map encode_scalar rs))"

lemma encode_scalar_not_Nil [simp]: "encode_scalar r \<noteq> []"
  by (simp add: encode_scalar_def)

lemma DecodeRune_encode:
  assumes "scalar r"
  shows "DecodeRune (encode_scalar r @ rest) = (r, length (encode_scalar r))"
  by (rule encode_scalar_shape[OF assms]) (simp del: DecodeRune.simps)

lemma runes_fuel_encode:
  assumes "list_all scalar rs" and "length (concat (map encode_scalar rs)) \<le> n"
  shows "runes_fuel n (concat (map encode_scalar rs)) = rs"
  using assms
proof (induction rs arbitrary: n)
  case Nil
  then show ?case by (cases n) auto
next
  case (Cons r rs)
  then have r: "scalar r" and l: "0 < length (encode_scalar r)" by auto
  with Cons.prems(2) obtain m where n: "n = Suc m" by (cases n) auto
  have "length (concat (map encode_scalar rs)) \<le> m" using Cons.prems(2) l n by (simp del: length_greater_0_conv)
  with Cons.IH Cons.prems(1) have "runes_fuel m (concat (map encode_scalar rs)) = rs" by simp
  with n show ?case using DecodeRune_encode[OF r] by simp
qed

lemma EncodeRune_scalar: "scalar r \<Longrightarrow> EncodeRune r = encode_scalar r"
  by (simp add: EncodeRune_def)

lemma map_EncodeRune: "list_all scalar rs \<Longrightarrow> map EncodeRune rs = map encode_scalar rs"
  by (induction rs) (auto simp: EncodeRune_scalar)

lemma DecodeString2Utf8Bytes_valid: "valid_utf8 s \<Longrightarrow> DecodeString2Utf8Bytes s = s"
  by (auto simp: valid_utf8_def DecodeString2Utf8Bytes_def runes_def runes_fuel_encode map_EncodeRune)

lemma FullRune_prefix:
  assumes "scalar r" and "encode_scalar r = p @ q"
  shows "FullRune p \<longleftrightarrow> q = []"
proof (rule encode_scalar_shape[OF assms(1)])
  fix c0 cs
  assume e: "encode_scalar r = c0 # cs" and l: "lead_length (byte c0) = length cs + 1"
    and s2: "cs \<noteq> [] \<Longrightarrow> second_ok (byte c0) (byte (cs ! 0))" and s3: "length cs > 1 \<Longrightarrow> cont (byte (cs ! 1))"
  show "FullRune p \<longleftrightarrow> q = []"
  proof (cases p)
    case Nil
    with assms(2) encode_scalar_not_Nil[of r] show ?thesis by auto
  next
    case (Cons d ds)
    with assms(2) e have d: "d = c0" "cs = ds @ q" by auto
    then have "ds \<noteq> [] \<Longrightarrow> second_ok (byte c0) (byte (ds ! 0))" "length ds > 1 \<Longrightarrow> cont (byte (ds ! 1))"
      using s2 s3 by (auto simp: nth_append)
    with Cons d l show ?thesis by (auto simp: Let_def)
  qed
qed

lemma utf8_loop_collect:
  assumes "scalar r" and "encode_scalar r = p @ q" and "q \<noteq> []"
  shows "utf8_loop p (q @ rest) acc = utf8_loop (encode_scalar r) rest acc"
  using assms(2,3)
proof (induction q arbitrary: p)
  case (Cons c q)
  have "\<not> FullRune p" using FullRune_prefix[OF assms(1) Cons.prems(1)] by simp
  then have step: "utf8_loop p ((c # q) @ rest) acc = utf8_loop (p @ [c]) (q @ rest) acc"
    by (simp add: take_rune_def)
  show ?case
  proof (cases "q = []")
    case True
    with step Cons.prems(1) show ?thesis by simp
  next
    case False
    with step Cons.IH[of "p @ [c]"] Cons.prems(1) show ?thesis by simp
  qed
qed simp

lemma utf8_loop_encode:
  assumes "list_all scalar rs"
  shows "utf8_loop [] (concat (map encode_scalar rs)) acc = acc @ rs"
  using assms
proof (induction rs arbitrary: acc)
  case Nil
  show ?case by (simp add: take_rune_def)
next
  case (Cons r rs)
  then have r: "scalar r" by simp
  let ?rest = "concat (map encode_scalar rs)"
  have "take_rune (encode_scalar r) acc = ([], acc @ [r])"
    using FullRune_prefix[OF r, of "encode_scalar r" "[]"] DecodeRune_encode[OF r, of "[]"] by (simp add: take_rune_def)
  then have "utf8_loop (encode_scalar r) ?rest acc = utf8_loop [] ?rest (acc @ [r])"
    by (cases ?rest) (simp_all add: take_rune_def)
  with utf8_loop_collect[OF r, of "[]" "encode_scalar r" ?rest acc] Cons show ?case by simp
qed

lemma EncodeUtf8Bytes2String_valid: "valid_utf8 s \<Longrightarrow> EncodeUtf8Bytes2String s = s"
  by (auto simp: valid_utf8_def EncodeUtf8Bytes2String_def string_of_runes_def utf8_loop_encode map_EncodeRune)

text \<open>ASCII strings are valid.\<close>

lemma valid_utf8_ascii:
  assumes "\<And>c. c \<in> set s \<Longrightarrow> byte c < 128"
  shows "valid_utf8 s"
proof -
  have "map encode_scalar (map (\<lambda>c. byte c) s) = map (\<lambda>c. [c]) s"
    using assms by (simp add: encode_scalar_def)
  then have "concat (map encode_scalar (map (\<lambda>c. byte c) s)) = s" by (simp only: concat_map_singleton) simp
  moreover have "list_all scalar (map (\<lambda>c. byte c) s)" using assms by (force simp: list_all_iff scalar_def)
  ultimately show ?thesis unfolding valid_utf8_def by metis
qed

lemma b64_encode_ascii: "c \<in> set (b64_encode bs) \<Longrightarrow> byte c < 128"
proof (induction bs rule: b64_encode.induct)
  case (2 x)
  then show ?case by (auto simp: byte_b64_char)
next
  case (3 x y)
  then show ?case by (auto simp: byte_b64_char)
next
  case (4 x y z rest)
  then show ?case by (auto simp: byte_b64_char)
qed simp

end
