(* ===== verification/Encryption.thy ===== *)
theory Encryption
  imports Encoding Client_Config
begin

text \<open>
  \<open>common/encryption\<close>: AES in ECB mode with PKCS 5 padding, the plugins that encrypt a configuration with
  a data key or with the key management service, and the handler that chooses the plugin by the data id.

  The block cipher (\<open>crypto/aes\<close>) is a parameter \<open>aes\<close> from keys to blocks; the key management service
  is a record of functions over a state \<open>'w\<close>, and \<open>None\<close> when its client could not be created.
\<close>

section \<open>ECB with padding\<close>

record Block =
  blk_BlockSize :: nat
  blk_Encrypt :: "string \<Rightarrow> string"
  blk_Decrypt :: "string \<Rightarrow> string"

definition PKCS5Padding :: "string \<Rightarrow> nat \<Rightarrow> string" where
  "PKCS5Padding ciphertext blockSize =
     (let padding = blockSize - length ciphertext mod blockSize
      in ciphertext @ replicate padding (char_of padding))"

text \<open>The last byte says how many bytes to drop; an empty slice and a number that is too large panic.\<close>

definition PKCS5UnPadding :: "string \<Rightarrow> string outcome" where
  "PKCS5UnPadding origData =
     (if origData = [] then Panic ''index out of range''
      else let unpadding = byte (last origData)
           in if unpadding \<le> length origData then Ret (take (length origData - unpadding) origData)
              else Panic ''slice bounds out of range'')"

text \<open>The loop over the blocks; a block is taken off the front in each turn.\<close>

function block_loop :: "nat \<Rightarrow> (string \<Rightarrow> string) \<Rightarrow> string \<Rightarrow> string" where
  "block_loop n f src = (if src = [] \<or> n = 0 then [] else f (take n src) @ block_loop n f (drop n src))"
  by pat_completeness auto
termination by (relation "measure (\<lambda>(n, f, src). length src)") auto

declare block_loop.simps [simp del]

definition BlockEncrypt :: "string \<Rightarrow> Block \<Rightarrow> string result" where
  "BlockEncrypt src b =
     (if length src mod blk_BlockSize b \<noteq> 0 then Inl (Err ''input not full blocks'')
      else Inr (block_loop (blk_BlockSize b) (blk_Encrypt b) src))"

definition BlockDecrypt :: "string \<Rightarrow> Block \<Rightarrow> string result" where
  "BlockDecrypt src b =
     (if length src mod blk_BlockSize b \<noteq> 0 then Inl (Err ''input not full blocks'')
      else Inr (block_loop (blk_BlockSize b) (blk_Decrypt b) src))"

definition AesEcbPkcs5PaddingEncrypt :: "(string \<Rightarrow> Block result) \<Rightarrow> string \<Rightarrow> string \<Rightarrow> string result" where
  "AesEcbPkcs5PaddingEncrypt aes plainContent key =
     (if length plainContent = 0 then Inr []
      else case aes key of
             Inl err \<Rightarrow> Inl err
           | Inr b \<Rightarrow> BlockEncrypt (PKCS5Padding plainContent (blk_BlockSize b)) b)"

definition AesEcbPkcs5PaddingDecrypt :: "(string \<Rightarrow> Block result) \<Rightarrow> string \<Rightarrow> string \<Rightarrow> string result outcome" where
  "AesEcbPkcs5PaddingDecrypt aes cipherContent key =
     (if length cipherContent = 0 then Ret (Inr [])
      else case aes key of
             Inl err \<Rightarrow> Ret (Inl err)
           | Inr b \<Rightarrow>
               (case BlockDecrypt cipherContent b of
                  Inl err \<Rightarrow> Ret (Inl err)
                | Inr decryptBytes \<Rightarrow> obind (PKCS5UnPadding decryptBytes) (\<lambda>bs. Ret (Inr bs))))"

section \<open>Constants and parameters\<close>

definition CipherPrefix :: string where "CipherPrefix = ''cipher-''"
definition KmsAes128AlgorithmName :: string where "KmsAes128AlgorithmName = ''cipher-kms-aes-128''"
definition KmsAes256AlgorithmName :: string where "KmsAes256AlgorithmName = ''cipher-kms-aes-256''"
definition KmsAlgorithmName :: string where "KmsAlgorithmName = ''cipher''"
definition kmsAes128KeySpec :: string where "kmsAes128KeySpec = ''AES_128''"
definition kmsAes256KeySpec :: string where "kmsAes256KeySpec = ''AES_256''"
definition KMSv1 :: string where "KMSv1 = ''KMSv1''"
definition KMSv3 :: string where "KMSv3 = ''KMSv3''"
definition DEFAULT_KMS_VERSION :: string where "DEFAULT_KMS_VERSION = []"
definition MSE_KMSv1_DEFAULT_KEY_ID :: string where "MSE_KMSv1_DEFAULT_KEY_ID = ''alias/acs/mse''"

definition DataIdParamCheckError :: go_error where
  "DataIdParamCheckError = Err (''dataId prefix should start with: '' @ CipherPrefix)"
definition ContentParamCheckError :: go_error where "ContentParamCheckError = Err ''content need to encrypt is nil''"
definition KeyIdParamCheckError :: go_error where "KeyIdParamCheckError = Err ''keyId is nil, need to be set''"
definition PluginNotFoundError :: go_error where
  "PluginNotFoundError = Err ''cannot find encryption plugin by dataId prefix''"
definition EmptyEncryptedDataKeyError :: go_error where
  "EmptyEncryptedDataKeyError = Err ''empty encrypted data key error''"
definition EmptyPlainDataKeyError :: go_error where "EmptyPlainDataKeyError = Err ''empty plain data key error''"
definition EmptyContentError :: go_error where "EmptyContentError = Err ''encrypt empty content error''"

record HandlerParam =
  hp_DataId :: string
  hp_Content :: string
  hp_EncryptedDataKey :: string
  hp_PlainDataKey :: string
  hp_KeyId :: string

record 'w KmsClient =
  kc_Decrypt :: "string \<Rightarrow> 'w \<Rightarrow> 'w \<times> string result"
  kc_Encrypt :: "string \<Rightarrow> string \<Rightarrow> 'w \<Rightarrow> 'w \<times> string result"
  kc_GenerateDataKey :: "string \<Rightarrow> string \<Rightarrow> 'w \<Rightarrow> 'w \<times> (string \<times> string) result"
  kc_GetKmsVersion :: string

text \<open>A call on a client that is \<open>nil\<close> panics.\<close>

definition on_client :: "'w KmsClient option \<Rightarrow> ('w KmsClient \<Rightarrow> 'a outcome) \<Rightarrow> 'a outcome" where
  "on_client kms f = (case kms of None \<Rightarrow> Panic ''nil pointer dereference'' | Some k \<Rightarrow> f k)"

section \<open>Plugins\<close>

datatype plugin = KmsAes128Plugin | KmsAes256Plugin | KmsBasePlugin

fun AlgorithmName :: "plugin \<Rightarrow> string" where
  "AlgorithmName KmsAes128Plugin = KmsAes128AlgorithmName"
| "AlgorithmName KmsAes256Plugin = KmsAes256AlgorithmName"
| "AlgorithmName KmsBasePlugin = KmsAlgorithmName"

definition keyIdParamCheck :: "'w KmsClient option \<Rightarrow> string \<Rightarrow> string result outcome" where
  "keyIdParamCheck kms keyId =
     (if length (trim_space keyId) = 0
      then on_client kms (\<lambda>k. if kc_GetKmsVersion k = KMSv1 then Ret (Inr MSE_KMSv1_DEFAULT_KEY_ID)
                              else Ret (Inl KeyIdParamCheckError))
      else Ret (Inr keyId))"

definition encryptionParamCheck :: "HandlerParam \<Rightarrow> go_error option" where
  "encryptionParamCheck param =
     (if length (hp_PlainDataKey param) = 0 then Some KeyIdParamCheckError
      else if length (hp_Content param) = 0 then Some ContentParamCheckError else None)"

text \<open>\<open>Encrypt\<close> and \<open>Decrypt\<close> of \<open>kmsPlugin\<close>: the parameter with the new content, or an error.\<close>

definition aes_encrypt :: "(string \<Rightarrow> Block result) \<Rightarrow> HandlerParam \<Rightarrow> HandlerParam result" where
  "aes_encrypt aes param =
     (case encryptionParamCheck param of
        Some err \<Rightarrow> Inl err
      | None \<Rightarrow>
          (case DecodeBase64 (DecodeString2Utf8Bytes (hp_PlainDataKey param)) of
             Inl err \<Rightarrow> Inl err
           | Inr key \<Rightarrow>
               (case AesEcbPkcs5PaddingEncrypt aes (DecodeString2Utf8Bytes (hp_Content param)) key of
                  Inl err \<Rightarrow> Inl err
                | Inr encryptedContent \<Rightarrow>
                    (case EncodeBase64 encryptedContent of
                       Inl err \<Rightarrow> Inl err
                     | Inr c \<Rightarrow> Inr (param\<lparr>hp_Content := EncodeUtf8Bytes2String c\<rparr>)))))"

definition aes_decrypt :: "(string \<Rightarrow> Block result) \<Rightarrow> HandlerParam \<Rightarrow> HandlerParam result outcome" where
  "aes_decrypt aes param =
     (case encryptionParamCheck param of
        Some err \<Rightarrow> Ret (Inl err)
      | None \<Rightarrow>
          (case DecodeBase64 (DecodeString2Utf8Bytes (hp_PlainDataKey param)) of
             Inl err \<Rightarrow> Ret (Inl err)
           | Inr key \<Rightarrow>
               (case DecodeBase64 (DecodeString2Utf8Bytes (hp_Content param)) of
                  Inl err \<Rightarrow> Ret (Inl err)
                | Inr c \<Rightarrow>
                    obind (AesEcbPkcs5PaddingDecrypt aes c key) (\<lambda>r.
                      case r of
                        Inl err \<Rightarrow> Ret (Inl err)
                      | Inr d \<Rightarrow> Ret (Inr (param\<lparr>hp_Content := EncodeUtf8Bytes2String d\<rparr>))))))"

definition base_encrypt :: "'w KmsClient option \<Rightarrow> HandlerParam \<Rightarrow> 'w \<Rightarrow> ('w \<times> HandlerParam result) outcome" where
  "base_encrypt kms param w =
     obind (keyIdParamCheck kms (hp_KeyId param)) (\<lambda>r.
       case r of
         Inl err \<Rightarrow> Ret (w, Inl err)
       | Inr keyId \<Rightarrow>
           if length (hp_Content param) = 0 then Ret (w, Inl EmptyContentError)
           else on_client kms (\<lambda>k.
             case kc_Encrypt k (hp_Content param) keyId w of
               (w1, Inl err) \<Rightarrow> Ret (w1, Inl err)
             | (w1, Inr c) \<Rightarrow> Ret (w1, Inr (param\<lparr>hp_Content := c\<rparr>))))"

definition base_decrypt :: "'w KmsClient option \<Rightarrow> HandlerParam \<Rightarrow> 'w \<Rightarrow> ('w \<times> HandlerParam result) outcome" where
  "base_decrypt kms param w =
     (if length (hp_Content param) = 0 then Ret (w, Inr param)
      else on_client kms (\<lambda>k.
        case kc_Decrypt k (hp_Content param) w of
          (w1, Inl err) \<Rightarrow> Ret (w1, Inl err)
        | (w1, Inr c) \<Rightarrow> Ret (w1, Inr (param\<lparr>hp_Content := c\<rparr>))))"

fun plugin_Encrypt ::
  "(string \<Rightarrow> Block result) \<Rightarrow> 'w KmsClient option \<Rightarrow> plugin \<Rightarrow> HandlerParam \<Rightarrow> 'w \<Rightarrow> ('w \<times> HandlerParam result) outcome" where
  "plugin_Encrypt aes kms KmsBasePlugin param w = base_encrypt kms param w"
| "plugin_Encrypt aes kms _ param w = Ret (w, aes_encrypt aes param)"

fun plugin_Decrypt ::
  "(string \<Rightarrow> Block result) \<Rightarrow> 'w KmsClient option \<Rightarrow> plugin \<Rightarrow> HandlerParam \<Rightarrow> 'w \<Rightarrow> ('w \<times> HandlerParam result) outcome" where
  "plugin_Decrypt aes kms KmsBasePlugin param w = base_decrypt kms param w"
| "plugin_Decrypt aes kms _ param w = obind (aes_decrypt aes param) (\<lambda>r. Ret (w, r))"

text \<open>\<open>GenerateSecretKey\<close>: the parameter with the keys, and the plain key.\<close>

definition aes_generate ::
  "'w KmsClient option \<Rightarrow> string \<Rightarrow> HandlerParam \<Rightarrow> 'w \<Rightarrow> ('w \<times> HandlerParam \<times> string result) outcome" where
  "aes_generate kms keySpec param w =
     obind (keyIdParamCheck kms (hp_KeyId param)) (\<lambda>r.
       case r of
         Inl err \<Rightarrow> Ret (w, param, Inl err)
       | Inr keyId \<Rightarrow>
           on_client kms (\<lambda>k.
             case kc_GenerateDataKey k keyId keySpec w of
               (w1, Inl err) \<Rightarrow> Ret (w1, param, Inl err)
             | (w1, Inr (plain, encrypted)) \<Rightarrow>
                 let param' = param\<lparr>hp_PlainDataKey := plain, hp_EncryptedDataKey := encrypted\<rparr>
                 in if length plain = 0 then Ret (w1, param', Inl EmptyPlainDataKeyError)
                    else if length encrypted = 0 then Ret (w1, param', Inl EmptyEncryptedDataKeyError)
                    else Ret (w1, param', Inr plain)))"

fun GenerateSecretKey ::
  "'w KmsClient option \<Rightarrow> plugin \<Rightarrow> HandlerParam \<Rightarrow> 'w \<Rightarrow> ('w \<times> HandlerParam \<times> string result) outcome" where
  "GenerateSecretKey kms KmsAes128Plugin param w = aes_generate kms kmsAes128KeySpec param w"
| "GenerateSecretKey kms KmsAes256Plugin param w = aes_generate kms kmsAes256KeySpec param w"
| "GenerateSecretKey kms KmsBasePlugin param w = Ret (w, param, Inr [])"

definition aes_decrypt_key ::
  "'w KmsClient option \<Rightarrow> HandlerParam \<Rightarrow> 'w \<Rightarrow> ('w \<times> HandlerParam \<times> string result) outcome" where
  "aes_decrypt_key kms param w =
     (if length (hp_EncryptedDataKey param) = 0 then Ret (w, param, Inl EmptyEncryptedDataKeyError)
      else on_client kms (\<lambda>k.
        case kc_Decrypt k (hp_EncryptedDataKey param) w of
          (w1, Inl err) \<Rightarrow> Ret (w1, param, Inl err)
        | (w1, Inr plain) \<Rightarrow>
            if length plain = 0 then Ret (w1, param, Inl EmptyPlainDataKeyError)
            else Ret (w1, param\<lparr>hp_PlainDataKey := plain\<rparr>, Inr plain)))"

fun DecryptSecretKey ::
  "'w KmsClient option \<Rightarrow> plugin \<Rightarrow> HandlerParam \<Rightarrow> 'w \<Rightarrow> ('w \<times> HandlerParam \<times> string result) outcome" where
  "DecryptSecretKey kms KmsBasePlugin param w = Ret (w, param, Inr [])"
| "DecryptSecretKey kms _ param w = aes_decrypt_key kms param w"

definition aes_encrypt_key ::
  "'w KmsClient option \<Rightarrow> HandlerParam \<Rightarrow> 'w \<Rightarrow> ('w \<times> HandlerParam \<times> string result) outcome" where
  "aes_encrypt_key kms param w =
     obind (keyIdParamCheck kms (hp_KeyId param)) (\<lambda>r.
       case r of
         Inl err \<Rightarrow> Ret (w, param, Inl err)
       | Inr keyId \<Rightarrow>
           if length (hp_PlainDataKey param) = 0 then Ret (w, param, Inl EmptyPlainDataKeyError)
           else on_client kms (\<lambda>k.
             case kc_Encrypt k (hp_PlainDataKey param) keyId w of
               (w1, Inl err) \<Rightarrow> Ret (w1, param, Inl err)
             | (w1, Inr encrypted) \<Rightarrow>
                 if length encrypted = 0 then Ret (w1, param, Inl EmptyEncryptedDataKeyError)
                 else Ret (w1, param\<lparr>hp_EncryptedDataKey := encrypted\<rparr>, Inr encrypted)))"

fun EncryptSecretKey ::
  "'w KmsClient option \<Rightarrow> plugin \<Rightarrow> HandlerParam \<Rightarrow> 'w \<Rightarrow> ('w \<times> HandlerParam \<times> string result) outcome" where
  "EncryptSecretKey kms KmsBasePlugin param w = Ret (w, param, Inr [])"
| "EncryptSecretKey kms _ param w = aes_encrypt_key kms param w"

section \<open>The handler\<close>

type_synonym plugins = "(string, plugin) gomap"

definition RegisterPlugin :: "plugin \<Rightarrow> plugins \<Rightarrow> plugins" where
  "RegisterPlugin p ps = AList.update (AlgorithmName p) p ps"

definition RegisterConfigEncryptionKmsPlugins :: "plugins \<Rightarrow> plugins" where
  "RegisterConfigEncryptionKmsPlugins ps =
     RegisterPlugin KmsBasePlugin (RegisterPlugin KmsAes256Plugin (RegisterPlugin KmsAes128Plugin ps))"

text \<open>The plugin with the longest name that the data id contains.\<close>

definition match_plugin :: "string \<Rightarrow> string \<times> plugin \<Rightarrow> nat \<times> plugin option \<Rightarrow> nat \<times> plugin option" where
  "match_plugin dataId kv best =
     (if contains_str dataId (fst kv) \<and> length (fst kv) > fst best then (length (fst kv), Some (snd kv)) else best)"

definition getPluginByDataIdPrefix :: "plugins \<Rightarrow> string \<Rightarrow> plugin result" where
  "getPluginByDataIdPrefix ps dataId =
     (case snd (fold (match_plugin dataId) ps (0, None)) of
        None \<Rightarrow> Inl PluginNotFoundError
      | Some p \<Rightarrow> Inr p)"

definition handlerParamCheck :: "HandlerParam \<Rightarrow> go_error option" where
  "handlerParamCheck param =
     (if \<not> contains_str (hp_DataId param) CipherPrefix then Some DataIdParamCheckError
      else if length (hp_Content param) = 0 then Some ContentParamCheckError else None)"

definition EncryptionHandler ::
  "(string \<Rightarrow> Block result) \<Rightarrow> 'w KmsClient option \<Rightarrow> plugins \<Rightarrow> HandlerParam \<Rightarrow> 'w \<Rightarrow> ('w \<times> HandlerParam result) outcome" where
  "EncryptionHandler aes kms ps param w =
     (case handlerParamCheck param of
        Some err \<Rightarrow> Ret (w, Inl err)
      | None \<Rightarrow>
          (case getPluginByDataIdPrefix ps (hp_DataId param) of
             Inl err \<Rightarrow> Ret (w, Inl err)
           | Inr p \<Rightarrow>
               obind (GenerateSecretKey kms p param w) (\<lambda>(w1, param1, r).
                 case r of
                   Inl err \<Rightarrow> Ret (w1, Inl err)
                 | Inr plain \<Rightarrow> plugin_Encrypt aes kms p (param1\<lparr>hp_PlainDataKey := plain\<rparr>) w1)))"

definition DecryptionHandler ::
  "(string \<Rightarrow> Block result) \<Rightarrow> 'w KmsClient option \<Rightarrow> plugins \<Rightarrow> HandlerParam \<Rightarrow> 'w \<Rightarrow> ('w \<times> HandlerParam result) outcome" where
  "DecryptionHandler aes kms ps param w =
     (case handlerParamCheck param of
        Some err \<Rightarrow> Ret (w, Inl err)
      | None \<Rightarrow>
          (case getPluginByDataIdPrefix ps (hp_DataId param) of
             Inl err \<Rightarrow> Ret (w, Inl err)
           | Inr p \<Rightarrow>
               obind (DecryptSecretKey kms p param w) (\<lambda>(w1, param1, r).
                 case r of
                   Inl err \<Rightarrow> Ret (w1, Inl err)
                 | Inr plain \<Rightarrow> plugin_Decrypt aes kms p (param1\<lparr>hp_PlainDataKey := plain\<rparr>) w1)))"

section \<open>Creating the client of the key management service\<close>

definition checkKmsV1InitParam :: "string \<Rightarrow> string \<Rightarrow> string \<Rightarrow> go_error option" where
  "checkKmsV1InitParam regionId ak sk =
     (if length regionId = 0 then Some (Err ''init kmsV1 client failed with empty region'')
      else if length ak = 0 then Some (Err ''init kmsV1 client failed with empty ak'')
      else if length sk = 0 then Some (Err ''init kmsV1 client failed with empty sk'') else None)"

definition checkKmsRamInitParam :: "string \<Rightarrow> string \<Rightarrow> string \<Rightarrow> go_error option" where
  "checkKmsRamInitParam endpoint ak sk =
     (if length endpoint = 0 then Some (Err ''init kmsRam client failed with empty endpoint'')
      else if length ak = 0 then Some (Err ''init kmsV1 client failed with empty ak'')
      else if length sk = 0 then Some (Err ''init kmsV1 client failed with empty sk'') else None)"

definition checkKmsV3InitParam :: "KMSv3Config \<Rightarrow> string \<Rightarrow> go_error option" where
  "checkKmsV3InitParam config caVerify =
     (if length (kms3_Endpoint config) = 0 then Some (Err ''init kmsV3 client failed with empty endpoint'')
      else if length (kms3_Password config) = 0 then Some (Err ''init kmsV3 client failed with empty password'')
      else if length (kms3_ClientKeyContent config) = 0
      then Some (Err ''init kmsV3 client failed with empty client key content'')
      else if length caVerify = 0 then Some (Err ''init kmsV3 client failed with empty ca verify'') else None)"

text \<open>What \<open>NewKmsRamClient\<close> passes to the library, and what it keeps; \<open>new\<close> is \<open>kms20160120.NewClient\<close>.\<close>

record kms_settings =
  ks_AccessKeyId :: string
  ks_AccessKeySecret :: string
  ks_RegionId :: "string option"
  ks_Endpoint :: "string option"
  ks_Ca :: "string option"
  ks_kmsVersion :: string
  ks_IgnoreSSL :: "bool option"

definition ram_ignore_ssl :: "KMSConfig \<Rightarrow> bool option" where
  "ram_ignore_ssl kmsConfig =
     (if kms_OpenSSL kmsConfig = ''true'' then Some False
      else if kms_OpenSSL kmsConfig = ''false'' then Some True
      else if length (kms_CaContent kmsConfig) = 0 then Some True else None)"

definition NewKmsRamClient ::
  "(kms_settings \<Rightarrow> go_error option) \<Rightarrow> KMSConfig option \<Rightarrow> string \<Rightarrow> string \<Rightarrow> string \<Rightarrow> kms_settings result" where
  "NewKmsRamClient new kmsConfig regionId ak sk =
     (let create = (\<lambda>ks. case new ks of Some err \<Rightarrow> Inl err | None \<Rightarrow> Inr ks);
          v1 = (case checkKmsV1InitParam regionId ak sk of
                  Some err \<Rightarrow> Inl err
                | None \<Rightarrow> create \<lparr>ks_AccessKeyId = ak, ks_AccessKeySecret = sk, ks_RegionId = Some regionId,
                            ks_Endpoint = None, ks_Ca = None, ks_kmsVersion = KMSv1, ks_IgnoreSSL = None\<rparr>)
      in case kmsConfig of
           None \<Rightarrow> v1
         | Some c \<Rightarrow>
             if length (kms_Endpoint c) = 0 then v1
             else (case checkKmsRamInitParam (kms_Endpoint c) ak sk of
                     Some err \<Rightarrow> Inl err
                   | None \<Rightarrow> create \<lparr>ks_AccessKeyId = ak, ks_AccessKeySecret = sk,
                               ks_RegionId = (if length regionId \<noteq> 0 then Some regionId else None),
                               ks_Endpoint = Some (kms_Endpoint c), ks_Ca = Some (kms_CaContent c),
                               ks_kmsVersion = KMSv3, ks_IgnoreSSL = ram_ignore_ssl c\<rparr>))"

text \<open>
  The client of version 3: what \<open>NewKmsV3ClientWithConfig\<close> passes to \<open>dkms_transfer\<close> and sets on what it
  gets; \<open>new\<close> is \<open>NewClientWithAccessKey\<close>.
\<close>

record transfer_settings =
  ts_config :: KMSv3Config
  ts_Verify :: "string option"
  ts_HTTPSInsecure :: bool
  ts_kmsVersion :: string

definition NewKmsV3ClientWithConfig ::
  "(KMSv3Config \<Rightarrow> go_error option) \<Rightarrow> KMSv3Config \<Rightarrow> string \<Rightarrow> transfer_settings result" where
  "NewKmsV3ClientWithConfig new config caVerify =
     (case checkKmsV3InitParam config caVerify of
        Some err \<Rightarrow> Inl err
      | None \<Rightarrow>
          (case new config of
             Some err \<Rightarrow> Inl (Wrapped ''init kms v3 client with config failed'' err)
           | None \<Rightarrow>
               (if length (trim_space caVerify) \<noteq> 0
                then Inr \<lparr>ts_config = config, ts_Verify = Some caVerify, ts_HTTPSInsecure = False, ts_kmsVersion = KMSv3\<rparr>
                else Inr \<lparr>ts_config = config, ts_Verify = None, ts_HTTPSInsecure = True, ts_kmsVersion = KMSv3\<rparr>)))"

definition newKmsV3Client ::
  "(KMSv3Config \<Rightarrow> go_error option) \<Rightarrow> ClientConfig \<Rightarrow> transfer_settings result outcome" where
  "newKmsV3Client new clientConfig =
     (case cl_KMSv3Config clientConfig of
        None \<Rightarrow> Panic ''nil pointer dereference''
      | Some c \<Rightarrow> Ret (NewKmsV3ClientWithConfig new c (kms3_CaContent c)))"

definition newKmsRamClient :: "(kms_settings \<Rightarrow> go_error option) \<Rightarrow> ClientConfig \<Rightarrow> kms_settings result" where
  "newKmsRamClient new clientConfig =
     NewKmsRamClient new (cl_KMSConfig clientConfig) (cl_RegionId clientConfig) (cl_AccessKey clientConfig)
       (cl_SecretKey clientConfig)"

datatype kms_made = Ram kms_settings | Transfer transfer_settings

definition innerNewKmsClient ::
  "(kms_settings \<Rightarrow> go_error option) \<Rightarrow> (KMSv3Config \<Rightarrow> go_error option) \<Rightarrow> ClientConfig \<Rightarrow> kms_made result outcome" where
  "innerNewKmsClient newRam newTransfer clientConfig =
     (let v = cl_KMSVersion clientConfig in
      if v = KMSv1 \<or> v = DEFAULT_KMS_VERSION then Ret (map_sum id Ram (newKmsRamClient newRam clientConfig))
      else if v = KMSv3
      then obind (newKmsV3Client newTransfer clientConfig) (\<lambda>r. Ret (map_sum id Transfer r))
      else Ret (Inl (Err (''init kms client failed. unknown kms version:'' @ v @ [CHR 0x0A]))))"

text \<open>
  The calls on the service. \<open>service\<close> is the library client that was made: it answers a request for a data
  key with its plain text and its cipher text, a request to decrypt with the plain text and one to encrypt
  with the cipher text.
\<close>

record 'w kms_service =
  sv_Decrypt :: "string \<Rightarrow> 'w \<Rightarrow> 'w \<times> string result"
  sv_Encrypt :: "string \<Rightarrow> string \<Rightarrow> 'w \<Rightarrow> 'w \<times> string result"
  sv_GenerateDataKey :: "string \<Rightarrow> string \<Rightarrow> 'w \<Rightarrow> 'w \<times> (string \<times> string) result"

definition RamKmsClient :: "'w kms_service \<Rightarrow> kms_settings \<Rightarrow> 'w KmsClient" where
  "RamKmsClient service ks =
     \<lparr>kc_Decrypt = sv_Decrypt service, kc_Encrypt = sv_Encrypt service,
      kc_GenerateDataKey = sv_GenerateDataKey service, kc_GetKmsVersion = ks_kmsVersion ks\<rparr>"

definition TransferKmsClient :: "'w kms_service \<Rightarrow> transfer_settings \<Rightarrow> 'w KmsClient" where
  "TransferKmsClient service ts =
     \<lparr>kc_Decrypt = (\<lambda>cipherContent w.
        case sv_Decrypt service cipherContent w of
          (w1, Inl err) \<Rightarrow> (w1, Inl (Wrapped ''kms decrypt failed'' err))
        | (w1, Inr plain) \<Rightarrow> (w1, Inr plain)),
      kc_Encrypt = (\<lambda>content keyId w.
        case sv_Encrypt service content keyId w of
          (w1, Inl err) \<Rightarrow> (w1, Inl (Wrapped ''kms encrypt failed'' err))
        | (w1, Inr blob) \<Rightarrow> (w1, Inr blob)),
      kc_GenerateDataKey = sv_GenerateDataKey service, kc_GetKmsVersion = ts_kmsVersion ts\<rparr>"

section \<open>Facts about blocks\<close>

definition block_ok :: "Block \<Rightarrow> bool" where
  "block_ok b \<longleftrightarrow> 0 < blk_BlockSize b \<and> blk_BlockSize b < 256 \<and>
     (\<forall>x. length x = blk_BlockSize b \<longrightarrow>
        length (blk_Encrypt b x) = blk_BlockSize b \<and> blk_Decrypt b (blk_Encrypt b x) = x)"

lemma PKCS5Padding_length:
  assumes "0 < n"
  shows "length (PKCS5Padding s n) mod n = 0" and "PKCS5Padding s n \<noteq> []"
proof -
  have "length s mod n < n" using assms by simp
  moreover have "length s div n * n + length s mod n = length s" by (rule div_mult_mod_eq)
  ultimately have "length s + (n - length s mod n) = length s div n * n + n" by linarith
  then show "length (PKCS5Padding s n) mod n = 0" by (simp add: PKCS5Padding_def Let_def)
  show "PKCS5Padding s n \<noteq> []" using \<open>length s mod n < n\<close> by (auto simp: PKCS5Padding_def Let_def)
qed

text \<open>Removing the padding undoes padding.\<close>

lemma PKCS5_roundtrip:
  assumes "0 < n" and "n < 256"
  shows "PKCS5UnPadding (PKCS5Padding s n) = Ret s"
proof -
  let ?p = "n - length s mod n"
  have p: "0 < ?p" "?p < 256" using assms mod_less_divisor[of n "length s"] by linarith+
  then have "last (PKCS5Padding s n) = char_of ?p" by (simp add: PKCS5Padding_def Let_def)
  moreover have "length (PKCS5Padding s n) = length s + ?p" by (simp add: PKCS5Padding_def Let_def)
  moreover have "byte (char_of ?p) = ?p" using p(2) by (rule byte_char_of)
  moreover have "take (length s) (PKCS5Padding s n) = s" by (simp add: PKCS5Padding_def Let_def)
  ultimately show ?thesis
    using PKCS5Padding_length(2)[OF assms(1), of s] by (simp add: PKCS5UnPadding_def Let_def)
qed

lemma block_loop_roundtrip:
  assumes "block_ok b" and "length src mod blk_BlockSize b = 0"
  shows "block_loop (blk_BlockSize b) (blk_Decrypt b) (block_loop (blk_BlockSize b) (blk_Encrypt b) src) = src \<and>
    length (block_loop (blk_BlockSize b) (blk_Encrypt b) src) = length src"
  using assms(2)
proof (induction "length src" arbitrary: src rule: less_induct)
  case (less src)
  let ?n = "blk_BlockSize b"
  have n: "0 < ?n" using assms(1) by (simp add: block_ok_def)
  show ?case
  proof (cases "src = []")
    case True
    then show ?thesis by (simp add: block_loop.simps)
  next
    case False
    have le: "?n \<le> length src"
    proof (rule ccontr)
      assume "\<not> ?n \<le> length src"
      then have "length src mod ?n = length src" by (intro mod_less) simp
      with less.prems False show False by simp
    qed
    let ?x = "take ?n src" and ?rest = "drop ?n src"
    have "length ?x = ?n" using le by simp
    then have x: "length (blk_Encrypt b ?x) = ?n" "blk_Decrypt b (blk_Encrypt b ?x) = ?x"
      using assms(1) by (simp_all add: block_ok_def)
    have m: "length ?rest mod ?n = 0" using less.prems le by (simp add: le_mod_geq[symmetric])
    have "length ?rest < length src" using n False by simp
    from less.hyps[OF this m] have ih: "block_loop ?n (blk_Decrypt b) (block_loop ?n (blk_Encrypt b) ?rest) = ?rest"
      "length (block_loop ?n (blk_Encrypt b) ?rest) = length ?rest" by (rule conjunct1, rule conjunct2)
    have e: "block_loop ?n (blk_Encrypt b) src = blk_Encrypt b ?x @ block_loop ?n (blk_Encrypt b) ?rest"
      using False n block_loop.simps[of ?n "blk_Encrypt b" src] by simp
    have "blk_Encrypt b ?x \<noteq> []" using x(1) n by auto
    then have "block_loop ?n (blk_Decrypt b) (block_loop ?n (blk_Encrypt b) src) =
        blk_Decrypt b (blk_Encrypt b ?x) @ block_loop ?n (blk_Decrypt b) (block_loop ?n (blk_Encrypt b) ?rest)"
      using n x(1) block_loop.simps[of ?n "blk_Decrypt b" "blk_Encrypt b ?x @ block_loop ?n (blk_Encrypt b) ?rest"]
      unfolding e by simp
    with ih x e le show ?thesis by simp
  qed
qed

lemma aes_roundtrip:
  assumes "aes key = Inr b" and "block_ok b" and "s \<noteq> []"
  shows "\<exists>c. AesEcbPkcs5PaddingEncrypt aes s key = Inr c \<and> c \<noteq> [] \<and>
    AesEcbPkcs5PaddingDecrypt aes c key = Ret (Inr s)"
proof -
  let ?n = "blk_BlockSize b"
  have n: "0 < ?n" "?n < 256" using assms(2) by (simp_all add: block_ok_def)
  note pad = PKCS5Padding_length[OF n(1), of s]
  let ?c = "block_loop ?n (blk_Encrypt b) (PKCS5Padding s ?n)"
  have c: "block_loop ?n (blk_Decrypt b) ?c = PKCS5Padding s ?n" "length ?c = length (PKCS5Padding s ?n)"
    using block_loop_roundtrip[OF assms(2) pad(1)] by auto
  with pad have "?c \<noteq> []" "length ?c mod ?n = 0" by auto
  with assms(1,3) pad(1) c(1) PKCS5_roundtrip[OF n, of s] show ?thesis
    by (auto simp: AesEcbPkcs5PaddingEncrypt_def AesEcbPkcs5PaddingDecrypt_def BlockEncrypt_def BlockDecrypt_def)
qed

text \<open>
  A client whose key management service could not be reached when it was created keeps running with
  plugins that have no service client: the failure is logged only. From then on every publication of a
  configuration with the cipher prefix panics in the caller instead of returning an error, whichever plugin
  the data id selects.
\<close>

theorem missing_kms_client_panics:
  assumes "handlerParamCheck param = None" and "getPluginByDataIdPrefix ps (hp_DataId param) = Inr p"
  shows "EncryptionHandler aes None ps param w = Panic ''nil pointer dereference''"
proof -
  have "hp_Content param \<noteq> []" using assms(1) by (auto simp: handlerParamCheck_def split: if_split_asm)
  with assms show ?thesis
    by (cases p) (simp_all add: EncryptionHandler_def aes_generate_def base_encrypt_def keyIdParamCheck_def on_client_def)
qed

theorem missing_kms_client_panics_witness:
  "EncryptionHandler (\<lambda>key. Inl (Err [])) None (RegisterConfigEncryptionKmsPlugins [])
     \<lparr>hp_DataId = ''cipher-kms-aes-128-a'', hp_Content = ''hi'', hp_EncryptedDataKey = [], hp_PlainDataKey = [],
      hp_KeyId = []\<rparr> () = Panic ''nil pointer dereference''"
  by (rule missing_kms_client_panics[where p = KmsAes128Plugin])
    (simp_all add: handlerParamCheck_def CipherPrefix_def has_prefix_def getPluginByDataIdPrefix_def
      RegisterConfigEncryptionKmsPlugins_def RegisterPlugin_def match_plugin_def KmsAes128AlgorithmName_def
      KmsAes256AlgorithmName_def KmsAlgorithmName_def)

end
