(* ===== verification/Config_Filter.thy ===== *)
theory Config_Filter
  imports Encryption
begin

text \<open>
  \<open>common/filter\<close>: the chain of filters that every configuration passes on its way to the server and
  back, and the filter that encrypts and decrypts it. \<open>vo/config_param.go\<close> has the parameter.
\<close>

section \<open>Parameters and chains\<close>

text \<open>A callback is a number.\<close>

record ConfigParam =
  cp_DataId :: string
  cp_Group :: string
  cp_Content :: string
  cp_Tag :: string
  cp_ConfigTags :: string
  cp_AppName :: string
  cp_BetaIps :: string
  cp_CasMd5 :: string
  cp_Type :: string
  cp_SrcUser :: string
  cp_EncryptedDataKey :: string
  cp_KmsKeyId :: string
  cp_UsageType :: string
  cp_OnChange :: nat

definition zero_ConfigParam :: ConfigParam where
  "zero_ConfigParam = \<lparr>cp_DataId = [], cp_Group = [], cp_Content = [], cp_Tag = [], cp_ConfigTags = [],
     cp_AppName = [], cp_BetaIps = [], cp_CasMd5 = [], cp_Type = [], cp_SrcUser = [], cp_EncryptedDataKey = [],
     cp_KmsKeyId = [], cp_UsageType = [], cp_OnChange = 0\<rparr>"

definition RequestType :: string where "RequestType = ''RequestType''"
definition ResponseType :: string where "ResponseType = ''ResponseType''"

text \<open>A filter works on the parameter through a pointer, so what it changed before an error stays.\<close>

type_synonym 'w do_filter = "ConfigParam \<Rightarrow> 'w \<Rightarrow> ('w \<times> ConfigParam \<times> go_error option) outcome"

record 'w config_filter =
  cf_DoFilter :: "'w do_filter"
  cf_GetOrder :: int
  cf_GetFilterName :: string

type_synonym 'w filter_chain = "'w config_filter list"

fun DoFilters :: "'w filter_chain \<Rightarrow> 'w do_filter" where
  "DoFilters [] param w = Ret (w, param, None)"
| "DoFilters (f # fs) param w =
     obind (cf_DoFilter f param w) (\<lambda>(w1, param1, err).
       case err of Some e \<Rightarrow> Ret (w1, param1, Some e) | None \<Rightarrow> DoFilters fs param1 w1)"

fun DoFilterByName :: "'w filter_chain \<Rightarrow> string \<Rightarrow> 'w do_filter" where
  "DoFilterByName [] name param w = Ret (w, param, Some (Err (''cannot find the filter['' @ name @ '']'')))"
| "DoFilterByName (f # fs) name param w =
     (if cf_GetFilterName f = name then cf_DoFilter f param w else DoFilterByName fs name param w)"

text \<open>
  The position of a new filter: \<open>None\<close> when a filter of that name comes first, otherwise the first
  position with a greater order, or the end.
\<close>

fun filter_pos :: "string \<Rightarrow> int \<Rightarrow> 'w filter_chain \<Rightarrow> nat option" where
  "filter_pos name order [] = Some 0"
| "filter_pos name order (f # fs) =
     (if name = cf_GetFilterName f then None
      else if order < cf_GetOrder f then Some 0
      else map_option Suc (filter_pos name order fs))"

text \<open>
  \<open>addFilter\<close>. The first \<open>append\<close> writes into the array of the chain, whose capacity is at least its
  length, so the tail that the second one appends starts with the new filter.
\<close>

definition addFilter :: "'w config_filter \<Rightarrow> 'w filter_chain \<Rightarrow> 'w filter_chain" where
  "addFilter f c =
     (case filter_pos (cf_GetFilterName f) (cf_GetOrder f) c of
        None \<Rightarrow> c
      | Some pos \<Rightarrow>
          if pos = length c then c @ [f]
          else let array = c[pos := f]; temp = take (pos + 1) array in temp @ drop pos array)"

section \<open>The encryption filter\<close>

definition defaultConfigEncryptionFilterName :: string where
  "defaultConfigEncryptionFilterName = ''defaultConfigEncryptionFilter''"

text \<open>The check has one error, that nothing is to do; \<open>False\<close> stands for it.\<close>

definition paramCheck :: "ConfigParam \<Rightarrow> bool" where
  "paramCheck param \<longleftrightarrow>
     \<not> (\<not> has_prefix (cp_DataId param) CipherPrefix \<or> length (trim_space (cp_Content param)) = 0)"

definition encryption_DoFilter ::
  "(string \<Rightarrow> Block result) \<Rightarrow> 'w KmsClient option \<Rightarrow> plugins \<Rightarrow> 'w do_filter" where
  "encryption_DoFilter aes kms ps param w =
     (if \<not> paramCheck param then Ret (w, param, None)
      else if cp_UsageType param = RequestType
      then obind (EncryptionHandler aes kms ps
                   \<lparr>hp_DataId = cp_DataId param, hp_Content = cp_Content param, hp_EncryptedDataKey = [],
                    hp_PlainDataKey = [], hp_KeyId = cp_KmsKeyId param\<rparr> w) (\<lambda>(w1, r).
             case r of
               Inl err \<Rightarrow> Ret (w1, param, Some err)
             | Inr e \<Rightarrow> Ret (w1, param\<lparr>cp_Content := hp_Content e, cp_EncryptedDataKey := hp_EncryptedDataKey e\<rparr>, None))
      else if cp_UsageType param = ResponseType
      then obind (DecryptionHandler aes kms ps
                   \<lparr>hp_DataId = cp_DataId param, hp_Content = cp_Content param,
                    hp_EncryptedDataKey = cp_EncryptedDataKey param, hp_PlainDataKey = [], hp_KeyId = []\<rparr> w) (\<lambda>(w1, r).
             case r of
               Inl err \<Rightarrow> Ret (w1, param, Some err)
             | Inr d \<Rightarrow> Ret (w1, param\<lparr>cp_Content := hp_Content d\<rparr>, None))
      else Ret (w, param, None))"

definition NewDefaultConfigEncryptionFilter ::
  "(string \<Rightarrow> Block result) \<Rightarrow> 'w KmsClient option \<Rightarrow> plugins \<Rightarrow> 'w config_filter" where
  "NewDefaultConfigEncryptionFilter aes kms ps = \<lparr>cf_DoFilter = encryption_DoFilter aes kms ps, cf_GetOrder = 0,
     cf_GetFilterName = defaultConfigEncryptionFilterName\<rparr>"

section \<open>Encryption and decryption\<close>

text \<open>
  What the key management service promises: it decrypts what it encrypted, data keys included, and a data
  key is printable and is the base 64 text of a key of the cipher.
\<close>

definition kms_ok :: "(string \<Rightarrow> Block result) \<Rightarrow> 'w KmsClient \<Rightarrow> bool" where
  "kms_ok aes k \<longleftrightarrow>
     (\<forall>keyId spec w w1 plain enc. kc_GenerateDataKey k keyId spec w = (w1, Inr (plain, enc)) \<longrightarrow>
        plain \<noteq> [] \<and> enc \<noteq> [] \<and> (\<forall>w. \<exists>w'. kc_Decrypt k enc w = (w', Inr plain)) \<and>
        (\<exists>key b. valid_utf8 plain \<and> DecodeBase64 plain = Inr key \<and> aes key = Inr b \<and> block_ok b)) \<and>
     (\<forall>content keyId w w1 c. kc_Encrypt k content keyId w = (w1, Inr c) \<longrightarrow>
        trim_space c \<noteq> [] \<and> (\<forall>w. \<exists>w'. kc_Decrypt k c w = (w', Inr content)))"

lemma graphic_b64: "c \<in> set (b64_encode bs) \<Longrightarrow> graphic c"
proof (induction bs rule: b64_encode.induct)
  case (2 x)
  then show ?case by (auto simp: graphic_def byte_b64_char)
next
  case (3 x y)
  then show ?case by (auto simp: graphic_def byte_b64_char)
next
  case (4 x y z rest)
  then show ?case by (auto simp: graphic_def byte_b64_char)
qed simp

lemma b64_encode_Nil_iff [simp]: "b64_encode bs = [] \<longleftrightarrow> bs = []"
  by (cases bs rule: b64_encode.cases) auto

lemma trim_b64: "trim_space (b64_encode bs) = b64_encode bs"
proof (cases "bs = []")
  case False
  then have "b64_encode bs \<noteq> []" by simp
  then show ?thesis using graphic_b64 by (intro trim_space_graphic) (blast dest: hd_in_set last_in_set)+
qed simp

lemma aes_plugin_roundtrip:
  assumes "valid_utf8 plain" and "DecodeBase64 plain = Inr key" and "aes key = Inr b" and "block_ok b"
    and "plain \<noteq> []" and "valid_utf8 content" and "content \<noteq> []"
  shows "\<exists>c. trim_space c \<noteq> [] \<and>
    (\<forall>p. hp_PlainDataKey p = plain \<longrightarrow> hp_Content p = content \<longrightarrow> aes_encrypt aes p = Inr (p\<lparr>hp_Content := c\<rparr>)) \<and>
    (\<forall>p. hp_PlainDataKey p = plain \<longrightarrow> hp_Content p = c \<longrightarrow> aes_decrypt aes p = Ret (Inr (p\<lparr>hp_Content := content\<rparr>)))"
proof -
  obtain e where e: "AesEcbPkcs5PaddingEncrypt aes content key = Inr e" "e \<noteq> []"
    "AesEcbPkcs5PaddingDecrypt aes e key = Ret (Inr content)"
    using aes_roundtrip[where aes = aes and key = key and b = b and s = content] assms by blast
  let ?c = "b64_encode e"
  have v: "valid_utf8 ?c" by (rule valid_utf8_ascii) (rule b64_encode_ascii)
  show ?thesis
  proof (intro exI[of _ ?c] conjI allI impI)
    show "trim_space ?c \<noteq> []" using e(2) by (simp add: trim_b64)
    fix p :: HandlerParam
    assume p: "hp_PlainDataKey p = plain" "hp_Content p = content"
    show "aes_encrypt aes p = Inr (p\<lparr>hp_Content := ?c\<rparr>)"
      using p assms e(1) v by (simp add: aes_encrypt_def encryptionParamCheck_def DecodeString2Utf8Bytes_valid
          EncodeBase64_def EncodeUtf8Bytes2String_valid)
  next
    fix p :: HandlerParam
    assume p: "hp_PlainDataKey p = plain" "hp_Content p = ?c"
    show "aes_decrypt aes p = Ret (Inr (p\<lparr>hp_Content := content\<rparr>))"
      using p assms e(2,3) v by (simp add: aes_decrypt_def encryptionParamCheck_def DecodeString2Utf8Bytes_valid
          DecodeBase64_Encode EncodeUtf8Bytes2String_valid)
  qed
qed

lemma aes_generate_result:
  assumes "aes_generate (Some k) spec param w = Ret (w1, param1, Inr plain)"
  obtains keyId enc where "kc_GenerateDataKey k keyId spec w = (w1, Inr (plain, enc))"
    "param1 = param\<lparr>hp_PlainDataKey := plain, hp_EncryptedDataKey := enc\<rparr>"
  using assms
  by (auto simp: aes_generate_def on_client_def Let_def elim!: obind_RetE
      split: sum.split_asm prod.split_asm if_split_asm)

lemma base_encrypt_result:
  assumes "base_encrypt (Some k) param w = Ret (w1, Inr e)"
  obtains keyId c where "kc_Encrypt k (hp_Content param) keyId w = (w1, Inr c)" "e = param\<lparr>hp_Content := c\<rparr>"
  using assms
  by (auto simp: base_encrypt_def on_client_def elim!: obind_RetE split: sum.split_asm prod.split_asm if_split_asm)

lemma aes_handler_roundtrip:
  assumes "kms_ok aes k" and "aes_generate (Some k) spec param w = Ret (w1, param1, Inr plain)"
    and "aes_encrypt aes (param1\<lparr>hp_PlainDataKey := plain\<rparr>) = Inr e"
    and "valid_utf8 (hp_Content param)" and "hp_Content param \<noteq> []"
  shows "trim_space (hp_Content e) \<noteq> [] \<and>
    (\<forall>p w. hp_Content p = hp_Content e \<longrightarrow> hp_EncryptedDataKey p = hp_EncryptedDataKey e \<longrightarrow>
      (\<exists>w' p'. aes_decrypt_key (Some k) p w = Ret (w', p', Inr plain) \<and>
         aes_decrypt aes (p'\<lparr>hp_PlainDataKey := plain\<rparr>) =
           Ret (Inr (p\<lparr>hp_PlainDataKey := plain, hp_Content := hp_Content param\<rparr>))))"
proof -
  obtain keyId enc where g: "kc_GenerateDataKey k keyId spec w = (w1, Inr (plain, enc))"
    "param1 = param\<lparr>hp_PlainDataKey := plain, hp_EncryptedDataKey := enc\<rparr>"
    using aes_generate_result[OF assms(2)] by blast
  then have kms: "plain \<noteq> []" "enc \<noteq> []" "\<And>w. \<exists>w'. kc_Decrypt k enc w = (w', Inr plain)"
    "\<exists>key b. valid_utf8 plain \<and> DecodeBase64 plain = Inr key \<and> aes key = Inr b \<and> block_ok b"
    using assms(1) unfolding kms_ok_def by metis+
  then obtain key b where key: "valid_utf8 plain" "DecodeBase64 plain = Inr key" "aes key = Inr b" "block_ok b" by blast
  obtain c where c: "trim_space c \<noteq> []"
    "\<And>p. hp_PlainDataKey p = plain \<Longrightarrow> hp_Content p = hp_Content param \<Longrightarrow> aes_encrypt aes p = Inr (p\<lparr>hp_Content := c\<rparr>)"
    "\<And>p. hp_PlainDataKey p = plain \<Longrightarrow> hp_Content p = c \<Longrightarrow>
       aes_decrypt aes p = Ret (Inr (p\<lparr>hp_Content := hp_Content param\<rparr>))"
    using aes_plugin_roundtrip[OF key(1,2) _ key(4) kms(1) assms(4,5), of aes] key(3) by blast
  have e: "hp_Content e = c" "hp_EncryptedDataKey e = enc"
    using c(2)[of "param1\<lparr>hp_PlainDataKey := plain\<rparr>"] assms(3) g(2) by auto
  show ?thesis
  proof (intro conjI allI impI)
    fix p :: HandlerParam and w
    assume p: "hp_Content p = hp_Content e" "hp_EncryptedDataKey p = hp_EncryptedDataKey e"
    obtain w' where "kc_Decrypt k enc w = (w', Inr plain)" using kms(3) by blast
    then have "aes_decrypt_key (Some k) p w = Ret (w', p\<lparr>hp_PlainDataKey := plain\<rparr>, Inr plain)"
      using p e kms(1,2) by (simp add: aes_decrypt_key_def on_client_def)
    moreover have "aes_decrypt aes (p\<lparr>hp_PlainDataKey := plain\<rparr>) =
        Ret (Inr (p\<lparr>hp_PlainDataKey := plain, hp_Content := hp_Content param\<rparr>))"
      using c(3)[of "p\<lparr>hp_PlainDataKey := plain\<rparr>"] p e by simp
    ultimately show "\<exists>w' p'. aes_decrypt_key (Some k) p w = Ret (w', p', Inr plain) \<and>
         aes_decrypt aes (p'\<lparr>hp_PlainDataKey := plain\<rparr>) =
           Ret (Inr (p\<lparr>hp_PlainDataKey := plain, hp_Content := hp_Content param\<rparr>))" by simp
  qed (simp add: e c(1))
qed

lemma handler_roundtrip:
  assumes "kms_ok aes k" and "EncryptionHandler aes (Some k) ps param w = Ret (w1, Inr e)"
    and "valid_utf8 (hp_Content param)"
    and "hp_DataId p = hp_DataId param" and "hp_Content p = hp_Content e"
    and "hp_EncryptedDataKey p = hp_EncryptedDataKey e"
  shows "trim_space (hp_Content e) \<noteq> [] \<and>
    (\<exists>w' d. DecryptionHandler aes (Some k) ps p w2 = Ret (w', Inr d) \<and> hp_Content d = hp_Content param)"
proof -
  obtain pl w0 param1 plain where
    chk: "handlerParamCheck param = None" and pl: "getPluginByDataIdPrefix ps (hp_DataId param) = Inr pl"
    and gen: "GenerateSecretKey (Some k) pl param w = Ret (w0, param1, Inr plain)"
    and enc: "plugin_Encrypt aes (Some k) pl (param1\<lparr>hp_PlainDataKey := plain\<rparr>) w0 = Ret (w1, Inr e)"
    using assms(2) unfolding EncryptionHandler_def
    by (auto elim!: obind_RetE split: option.split_asm sum.split_asm prod.split_asm)
  have ne: "hp_Content param \<noteq> []" using chk by (auto simp: handlerParamCheck_def split: if_split_asm)
  have chk': "handlerParamCheck p = None" if "hp_Content e \<noteq> []"
    using chk assms(4,5) that by (auto simp: handlerParamCheck_def split: if_split_asm)
  have dec: "DecryptionHandler aes (Some k) ps p w2 = obind (DecryptSecretKey (Some k) pl p w2) (\<lambda>(w1, param1, r).
      case r of Inl err \<Rightarrow> Ret (w1, Inl err) | Inr plain \<Rightarrow> plugin_Decrypt aes (Some k) pl (param1\<lparr>hp_PlainDataKey := plain\<rparr>) w1)"
    if "hp_Content e \<noteq> []"
    using chk'[OF that] pl assms(4) by (simp add: DecryptionHandler_def)
  have trim: "trim_space c \<noteq> [] \<Longrightarrow> c \<noteq> []" for c by auto
  show ?thesis
  proof (cases "pl = KmsBasePlugin")
    case True
    with gen enc have "base_encrypt (Some k) (param\<lparr>hp_PlainDataKey := []\<rparr>) w = Ret (w1, Inr e)" by simp
    then obtain keyId c where c: "kc_Encrypt k (hp_Content param) keyId w = (w1, Inr c)" "hp_Content e = c"
      by (auto elim!: base_encrypt_result)
    then have t: "trim_space c \<noteq> []" and d: "\<exists>w'. kc_Decrypt k c w2 = (w', Inr (hp_Content param))"
      using assms(1) unfolding kms_ok_def by metis+
    have "hp_Content e \<noteq> []" using trim[OF t] c(2) by simp
    with dec d c(2) t True assms(5) show ?thesis by (auto simp: base_decrypt_def on_client_def)
  next
    case False
    then obtain spec where g: "aes_generate (Some k) spec param w = Ret (w0, param1, Inr plain)"
      using gen by (cases pl) auto
    have e: "aes_encrypt aes (param1\<lparr>hp_PlainDataKey := plain\<rparr>) = Inr e" and w: "w0 = w1"
      using False enc by (cases pl; simp)+
    note rt = aes_handler_roundtrip[OF assms(1) g e assms(3) ne]
    then have t: "trim_space (hp_Content e) \<noteq> []" by simp
    obtain w' p' where "aes_decrypt_key (Some k) p w2 = Ret (w', p', Inr plain)"
      "aes_decrypt aes (p'\<lparr>hp_PlainDataKey := plain\<rparr>) =
         Ret (Inr (p\<lparr>hp_PlainDataKey := plain, hp_Content := hp_Content param\<rparr>))"
      using rt assms(5,6) by blast
    with dec[OF trim[OF t]] t False show ?thesis by (cases pl) auto
  qed
qed

text \<open>
  C32: What the encryption filter has encrypted for the server, it decrypts when it comes back. For every
  data id with the cipher prefix, whichever plugin it selects, and for every content that is valid UTF-8
  and not blank: if the filter accepts the content of a publication, then the content and the encrypted
  data key it produces give the content back.
\<close>

theorem encryption_roundtrip:
  assumes "kms_ok aes k" and "has_prefix (cp_DataId param) CipherPrefix"
    and "valid_utf8 (cp_Content param)" and "trim_space (cp_Content param) \<noteq> []"
    and "cp_UsageType param = RequestType"
    and "DoFilters [NewDefaultConfigEncryptionFilter aes (Some k) ps] param w = Ret (w1, param1, None)"
    and "cp_DataId received = cp_DataId param" and "cp_Content received = cp_Content param1"
    and "cp_EncryptedDataKey received = cp_EncryptedDataKey param1" and "cp_UsageType received = ResponseType"
  shows "\<exists>w3. DoFilters [NewDefaultConfigEncryptionFilter aes (Some k) ps] received w2 =
    Ret (w3, received\<lparr>cp_Content := cp_Content param\<rparr>, None)"
proof -
  let ?hp = "\<lparr>hp_DataId = cp_DataId param, hp_Content = cp_Content param, hp_EncryptedDataKey = [],
    hp_PlainDataKey = [], hp_KeyId = cp_KmsKeyId param\<rparr>"
  have chk: "paramCheck param" using assms(2,4) by (simp add: paramCheck_def)
  obtain e where e: "EncryptionHandler aes (Some k) ps ?hp w = Ret (w1, Inr e)"
    "param1 = param\<lparr>cp_Content := hp_Content e, cp_EncryptedDataKey := hp_EncryptedDataKey e\<rparr>"
    using assms(5,6) chk
    by (auto simp: NewDefaultConfigEncryptionFilter_def encryption_DoFilter_def elim!: obind_RetE
        split: sum.split_asm option.split_asm)
  let ?p = "\<lparr>hp_DataId = cp_DataId received, hp_Content = cp_Content received,
    hp_EncryptedDataKey = cp_EncryptedDataKey received, hp_PlainDataKey = [], hp_KeyId = []\<rparr>"
  have "trim_space (hp_Content e) \<noteq> []" and
    "\<exists>w' d. DecryptionHandler aes (Some k) ps ?p w2 = Ret (w', Inr d) \<and> hp_Content d = cp_Content param"
    using handler_roundtrip[OF assms(1) e(1), of ?p w2] assms(3,7-9) e(2) by simp_all
  moreover from this(1) have "paramCheck received" using assms(2,7,8) e(2) by (simp add: paramCheck_def)
  moreover have "RequestType \<noteq> ResponseType" by (simp add: RequestType_def ResponseType_def)
  ultimately show ?thesis
    using assms(10) by (auto simp: NewDefaultConfigEncryptionFilter_def encryption_DoFilter_def)
qed

text \<open>An example: a service that frames what it encrypts.\<close>

definition demo_aes :: "string \<Rightarrow> Block result" where
  "demo_aes key = Inr \<lparr>blk_BlockSize = 16, blk_Encrypt = rev, blk_Decrypt = rev\<rparr>"

definition demo_kms :: "unit KmsClient" where
  "demo_kms = \<lparr>kc_Decrypt = (\<lambda>c w. (w, Inr (if c = ''E'' then b64_encode ''0123456789abcdef'' else butlast (tl c)))),
     kc_Encrypt = (\<lambda>content keyId w. (w, Inr (''F'' @ content @ ''F''))),
     kc_GenerateDataKey = (\<lambda>keyId spec w. (w, Inr (b64_encode ''0123456789abcdef'', ''E''))),
     kc_GetKmsVersion = KMSv1\<rparr>"

lemma demo_kms_ok: "kms_ok demo_aes demo_kms"
proof -
  have b: "block_ok \<lparr>blk_BlockSize = 16, blk_Encrypt = rev, blk_Decrypt = rev\<rparr>" by (simp add: block_ok_def)
  have v: "valid_utf8 (b64_encode s)" for s by (rule valid_utf8_ascii) (rule b64_encode_ascii)
  have t: "trim_space (''F'' @ c @ ''F'') \<noteq> []" for c
    by (subst trim_space_graphic) (simp_all add: graphic_def)
  have ne: "b64_encode ''0123456789abcdef'' \<noteq> []" by (simp only: b64_encode_Nil_iff) simp
  show ?thesis
    unfolding kms_ok_def demo_kms_def demo_aes_def using b v t ne
    by (auto simp: DecodeBase64_Encode simp del: b64_encode.simps)
qed

definition demo_publish :: ConfigParam where
  "demo_publish = zero_ConfigParam\<lparr>cp_DataId := ''cipher-x'', cp_Content := ''hi'', cp_KmsKeyId := ''k'',
     cp_UsageType := RequestType\<rparr>"

lemma demo_plugin: "getPluginByDataIdPrefix (RegisterConfigEncryptionKmsPlugins []) ''cipher-x'' = Inr KmsBasePlugin"
  by (simp add: getPluginByDataIdPrefix_def RegisterConfigEncryptionKmsPlugins_def RegisterPlugin_def
      KmsAes128AlgorithmName_def KmsAes256AlgorithmName_def KmsAlgorithmName_def match_plugin_def has_prefix_def)

lemma demo_trim: "trim_space ''hi'' = ''hi''" "trim_space ''k'' = ''k''"
  by (rule trim_space_graphic; simp add: graphic_def)+

lemma demo_encrypted:
  "DoFilters [NewDefaultConfigEncryptionFilter demo_aes (Some demo_kms) (RegisterConfigEncryptionKmsPlugins [])]
     demo_publish () = Ret ((), demo_publish\<lparr>cp_Content := ''FhiF'', cp_EncryptedDataKey := []\<rparr>, None)"
  by (simp add: NewDefaultConfigEncryptionFilter_def encryption_DoFilter_def demo_publish_def zero_ConfigParam_def
      paramCheck_def demo_trim has_prefix_def CipherPrefix_def EncryptionHandler_def handlerParamCheck_def
      demo_plugin base_encrypt_def keyIdParamCheck_def on_client_def demo_kms_def)

theorem encryption_roundtrip_witness:
  "\<exists>w. DoFilters [NewDefaultConfigEncryptionFilter demo_aes (Some demo_kms) (RegisterConfigEncryptionKmsPlugins [])]
     (zero_ConfigParam\<lparr>cp_DataId := ''cipher-x'', cp_Content := ''FhiF'', cp_UsageType := ResponseType\<rparr>) () =
   Ret (w, zero_ConfigParam\<lparr>cp_DataId := ''cipher-x'', cp_Content := ''FhiF'', cp_UsageType := ResponseType,
     cp_Content := ''hi''\<rparr>, None)"
proof -
  have "valid_utf8 ''hi''" by (rule valid_utf8_ascii) auto
  then show ?thesis
    using encryption_roundtrip[OF demo_kms_ok _ _ _ _ demo_encrypted,
        of "zero_ConfigParam\<lparr>cp_DataId := ''cipher-x'', cp_Content := ''FhiF'', cp_UsageType := ResponseType\<rparr>" "()"]
    by (simp add: demo_publish_def zero_ConfigParam_def has_prefix_def CipherPrefix_def demo_trim)
qed

section \<open>Adding filters\<close>

lemma filter_pos_le: "filter_pos name order c = Some pos \<Longrightarrow> pos \<le> length c"
  by (induction c arbitrary: pos) (auto split: if_split_asm)

text \<open>
  A filter whose order is greater than those in the chain is put at its end. Any other filter is put
  in twice, and takes the place of the first filter with a greater order, which is lost.
\<close>

theorem add_filter_overwrites:
  assumes "filter_pos (cf_GetFilterName f) (cf_GetOrder f) c = Some pos"
  shows "(pos = length c \<longrightarrow> addFilter f c = c @ [f]) \<and>
    (pos \<noteq> length c \<longrightarrow> addFilter f c = take pos c @ [f, f] @ drop (pos + 1) c \<and>
       (distinct c \<and> f \<noteq> c ! pos \<longrightarrow> c ! pos \<notin> set (addFilter f c)))"
proof (cases "pos = length c")
  case True
  with assms show ?thesis by (simp add: addFilter_def)
next
  case False
  then have lt: "pos < length c" using filter_pos_le[OF assms] by simp
  then have "addFilter f c = take (pos + 1) (c[pos := f]) @ drop pos (c[pos := f])"
    using assms by (simp add: addFilter_def Let_def)
  also have "take (pos + 1) (c[pos := f]) = take pos c @ [f]" using lt by (simp add: take_Suc_conv_app_nth)
  also have "drop pos (c[pos := f]) = f # drop (pos + 1) c"
    using lt by (simp add: Cons_nth_drop_Suc[symmetric])
  finally have eq: "addFilter f c = take pos c @ [f, f] @ drop (pos + 1) c" by simp
  have "c ! pos \<notin> set (take pos c) \<and> c ! pos \<notin> set (drop (pos + 1) c)" if "distinct c"
  proof -
    have "distinct (take pos c @ c ! pos # drop (pos + 1) c)" using that lt by (simp add: id_take_nth_drop[symmetric])
    then show ?thesis by simp
  qed
  with eq False show ?thesis by auto
qed

definition demo_filter :: "string \<Rightarrow> int \<Rightarrow> unit config_filter" where
  "demo_filter name order = \<lparr>cf_DoFilter = (\<lambda>p w. Ret (w, p, None)), cf_GetOrder = order, cf_GetFilterName = name\<rparr>"

theorem add_filter_overwrites_witness:
  "addFilter (demo_filter ''a'' 0) [demo_filter ''b'' 1] = [demo_filter ''a'' 0, demo_filter ''a'' 0]"
  using add_filter_overwrites[of "demo_filter ''a'' 0" "[demo_filter ''b'' 1]" 0] by (simp add: demo_filter_def)

end
