(* ===== verification/Config_Proxy.thy ===== *)
theory Config_Proxy
  imports Config_Filter Disk_Cache Concurrent_Map Rpc_Labels
begin

text \<open>
  \<open>clients/config_client/config_proxy.go\<close> and \<open>limiter.go\<close>: the requests of the configuration client, the
  limit on its queries, the snapshots a query leaves on the disk, the search over HTTP, and the rpc client of
  a task.

  What the proxy calls is in \<open>config_env\<close>: the request on the rpc client of a task, the security information,
  the clock, the MD5 hash, the file system's environment and the limiter of \<open>golang.org/x/time/rate\<close> (the limiter
  \<open>NewLimiter\<close> makes, and \<open>AllowN\<close>, which changes it). The world \<open>'w\<close> holds whatever these change.
\<close>

section \<open>Constants\<close>

definition CLIENT_APPNAME_HEADER :: string where "CLIENT_APPNAME_HEADER = ''Client-AppName''"
definition APPNAME_HEADER :: string where "APPNAME_HEADER = ''AppName''"
definition CLIENT_REQUEST_TS_HEADER :: string where "CLIENT_REQUEST_TS_HEADER = ''Client-RequestTS''"
definition CLIENT_REQUEST_TOKEN_HEADER :: string where "CLIENT_REQUEST_TOKEN_HEADER = ''Client-RequestToken''"
definition EX_CONFIG_INFO :: string where "EX_CONFIG_INFO = ''exConfigInfo''"
definition CHARSET_KEY :: string where "CHARSET_KEY = ''charset''"
definition LABEL_SOURCE :: string where "LABEL_SOURCE = ''source''"
definition LABEL_SOURCE_SDK :: string where "LABEL_SOURCE_SDK = ''sdk''"
definition LABEL_MODULE :: string where "LABEL_MODULE = ''module''"
definition LABEL_MODULE_CONFIG :: string where "LABEL_MODULE_CONFIG = ''config''"

section \<open>State\<close>

record ('w, 'l) config_env =
  ce_rq :: "string \<Rightarrow> IRequest \<Rightarrow> int \<Rightarrow> 'w \<Rightarrow> 'w \<times> IResponse result"
  ce_sec :: "RequestResource \<Rightarrow> params outcome"
  ce_nanos :: "'w \<Rightarrow> int"
  ce_md5 :: "string \<Rightarrow> string"
  ce_io :: io_env
  ce_NewLimiter :: 'l
  ce_AllowN :: "'l \<Rightarrow> int \<Rightarrow> 'l \<times> bool"

record ('w, 'l) config_state =
  cs_clientConfig :: ClientConfig
  cs_limiters :: "'l ConcurrentMap"
  cs_fs :: fs
  cs_world :: 'w

section \<open>Limiter\<close>

definition IsLimited ::
  "('w, 'l) config_env \<Rightarrow> string \<Rightarrow> ('w, 'l, 'z) config_state_scheme \<Rightarrow> ('w, 'l, 'z) config_state_scheme \<times> bool" where
  "IsLimited env checkKey st =
     (let limiter = (case cm_Get (cs_limiters st) checkKey of None \<Rightarrow> ce_NewLimiter env | Some lm \<Rightarrow> lm);
          add = ce_nanos env (cs_world st) + 1000000000;
          (limiter', allowed) = ce_AllowN env limiter add
      in (st\<lparr>cs_limiters := cm_Set (cs_limiters st) checkKey limiter'\<rparr>, \<not> allowed))"

section \<open>Requests\<close>

definition Md5 :: "('w, 'l) config_env \<Rightarrow> string \<Rightarrow> string" where
  "Md5 env content = (if content \<noteq> [] then ce_md5 env content else [])"

definition injectCommHeader :: "('w, 'l) config_env \<Rightarrow> ClientConfig \<Rightarrow> 'w \<Rightarrow> params \<Rightarrow> params" where
  "injectCommHeader env clientConfig w param =
     (let now = itoa (ce_nanos env w div 1000000)
      in put_all param
           [(CLIENT_APPNAME_HEADER, cl_AppName clientConfig), (CLIENT_REQUEST_TS_HEADER, now),
            (CLIENT_REQUEST_TOKEN_HEADER, Md5 env (now @ cl_AppKey clientConfig)), (EX_CONFIG_INFO, ''true''),
            (CHARSET_KEY, ''utf-8'')])"

definition requestProxy ::
  "('w, 'l) config_env \<Rightarrow> string \<Rightarrow> IRequest \<Rightarrow> int \<Rightarrow> ('w, 'l, 'z) config_state_scheme \<Rightarrow>
   (('w, 'l, 'z) config_state_scheme \<times> IResponse result) outcome" where
  "requestProxy env taskId request timeoutMills st =
     obind (InjectSecurityInfo (ce_sec env) (slice (GetHeaders request)) (BuildConfigResourceByRequest request))
       (\<lambda>hs. let hs' = injectCommHeader env (cs_clientConfig st) (cs_world st) hs;
                 (w, response) = ce_rq env taskId (set_headers (Some hs') request) timeoutMills (cs_world st)
             in Ret (st\<lparr>cs_world := w\<rparr>, response))"

text \<open>The snapshot of a configuration: its content and its data key.\<close>

definition write_snapshot ::
  "('w, 'l) config_env \<Rightarrow> string \<Rightarrow> string \<Rightarrow> string \<Rightarrow> ('w, 'l, 'z) config_state_scheme \<Rightarrow>
   ('w, 'l, 'z) config_state_scheme" where
  "write_snapshot env cacheKey content encryptedDataKey st =
     (let dir = cl_CacheDir (cs_clientConfig st);
          s1 = fst (WriteConfigToFile (ce_io env) (cs_fs st) cacheKey dir content)
      in st\<lparr>cs_fs := fst (WriteEncryptedDataKeyToFile (ce_io env) s1 cacheKey dir encryptedDataKey)\<rparr>)"

definition query_result ::
  "('w, 'l) config_env \<Rightarrow> string \<Rightarrow> string \<Rightarrow> string \<Rightarrow> IResponse \<Rightarrow> ('w, 'l, 'z) config_state_scheme \<Rightarrow>
   ('w, 'l, 'z) config_state_scheme \<times> (Response \<times> ConfigQueryBody) result" where
  "query_result env dataId grp tenant iResponse st =
     (let cacheKey = GetConfigCacheKey dataId grp tenant
      in case iResponse of
           ConfigQueryResponse b body \<Rightarrow>
             if rs_Success b
             then (write_snapshot env cacheKey (qb_Content body) (qb_EncryptedDataKey body) st,
                   Inr (b, if qb_ContentType body = [] then body\<lparr>qb_ContentType := ''text''\<rparr> else body))
             else if rs_ErrorCode b = 300
             then (write_snapshot env cacheKey [] [] st, Inr (b\<lparr>rs_Success := True\<rparr>, body))
             else if rs_ErrorCode b = 400
             then (st, Inl (Err (''data being modified, dataId='' @ dataId @ '',group='' @ grp @ '',tenant='' @ tenant)))
             else (st, Inr (b, body))
         | _ \<Rightarrow> (st, Inl (Err ''ConfigQueryRequest returns type error'')))"

definition query_request :: "string \<Rightarrow> string \<Rightarrow> string \<Rightarrow> bool \<Rightarrow> IRequest" where
  "query_request dataId grp tenant notify =
     (let request = NewConfigQueryRequest grp dataId tenant
      in set_headers (Some (AList.update ''notify'' (if notify then ''true'' else ''false'')
                              (slice (GetHeaders request)))) request)"

definition queryConfig ::
  "('w, 'l) config_env \<Rightarrow> string \<Rightarrow> string \<Rightarrow> string \<Rightarrow> int \<Rightarrow> bool \<Rightarrow> ('w, 'l, 'z) config_state_scheme \<Rightarrow>
   (('w, 'l, 'z) config_state_scheme \<times> (Response \<times> ConfigQueryBody) result) outcome" where
  "queryConfig env dataId grp0 tenant timeout notify st =
     (let grp = (if grp0 = [] then DEFAULT_GROUP else grp0)
      in case IsLimited env (GetConfigCacheKey dataId grp tenant) st of
           (st1, True) \<Rightarrow> Ret (st1, Inl (Err ''ConfigQueryRequest is limited''))
         | (st1, False) \<Rightarrow>
             obind (requestProxy env ''0'' (query_request dataId grp tenant notify) timeout st1) (\<lambda>(st2, r).
               case r of
                 Inl err \<Rightarrow> Ret (st2, Inl err)
               | Inr iResponse \<Rightarrow> Ret (query_result env dataId grp tenant iResponse st2)))"

section \<open>Search\<close>

text \<open>
  \<open>util/object2param.go\<close>: the tagged fields of a struct. A map is its JSON text when it is not nil and can be
  marshalled, a slice of another type than \<open>[]string\<close> and every other kind is \<open>FOther\<close>; \<open>FNumber\<close> has the
  decimal form of the value.
\<close>

datatype field_value =
    FNumber string
  | FBool bool
  | FString string
  | FMap "string option"
  | FSlice "string list"
  | FOther

definition slice_param :: "string list \<Rightarrow> string" where
  "slice_param ss =
     (let pv = concat (map (\<lambda>sv. sv @ '','') ss)
      in if has_suffix pv '','' then butlast pv else pv)"

fun field_param :: "field_value \<Rightarrow> string option" where
  "field_param (FNumber n) = Some n"
| "field_param (FBool b) = Some (if b then ''true'' else ''false'')"
| "field_param (FString s) = (if length s > 0 then Some s else None)"
| "field_param (FMap js) = js"
| "field_param (FSlice ss) = (if length (slice_param ss) > 0 then Some (slice_param ss) else None)"
| "field_param FOther = None"

fun TransformObject2Param_loop :: "(string \<times> field_value) list \<Rightarrow> params \<Rightarrow> params" where
  "TransformObject2Param_loop [] params = params"
| "TransformObject2Param_loop ((tag, v) # rest) params =
     TransformObject2Param_loop rest
       (if length tag > 0 \<and> tag \<noteq> ''-''
        then (case field_param v of None \<Rightarrow> params | Some s \<Rightarrow> AList.update tag s params) else params)"

definition TransformObject2Param :: "(string \<times> field_value) list \<Rightarrow> params" where
  "TransformObject2Param object = TransformObject2Param_loop object []"

record SearchConfigParam =
  sp_Search :: string
  sp_DataId :: string
  sp_Group :: string
  sp_Tag :: string
  sp_AppName :: string
  sp_PageNo :: int
  sp_PageSize :: int

definition search_fields :: "SearchConfigParam \<Rightarrow> (string \<times> field_value) list" where
  "search_fields p =
     [(''search'', FString (sp_Search p)), (''dataId'', FString (sp_DataId p)), (''group'', FString (sp_Group p)),
      (''tag'', FString (sp_Tag p)), (''appName'', FString (sp_AppName p)),
      (''pageNo'', FNumber (itoa (sp_PageNo p))), (''pageSize'', FNumber (itoa (sp_PageSize p)))]"

record ConfigItem =
  ci_Id :: string
  ci_DataId :: string
  ci_Group :: string
  ci_Content :: string
  ci_Md5 :: string
  ci_Tenant :: string
  ci_Appname :: string

record ConfigPage =
  pg_TotalCount :: int
  pg_PageNumber :: int
  pg_PagesAvailable :: int
  pg_PageItems :: "ConfigItem list"

text \<open>
  The parameters of the search: the HTTP client, the random start index of each of the two requests, and the
  JSON decoder for a page and for the answer of the newer server, whose \<open>Data\<close> is a page.
\<close>

record ('w, 'c) search_env =
  se_http :: "'w http"
  se_uid :: "'w uid"
  se_sec :: "RequestResource \<Rightarrow> params outcome"
  se_first :: nat
  se_second :: nat
  se_server :: "'c NacosServer"
  se_page :: "string \<Rightarrow> ConfigPage result"
  se_page_data :: "string \<Rightarrow> ConfigPage result"

text \<open>\<open>ReqConfigApi\<close> puts the security information into the map of its caller.\<close>

definition injected_params :: "('w, 'c) search_env \<Rightarrow> params \<Rightarrow> params" where
  "injected_params se params =
     (if length (GetServerList (se_server se)) = 0 then params
      else case InjectSecurityInfo (se_sec se) params
                  (BuildConfigResource (get_or_empty params ''tenant'') (get_or_empty params ''group'')
                     (get_or_empty params ''dataId'')) of
             Panic e \<Rightarrow> params
           | Ret params' \<Rightarrow> params')"

definition search_params :: "SearchConfigParam \<Rightarrow> string \<Rightarrow> params" where
  "search_params param tenant =
     (let p0 = TransformObject2Param (search_fields param);
          p1 = (if length tenant > 0 then AList.update ''tenant'' tenant p0 else p0);
          p2 = (if map_of p1 ''group'' = None then AList.update ''group'' [] p1 else p1)
      in if map_of p2 ''dataId'' = None then AList.update ''dataId'' [] p2 else p2)"

definition searchConfigProxy ::
  "('w, 'c) search_env \<Rightarrow> u64 \<Rightarrow> SearchConfigParam \<Rightarrow> string \<Rightarrow> 'w \<Rightarrow> ('w \<times> ConfigPage result) outcome" where
  "searchConfigProxy se timeoutMs param tenant w =
     (let params = search_params param tenant;
          req = (\<lambda>r api p. ReqConfigApi (se_http se) (se_uid se) (se_sec se) r (se_server se) api p [] ''GET'' timeoutMs)
      in obind (req (se_first se) CONFIG_PATH params w) (\<lambda>(w1, result).
           case result of
             Inr body \<Rightarrow> Ret (w1, se_page se body)
           | Inl err \<Rightarrow>
               let p = injected_params se params;
                   p1 = (if length tenant > 0 then AList.update ''namespaceId'' (get_or_empty p ''tenant'') p else p);
                   p2 = AList.update ''groupName'' (get_or_empty p1 ''group'') p1
               in obind (req (se_second se) ''/v3/admin/cs/config/list'' p2 w1) (\<lambda>(w2, result2).
                    case result2 of
                      Inl err2 \<Rightarrow> Ret (w2, Inl err2)
                    | Inr body \<Rightarrow> Ret (w2, se_page_data se body))))"

section \<open>The rpc client of a task\<close>

text \<open>
  \<open>createRpcClient\<close>. The table of clients holds pointers, so what is done to the client is seen in the table.
  \<open>listener\<close> is the connection listener of the task.
\<close>

definition task_client_name :: "string \<Rightarrow> string \<Rightarrow> string" where
  "task_client_name taskId uid = ''config-'' @ taskId @ ''-'' @ uid"

definition task_labels :: "string \<Rightarrow> string \<Rightarrow> params" where
  "task_labels appName taskId =
     [(LABEL_SOURCE, LABEL_SOURCE_SDK), (LABEL_MODULE, LABEL_MODULE_CONFIG), (APPNAME_HEADER, appName),
      (''taskId'', taskId)]"

definition appName :: "NacosClient \<Rightarrow> string" where
  "appName client = (case GetClientConfig client of Inr clientConfig \<Rightarrow> cl_AppName clientConfig | Inl err \<Rightarrow> ''unknown'')"

definition createRpcClient ::
  "('c, 'w) rpc_env \<Rightarrow> (string \<Rightarrow> string) \<Rightarrow> int \<Rightarrow> NacosClient \<Rightarrow> ClientConfig \<Rightarrow> 'c NacosServer \<Rightarrow> string \<Rightarrow> nat \<Rightarrow> string \<Rightarrow>
   'c client_table \<times> 'w \<Rightarrow> (('c client_table \<times> 'w) \<times> 'c RpcClient) outcome" where
  "createRpcClient env getenv now client clientConfig nacosServer uid listener taskId s =
     (let name = task_client_name taskId uid
      in case CreateClient getenv now name GRPC (task_labels (appName client) taskId) nacosServer
                (cl_TLSCfg clientConfig) (slice (cl_AppConnLabels clientConfig)) (fst s) of
           (clientMap, Inl err) \<Rightarrow> Panic ''nil pointer dereference''
         | (clientMap, Inr rc) \<Rightarrow>
             if rc_rpcClientStatus rc \<noteq> INITIALIZED then Ret ((clientMap, snd s), rc)
             else
               let rc1 = RegisterServerRequestHandler (NewConfigChangeNotifyRequest [] [] [])
                           ConfigChangeNotifyRequestHandler rc;
                   rc2 = (RegisterConnectionListener listener rc1)\<lparr>rc_Tenant := cl_NamespaceId clientConfig\<rparr>
               in obind (Start env (rc2, snd s)) (\<lambda>(rc3, w).
                    Ret ((AList.update name rc3 clientMap, w), rc3)))"

end
