(* ===== verification/Config_Client.thy ===== *)
theory Config_Client
  imports Config_Proxy
begin

text \<open>
  \<open>clients/config_client/config_client.go\<close> and \<open>config_connection_event_listener.go\<close>: reading, publishing and
  listening to configurations.

  A \<open>cacheData\<close> is a value that the cache holds and the operations copy, but its listener is a pointer: the
  listeners are in a list and a \<open>cacheData\<close> has the position of its own. A callback is started in a goroutine;
  the calls are kept in the order in which they are started. \<open>ck_listenExecute\<close> is the number of goroutines that wait to
  send on the channel of that name.
\<close>

section \<open>State\<close>

definition perTaskConfigSize :: nat where "perTaskConfigSize = 3000"
definition ALL_SYNC_INTERNAL :: int where "ALL_SYNC_INTERNAL = 300000000000"

record cacheDataListener =
  ln_listener :: nat
  ln_lastMd5 :: string

record cacheData =
  cd_isInitializing :: bool
  cd_dataId :: string
  cd_group :: string
  cd_content :: string
  cd_contentType :: string
  cd_encryptedDataKey :: string
  cd_tenant :: string
  cd_cacheDataListener :: nat
  cd_md5 :: string
  cd_appName :: string
  cd_taskId :: nat
  cd_isSyncWithServer :: bool

record listener_call =
  lc_listener :: nat
  lc_namespace :: string
  lc_group :: string
  lc_dataId :: string
  lc_data :: string

record ('w, 'l) ConfigClient = "('w, 'l) config_state" +
  ck_INacosClient :: NacosClient
  ck_configFilterChainManager :: "'w filter_chain"
  ck_configCacheDir :: string
  ck_lastAllSyncTime :: int
  ck_cacheMap :: "cacheData ConcurrentMap"
  ck_uid :: string
  ck_listenExecute :: nat
  ck_isClosed :: bool
  ck_listeners :: "cacheDataListener list"
  ck_calls :: "listener_call list"

definition cache_key :: "cacheData \<Rightarrow> string" where
  "cache_key d = GetConfigCacheKey (cd_dataId d) (cd_group d) (cd_tenant d)"

definition lastMd5 :: "('w, 'l) ConfigClient \<Rightarrow> cacheData \<Rightarrow> string" where
  "lastMd5 client d = ln_lastMd5 (ck_listeners client ! cd_cacheDataListener d)"

definition cache_Set :: "string \<Rightarrow> cacheData \<Rightarrow> ('w, 'l) ConfigClient \<Rightarrow> ('w, 'l) ConfigClient" where
  "cache_Set key d client = client\<lparr>ck_cacheMap := cm_Set (ck_cacheMap client) key d\<rparr>"

definition asyncNotifyListenConfig :: "('w, 'l) ConfigClient \<Rightarrow> ('w, 'l) ConfigClient" where
  "asyncNotifyListenConfig client = client\<lparr>ck_listenExecute := Suc (ck_listenExecute client)\<rparr>"

section \<open>Listeners\<close>

text \<open>The part of \<open>executeListener\<close> before the filters: the listener and the cache.\<close>

definition remember_md5 :: "cacheData \<Rightarrow> ('w, 'l) ConfigClient \<Rightarrow> ('w, 'l) ConfigClient" where
  "remember_md5 d client =
     cache_Set (cache_key d) d
       (client\<lparr>ck_listeners := (ck_listeners client)[cd_cacheDataListener d :=
          (ck_listeners client ! cd_cacheDataListener d)\<lparr>ln_lastMd5 := cd_md5 d\<rparr>]\<rparr>)"

definition call_listener :: "cacheData \<Rightarrow> string \<Rightarrow> ('w, 'l) ConfigClient \<Rightarrow> ('w, 'l) ConfigClient" where
  "call_listener d decryptedContent client =
     client\<lparr>ck_calls := ck_calls client @
       [\<lparr>lc_listener = ln_listener (ck_listeners client ! cd_cacheDataListener d), lc_namespace = cd_tenant d,
         lc_group = cd_group d, lc_dataId = cd_dataId d, lc_data = decryptedContent\<rparr>]\<rparr>"

definition response_param :: "cacheData \<Rightarrow> ConfigParam" where
  "response_param d = zero_ConfigParam\<lparr>cp_DataId := cd_dataId d, cp_Content := cd_content d,
     cp_EncryptedDataKey := cd_encryptedDataKey d, cp_UsageType := ResponseType\<rparr>"

definition executeListener :: "cacheData \<Rightarrow> ('w, 'l) ConfigClient \<Rightarrow> ('w, 'l) ConfigClient outcome" where
  "executeListener d client =
     (let client1 = remember_md5 d client
      in obind (DoFilters (ck_configFilterChainManager client1) (response_param d) (cs_world client1))
           (\<lambda>(w, param, err).
              case err of
                Some e \<Rightarrow> Ret (client1\<lparr>cs_world := w\<rparr>)
              | None \<Rightarrow> Ret (call_listener d (cp_Content param) (client1\<lparr>cs_world := w\<rparr>))))"

section \<open>Reading\<close>

definition snapshot_config ::
  "('w, 'l) config_env \<Rightarrow> string \<Rightarrow> string \<Rightarrow> ('w, 'l) ConfigClient \<Rightarrow> (string \<times> string) result" where
  "snapshot_config env dataId cacheKey client =
     (case ReadConfigFromFile (ce_io env) (cs_fs client) cacheKey (ck_configCacheDir client) of
        Inl cacheErr \<Rightarrow> Inl (Wrapped ''read config from both server and cache fail'' cacheErr)
      | Inr cacheContent \<Rightarrow>
          if \<not> has_prefix dataId CipherPrefix then Inr (cacheContent, [])
          else (case ReadEncryptedDataKeyFromFile (ce_io env) (cs_fs client) cacheKey (ck_configCacheDir client) of
                  Inl cacheErr \<Rightarrow> Inl (Wrapped ''read encryptedDataKey from server and cache fail'' cacheErr)
                | Inr encryptedDataKey \<Rightarrow> Inr (cacheContent, encryptedDataKey)))"

definition getConfigInner ::
  "('w, 'l) config_env \<Rightarrow> ConfigParam \<Rightarrow> ('w, 'l) ConfigClient \<Rightarrow>
   (('w, 'l) ConfigClient \<times> (string \<times> string) result) outcome" where
  "getConfigInner env param client =
     (if length (cp_DataId param) = 0
      then Ret (client, Inl (Err ''[client.GetConfig] param.dataId can not be empty''))
      else
        let grp = (if length (cp_Group param) = 0 then DEFAULT_GROUP else cp_Group param);
            clientConfig = nc_clientConfig (ck_INacosClient client);
            cacheKey = GetConfigCacheKey (cp_DataId param) grp (cl_NamespaceId clientConfig);
            content = GetFailover (ce_io env) (cs_fs client) cacheKey (ck_configCacheDir client)
        in if length content > 0
           then Ret (client, Inr (content,
                  GetFailoverEncryptedDataKey (ce_io env) (cs_fs client) cacheKey (ck_configCacheDir client)))
           else
             obind (queryConfig env (cp_DataId param) grp (cl_NamespaceId clientConfig)
                      (uint (cl_TimeoutMs clientConfig)) False client) (\<lambda>(client1, r).
               case r of
                 Inl err \<Rightarrow>
                   if cl_DisableUseSnapShot clientConfig
                   then Ret (client1, Inl (Wrapped
                     ''get config from remote nacos server fail, and is not allowed to read local file'' err))
                   else Ret (client1, snapshot_config env (cp_DataId param) cacheKey client1)
               | Inr (b, body) \<Rightarrow>
                   if \<not> rs_Success b then Ret (client1, Inl (Err (rs_Message b)))
                   else Ret (client1, Inr (qb_Content body, qb_EncryptedDataKey body))))"

definition GetConfig ::
  "('w, 'l) config_env \<Rightarrow> ConfigParam \<Rightarrow> ('w, 'l) ConfigClient \<Rightarrow> (('w, 'l) ConfigClient \<times> string result) outcome" where
  "GetConfig env param client =
     obind (getConfigInner env param client) (\<lambda>(client1, r).
       case r of
         Inl err \<Rightarrow> Ret (client1, Inl err)
       | Inr (content, encryptedDataKey) \<Rightarrow>
           obind (DoFilters (ck_configFilterChainManager client1)
                    (param\<lparr>cp_EncryptedDataKey := encryptedDataKey, cp_Content := content, cp_UsageType := ResponseType\<rparr>)
                    (cs_world client1)) (\<lambda>(w, param1, err).
             case err of
               Some e \<Rightarrow> Ret (client1\<lparr>cs_world := w\<rparr>, Inl e)
             | None \<Rightarrow> Ret (client1\<lparr>cs_world := w\<rparr>, Inr (cp_Content param1))))"

section \<open>Publishing\<close>

definition buildResponse :: "IResponse \<Rightarrow> bool result" where
  "buildResponse response = (if IsSuccess response then Inr True else Inl (Err (GetMessage response)))"

definition publish_request :: "string \<Rightarrow> ConfigParam \<Rightarrow> IRequest" where
  "publish_request namespaceId param =
     ConfigPublishRequest (NewConfigRequest (cp_Group param) (cp_DataId param) namespaceId) (cp_Content param)
       (cp_CasMd5 param)
       [(''tag'', cp_Tag param), (''config_tags'', cp_ConfigTags param), (''appName'', cp_AppName param),
        (''betaIps'', cp_BetaIps param), (''type'', cp_Type param), (''src_user'', cp_SrcUser param),
        (''encryptedDataKey'', cp_EncryptedDataKey param)]"

definition PublishConfig ::
  "('w, 'l) config_env \<Rightarrow> ConfigParam \<Rightarrow> ('w, 'l) ConfigClient \<Rightarrow> (('w, 'l) ConfigClient \<times> bool result) outcome" where
  "PublishConfig env param client =
     (if length (cp_DataId param) = 0
      then Ret (client, Inl (Err ''[client.PublishConfig] param.dataId can not be empty''))
      else if length (cp_Content param) = 0
      then Ret (client, Inl (Err ''[client.PublishConfig] param.content can not be empty''))
      else
        let param0 = (if length (cp_Group param) = 0 then param\<lparr>cp_Group := DEFAULT_GROUP\<rparr> else param)
        in obind (DoFilters (ck_configFilterChainManager client) (param0\<lparr>cp_UsageType := RequestType\<rparr>)
                    (cs_world client)) (\<lambda>(w, param1, err).
             case err of
               Some e \<Rightarrow> Ret (client\<lparr>cs_world := w\<rparr>, Inl e)
             | None \<Rightarrow>
                 obind (requestProxy env ''0''
                          (publish_request (cl_NamespaceId (nc_clientConfig (ck_INacosClient client))) param1)
                          DEFAULT_TIMEOUT_MILLS (client\<lparr>cs_world := w\<rparr>)) (\<lambda>(client1, r).
                   case r of Inl e \<Rightarrow> Ret (client1, Inl e) | Inr response \<Rightarrow> Ret (client1, buildResponse response))))"

definition DeleteConfig ::
  "('w, 'l) config_env \<Rightarrow> ConfigParam \<Rightarrow> ('w, 'l) ConfigClient \<Rightarrow> (('w, 'l) ConfigClient \<times> bool result) outcome" where
  "DeleteConfig env param client =
     (if length (cp_DataId param) = 0
      then Ret (client, Inl (Err ''[client.DeleteConfig] param.dataId can not be empty''))
      else
        let grp = (if length (cp_Group param) = 0 then DEFAULT_GROUP else cp_Group param)
        in obind (requestProxy env ''0''
                    (NewConfigRemoveRequest grp (cp_DataId param)
                       (cl_NamespaceId (nc_clientConfig (ck_INacosClient client))))
                    DEFAULT_TIMEOUT_MILLS client) (\<lambda>(client1, r).
             case r of Inl e \<Rightarrow> Ret (client1, Inl e) | Inr response \<Rightarrow> Ret (client1, buildResponse response)))"

definition searchConfigInner ::
  "('w, 'c) search_env \<Rightarrow> SearchConfigParam \<Rightarrow> ('w, 'l) ConfigClient \<Rightarrow>
   (('w, 'l) ConfigClient \<times> ConfigPage result) outcome" where
  "searchConfigInner se param client =
     (if sp_Search param \<noteq> ''accurate'' \<and> sp_Search param \<noteq> ''blur''
      then Ret (client, Inl (Err ''[client.searchConfigInner] param.search must be accurate or blur''))
      else
        let p1 = (if sp_PageNo param \<le> 0 then param\<lparr>sp_PageNo := 1\<rparr> else param);
            p2 = (if sp_PageSize p1 \<le> 0 then p1\<lparr>sp_PageSize := 10\<rparr> else p1)
        in obind (searchConfigProxy se (cl_TimeoutMs (cs_clientConfig client)) p2
                    (cl_NamespaceId (nc_clientConfig (ck_INacosClient client))) (cs_world client)) (\<lambda>(w, r).
             case r of
               Inr configItems \<Rightarrow> Ret (client\<lparr>cs_world := w\<rparr>, Inr configItems)
             | Inl (NacosErr errCode msg) \<Rightarrow>
                 if errCode = ''404'' then Ret (client\<lparr>cs_world := w\<rparr>, Inl (Err ''config not found''))
                 else if errCode = ''403'' then Ret (client\<lparr>cs_world := w\<rparr>, Inl (Err ''get config forbidden''))
                 else Ret (client\<lparr>cs_world := w\<rparr>, Inl (NacosErr errCode msg))
             | Inl e \<Rightarrow> Ret (client\<lparr>cs_world := w\<rparr>, Inl e)))"

text \<open>\<open>close\<close> shuts the rpc client of task 0 down and cancels the context.\<close>

definition config_CloseClient :: "('w \<Rightarrow> 'w) \<Rightarrow> ('w, 'l) ConfigClient \<Rightarrow> ('w, 'l) ConfigClient" where
  "config_CloseClient close client =
     (if ck_isClosed client then client
      else client\<lparr>cs_world := close (cs_world client), ck_isClosed := True\<rparr>)"

section \<open>Listening\<close>

definition CancelListenConfig :: "ConfigParam \<Rightarrow> ('w, 'l) ConfigClient \<Rightarrow> ('w, 'l) ConfigClient \<times> go_error option" where
  "CancelListenConfig param client =
     (case GetClientConfig (ck_INacosClient client) of
        Inl err \<Rightarrow> (client, Some err)
      | Inr clientConfig \<Rightarrow>
          (client\<lparr>ck_cacheMap := cm_Remove (ck_cacheMap client)
             (GetConfigCacheKey (cp_DataId param) (cp_Group param) (cl_NamespaceId clientConfig))\<rparr>, None))"

definition new_cacheData ::
  "('w, 'l) config_env \<Rightarrow> ConfigParam \<Rightarrow> string \<Rightarrow> string \<Rightarrow> ('w, 'l) ConfigClient \<Rightarrow> cacheData" where
  "new_cacheData env param tenant key client =
     (let content = (case ReadConfigFromFile (ce_io env) (cs_fs client) key (ck_configCacheDir client) of
                       Inl innerErr \<Rightarrow> [] | Inr c \<Rightarrow> c);
          encryptedDataKey = (case ReadEncryptedDataKeyFromFile (ce_io env) (cs_fs client) key
                                     (ck_configCacheDir client) of Inl err \<Rightarrow> [] | Inr k \<Rightarrow> k);
          md5Str = (if length content > 0 then Md5 env content else [])
      in \<lparr>cd_isInitializing = True, cd_dataId = cp_DataId param, cd_group = cp_Group param, cd_content = content,
          cd_contentType = [], cd_encryptedDataKey = encryptedDataKey, cd_tenant = tenant,
          cd_cacheDataListener = length (ck_listeners client), cd_md5 = md5Str, cd_appName = [],
          cd_taskId = cm_Count (ck_cacheMap client) div perTaskConfigSize, cd_isSyncWithServer = False\<rparr>)"

definition ListenConfig ::
  "('w, 'l) config_env \<Rightarrow> ConfigParam \<Rightarrow> ('w, 'l) ConfigClient \<Rightarrow> ('w, 'l) ConfigClient \<times> go_error option" where
  "ListenConfig env param client =
     (if length (cp_DataId param) = 0 then (client, Some (Err ''[client.ListenConfig] DataId can not be empty''))
      else if length (cp_Group param) = 0 then (client, Some (Err ''[client.ListenConfig] Group can not be empty''))
      else case GetClientConfig (ck_INacosClient client) of
             Inl err \<Rightarrow> (client, Some (Err ''[checkConfigInfo.GetClientConfig] failed''))
           | Inr clientConfig \<Rightarrow>
               let key = GetConfigCacheKey (cp_DataId param) (cp_Group param) (cl_NamespaceId clientConfig)
               in case cm_Get (ck_cacheMap client) key of
                    Some cData \<Rightarrow> (cache_Set key (cData\<lparr>cd_isInitializing := True\<rparr>) client, None)
                  | None \<Rightarrow>
                      let cData = new_cacheData env param (cl_NamespaceId clientConfig) key client
                      in (cache_Set key cData (client\<lparr>ck_listeners := ck_listeners client @
                            [\<lparr>ln_listener = cp_OnChange param, ln_lastMd5 = cd_md5 cData\<rparr>]\<rparr>), None))"

definition refreshContentAndCheck ::
  "('w, 'l) config_env \<Rightarrow> cacheData \<Rightarrow> bool \<Rightarrow> ('w, 'l) ConfigClient \<Rightarrow> ('w, 'l) ConfigClient outcome" where
  "refreshContentAndCheck env d notify client =
     obind (queryConfig env (cd_dataId d) (cd_group d) (cd_tenant d) DEFAULT_TIMEOUT_MILLS notify client)
       (\<lambda>(client1, r).
          case r of
            Inl err \<Rightarrow> Ret client1
          | Inr (b, body) \<Rightarrow>
              if \<not> rs_Success b then Ret client1
              else
                let d' = d\<lparr>cd_content := qb_Content body, cd_contentType := qb_ContentType body,
                           cd_encryptedDataKey := qb_EncryptedDataKey body, cd_md5 := Md5 env (qb_Content body)\<rparr>
                in if cd_md5 d' \<noteq> lastMd5 client1 d' then executeListener d' client1 else Ret client1)"

text \<open>\<open>append\<close> to an entry of the map of tasks.\<close>

definition append_task :: "nat \<Rightarrow> cacheData \<Rightarrow> (nat, cacheData list) gomap \<Rightarrow> (nat, cacheData list) gomap" where
  "append_task taskId d m = AList.update taskId ((case map_of m taskId of None \<Rightarrow> [] | Some ds \<Rightarrow> ds) @ [d]) m"

fun task_loop ::
  "bool \<Rightarrow> cacheData list \<Rightarrow> (nat, cacheData list) gomap \<Rightarrow> ('w, 'l) ConfigClient \<Rightarrow>
   ((nat, cacheData list) gomap \<times> ('w, 'l) ConfigClient) outcome" where
  "task_loop needAllSync [] m client = Ret (m, client)"
| "task_loop needAllSync (d # ds) m client =
     (if cd_isSyncWithServer d
      then obind (if cd_md5 d \<noteq> lastMd5 client d then executeListener d client else Ret client) (\<lambda>client1.
             if \<not> needAllSync then task_loop needAllSync ds m client1
             else task_loop needAllSync ds (append_task (cd_taskId d) d m) client1)
      else task_loop needAllSync ds (append_task (cd_taskId d) d m) client)"

definition buildListenTask ::
  "bool \<Rightarrow> ('w, 'l) ConfigClient \<Rightarrow> ((nat, cacheData list) gomap \<times> ('w, 'l) ConfigClient) outcome" where
  "buildListenTask needAllSync client = task_loop needAllSync (map snd (cm_Items (ck_cacheMap client))) [] client"

definition buildConfigBatchListenRequest :: "cacheData list \<Rightarrow> IRequest" where
  "buildConfigBatchListenRequest caches =
     ConfigBatchListenRequest (NewConfigRequest [] [] []) True
       (map (\<lambda>d. \<lparr>clc_Group = cd_group d, clc_Md5 = cd_md5 d, clc_DataId = cd_dataId d, clc_Tenant = cd_tenant d\<rparr>) caches)"

definition context_key :: "ConfigContext \<Rightarrow> string" where
  "context_key v = GetConfigCacheKey (cc_DataId v) (cc_Group v) (cc_Tenant v)"

fun changed_loop ::
  "('w, 'l) config_env \<Rightarrow> ConfigContext list \<Rightarrow> ('w, 'l) ConfigClient \<Rightarrow> ('w, 'l) ConfigClient outcome" where
  "changed_loop env [] client = Ret client"
| "changed_loop env (v # vs) client =
     (case cm_Get (ck_cacheMap client) (context_key v) of
        None \<Rightarrow> changed_loop env vs client
      | Some cData \<Rightarrow>
          obind (refreshContentAndCheck env cData (\<not> cd_isInitializing cData) client) (changed_loop env vs))"

text \<open>The loop that marks the entries, over the values that \<open>Items\<close> returned.\<close>

definition mark_entry :: "string list \<Rightarrow> cacheData \<Rightarrow> ('w, 'l) ConfigClient \<Rightarrow> ('w, 'l) ConfigClient" where
  "mark_entry changeKeys d client =
     (if cache_key d \<notin> set changeKeys then cache_Set (cache_key d) (d\<lparr>cd_isSyncWithServer := True\<rparr>) client
      else cache_Set (cache_key d) (d\<lparr>cd_isInitializing := True\<rparr>) client)"

definition mark_all :: "string list \<Rightarrow> cacheData list \<Rightarrow> ('w, 'l) ConfigClient \<Rightarrow> ('w, 'l) ConfigClient" where
  "mark_all changeKeys ds client = fold (mark_entry changeKeys) ds client"

definition listen_changes ::
  "('w, 'l) config_env \<Rightarrow> ConfigContext list \<Rightarrow> ('w, 'l) ConfigClient \<Rightarrow> ('w, 'l) ConfigClient outcome" where
  "listen_changes env changedConfigs client =
     obind (changed_loop env changedConfigs client) (\<lambda>client1.
       Ret (mark_all (map context_key changedConfigs) (map snd (cm_Items (ck_cacheMap client1))) client1))"

text \<open>One task: the client, and whether the server reported a change.\<close>

definition listen_task ::
  "('w, 'l) config_env \<Rightarrow> nat \<Rightarrow> cacheData list \<Rightarrow> ('w, 'l) ConfigClient \<Rightarrow> (('w, 'l) ConfigClient \<times> bool) outcome" where
  "listen_task env taskId caches client =
     obind (requestProxy env (itoa (int taskId)) (buildConfigBatchListenRequest caches) 3000 client) (\<lambda>(client1, r).
       case r of
         Inl err \<Rightarrow> Ret (client1, False)
       | Inr iResponse \<Rightarrow>
           if \<not> IsSuccess iResponse then Ret (client1, False)
           else (case iResponse of
                   ConfigChangeBatchListenResponse b changedConfigs \<Rightarrow>
                     obind (listen_changes env changedConfigs client1) (\<lambda>client2. Ret (client2, changedConfigs \<noteq> []))
                 | _ \<Rightarrow> Ret (client1, False)))"

fun tasks_loop ::
  "('w, 'l) config_env \<Rightarrow> (nat \<times> cacheData list) list \<Rightarrow> bool \<Rightarrow> ('w, 'l) ConfigClient \<Rightarrow>
   (('w, 'l) ConfigClient \<times> bool) outcome" where
  "tasks_loop env [] hasChangedKeys client = Ret (client, hasChangedKeys)"
| "tasks_loop env ((taskId, caches) # rest) hasChangedKeys client =
     obind (listen_task env taskId caches client) (\<lambda>(client1, changed).
       tasks_loop env rest (hasChangedKeys \<or> changed) client1)"

definition executeConfigListen ::
  "('w, 'l) config_env \<Rightarrow> ('w, 'l) ConfigClient \<Rightarrow> ('w, 'l) ConfigClient outcome" where
  "executeConfigListen env client =
     (let needAllSync = (ce_nanos env (cs_world client) - ck_lastAllSyncTime client \<ge> ALL_SYNC_INTERNAL)
      in obind (buildListenTask needAllSync client) (\<lambda>(listenTaskMap, client1).
           if length listenTaskMap = 0 then Ret client1
           else obind (tasks_loop env listenTaskMap False client1) (\<lambda>(client2, hasChangedKeys).
                  let client3 = (if needAllSync then client2\<lparr>ck_lastAllSyncTime := ce_nanos env (cs_world client2)\<rparr>
                                 else client2)
                  in Ret (if hasChangedKeys then asyncNotifyListenConfig client3 else client3))))"

section \<open>Events\<close>

text \<open>\<open>RequestReply\<close> of the handler of a change pushed by the server.\<close>

definition config_change_reply ::
  "IRequest \<Rightarrow> ('w, 'l) ConfigClient \<Rightarrow> ('w, 'l) ConfigClient \<times> IResponse option" where
  "config_change_reply request client =
     (case request of
        ConfigChangeNotifyRequest q \<Rightarrow>
          let cacheKey = GetConfigCacheKey (cq_DataId q) (cq_Group q) (cq_Tenant q)
          in (case cm_Get (ck_cacheMap client) cacheKey of
                None \<Rightarrow> (client, None)
              | Some cData \<Rightarrow>
                  (asyncNotifyListenConfig (cache_Set cacheKey (cData\<lparr>cd_isSyncWithServer := False\<rparr>) client),
                   Some (NotifySubscriberResponse reply_ok)))
      | _ \<Rightarrow> (client, None))"

definition config_OnConnected :: "('w, 'l) ConfigClient \<Rightarrow> ('w, 'l) ConfigClient" where
  "config_OnConnected client = asyncNotifyListenConfig client"

definition unsync_entry :: "int \<Rightarrow> string \<times> cacheData \<Rightarrow> ('w, 'l) ConfigClient \<Rightarrow> ('w, 'l) ConfigClient" where
  "unsync_entry taskIdInt kv client =
     (if int (cd_taskId (snd kv)) = taskIdInt
      then cache_Set (fst kv) ((snd kv)\<lparr>cd_isSyncWithServer := False\<rparr>) client else client)"

definition config_OnDisConnect :: "string \<Rightarrow> ('w, 'l) ConfigClient \<Rightarrow> ('w, 'l) ConfigClient" where
  "config_OnDisConnect taskId client =
     (case atoi taskId of
        (taskIdInt, Some err) \<Rightarrow> client
      | (taskIdInt, None) \<Rightarrow> fold (unsync_entry taskIdInt) (cm_Items (ck_cacheMap client)) client)"

section \<open>Creation\<close>

text \<open>The zero value of \<open>time.Time\<close>, the first instant of year 1, in nanoseconds since 1970.\<close>

definition zero_time :: int where "zero_time = -62135596800 * 1000000000"

text \<open>
  \<open>NewConfigClientWithRamCredentialProvider\<close>: \<open>initLogger\<close>, the proxy's server list, the encryption filter and the
  identifier are parameters with the result of the call. The configuration is a copy, so the client keeps the
  old cache directory in its configuration and the proxy has the new one.
\<close>

definition NewConfigClient ::
  "(ClientConfig \<Rightarrow> go_error option) \<Rightarrow> (ServerConfig list \<Rightarrow> ClientConfig \<Rightarrow> go_error option) \<Rightarrow>
   (ClientConfig \<Rightarrow> 'w config_filter) \<Rightarrow> string result \<Rightarrow> NacosClient \<Rightarrow> 'l ConcurrentMap \<Rightarrow> fs \<Rightarrow> 'w \<Rightarrow>
   ('w, 'l) ConfigClient result" where
  "NewConfigClient initLogger newProxy encryptionFilter uid nc limiters files w =
     (case GetClientConfig nc of
        Inl err \<Rightarrow> Inl err
      | Inr clientConfig0 \<Rightarrow>
      (case GetServerConfig nc of
        Inl err \<Rightarrow> Inl err
      | Inr serverConfig \<Rightarrow>
      (case GetHttpAgent nc of
        Inl err \<Rightarrow> Inl err
      | Inr httpAgent \<Rightarrow>
      (case initLogger clientConfig0 of
        Some err \<Rightarrow> Inl err
      | None \<Rightarrow>
         let clientConfig = clientConfig0\<lparr>cl_CacheDir := cl_CacheDir clientConfig0 @ PathSeparator @ ''config''\<rparr>
         in (case newProxy serverConfig clientConfig of
               Some err \<Rightarrow> Inl err
             | None \<Rightarrow>
                 (case uid of
                    Inl err \<Rightarrow> Inl err
                  | Inr u \<Rightarrow>
                      Inr \<lparr>cs_clientConfig = clientConfig, cs_limiters = limiters, cs_fs = files, cs_world = w,
                           ck_INacosClient = nc,
                           ck_configFilterChainManager =
                             (if cl_OpenKMS clientConfig then addFilter (encryptionFilter clientConfig) [] else []),
                           ck_configCacheDir = cl_CacheDir clientConfig, ck_lastAllSyncTime = zero_time,
                           ck_cacheMap = NewConcurrentMap, ck_uid = u, ck_listenExecute = 0, ck_isClosed = False,
                           ck_listeners = [], ck_calls = []\<rparr>))))))"

end
