(* ===== verification/Config_Invariant.thy ===== *)
theory Config_Invariant
  imports Config_Client
begin

text \<open>
  The invariant of the cache of the configuration client and its preservation by every operation.
\<close>

section \<open>Invariant\<close>

definition entry_ok :: "('w, 'l) config_env \<Rightarrow> cacheDataListener list \<Rightarrow> string \<Rightarrow> cacheData \<Rightarrow> bool" where
  "entry_ok env ls k d \<longleftrightarrow> k = cache_key d \<and> cd_group d \<noteq> [] \<and> cd_cacheDataListener d < length ls \<and>
     ln_lastMd5 (ls ! cd_cacheDataListener d) = cd_md5 d \<and> cd_md5 d = Md5 env (cd_content d) \<and> cd_isInitializing d"

definition cache_inv :: "('w, 'l) config_env \<Rightarrow> cacheData ConcurrentMap \<Rightarrow> cacheDataListener list \<Rightarrow> bool" where
  "cache_inv env m ls \<longleftrightarrow> cm_inv m \<and> (\<forall>k d. cm_Get m k = Some d \<longrightarrow> entry_ok env ls k d) \<and>
     (\<forall>k1 d1 k2 d2. cm_Get m k1 = Some d1 \<longrightarrow> cm_Get m k2 = Some d2 \<longrightarrow>
        cd_cacheDataListener d1 = cd_cacheDataListener d2 \<longrightarrow> k1 = k2)"

definition config_inv :: "('w, 'l) config_env \<Rightarrow> ('w, 'l) ConfigClient \<Rightarrow> bool" where
  "config_inv env c \<longleftrightarrow> cache_inv env (ck_cacheMap c) (ck_listeners c)"

lemma config_invD:
  assumes "config_inv env c" and "cm_Get (ck_cacheMap c) k = Some d"
  shows "k = cache_key d" "cd_group d \<noteq> []" "cd_cacheDataListener d < length (ck_listeners c)"
    "lastMd5 c d = cd_md5 d" "cd_md5 d = Md5 env (cd_content d)" "cd_isInitializing d"
proof -
  have "entry_ok env (ck_listeners c) k d" using assms unfolding config_inv_def cache_inv_def by blast
  then show "k = cache_key d" "cd_group d \<noteq> []" "cd_cacheDataListener d < length (ck_listeners c)"
    "lastMd5 c d = cd_md5 d" "cd_md5 d = Md5 env (cd_content d)" "cd_isInitializing d"
    by (simp_all add: entry_ok_def lastMd5_def)
qed

lemma config_inv_cm: "config_inv env c \<Longrightarrow> cm_inv (ck_cacheMap c)"
  by (simp add: config_inv_def cache_inv_def)

lemma config_inv_inj:
  "config_inv env c \<Longrightarrow> cm_Get (ck_cacheMap c) k1 = Some d1 \<Longrightarrow> cm_Get (ck_cacheMap c) k2 = Some d2 \<Longrightarrow>
   cd_cacheDataListener d1 = cd_cacheDataListener d2 \<Longrightarrow> k1 = k2"
  unfolding config_inv_def cache_inv_def by blast

lemma config_inv_cong:
  "ck_cacheMap c' = ck_cacheMap c \<Longrightarrow> ck_listeners c' = ck_listeners c \<Longrightarrow> config_inv env c' = config_inv env c"
  by (simp add: config_inv_def)

lemma config_inv_new: "ck_cacheMap c = NewConcurrentMap \<Longrightarrow> config_inv env c"
  by (simp add: config_inv_def cache_inv_def cm.inv_empty)

text \<open>The entries that \<open>Items\<close> returns.\<close>

lemma items_current:
  assumes "config_inv env c" and "d \<in> set (map snd (cm_Items (ck_cacheMap c)))"
  shows "cm_Get (ck_cacheMap c) (cache_key d) = Some d"
proof -
  obtain k where "(k, d) \<in> set (cm_Items (ck_cacheMap c))" using assms(2) by auto
  then have "cm_Get (ck_cacheMap c) k = Some d" using cm_Items_iff[OF config_inv_cm[OF assms(1)]] by blast
  with config_invD(1)[OF assms(1) this] show ?thesis by simp
qed

lemma items_keys:
  assumes "config_inv env c"
  shows "map cache_key (map snd (cm_Items (ck_cacheMap c))) = map fst (cm_Items (ck_cacheMap c))"
proof -
  have "cache_key d = k" if "(k, d) \<in> set (cm_Items (ck_cacheMap c))" for k d
    using that cm_Items_iff[OF config_inv_cm[OF assms]] config_invD(1)[OF assms] by metis
  then show ?thesis by (auto simp: split_beta)
qed

lemma items_distinct: "config_inv env c \<Longrightarrow> distinct (map cache_key (map snd (cm_Items (ck_cacheMap c))))"
  using wf_map_cm_Items[of "ck_cacheMap c"] by (simp add: items_keys wf_map_def del: map_map)

lemma cm_Items_complete:
  assumes "config_inv env c" and "cm_Get (ck_cacheMap c) k = Some d"
  shows "d \<in> set (map snd (cm_Items (ck_cacheMap c)))"
proof -
  have "(k, d) \<in> set (cm_Items (ck_cacheMap c))"
    using cm_Items_iff[OF config_inv_cm[OF assms(1)]] assms(2) by blast
  then show ?thesis by force
qed

section \<open>Changes that keep it\<close>

text \<open>An entry replaced by one with the same listener.\<close>

lemma config_inv_replace:
  assumes inv: "config_inv env c" and old: "cm_Get (ck_cacheMap c) k = Some d"
    and l: "cd_cacheDataListener d' = cd_cacheDataListener d"
    and m: "cm_inv (ck_cacheMap c')" "cm_Get (ck_cacheMap c') = (cm_Get (ck_cacheMap c))(k \<mapsto> d')"
    and ls: "ck_listeners c' = (ck_listeners c)[cd_cacheDataListener d := lnr]"
    and ok: "entry_ok env (ck_listeners c') k d'"
  shows "config_inv env c'"
proof -
  have "entry_ok env (ck_listeners c') k1 d1" if g: "cm_Get (ck_cacheMap c') k1 = Some d1" for k1 d1
  proof (cases "k1 = k")
    case True
    with g m(2) ok show ?thesis by simp
  next
    case False
    with g m(2) have get: "cm_Get (ck_cacheMap c) k1 = Some d1" by simp
    have "cd_cacheDataListener d1 \<noteq> cd_cacheDataListener d" using config_inv_inj[OF inv get old] False by blast
    with config_invD[OF inv get] show ?thesis by (simp add: entry_ok_def ls lastMd5_def)
  qed
  moreover have "k1 = k2" if g: "cm_Get (ck_cacheMap c') k1 = Some d1" "cm_Get (ck_cacheMap c') k2 = Some d2"
    and e: "cd_cacheDataListener d1 = cd_cacheDataListener d2" for k1 k2 d1 d2
  proof -
    have "\<exists>d0. cm_Get (ck_cacheMap c) k0 = Some d0 \<and> cd_cacheDataListener d0 = cd_cacheDataListener dn"
      if "cm_Get (ck_cacheMap c') k0 = Some dn" for k0 dn
      using that m(2) old l by (cases "k0 = k") auto
    from this[OF g(1)] this[OF g(2)] e config_inv_inj[OF inv] show ?thesis by metis
  qed
  ultimately show ?thesis using m(1) unfolding config_inv_def cache_inv_def by blast
qed

lemma cm_Get_cache_Set:
  "config_inv env c \<Longrightarrow> cm_Get (ck_cacheMap (cache_Set k d c)) = (cm_Get (ck_cacheMap c))(k \<mapsto> d)"
  by (rule ext) (simp add: cache_Set_def cm_Get_Set config_inv_cm)

lemma cm_Get_remember:
  "config_inv env c \<Longrightarrow> cm_Get (ck_cacheMap (remember_md5 d c)) = (cm_Get (ck_cacheMap c))(cache_key d \<mapsto> d)"
  by (rule ext) (simp add: remember_md5_def cache_Set_def cm_Get_Set config_inv_cm)

lemma config_inv_cache_Set:
  assumes inv: "config_inv env c" and old: "cm_Get (ck_cacheMap c) k = Some d"
    and new: "cd_cacheDataListener d' = cd_cacheDataListener d" "cache_key d' = cache_key d" "cd_group d' = cd_group d"
      "cd_md5 d' = cd_md5 d" "cd_content d' = cd_content d" "cd_isInitializing d'"
  shows "config_inv env (cache_Set k d' c)"
proof (rule config_inv_replace[OF inv old new(1) _ cm_Get_cache_Set[OF inv]])
  show "cm_inv (ck_cacheMap (cache_Set k d' c))" using config_inv_cm[OF inv] by (simp add: cache_Set_def)
  show "ck_listeners (cache_Set k d' c) =
      (ck_listeners c)[cd_cacheDataListener d := ck_listeners c ! cd_cacheDataListener d]"
    by (simp add: cache_Set_def)
  show "entry_ok env (ck_listeners (cache_Set k d' c)) k d'"
    using config_invD[OF inv old] new by (simp add: entry_ok_def lastMd5_def cache_Set_def)
qed

lemma config_inv_remember:
  assumes inv: "config_inv env c" and old: "cm_Get (ck_cacheMap c) (cache_key d') = Some d"
    and new: "cd_cacheDataListener d' = cd_cacheDataListener d" "cd_group d' = cd_group d"
      "cd_md5 d' = Md5 env (cd_content d')" "cd_isInitializing d'"
  shows "config_inv env (remember_md5 d' c)"
proof (rule config_inv_replace[OF inv old new(1) _ cm_Get_remember[OF inv]])
  show "cm_inv (ck_cacheMap (remember_md5 d' c))"
    using config_inv_cm[OF inv] by (simp add: remember_md5_def cache_Set_def)
  show ls: "ck_listeners (remember_md5 d' c) = (ck_listeners c)[cd_cacheDataListener d :=
      (ck_listeners c ! cd_cacheDataListener d)\<lparr>ln_lastMd5 := cd_md5 d'\<rparr>]"
    by (simp add: remember_md5_def cache_Set_def new(1))
  show "entry_ok env (ck_listeners (remember_md5 d' c)) (cache_key d') d'"
    using config_invD(2,3)[OF inv old] new by (simp add: entry_ok_def ls)
qed

text \<open>Requests, queries and filters leave the cache, the listeners and the calls alone.\<close>

definition outside :: "('w, 'l) ConfigClient \<Rightarrow> ('w, 'l) ConfigClient \<Rightarrow> bool" where
  "outside c c' \<longleftrightarrow> (\<exists>l f w. c' = c\<lparr>cs_limiters := l, cs_fs := f, cs_world := w\<rparr>)"

lemma outsideI [simp]:
  "outside c c" "outside c (c\<lparr>cs_world := w\<rparr>)" "outside c (c\<lparr>cs_fs := f, cs_world := w\<rparr>)"
proof -
  have "c = c\<lparr>cs_limiters := cs_limiters c, cs_fs := cs_fs c, cs_world := cs_world c\<rparr>" by simp
  then show "outside c c" unfolding outside_def by blast
  have "c\<lparr>cs_world := w\<rparr> = c\<lparr>cs_limiters := cs_limiters c, cs_fs := cs_fs c, cs_world := w\<rparr>" by simp
  then show "outside c (c\<lparr>cs_world := w\<rparr>)" unfolding outside_def by blast
  have "c\<lparr>cs_fs := f, cs_world := w\<rparr> = c\<lparr>cs_limiters := cs_limiters c, cs_fs := f, cs_world := w\<rparr>" by simp
  then show "outside c (c\<lparr>cs_fs := f, cs_world := w\<rparr>)" unfolding outside_def by blast
qed

lemma outside_trans:
  assumes "outside a b" and "outside b c"
  shows "outside a c"
proof -
  obtain l f w where "c = b\<lparr>cs_limiters := l, cs_fs := f, cs_world := w\<rparr>" using assms(2) by (auto simp: outside_def)
  with assms(1) have "c = a\<lparr>cs_limiters := l, cs_fs := f, cs_world := w\<rparr>" by (auto simp: outside_def)
  then show ?thesis unfolding outside_def by blast
qed

lemma outside_same:
  assumes "outside c c'"
  shows "ck_cacheMap c' = ck_cacheMap c" "ck_listeners c' = ck_listeners c" "ck_calls c' = ck_calls c"
    "ck_configFilterChainManager c' = ck_configFilterChainManager c" "ck_INacosClient c' = ck_INacosClient c"
    "ck_configCacheDir c' = ck_configCacheDir c" "cs_clientConfig c' = cs_clientConfig c"
    "ck_lastAllSyncTime c' = ck_lastAllSyncTime c" "ck_listenExecute c' = ck_listenExecute c"
    "config_inv env c' = config_inv env c" "lastMd5 c' = lastMd5 c"
  using assms by (auto simp: outside_def config_inv_def lastMd5_def fun_eq_iff)

lemma requestProxy_outside:
  "requestProxy env taskId request timeout c = Ret (c', r) \<Longrightarrow> outside c c'"
  by (auto simp: requestProxy_def Let_def split_beta elim!: obind_RetE)

lemma write_snapshot_outside: "outside c (write_snapshot env key content dataKey c)"
proof -
  have "c\<lparr>cs_fs := f\<rparr> = c\<lparr>cs_fs := f, cs_world := cs_world c\<rparr>" for f by simp
  then show ?thesis unfolding write_snapshot_def Let_def by (metis outsideI(3))
qed

lemma query_result_outside: "outside c (fst (query_result env dataId grp tenant resp c))"
  by (auto simp: query_result_def Let_def write_snapshot_outside split: IResponse.split)

lemma IsLimited_outside: "outside c (fst (IsLimited env key c))"
proof -
  have "outside c (c\<lparr>cs_limiters := l\<rparr>)" for l
  proof -
    have "c\<lparr>cs_limiters := l\<rparr> = c\<lparr>cs_limiters := l, cs_fs := cs_fs c, cs_world := cs_world c\<rparr>" by simp
    then show ?thesis unfolding outside_def by blast
  qed
  then show ?thesis by (simp add: IsLimited_def Let_def split_beta)
qed

lemma queryConfig_outside:
  assumes "queryConfig env dataId grp tenant timeout notify c = Ret (c', r)"
  shows "outside c c'"
proof -
  let ?g = "if grp = [] then DEFAULT_GROUP else grp"
  obtain c1 b where lim: "IsLimited env (GetConfigCacheKey dataId ?g tenant) c = (c1, b)" by fastforce
  have o1: "outside c c1" using IsLimited_outside[of c env "GetConfigCacheKey dataId ?g tenant"] lim by simp
  show ?thesis
  proof (cases b)
    case True
    with assms lim o1 show ?thesis by (simp add: queryConfig_def Let_def)
  next
    case False
    with assms lim obtain c2 r2 where rp: "requestProxy env ''0'' (query_request dataId ?g tenant notify) timeout c1 = Ret (c2, r2)"
      and res: "(case r2 of Inl err \<Rightarrow> Ret (c2, Inl err) | Inr iResponse \<Rightarrow> Ret (query_result env dataId ?g tenant iResponse c2))
        = Ret (c', r)"
      by (auto simp: queryConfig_def Let_def elim!: obind_RetE)
    have "outside c2 c'"
      using res query_result_outside[of c2 env dataId ?g tenant] by (auto split: sum.split_asm) (metis fst_conv)
    with o1 requestProxy_outside[OF rp] show ?thesis by (blast intro: outside_trans)
  qed
qed

section \<open>Operations\<close>

lemma executeListener_cases:
  assumes "executeListener d c = Ret c'"
  obtains w where "c' = (remember_md5 d c)\<lparr>cs_world := w\<rparr>"
  | w content where "c' = call_listener d content ((remember_md5 d c)\<lparr>cs_world := w\<rparr>)"
  using assms by (auto simp: executeListener_def Let_def elim!: obind_RetE split: option.split_asm)

lemma executeListener_cache:
  assumes "executeListener d c = Ret c'"
  shows "ck_cacheMap c' = ck_cacheMap (remember_md5 d c)" "ck_listeners c' = ck_listeners (remember_md5 d c)"
  using assms by (cases rule: executeListener_cases; simp add: call_listener_def)+

lemma executeListener_inv:
  assumes "config_inv env c" and "cm_Get (ck_cacheMap c) (cache_key d') = Some d"
    and "cd_cacheDataListener d' = cd_cacheDataListener d" "cd_group d' = cd_group d"
      "cd_md5 d' = Md5 env (cd_content d')" "cd_isInitializing d'"
    and "executeListener d' c = Ret c'"
  shows "config_inv env c'"
  using config_inv_remember[OF assms(1-6)] executeListener_cache[OF assms(7)] config_inv_cong by blast

definition refreshed :: "('w, 'l) config_env \<Rightarrow> ConfigQueryBody \<Rightarrow> cacheData \<Rightarrow> cacheData" where
  "refreshed env body d = d\<lparr>cd_content := qb_Content body, cd_contentType := qb_ContentType body,
     cd_encryptedDataKey := qb_EncryptedDataKey body, cd_md5 := Md5 env (qb_Content body)\<rparr>"

lemma refreshed_simps [simp]:
  "cache_key (refreshed env body d) = cache_key d" "cd_group (refreshed env body d) = cd_group d"
  "cd_cacheDataListener (refreshed env body d) = cd_cacheDataListener d" "cd_content (refreshed env body d) = qb_Content body"
  "cd_md5 (refreshed env body d) = Md5 env (qb_Content body)" "cd_isInitializing (refreshed env body d) = cd_isInitializing d"
  "cd_dataId (refreshed env body d) = cd_dataId d" "cd_tenant (refreshed env body d) = cd_tenant d"
  "cd_taskId (refreshed env body d) = cd_taskId d" "cd_isSyncWithServer (refreshed env body d) = cd_isSyncWithServer d"
  by (simp_all add: refreshed_def cache_key_def)

lemma refreshContentAndCheck_eq:
  "refreshContentAndCheck env d notify client =
     obind (queryConfig env (cd_dataId d) (cd_group d) (cd_tenant d) DEFAULT_TIMEOUT_MILLS notify client)
       (\<lambda>(client1, r).
          case r of
            Inl err \<Rightarrow> Ret client1
          | Inr (b, body) \<Rightarrow>
              if \<not> rs_Success b then Ret client1
              else if Md5 env (qb_Content body) \<noteq> lastMd5 client1 d then executeListener (refreshed env body d) client1
              else Ret client1)"
  unfolding refreshContentAndCheck_def
  by (rule arg_cong[where f = "obind _"], rule ext) (auto simp: refreshed_def Let_def lastMd5_def split: sum.split)

lemma refresh_inv:
  assumes inv: "config_inv env c" and get: "cm_Get (ck_cacheMap c) (cache_key d) = Some d"
    and r: "refreshContentAndCheck env d notify c = Ret c'"
  shows "config_inv env c'"
proof -
  obtain c1 res where q: "queryConfig env (cd_dataId d) (cd_group d) (cd_tenant d) DEFAULT_TIMEOUT_MILLS notify c = Ret (c1, res)"
    and k: "(case res of Inl err \<Rightarrow> Ret c1 | Inr (b, body) \<Rightarrow> if \<not> rs_Success b then Ret c1
      else if Md5 env (qb_Content body) \<noteq> lastMd5 c1 d then executeListener (refreshed env body d) c1 else Ret c1) = Ret c'"
    by (rule obind_pairE[OF r[unfolded refreshContentAndCheck_eq]]) (simp only: prod.case)
  note o = outside_same[OF queryConfig_outside[OF q]]
  have inv1: "config_inv env c1" and get1: "cm_Get (ck_cacheMap c1) (cache_key d) = Some d" using inv get o by simp_all
  have exec: "config_inv env c'" if "executeListener (refreshed env body d) c1 = Ret c'" for body
    by (rule executeListener_inv[OF inv1 _ _ _ _ _ that, where d = d])
      (simp_all only: refreshed_simps get1 config_invD(6)[OF inv1 get1])
  show ?thesis
  proof (cases res)
    case (Inl e)
    with k inv1 show ?thesis by simp
  next
    case (Inr p)
    obtain b body where "p = (b, body)" by fastforce
    with k Inr have "(if \<not> rs_Success b then Ret c1
      else if Md5 env (qb_Content body) \<noteq> lastMd5 c1 d then executeListener (refreshed env body d) c1 else Ret c1) = Ret c'"
      by (simp only: sum.case prod.case)
    with inv1 exec[of body] show ?thesis by (simp split: if_split_asm)
  qed
qed

lemma changed_loop_inv: "config_inv env c \<Longrightarrow> changed_loop env vs c = Ret c' \<Longrightarrow> config_inv env c'"
proof (induction vs arbitrary: c)
  case (Cons v vs)
  show ?case
  proof (cases "cm_Get (ck_cacheMap c) (context_key v)")
    case (Some d)
    have "cm_Get (ck_cacheMap c) (cache_key d) = Some d" using config_invD(1)[OF Cons.prems(1) Some] Some by simp
    from refresh_inv[OF Cons.prems(1) this] Cons.IH Cons.prems(2) Some show ?thesis by (auto elim!: obind_RetE)
  qed (use Cons in simp)
qed simp

lemma mark_entry_step:
  assumes inv: "config_inv env c" and get: "cm_Get (ck_cacheMap c) (cache_key d) = Some d"
  shows "config_inv env (mark_entry keys d c)"
    "cm_Get (ck_cacheMap (mark_entry keys d c)) = (cm_Get (ck_cacheMap c))(cache_key d \<mapsto>
       d\<lparr>cd_isSyncWithServer := cd_isSyncWithServer d \<or> cache_key d \<notin> set keys\<rparr>)"
proof -
  have i: "cd_isInitializing d" using config_invD(6)[OF inv get] .
  have e: "mark_entry keys d c =
      cache_Set (cache_key d) (d\<lparr>cd_isSyncWithServer := cd_isSyncWithServer d \<or> cache_key d \<notin> set keys\<rparr>) c"
    using i by (cases d) (simp add: mark_entry_def)
  show "config_inv env (mark_entry keys d c)"
    unfolding e by (rule config_inv_cache_Set[OF inv get]) (use i in \<open>simp_all add: cache_key_def\<close>)
  show "cm_Get (ck_cacheMap (mark_entry keys d c)) = (cm_Get (ck_cacheMap c))(cache_key d \<mapsto>
       d\<lparr>cd_isSyncWithServer := cd_isSyncWithServer d \<or> cache_key d \<notin> set keys\<rparr>)"
    unfolding e by (rule cm_Get_cache_Set[OF inv])
qed

lemma mark_all_inv:
  assumes "config_inv env c" and "\<forall>d \<in> set ds. cm_Get (ck_cacheMap c) (cache_key d) = Some d"
    and "distinct (map cache_key ds)"
  shows "config_inv env (mark_all keys ds c)"
  using assms unfolding mark_all_def
proof (induction ds arbitrary: c)
  case (Cons d ds)
  have get: "cm_Get (ck_cacheMap c) (cache_key d) = Some d" using Cons.prems(2) by simp
  note st = mark_entry_step[OF Cons.prems(1) get, of keys]
  have "\<forall>d' \<in> set ds. cm_Get (ck_cacheMap (mark_entry keys d c)) (cache_key d') = Some d'"
  proof
    fix d' assume d': "d' \<in> set ds"
    then have "cache_key d \<noteq> cache_key d'" using Cons.prems(3) by force
    with d' Cons.prems(2) show "cm_Get (ck_cacheMap (mark_entry keys d c)) (cache_key d') = Some d'" by (simp add: st(2))
  qed
  with Cons.IH[OF st(1)] Cons.prems(3) show ?case by simp
qed simp

lemma listen_changes_inv:
  assumes "config_inv env c" and "listen_changes env vs c = Ret c'"
  shows "config_inv env c'"
proof -
  obtain c1 where c1: "changed_loop env vs c = Ret c1"
    and c': "c' = mark_all (map context_key vs) (map snd (cm_Items (ck_cacheMap c1))) c1"
    using assms(2) by (auto simp: listen_changes_def elim!: obind_RetE)
  note inv1 = changed_loop_inv[OF assms(1) c1]
  show ?thesis unfolding c' using mark_all_inv[OF inv1 _ items_distinct[OF inv1]] items_current[OF inv1] by blast
qed

lemma listen_task_inv:
  assumes "config_inv env c" and "listen_task env t ds c = Ret (c', b)"
  shows "config_inv env c'"
proof -
  obtain c1 r where rp: "requestProxy env (itoa (int t)) (buildConfigBatchListenRequest ds) 3000 c = Ret (c1, r)"
    by (rule obind_pairE[OF assms(2)[unfolded listen_task_def]]) simp
  have inv1: "config_inv env c1" using assms(1) outside_same(10)[OF requestProxy_outside[OF rp]] by blast
  consider "c' = c1" | vs where "listen_changes env vs c1 = Ret c'"
    using assms(2) rp by (auto simp: listen_task_def obind_Ret_iff split: sum.split_asm if_split_asm IResponse.split_asm)
  then show ?thesis by cases (use inv1 listen_changes_inv[OF inv1] in simp_all)
qed

lemma tasks_loop_inv: "config_inv env c \<Longrightarrow> tasks_loop env ts h c = Ret (c', b) \<Longrightarrow> config_inv env c'"
proof (induction ts arbitrary: c h)
  case (Cons t ts)
  obtain i ds where t: "t = (i, ds)" by fastforce
  obtain c1 ch where "listen_task env i ds c = Ret (c1, ch)" and "tasks_loop env ts (h \<or> ch) c1 = Ret (c', b)"
    using Cons.prems(2) unfolding t tasks_loop.simps by (elim obind_pairE) simp
  with Cons.IH listen_task_inv[OF Cons.prems(1)] show ?case by blast
qed simp

text \<open>In a state of the invariant the listener call of \<open>buildListenTask\<close> is never reached.\<close>

definition listened :: "bool \<Rightarrow> cacheData \<Rightarrow> bool" where
  "listened needAllSync d \<longleftrightarrow> \<not> cd_isSyncWithServer d \<or> needAllSync"

lemma task_loop_eq:
  assumes "config_inv env c" and "\<forall>d \<in> set ds. cm_Get (ck_cacheMap c) (cache_key d) = Some d"
  shows "task_loop all ds m c = Ret (fold (\<lambda>d. append_task (cd_taskId d) d) (filter (listened all) ds) m, c)"
  using assms(2)
proof (induction ds arbitrary: m)
  case (Cons d ds)
  have "lastMd5 c d = cd_md5 d" using Cons.prems by (auto intro: config_invD(4)[OF assms(1)])
  with Cons show ?case by (cases all) (simp_all add: listened_def)
qed simp

definition tasks_of :: "bool \<Rightarrow> ('w, 'l) ConfigClient \<Rightarrow> (nat, cacheData list) gomap" where
  "tasks_of all c = fold (\<lambda>d. append_task (cd_taskId d) d) (filter (listened all) (map snd (cm_Items (ck_cacheMap c)))) []"

lemma buildListenTask_eq: "config_inv env c \<Longrightarrow> buildListenTask all c = Ret (tasks_of all c, c)"
  unfolding buildListenTask_def tasks_of_def using items_current by (intro task_loop_eq ballI)

lemma executeConfigListen_inv:
  assumes "config_inv env c" and "executeConfigListen env c = Ret c'"
  shows "config_inv env c'"
proof -
  let ?all = "ce_nanos env (cs_world c) - ck_lastAllSyncTime c \<ge> ALL_SYNC_INTERNAL"
  show ?thesis
  proof (cases "tasks_of ?all c = []")
    case True
    with assms show ?thesis by (simp add: executeConfigListen_def buildListenTask_eq[OF assms(1)])
  next
    case False
    then obtain c2 h where c2: "tasks_loop env (tasks_of ?all c) False c = Ret (c2, h)"
      and c': "c' = (let c3 = (if ?all then c2\<lparr>ck_lastAllSyncTime := ce_nanos env (cs_world c2)\<rparr> else c2)
        in if h then asyncNotifyListenConfig c3 else c3)"
      using assms by (auto simp: executeConfigListen_def buildListenTask_eq[OF assms(1)] Let_def elim!: obind_RetE)
    have "config_inv env c2" by (rule tasks_loop_inv[OF assms(1) c2])
    then show ?thesis unfolding c' by (simp add: Let_def asyncNotifyListenConfig_def config_inv_def)
  qed
qed

end
