(* ===== verification/Config_Steps.thy ===== *)
theory Config_Steps
  imports Config_Invariant
begin

text \<open>
  The operations of the configuration client as steps, and its invariant in every state they reach. An operation
  is one step; what an interleaving inside the loop over the cache does is in theory \<open>Config_Races\<close>.
\<close>

section \<open>The remaining operations\<close>

lemma ListenConfig_inv:
  assumes inv: "config_inv env c"
  shows "config_inv env (fst (ListenConfig env param c))"
proof (cases "cp_DataId param = [] \<or> cp_Group param = [] \<or> (\<exists>e. GetClientConfig (ck_INacosClient c) = Inl e)")
  case True
  with inv show ?thesis by (auto simp: ListenConfig_def)
next
  case False
  then obtain cfg where cfg: "GetClientConfig (ck_INacosClient c) = Inr cfg" and g: "cp_DataId param \<noteq> []" "cp_Group param \<noteq> []"
    by (cases "GetClientConfig (ck_INacosClient c)") auto
  define key where "key = GetConfigCacheKey (cp_DataId param) (cp_Group param) (cl_NamespaceId cfg)"
  show ?thesis
  proof (cases "cm_Get (ck_cacheMap c) key")
    case (Some d)
    then have "fst (ListenConfig env param c) = cache_Set key (d\<lparr>cd_isInitializing := True\<rparr>) c"
      using cfg g by (simp add: ListenConfig_def key_def)
    moreover have "config_inv env (cache_Set key (d\<lparr>cd_isInitializing := True\<rparr>) c)"
      by (rule config_inv_cache_Set[OF inv Some]) (simp_all add: cache_key_def)
    ultimately show ?thesis by simp
  next
    case None
    define d where "d = new_cacheData env param (cl_NamespaceId cfg) key c"
    define ls where "ls = ck_listeners c @ [\<lparr>ln_listener = cp_OnChange param, ln_lastMd5 = cd_md5 d\<rparr>]"
    have e: "fst (ListenConfig env param c) = cache_Set key d (c\<lparr>ck_listeners := ls\<rparr>)"
      using None cfg g by (simp add: ListenConfig_def key_def d_def ls_def Let_def)
    have d: "cache_key d = key" "cd_group d \<noteq> []" "cd_cacheDataListener d = length (ck_listeners c)"
      "cd_md5 d = Md5 env (cd_content d)" "cd_isInitializing d"
      using g by (simp_all add: d_def new_cacheData_def cache_key_def key_def Let_def Md5_def)
    have get: "cm_Get (ck_cacheMap (cache_Set key d (c\<lparr>ck_listeners := ls\<rparr>))) = (cm_Get (ck_cacheMap c))(key \<mapsto> d)"
      by (rule ext) (simp add: cache_Set_def cm_Get_Set config_inv_cm[OF inv])
    have new: "entry_ok env ls key d" using d by (simp add: entry_ok_def ls_def)
    have old: "entry_ok env ls k1 d1" "cd_cacheDataListener d1 < length (ck_listeners c)"
      if "cm_Get (ck_cacheMap c) k1 = Some d1" for k1 d1
      using config_invD[OF inv that] by (simp_all add: entry_ok_def ls_def lastMd5_def nth_append)
    have "k1 = k2" if "((cm_Get (ck_cacheMap c))(key \<mapsto> d)) k1 = Some d1"
      "((cm_Get (ck_cacheMap c))(key \<mapsto> d)) k2 = Some d2" "cd_cacheDataListener d1 = cd_cacheDataListener d2" for k1 k2 d1 d2
      using that d(3) old(2)[of k1 d1] old(2)[of k2 d2] config_inv_inj[OF inv, of k1 d1 k2 d2]
      by (simp split: if_split_asm)
    moreover have "cm_inv (ck_cacheMap (cache_Set key d (c\<lparr>ck_listeners := ls\<rparr>)))"
      using config_inv_cm[OF inv] by (simp add: cache_Set_def)
    moreover have "entry_ok env ls k1 d1" if "((cm_Get (ck_cacheMap c))(key \<mapsto> d)) k1 = Some d1" for k1 d1
      using that new old(1)[of k1 d1] by (simp split: if_split_asm)
    ultimately have "cache_inv env (ck_cacheMap (cache_Set key d (c\<lparr>ck_listeners := ls\<rparr>))) ls"
      unfolding cache_inv_def get by blast
    then show ?thesis unfolding e by (simp add: config_inv_def cache_Set_def)
  qed
qed

lemma config_inv_remove:
  assumes "config_inv env c"
  shows "config_inv env (c\<lparr>ck_cacheMap := cm_Remove (ck_cacheMap c) key\<rparr>)"
proof -
  have "cm_Get (cm_Remove (ck_cacheMap c) key) = (cm_Get (ck_cacheMap c))(key := None)"
    by (rule ext) (simp add: cm_Get_Remove config_inv_cm[OF assms])
  with assms show ?thesis
    unfolding config_inv_def cache_inv_def
    by (simp add: cm_inv_Remove)
qed

lemma CancelListenConfig_inv: "config_inv env c \<Longrightarrow> config_inv env (fst (CancelListenConfig param c))"
  by (simp add: CancelListenConfig_def config_inv_remove split: sum.split)

lemma unsync_inv:
  assumes inv: "config_inv env c" and get: "cm_Get (ck_cacheMap c) k = Some d"
  shows "config_inv env (cache_Set k (d\<lparr>cd_isSyncWithServer := False\<rparr>) c)"
  by (rule config_inv_cache_Set[OF inv get]) (use config_invD(6)[OF inv get] in \<open>simp_all add: cache_key_def\<close>)

lemma config_change_reply_inv:
  assumes "config_inv env c"
  shows "config_inv env (fst (config_change_reply request c))"
proof -
  have "config_inv env (asyncNotifyListenConfig (cache_Set k (d\<lparr>cd_isSyncWithServer := False\<rparr>) c))"
    if "cm_Get (ck_cacheMap c) k = Some d" for k d
    using unsync_inv[OF assms that] by (simp add: asyncNotifyListenConfig_def config_inv_def)
  with assms show ?thesis by (simp add: config_change_reply_def Let_def split: IRequest.split option.split)
qed

lemma OnDisConnect_inv:
  assumes "config_inv env c"
  shows "config_inv env (config_OnDisConnect taskId c)"
proof -
  have "config_inv env (fold (unsync_entry i) kvs c')"
    if "config_inv env c'" "\<forall>(k, d) \<in> set kvs. cm_Get (ck_cacheMap c') k = Some d" "distinct (map fst kvs)" for i kvs c'
    using that
  proof (induction kvs arbitrary: c')
    case (Cons kv kvs)
    obtain k d where kv: "kv = (k, d)" by fastforce
    have get: "cm_Get (ck_cacheMap c') k = Some d" using Cons.prems(2) kv by simp
    have keep: "\<forall>(k1, d1) \<in> set kvs. cm_Get (ck_cacheMap (unsync_entry i kv c')) k1 = Some d1"
    proof
      fix x assume x: "x \<in> set kvs"
      then have "fst x \<noteq> k" using Cons.prems(3) kv by force
      with x Cons.prems(2) show "case x of (k1, d1) \<Rightarrow> cm_Get (ck_cacheMap (unsync_entry i kv c')) k1 = Some d1"
        by (auto simp: unsync_entry_def kv cm_Get_cache_Set[OF Cons.prems(1)])
    qed
    have "config_inv env (unsync_entry i kv c')"
      using unsync_inv[OF Cons.prems(1) get] Cons.prems(1) by (simp add: unsync_entry_def kv)
    from Cons.IH[OF this keep] Cons.prems(3) show ?case by simp
  qed simp
  from this[OF assms] have "config_inv env (fold (unsync_entry i) (cm_Items (ck_cacheMap c)) c)" for i
    using cm_Items_iff[OF config_inv_cm[OF assms]] wf_map_cm_Items[of "ck_cacheMap c"] by (auto simp: wf_map_def)
  with assms show ?thesis by (simp add: config_OnDisConnect_def split: prod.split option.split)
qed

text \<open>A computation that leaves the cache alone when it returns, and the rules to show it.\<close>

definition stays :: "('w, 'l) ConfigClient \<Rightarrow> (('w, 'l) ConfigClient \<times> 'a) outcome \<Rightarrow> bool" where
  "stays c m \<longleftrightarrow> (\<forall>c' r. m = Ret (c', r) \<longrightarrow> outside c c')"

lemma stays_Ret: "outside c c' \<Longrightarrow> stays c (Ret (c', r))"
  by (simp add: stays_def)

lemma stays_bind:
  assumes "stays c m" and "\<And>c1 r. outside c c1 \<Longrightarrow> stays c (f (c1, r))"
  shows "stays c (obind m f)"
proof (cases m)
  case (Ret p)
  obtain c1 r where p: "p = (c1, r)" by fastforce
  with Ret assms(1) have "outside c c1" by (simp add: stays_def)
  with assms(2) Ret p show ?thesis by simp
qed (simp add: stays_def)

lemma stays_filter:
  assumes "\<And>w p e. stays c (f (w, p, e))"
  shows "stays c (obind (DoFilters chain q w0) f)"
proof (cases "DoFilters chain q w0")
  case (Ret x)
  with assms show ?thesis by (cases x) simp
qed (simp add: stays_def)

lemma stays_requestProxy: "outside c c1 \<Longrightarrow> stays c (requestProxy env taskId request timeout c1)"
  unfolding stays_def by (blast intro: requestProxy_outside outside_trans)

lemma stays_queryConfig: "outside c c1 \<Longrightarrow> stays c (queryConfig env dataId grp tenant timeout notify c1)"
  unfolding stays_def by (blast intro: queryConfig_outside outside_trans)

lemma outside_world: "outside c c1 \<Longrightarrow> outside c (c1\<lparr>cs_world := w\<rparr>)"
  by (rule outside_trans[OF _ outsideI(2)])

lemmas stays_rules = stays_Ret stays_bind stays_filter stays_requestProxy stays_queryConfig outsideI outside_world

lemma stays_getConfigInner: "stays c (getConfigInner env param c)"
  unfolding getConfigInner_def Let_def
  by (auto intro!: stays_rules split: sum.split if_split)

lemma stays_GetConfig: "stays c (GetConfig env param c)"
  unfolding GetConfig_def
  by (auto intro!: stays_rules stays_getConfigInner split: sum.split option.split)

lemma stays_PublishConfig: "stays c (PublishConfig env param c)"
  unfolding PublishConfig_def Let_def
  by (auto intro!: stays_rules split: sum.split option.split)

lemma stays_DeleteConfig: "stays c (DeleteConfig env param c)"
  unfolding DeleteConfig_def Let_def
  by (auto intro!: stays_rules split: sum.split)

lemma stays_inv: "stays c m \<Longrightarrow> m = Ret (c', r) \<Longrightarrow> config_inv env c \<Longrightarrow> config_inv env c'"
  using outside_same(10) by (auto simp: stays_def)

section \<open>Steps\<close>

text \<open>What a client of the library, the server and the listening goroutine can do.\<close>

inductive config_step :: "('w, 'l) config_env \<Rightarrow> ('w, 'l) ConfigClient \<Rightarrow> ('w, 'l) ConfigClient \<Rightarrow> bool"
  for env :: "('w, 'l) config_env" where
  step_Listen: "config_step env c (fst (ListenConfig env param c))"
| step_Cancel: "config_step env c (fst (CancelListenConfig param c))"
| step_Get: "GetConfig env param c = Ret (c', r) \<Longrightarrow> config_step env c c'"
| step_Publish: "PublishConfig env param c = Ret (c', b) \<Longrightarrow> config_step env c c'"
| step_Delete: "DeleteConfig env param c = Ret (c', b) \<Longrightarrow> config_step env c c'"
| step_Round: "executeConfigListen env c = Ret c' \<Longrightarrow> config_step env c c'"
| step_Push: "config_step env c (fst (config_change_reply request c))"
| step_Connected: "config_step env c (config_OnConnected c)"
| step_Disconnected: "config_step env c (config_OnDisConnect taskId c)"
| step_Close: "config_step env c (config_CloseClient close c)"
| step_World: "config_step env c (c\<lparr>cs_world := w\<rparr>)"

lemma step_inv: "config_step env c c' \<Longrightarrow> config_inv env c \<Longrightarrow> config_inv env c'"
proof (induction rule: config_step.induct)
  case (step_Get param c c' r)
  then show ?case by (blast intro: stays_inv[OF stays_GetConfig])
next
  case (step_Publish param c c' b)
  then show ?case by (blast intro: stays_inv[OF stays_PublishConfig])
next
  case (step_Delete param c c' b)
  then show ?case by (blast intro: stays_inv[OF stays_DeleteConfig])
next
  case (step_Connected c)
  then show ?case by (simp add: config_OnConnected_def asyncNotifyListenConfig_def config_inv_def)
next
  case (step_Close c close)
  then show ?case by (simp add: config_CloseClient_def config_inv_def)
next
  case (step_World c w)
  then show ?case by (simp add: config_inv_def)
qed (auto intro: ListenConfig_inv CancelListenConfig_inv executeConfigListen_inv config_change_reply_inv OnDisConnect_inv)

lemma steps_inv: "(config_step env)\<^sup>*\<^sup>* c c' \<Longrightarrow> config_inv env c \<Longrightarrow> config_inv env c'"
  by (induction rule: rtranclp_induct) (auto intro: step_inv)

lemma NewConfigClient_inv:
  "NewConfigClient initLogger newProxy flt uid nc lims files w = Inr c \<Longrightarrow> config_inv env c"
  by (rule config_inv_new)
    (auto simp: NewConfigClient_def Let_def split: sum.split_asm option.split_asm)

end
