(* ===== verification/Config_Listen.thy ===== *)
theory Config_Listen
  imports Config_Steps
begin

text \<open>
  One round of listening against a server that answers truthfully: the abstract contract is a store of contents, and
  the round brings the cache to it and calls exactly the listeners of the configurations that differ, once each.
\<close>

section \<open>The server\<close>

text \<open>The content a server has for a configuration: by data id, group and namespace.\<close>

type_synonym store = "string \<Rightarrow> string \<Rightarrow> string \<Rightarrow> string"

definition changed :: "('w, 'l) config_env \<Rightarrow> store \<Rightarrow> ConfigListenContext list \<Rightarrow> ConfigContext list" where
  "changed env srv ctxs =
     map (\<lambda>x. \<lparr>cc_Group = clc_Group x, cc_DataId = clc_DataId x, cc_Tenant = clc_Tenant x\<rparr>)
       (filter (\<lambda>x. clc_Md5 x \<noteq> Md5 env (srv (clc_DataId x) (clc_Group x) (clc_Tenant x))) ctxs)"

text \<open>
  A server that is reachable and answers from a store: a batch of listened configurations with those whose MD5 differs,
  a query with the content (or with the error 300, which stands for a missing configuration). Requests are signed
  and not limited.
\<close>

definition truthful :: "('w, 'l) config_env \<Rightarrow> store \<Rightarrow> bool" where
  "truthful env srv \<longleftrightarrow>
     (\<forall>n b l ctxs t w. \<exists>w' r. ce_rq env n (ConfigBatchListenRequest b l ctxs) t w =
        (w', Inr (ConfigChangeBatchListenResponse r (changed env srv ctxs))) \<and> rs_Success r) \<and>
     (\<forall>n b tag t w. \<exists>w' r body. ce_rq env n (ConfigQueryRequest b tag) t w = (w', Inr (ConfigQueryResponse r body)) \<and>
        (rs_Success r \<or> rs_ErrorCode r = 300 \<and> qb_Content body = []) \<and>
        qb_Content body = srv (cq_DataId b) (cq_Group b) (cq_Tenant b)) \<and>
     (\<forall>l t. snd (ce_AllowN env l t)) \<and> (\<forall>r. \<exists>p. ce_sec env r = Ret p)"

definition content_of :: "store \<Rightarrow> cacheData \<Rightarrow> string" where
  "content_of srv d = srv (cd_dataId d) (cd_group d) (cd_tenant d)"

definition stale :: "('w, 'l) config_env \<Rightarrow> store \<Rightarrow> cacheData \<Rightarrow> bool" where
  "stale env srv d \<longleftrightarrow> cd_md5 d \<noteq> Md5 env (content_of srv d)"

text \<open>The call a listener gets for an entry.\<close>

definition call_for :: "store \<Rightarrow> ('w, 'l) ConfigClient \<Rightarrow> string \<Rightarrow> listener_call" where
  "call_for srv c k =
     (let d = the (cm_Get (ck_cacheMap c) k)
      in \<lparr>lc_listener = ln_listener (ck_listeners c ! cd_cacheDataListener d), lc_namespace = cd_tenant d,
          lc_group = cd_group d, lc_dataId = cd_dataId d, lc_data = content_of srv d\<rparr>)"

section \<open>What a part of a round does\<close>

text \<open>The entries \<open>ks\<close> got the content of the server and their listeners were called in this order; the rest is as it was.\<close>

definition same_entry :: "cacheData \<Rightarrow> cacheData \<Rightarrow> bool" where
  "same_entry d d' \<longleftrightarrow> cd_dataId d' = cd_dataId d \<and> cd_group d' = cd_group d \<and> cd_tenant d' = cd_tenant d \<and>
     cd_cacheDataListener d' = cd_cacheDataListener d \<and> cd_taskId d' = cd_taskId d"

definition entry_updated :: "store \<Rightarrow> bool \<Rightarrow> cacheData option \<Rightarrow> cacheData option \<Rightarrow> bool" where
  "entry_updated srv new x y \<longleftrightarrow>
     (case x of
        None \<Rightarrow> y = None
      | Some d \<Rightarrow> (\<exists>d'. y = Some d' \<and> same_entry d d' \<and> cd_content d' = (if new then content_of srv d else cd_content d)))"

definition updated :: "('w, 'l) config_env \<Rightarrow> store \<Rightarrow> ('w, 'l) ConfigClient \<Rightarrow> ('w, 'l) ConfigClient \<Rightarrow> string list \<Rightarrow> bool" where
  "updated env srv c c' ks \<longleftrightarrow> config_inv env c' \<and>
     (\<forall>k. entry_updated srv (k \<in> set ks) (cm_Get (ck_cacheMap c) k) (cm_Get (ck_cacheMap c') k)) \<and>
     map ln_listener (ck_listeners c') = map ln_listener (ck_listeners c) \<and>
     ck_calls c' = ck_calls c @ map (call_for srv c) ks \<and>
     ck_configFilterChainManager c' = ck_configFilterChainManager c \<and> ck_lastAllSyncTime c' = ck_lastAllSyncTime c"

lemma updated_at:
  "updated env srv c c' ks \<Longrightarrow> entry_updated srv (k \<in> set ks) (cm_Get (ck_cacheMap c) k) (cm_Get (ck_cacheMap c') k)"
  by (simp add: updated_def)

lemma updated_entry:
  assumes "updated env srv c c' ks" and "cm_Get (ck_cacheMap c) k = Some d"
  obtains d' where "cm_Get (ck_cacheMap c') k = Some d'" and "same_entry d d'"
    and "cd_content d' = (if k \<in> set ks then content_of srv d else cd_content d)"
  using updated_at[OF assms(1), of k] assms(2) that by (auto simp: entry_updated_def)

lemma updated_none: "updated env srv c c' ks \<Longrightarrow> cm_Get (ck_cacheMap c) k = None \<Longrightarrow> cm_Get (ck_cacheMap c') k = None"
  using updated_at[of env srv c c' ks k] by (simp add: entry_updated_def)

lemma same_entry_content: "same_entry d d' \<Longrightarrow> content_of srv d' = content_of srv d"
  by (simp add: same_entry_def content_of_def)

lemma same_entry_key: "same_entry d d' \<Longrightarrow> cache_key d' = cache_key d"
  by (simp add: same_entry_def cache_key_def)

lemma same_entry_refl [simp]: "same_entry d d"
  by (simp add: same_entry_def)

lemma same_entry_trans: "same_entry a b \<Longrightarrow> same_entry b c \<Longrightarrow> same_entry a c"
  by (simp add: same_entry_def)

lemma updated_outside: "config_inv env c \<Longrightarrow> outside c c' \<Longrightarrow> updated env srv c c' []"
  unfolding updated_def using outside_same[of c c'] by (auto simp: entry_updated_def split: option.split)

text \<open>The listener of an entry is the same before and after.\<close>

lemma call_for_updated:
  assumes inv: "config_inv env c" and up: "updated env srv c c' ks" and get: "cm_Get (ck_cacheMap c) k = Some d"
  shows "call_for srv c' k = call_for srv c k"
proof -
  obtain d' where d': "cm_Get (ck_cacheMap c') k = Some d'" "same_entry d d'" using updated_entry[OF up get] .
  have l: "map ln_listener (ck_listeners c') = map ln_listener (ck_listeners c)" using up by (simp add: updated_def)
  let ?i = "cd_cacheDataListener d"
  have "?i < length (ck_listeners c)" by (rule config_invD(3)[OF inv get])
  moreover have "length (ck_listeners c') = length (ck_listeners c)" using arg_cong[OF l, of length] by simp
  ultimately have "ln_listener (ck_listeners c' ! ?i) = ln_listener (ck_listeners c ! ?i)"
    using arg_cong[OF l, of "\<lambda>xs. xs ! ?i"] by simp
  with d' get show ?thesis by (simp add: call_for_def same_entry_def content_of_def)
qed

lemma updated_trans:
  assumes inv: "config_inv env c" and up1: "updated env srv c c1 ks1" and up2: "updated env srv c1 c2 ks2"
    and dom: "set ks2 \<subseteq> dom (cm_Get (ck_cacheMap c))"
  shows "updated env srv c c2 (ks1 @ ks2)"
proof -
  have calls: "map (call_for srv c1) ks2 = map (call_for srv c) ks2"
    using dom call_for_updated[OF inv up1] by auto
  have "entry_updated srv (k \<in> set (ks1 @ ks2)) (cm_Get (ck_cacheMap c) k) (cm_Get (ck_cacheMap c2) k)" for k
  proof (cases "cm_Get (ck_cacheMap c) k")
    case None
    with updated_none[OF up2 updated_none[OF up1 None]] show ?thesis by (simp add: entry_updated_def)
  next
    case (Some d)
    obtain d1 where d1: "cm_Get (ck_cacheMap c1) k = Some d1" "same_entry d d1"
      "cd_content d1 = (if k \<in> set ks1 then content_of srv d else cd_content d)" using updated_entry[OF up1 Some] .
    obtain d2 where d2: "cm_Get (ck_cacheMap c2) k = Some d2" "same_entry d1 d2"
      "cd_content d2 = (if k \<in> set ks2 then content_of srv d1 else cd_content d1)" using updated_entry[OF up2 d1(1)] .
    have "same_entry d d2" by (rule same_entry_trans[OF d1(2) d2(2)])
    with Some d1 d2 same_entry_content[OF d1(2), of srv] show ?thesis by (simp add: entry_updated_def)
  qed
  with up1 up2 calls show ?thesis unfolding updated_def by simp
qed

section \<open>Requests to a truthful server\<close>

lemma truthful_listen:
  assumes "truthful env srv"
  shows "\<exists>c1 r. requestProxy env taskId (buildConfigBatchListenRequest ds) t c = Ret (c1,
    Inr (ConfigChangeBatchListenResponse r (map (\<lambda>d. \<lparr>cc_Group = cd_group d, cc_DataId = cd_dataId d, cc_Tenant = cd_tenant d\<rparr>)
      (filter (stale env srv) ds)))) \<and> rs_Success r"
proof -
  let ?ctx = "\<lambda>d. \<lparr>clc_Group = cd_group d, clc_Md5 = cd_md5 d, clc_DataId = cd_dataId d, clc_Tenant = cd_tenant d\<rparr>"
  have ch: "changed env srv (map ?ctx ds) =
      map (\<lambda>d. \<lparr>cc_Group = cd_group d, cc_DataId = cd_dataId d, cc_Tenant = cd_tenant d\<rparr>) (filter (stale env srv) ds)"
    by (simp add: changed_def filter_map o_def stale_def[abs_def] content_of_def)
  obtain p where p: "ce_sec env (BuildConfigResourceByRequest (buildConfigBatchListenRequest ds)) = Ret p"
    using assms unfolding truthful_def by blast
  have "\<exists>w' r. ce_rq env n (ConfigBatchListenRequest b l (map ?ctx ds)) t w =
      (w', Inr (ConfigChangeBatchListenResponse r (changed env srv (map ?ctx ds)))) \<and> rs_Success r" for n b l t w
    using assms unfolding truthful_def by blast
  then obtain w' r where "ce_rq env taskId (ConfigBatchListenRequest ((NewConfigRequest [] [] [])\<lparr>rq_Headers :=
      Some (injectCommHeader env (cs_clientConfig c) (cs_world c)
        (put_all (slice (GetHeaders (buildConfigBatchListenRequest ds))) p))\<rparr>) True (map ?ctx ds)) t (cs_world c) =
      (w', Inr (ConfigChangeBatchListenResponse r (changed env srv (map ?ctx ds))))" "rs_Success r" by blast
  then have "requestProxy env taskId (buildConfigBatchListenRequest ds) t c =
      Ret (c\<lparr>cs_world := w'\<rparr>, Inr (ConfigChangeBatchListenResponse r (changed env srv (map ?ctx ds))))"
    by (simp add: requestProxy_def InjectSecurityInfo_def p) (simp add: buildConfigBatchListenRequest_def Let_def)
  with \<open>rs_Success r\<close> show ?thesis unfolding ch by blast
qed

lemma truthful_query:
  assumes tr: "truthful env srv" and "grp \<noteq> []"
  obtains c1 b body where "queryConfig env dataId grp tenant t notify c = Ret (c1, Inr (b, body))"
    and "rs_Success b" and "qb_Content body = srv dataId grp tenant"
proof -
  have "snd (ce_AllowN env l n)" for l n using tr unfolding truthful_def by blast
  then have "\<not> snd (IsLimited env (GetConfigCacheKey dataId grp tenant) c)" by (simp add: IsLimited_def Let_def split_beta)
  then obtain c0 where lim: "IsLimited env (GetConfigCacheKey dataId grp tenant) c = (c0, False)"
    by (metis eq_snd_iff)
  obtain p where p: "ce_sec env (BuildConfigResourceByRequest (query_request dataId grp tenant notify)) = Ret p"
    using tr unfolding truthful_def by blast
  have q: "\<exists>b. set_headers h (query_request dataId grp tenant notify) = ConfigQueryRequest b [] \<and>
      cq_DataId b = dataId \<and> cq_Group b = grp \<and> cq_Tenant b = tenant" for h
    by (simp add: query_request_def NewConfigQueryRequest_def NewConfigRequest_def Let_def)
  have rq: "\<exists>w' r body. ce_rq env n (ConfigQueryRequest b tag) t w = (w', Inr (ConfigQueryResponse r body)) \<and>
      (rs_Success r \<or> rs_ErrorCode r = 300) \<and> qb_Content body = srv (cq_DataId b) (cq_Group b) (cq_Tenant b)" for n b tag t w
  proof -
    have "\<exists>w' r body. ce_rq env n (ConfigQueryRequest b tag) t w = (w', Inr (ConfigQueryResponse r body)) \<and>
        (rs_Success r \<or> rs_ErrorCode r = 300 \<and> qb_Content body = []) \<and>
        qb_Content body = srv (cq_DataId b) (cq_Group b) (cq_Tenant b)"
      using tr unfolding truthful_def by blast
    then show ?thesis by blast
  qed
  obtain c2 r body where r: "requestProxy env ''0'' (query_request dataId grp tenant notify) t c0 =
      Ret (c2, Inr (ConfigQueryResponse r body))" "rs_Success r \<or> rs_ErrorCode r = 300"
    "qb_Content body = srv dataId grp tenant"
  proof -
    let ?hs = "injectCommHeader env (cs_clientConfig c0) (cs_world c0)
      (put_all (slice (GetHeaders (query_request dataId grp tenant notify))) p)"
    obtain b where b: "set_headers (Some ?hs) (query_request dataId grp tenant notify) = ConfigQueryRequest b []"
      "cq_DataId b = dataId" "cq_Group b = grp" "cq_Tenant b = tenant" using q by blast
    obtain w' r body where "ce_rq env ''0'' (ConfigQueryRequest b []) t (cs_world c0) = (w', Inr (ConfigQueryResponse r body))"
      "rs_Success r \<or> rs_ErrorCode r = 300" "qb_Content body = srv dataId grp tenant" using rq[of "''0''" b "[]"] b(2-4) by blast
    then show thesis using that[of "c0\<lparr>cs_world := w'\<rparr>"] b(1) p by (simp add: requestProxy_def InjectSecurityInfo_def)
  qed
  obtain c3 b body' where "query_result env dataId grp tenant (ConfigQueryResponse r body) c2 = (c3, Inr (b, body'))"
    "rs_Success b" "qb_Content body' = srv dataId grp tenant"
    using r(2,3) by (cases "rs_Success r") (auto simp: query_result_def Let_def)
  then show thesis using that lim r(1) assms(2) by (simp add: queryConfig_def)
qed

section \<open>One configuration\<close>

lemma executeListener_updates:
  assumes inv: "config_inv env c" and get: "cm_Get (ck_cacheMap c) (cache_key d) = Some d"
    and chain: "ck_configFilterChainManager c = []" and body: "qb_Content body = content_of srv d"
  obtains c' where "executeListener (refreshed env body d) c = Ret c'" and "updated env srv c c' [cache_key d]"
proof -
  let ?d = "refreshed env body d" and ?i = "cd_cacheDataListener d"
  let ?c' = "call_listener ?d (qb_Content body) ((remember_md5 ?d c)\<lparr>cs_world := cs_world c\<rparr>)"
  have e: "executeListener ?d c = Ret ?c'"
    using chain by (simp add: executeListener_def Let_def remember_md5_def cache_Set_def response_param_def)
  have i: "?i < length (ck_listeners c)" by (rule config_invD(3)[OF inv get])
  have inv': "config_inv env ?c'"
    by (rule executeListener_inv[OF inv _ _ _ _ _ e, where d = d])
      (simp_all only: refreshed_simps get config_invD(6)[OF inv get])
  have ls: "ck_listeners ?c' = (ck_listeners c)[?i := (ck_listeners c ! ?i)\<lparr>ln_lastMd5 := cd_md5 ?d\<rparr>]"
    by (simp add: call_listener_def remember_md5_def cache_Set_def)
  have names: "map ln_listener (ck_listeners ?c') = map ln_listener (ck_listeners c)"
    unfolding ls by (rule nth_equalityI) (simp_all add: nth_list_update i)
  have cm: "cm_Get (ck_cacheMap ?c') = (cm_Get (ck_cacheMap c))(cache_key d \<mapsto> ?d)"
    using cm_Get_remember[OF inv, of ?d] by (simp add: call_listener_def)
  have "entry_updated srv (k \<in> set [cache_key d]) (cm_Get (ck_cacheMap c) k) (cm_Get (ck_cacheMap ?c') k)" for k
    unfolding cm using get body
    by (cases "k = cache_key d") (auto simp: entry_updated_def same_entry_def split: option.split)
  moreover have "ck_calls ?c' = ck_calls c @ map (call_for srv c) [cache_key d]"
    using get i body by (simp add: call_listener_def remember_md5_def cache_Set_def call_for_def)
  moreover have "ck_configFilterChainManager ?c' = ck_configFilterChainManager c" "ck_lastAllSyncTime ?c' = ck_lastAllSyncTime c"
    by (simp_all add: call_listener_def remember_md5_def cache_Set_def)
  ultimately have "updated env srv c ?c' [cache_key d]" using inv' names unfolding updated_def by blast
  with e that show thesis by blast
qed

lemma refresh_updates:
  assumes tr: "truthful env srv" and inv: "config_inv env c" and get: "cm_Get (ck_cacheMap c) (cache_key d) = Some d"
    and chain: "ck_configFilterChainManager c = []" and st: "stale env srv d"
  obtains c' where "refreshContentAndCheck env d notify c = Ret c'" and "updated env srv c c' [cache_key d]"
proof -
  obtain c1 b body where q: "queryConfig env (cd_dataId d) (cd_group d) (cd_tenant d) DEFAULT_TIMEOUT_MILLS notify c =
      Ret (c1, Inr (b, body))" and b: "rs_Success b" and body: "qb_Content body = content_of srv d"
    using truthful_query[OF tr config_invD(2)[OF inv get]] unfolding content_of_def by blast
  note out = queryConfig_outside[OF q]
  note o = outside_same[OF out]
  have inv1: "config_inv env c1" and get1: "cm_Get (ck_cacheMap c1) (cache_key d) = Some d"
    and chain1: "ck_configFilterChainManager c1 = []" using inv get chain o by simp_all
  have "Md5 env (qb_Content body) \<noteq> lastMd5 c1 d"
    using st body config_invD(4)[OF inv1 get1] by (simp add: stale_def)
  then have e: "refreshContentAndCheck env d notify c = executeListener (refreshed env body d) c1"
    unfolding refreshContentAndCheck_eq q using b by simp
  obtain c' where c': "executeListener (refreshed env body d) c1 = Ret c'" "updated env srv c1 c' [cache_key d]"
    using executeListener_updates[OF inv1 get1 chain1 body] .
  have "updated env srv c c' ([] @ [cache_key d])"
    by (rule updated_trans[OF inv updated_outside[OF inv out] c'(2)]) (use get in auto)
  with e c'(1) that show thesis by simp
qed

section \<open>One task\<close>

text \<open>A copy of an entry that is still current, and one with the MD5 of its content.\<close>

definition current :: "('w, 'l) ConfigClient \<Rightarrow> cacheData \<Rightarrow> bool" where
  "current c d \<longleftrightarrow> (\<exists>d1. cm_Get (ck_cacheMap c) (cache_key d) = Some d1 \<and> same_entry d d1 \<and> cd_content d1 = cd_content d)"

definition hashed :: "('w, 'l) config_env \<Rightarrow> cacheData \<Rightarrow> bool" where
  "hashed env d \<longleftrightarrow> cd_md5 d = Md5 env (cd_content d)"

lemma current_updated:
  assumes "updated env srv c c' ks" and "current c d" and "cache_key d \<notin> set ks"
  shows "current c' d"
proof -
  obtain d1 where d1: "cm_Get (ck_cacheMap c) (cache_key d) = Some d1" "same_entry d d1" "cd_content d1 = cd_content d"
    using assms(2) by (auto simp: current_def)
  obtain d2 where "cm_Get (ck_cacheMap c') (cache_key d) = Some d2" "same_entry d1 d2" "cd_content d2 = cd_content d1"
    using updated_entry[OF assms(1) d1(1)] assms(3) by auto
  with d1 same_entry_trans show ?thesis unfolding current_def by metis
qed

lemma current_dom: "current c d \<Longrightarrow> cache_key d \<in> dom (cm_Get (ck_cacheMap c))"
  by (auto simp: current_def)

definition context_of :: "cacheData \<Rightarrow> ConfigContext" where
  "context_of d = \<lparr>cc_Group = cd_group d, cc_DataId = cd_dataId d, cc_Tenant = cd_tenant d\<rparr>"

lemma context_key_of [simp]: "context_key (context_of d) = cache_key d"
  by (simp add: context_key_def context_of_def cache_key_def)

lemma updated_inv: "updated env srv c c' ks \<Longrightarrow> config_inv env c'"
  and updated_chain: "updated env srv c c' ks \<Longrightarrow> ck_configFilterChainManager c' = ck_configFilterChainManager c"
  by (simp_all add: updated_def)

lemma changed_loop_updates:
  assumes tr: "truthful env srv" and "config_inv env c" and "ck_configFilterChainManager c = []"
    and "\<forall>d \<in> set ds. current c d \<and> hashed env d \<and> stale env srv d" and "distinct (map cache_key ds)"
  shows "\<exists>c'. changed_loop env (map context_of ds) c = Ret c' \<and> updated env srv c c' (map cache_key ds)"
  using assms(2-)
proof (induction ds arbitrary: c)
  case Nil
  then show ?case using updated_outside[OF _ outsideI(1)] by auto
next
  case (Cons d ds)
  obtain d1 where d1: "cm_Get (ck_cacheMap c) (cache_key d) = Some d1" "same_entry d d1" "cd_content d1 = cd_content d"
    using Cons.prems(3) by (auto simp: current_def)
  have k: "cache_key d1 = cache_key d" by (rule same_entry_key[OF d1(2)])
  have "stale env srv d1"
    using Cons.prems(3) d1 config_invD(5)[OF Cons.prems(1) d1(1)] same_entry_content[OF d1(2), of srv]
    by (auto simp: stale_def hashed_def)
  then obtain c1 where c1: "refreshContentAndCheck env d1 (\<not> cd_isInitializing d1) c = Ret c1" "updated env srv c c1 [cache_key d]"
    using refresh_updates[OF tr Cons.prems(1), of d1] d1(1) Cons.prems(2) unfolding k by metis
  have cur: "current c1 d'" if "d' \<in> set ds" for d'
  proof (rule current_updated[OF c1(2)])
    show "current c d'" using Cons.prems(3) that by simp
    have "cache_key d \<noteq> cache_key d'" using Cons.prems(4) that by force
    then show "cache_key d' \<notin> set [cache_key d]" by auto
  qed
  obtain c' where c': "changed_loop env (map context_of ds) c1 = Ret c'" "updated env srv c1 c' (map cache_key ds)"
    using Cons.IH[OF updated_inv[OF c1(2)]] cur Cons.prems(2-4) updated_chain[OF c1(2)] by auto
  have "updated env srv c c' ([cache_key d] @ map cache_key ds)"
    by (rule updated_trans[OF Cons.prems(1) c1(2) c'(2)]) (use Cons.prems(3) current_dom in auto)
  with c1(1) c'(1) d1(1) show ?case by simp
qed

lemma mark_entry_updates:
  assumes inv: "config_inv env c" and get: "cm_Get (ck_cacheMap c) (cache_key d) = Some d"
  shows "updated env srv c (mark_entry keys d c) []"
proof -
  note st = mark_entry_step[OF inv get, of keys]
  have "entry_updated srv False (cm_Get (ck_cacheMap c) k) (cm_Get (ck_cacheMap (mark_entry keys d c)) k)" for k
    unfolding st(2) using get
    by (cases "k = cache_key d") (auto simp: entry_updated_def same_entry_def split: option.split)
  with st(1) show ?thesis by (simp add: updated_def mark_entry_def cache_Set_def)
qed

lemma mark_all_updates:
  assumes "config_inv env c" and "\<forall>d \<in> set ds. cm_Get (ck_cacheMap c) (cache_key d) = Some d"
    and "distinct (map cache_key ds)"
  shows "updated env srv c (mark_all keys ds c) []"
  using assms unfolding mark_all_def
proof (induction ds arbitrary: c)
  case Nil
  then show ?case using updated_outside[OF _ outsideI(1)] by simp
next
  case (Cons d ds)
  have get: "cm_Get (ck_cacheMap c) (cache_key d) = Some d" using Cons.prems(2) by simp
  note st = mark_entry_step[OF Cons.prems(1) get, of keys]
  have "\<forall>d' \<in> set ds. cm_Get (ck_cacheMap (mark_entry keys d c)) (cache_key d') = Some d'"
  proof
    fix d' assume d': "d' \<in> set ds"
    then have "cache_key d \<noteq> cache_key d'" using Cons.prems(3) by force
    with d' Cons.prems(2) show "cm_Get (ck_cacheMap (mark_entry keys d c)) (cache_key d') = Some d'" by (simp add: st(2))
  qed
  with Cons.IH[OF st(1)] Cons.prems(3)
  have "updated env srv (mark_entry keys d c) (fold (mark_entry keys) ds (mark_entry keys d c)) []" by simp
  from updated_trans[OF Cons.prems(1) mark_entry_updates[OF Cons.prems(1) get] this] show ?case by simp
qed

lemma listen_changes_updates:
  assumes "truthful env srv" and inv: "config_inv env c" and "ck_configFilterChainManager c = []"
    and cur: "\<forall>d \<in> set ds. current c d \<and> hashed env d \<and> stale env srv d" and "distinct (map cache_key ds)"
  shows "\<exists>c'. listen_changes env (map context_of ds) c = Ret c' \<and> updated env srv c c' (map cache_key ds)"
proof -
  obtain c1 where c1: "changed_loop env (map context_of ds) c = Ret c1" "updated env srv c c1 (map cache_key ds)"
    using changed_loop_updates[OF assms] by blast
  note inv1 = updated_inv[OF c1(2)]
  let ?c' = "mark_all (map context_key (map context_of ds)) (map snd (cm_Items (ck_cacheMap c1))) c1"
  have "updated env srv c1 ?c' []"
    by (rule mark_all_updates[OF inv1 _ items_distinct[OF inv1]]) (use items_current[OF inv1] in blast)
  from updated_trans[OF inv c1(2) this] c1(1) show ?thesis by (simp add: listen_changes_def)
qed

lemma listen_task_updates:
  assumes tr: "truthful env srv" and inv: "config_inv env c" and chain: "ck_configFilterChainManager c = []"
    and cur: "\<forall>d \<in> set ds. current c d \<and> hashed env d" and dist: "distinct (map cache_key ds)"
  shows "\<exists>c' b. listen_task env t ds c = Ret (c', b) \<and> updated env srv c c' (map cache_key (filter (stale env srv) ds))"
proof -
  let ?st = "filter (stale env srv) ds"
  obtain c1 r where rp: "requestProxy env (itoa (int t)) (buildConfigBatchListenRequest ds) 3000 c =
      Ret (c1, Inr (ConfigChangeBatchListenResponse r (map context_of ?st)))" and r: "rs_Success r"
    using truthful_listen[OF tr, of "itoa (int t)" ds 3000 c] unfolding context_of_def[abs_def] by blast
  note out = requestProxy_outside[OF rp]
  note o = outside_same[OF out]
  have "\<exists>c'. listen_changes env (map context_of ?st) c1 = Ret c' \<and> updated env srv c1 c' (map cache_key ?st)"
    by (rule listen_changes_updates[OF tr])
      (use inv chain cur dist o in \<open>auto simp: current_def distinct_map_filter\<close>)
  then obtain c' where c': "listen_changes env (map context_of ?st) c1 = Ret c'" "updated env srv c1 c' (map cache_key ?st)"
    by blast
  have "updated env srv c c' ([] @ map cache_key ?st)"
    by (rule updated_trans[OF inv updated_outside[OF inv out] c'(2)]) (use cur current_dom in auto)
  with rp r c'(1) show ?thesis by (simp add: listen_task_def IsSuccess_def)
qed

section \<open>One round\<close>

lemma tasks_loop_updates:
  assumes tr: "truthful env srv" and "config_inv env c" and "ck_configFilterChainManager c = []"
    and "\<forall>d \<in> set (concat (map snd ts)). current c d \<and> hashed env d" and "distinct (map cache_key (concat (map snd ts)))"
  shows "\<exists>c' b. tasks_loop env ts h c = Ret (c', b) \<and>
    updated env srv c c' (map cache_key (filter (stale env srv) (concat (map snd ts))))"
  using assms(2-)
proof (induction ts arbitrary: c h)
  case Nil
  then show ?case using updated_outside[OF _ outsideI(1)] by auto
next
  case (Cons t ts)
  obtain i ds where t: "t = (i, ds)" by fastforce
  obtain c1 b where c1: "listen_task env i ds c = Ret (c1, b)" "updated env srv c c1 (map cache_key (filter (stale env srv) ds))"
    using listen_task_updates[OF tr Cons.prems(1,2), of ds i] Cons.prems(3,4) t by auto
  have cur: "current c1 d" if "d \<in> set (concat (map snd ts))" for d
  proof (rule current_updated[OF c1(2)])
    show "current c d" using Cons.prems(3) that by simp
    have "cache_key d \<notin> cache_key ` set ds" using Cons.prems(4) that t by force
    then show "cache_key d \<notin> set (map cache_key (filter (stale env srv) ds))" by auto
  qed
  obtain c' b' where c': "tasks_loop env ts (h \<or> b) c1 = Ret (c', b')"
    "updated env srv c1 c' (map cache_key (filter (stale env srv) (concat (map snd ts))))"
    using Cons.IH[OF updated_inv[OF c1(2)], of "h \<or> b"] cur Cons.prems(2-4) updated_chain[OF c1(2)] by auto
  have "updated env srv c c' (map cache_key (filter (stale env srv) ds) @
      map cache_key (filter (stale env srv) (concat (map snd ts))))"
    by (rule updated_trans[OF Cons.prems(1) c1(2) c'(2)]) (use Cons.prems(3) current_dom in auto)
  with c1(1) c'(1) t show ?case by simp
qed

text \<open>Each listened entry is in exactly one task.\<close>

lemma mset_append_task:
  assumes "wf_map m"
  shows "mset (concat (map snd (append_task t d m))) = add_mset d (mset (concat (map snd m)))" "wf_map (append_task t d m)"
proof -
  show "wf_map (append_task t d m)" using assms by (simp add: append_task_def)
  have "mset (concat (map snd (AList.update t (ds @ [d]) m))) = add_mset d (mset (concat (map snd m)))"
    if "(case map_of m t of None \<Rightarrow> [] | Some ds \<Rightarrow> ds) = ds" for ds
    using that by (induction m) auto
  then show "mset (concat (map snd (append_task t d m))) = add_mset d (mset (concat (map snd m)))"
    by (simp add: append_task_def)
qed

lemma mset_fold_append_task:
  "wf_map m \<Longrightarrow> mset (concat (map snd (fold (\<lambda>d. append_task (cd_taskId d) d) ds m))) = mset (concat (map snd m)) + mset ds"
  by (induction ds arbitrary: m) (auto simp: mset_append_task)

lemma mset_tasks_of:
  "mset (concat (map snd (tasks_of all c))) = mset (filter (listened all) (map snd (cm_Items (ck_cacheMap c))))"
  using mset_fold_append_task[of "[]"] by (simp add: tasks_of_def)

lemma tasks_of_entries:
  assumes inv: "config_inv env c"
  shows "set (concat (map snd (tasks_of all c))) = {d. cm_Get (ck_cacheMap c) (cache_key d) = Some d \<and> listened all d}"
    "distinct (map cache_key (concat (map snd (tasks_of all c))))"
proof -
  let ?is = "map snd (cm_Items (ck_cacheMap c))"
  have items: "d \<in> set ?is \<longleftrightarrow> cm_Get (ck_cacheMap c) (cache_key d) = Some d" for d
    using items_current[OF inv, of d] cm_Items_complete[OF inv, of "cache_key d" d] by blast
  have "set (concat (map snd (tasks_of all c))) = set (filter (listened all) ?is)"
    using mset_tasks_of[of all c] by (metis set_mset_mset)
  then show "set (concat (map snd (tasks_of all c))) = {d. cm_Get (ck_cacheMap c) (cache_key d) = Some d \<and> listened all d}"
    using items by (simp only: set_filter)
  have "mset (map cache_key (concat (map snd (tasks_of all c)))) = mset (map cache_key (filter (listened all) ?is))"
    using mset_tasks_of[of all c] by (simp only: mset_map)
  moreover have "distinct (map cache_key (filter (listened all) ?is))"
    by (rule distinct_map_filter[OF items_distinct[OF inv]])
  ultimately show "distinct (map cache_key (concat (map snd (tasks_of all c))))" by (metis mset_eq_imp_distinct_iff)
qed

lemma round_updates:
  assumes tr: "truthful env srv" and inv: "config_inv env c" and chain: "ck_configFilterChainManager c = []"
    and all: "all = (ce_nanos env (cs_world c) - ck_lastAllSyncTime c \<ge> ALL_SYNC_INTERNAL)"
  shows "\<exists>c' ks. executeConfigListen env c = Ret c' \<and> distinct ks \<and>
    set ks = {k. \<exists>d. cm_Get (ck_cacheMap c) k = Some d \<and> listened all d \<and> stale env srv d} \<and>
    ck_calls c' = ck_calls c @ map (call_for srv c) ks \<and> config_inv env c' \<and>
    (\<forall>k. entry_updated srv (k \<in> set ks) (cm_Get (ck_cacheMap c) k) (cm_Get (ck_cacheMap c') k))"
proof -
  let ?ts = "tasks_of all c" and ?ds = "concat (map snd (tasks_of all c))"
  let ?ks = "map cache_key (filter (stale env srv) ?ds)"
  note te = tasks_of_entries[OF inv, of all]
  have cur: "\<forall>d \<in> set ?ds. current c d \<and> hashed env d"
    using config_invD(5)[OF inv] unfolding te(1) current_def hashed_def by auto
  obtain c2 b where c2: "tasks_loop env ?ts False c = Ret (c2, b)" "updated env srv c c2 ?ks"
    using tasks_loop_updates[OF tr inv chain cur te(2), of False] by blast
  let ?c' = "(let c3 = (if all then c2\<lparr>ck_lastAllSyncTime := ce_nanos env (cs_world c2)\<rparr> else c2)
    in if b then asyncNotifyListenConfig c3 else c3)"
  have upd: "ck_cacheMap ?c' = ck_cacheMap c2" "ck_listeners ?c' = ck_listeners c2" "ck_calls ?c' = ck_calls c2"
    by (simp_all add: Let_def asyncNotifyListenConfig_def)
  have ks: "set ?ks = {k. \<exists>d. cm_Get (ck_cacheMap c) k = Some d \<and> listened all d \<and> stale env srv d}"
    using te(1) config_invD(1)[OF inv] by (simp only: set_map set_filter) blast
  have dist: "distinct ?ks" by (rule distinct_map_filter[OF te(2)])
  have up: "ck_calls c2 = ck_calls c @ map (call_for srv c) ?ks" "config_inv env c2"
    "\<forall>k. entry_updated srv (k \<in> set ?ks) (cm_Get (ck_cacheMap c) k) (cm_Get (ck_cacheMap c2) k)"
    using c2(2) unfolding updated_def by blast+
  have "executeConfigListen env c = Ret (if ?ts = [] then c else ?c')"
    using c2(1) unfolding executeConfigListen_def buildListenTask_eq[OF inv] all[symmetric] Let_def by simp
  moreover have "c2 = c" if "?ts = []" using c2(1) that by simp
  moreover have "config_inv env ?c'" using up(2) config_inv_cong[OF upd(1,2)] by blast
  ultimately show ?thesis using dist ks up inv upd by (intro exI[of _ "if ?ts = [] then c else ?c'"] exI[of _ ?ks]) auto
qed

section \<open>Properties\<close>

text \<open>
  C3: A round of listening brings the cache to the server. Let a client without filters be in a state its operations
  reach, and the server answer truthfully from its contents. The round returns, and it calls the listeners of exactly the
  configurations it asked about whose MD5 differs from that of the server's content: each once, with the content of the
  server. Afterwards every configuration it asked about has the MD5 of the server's content, and the others have the
  content they had. It asks about the entries that are not marked as in sync, and about all of them every five minutes.
\<close>

theorem listen_round_converges:
  assumes "NewConfigClient initLogger newProxy flt uid nc lims files w = Inr c0" and "(config_step env)\<^sup>*\<^sup>* c0 c"
    and "ck_configFilterChainManager c = []" and "truthful env srv"
    and "all = (ce_nanos env (cs_world c) - ck_lastAllSyncTime c \<ge> ALL_SYNC_INTERNAL)"
  shows "\<exists>c' ks. executeConfigListen env c = Ret c' \<and> distinct ks \<and>
    set ks = {k. \<exists>d. cm_Get (ck_cacheMap c) k = Some d \<and> (\<not> cd_isSyncWithServer d \<or> all) \<and>
      cd_md5 d \<noteq> Md5 env (srv (cd_dataId d) (cd_group d) (cd_tenant d))} \<and>
    ck_calls c' = ck_calls c @ map (call_for srv c) ks \<and>
    (\<forall>k d. cm_Get (ck_cacheMap c) k = Some d \<longrightarrow> (\<exists>d'. cm_Get (ck_cacheMap c') k = Some d' \<and>
      (if \<not> cd_isSyncWithServer d \<or> all then cd_md5 d' = Md5 env (srv (cd_dataId d) (cd_group d) (cd_tenant d))
       else cd_content d' = cd_content d)))"
proof -
  have inv: "config_inv env c" by (rule steps_inv[OF assms(2) NewConfigClient_inv[OF assms(1)]])
  obtain c' ks where c': "executeConfigListen env c = Ret c'" "distinct ks"
    and ks: "set ks = {k. \<exists>d. cm_Get (ck_cacheMap c) k = Some d \<and> listened all d \<and> stale env srv d}"
    and calls: "ck_calls c' = ck_calls c @ map (call_for srv c) ks" and inv': "config_inv env c'"
    and up: "\<forall>k. entry_updated srv (k \<in> set ks) (cm_Get (ck_cacheMap c) k) (cm_Get (ck_cacheMap c') k)"
    using round_updates[OF assms(4) inv assms(3,5)] by blast
  have "\<exists>d'. cm_Get (ck_cacheMap c') k = Some d' \<and>
      (if listened all d then cd_md5 d' = Md5 env (content_of srv d) else cd_content d' = cd_content d)"
    if g: "cm_Get (ck_cacheMap c) k = Some d" for k d
  proof -
    obtain d' where d': "cm_Get (ck_cacheMap c') k = Some d'"
      "cd_content d' = (if k \<in> set ks then content_of srv d else cd_content d)"
      using spec[OF up, of k] g by (auto simp: entry_updated_def)
    have "k \<in> set ks \<longleftrightarrow> listened all d \<and> stale env srv d" using ks g by auto
    with d' config_invD(5)[OF inv' d'(1)] config_invD(5)[OF inv g] show ?thesis by (auto simp: stale_def)
  qed
  with c' ks calls show ?thesis unfolding listened_def stale_def content_of_def by blast
qed

lemma distinct_singleton: "set xs = {x} \<Longrightarrow> distinct xs \<Longrightarrow> xs = [x]"
proof (cases xs)
  case (Cons y ys)
  assume "set xs = {x}" "distinct xs"
  with Cons have "y = x" "set ys \<subseteq> {x}" "x \<notin> set ys" by auto
  then have "set ys = {}" using subset_singletonD[of "set ys" x] by auto
  with Cons \<open>y = x\<close> show ?thesis by simp
qed simp

text \<open>An example: a server with the content \<open>v2\<close>, and a client that listens to a configuration it has no snapshot of.\<close>

definition demo_nc :: NacosClient where
  "demo_nc = \<lparr>nc_clientConfigValid = True, nc_serverConfigsValid = True, nc_agent = Some zero_TLSConfig,
     nc_clientConfig = zero_ClientConfig, nc_serverConfigs = []\<rparr>"

definition demo_store :: store where "demo_store dataId grp tenant = ''v2''"

fun demo_rq :: "string \<Rightarrow> IRequest \<Rightarrow> int \<Rightarrow> unit \<Rightarrow> unit \<times> IResponse result" where
  "demo_rq n (ConfigBatchListenRequest b l ctxs) t w =
     (w, Inr (ConfigChangeBatchListenResponse (zero_Response\<lparr>rs_Success := True\<rparr>)
        (map (\<lambda>x. \<lparr>cc_Group = clc_Group x, cc_DataId = clc_DataId x, cc_Tenant = clc_Tenant x\<rparr>)
          (filter (\<lambda>x. clc_Md5 x \<noteq> ''v2'') ctxs))))"
| "demo_rq n (ConfigQueryRequest b tag) t w =
     (w, Inr (ConfigQueryResponse (zero_Response\<lparr>rs_Success := True\<rparr>) (zero_ConfigQueryBody\<lparr>qb_Content := ''v2''\<rparr>)))"
| "demo_rq n _ t w = (w, Inl (Err []))"

definition demo_config_env :: "(unit, unit) config_env" where
  "demo_config_env = \<lparr>ce_rq = demo_rq, ce_sec = (\<lambda>r. Ret []), ce_nanos = (\<lambda>w. 0), ce_md5 = id, ce_io = all_ok,
     ce_NewLimiter = (), ce_AllowN = (\<lambda>l t. (l, True))\<rparr>"

definition demo_new :: "(unit, unit) ConfigClient result" where
  "demo_new = NewConfigClient (\<lambda>_. None) (\<lambda>_ _. None)
     (\<lambda>_. \<lparr>cf_DoFilter = (\<lambda>p w. Ret (w, p, None)), cf_GetOrder = 0, cf_GetFilterName = []\<rparr>) (Inr ''u'') demo_nc
     NewConcurrentMap \<lparr>fs_files = [], fs_dirs = []\<rparr> ()"

definition demo_param :: ConfigParam where
  "demo_param = zero_ConfigParam\<lparr>cp_DataId := ''d'', cp_Group := ''g'', cp_OnChange := 7\<rparr>"

definition demo_key :: string where "demo_key = GetConfigCacheKey ''d'' ''g'' []"

lemma demo_truthful: "truthful demo_config_env demo_store"
  by (simp add: truthful_def demo_config_env_def demo_store_def changed_def Md5_def)

lemma demo_listening:
  obtains c0 c d where "demo_new = Inr c0" and "c = fst (ListenConfig demo_config_env demo_param c0)"
    and "cm_Get (ck_cacheMap c) = [demo_key \<mapsto> d]" and "cd_dataId d = ''d''" "cd_group d = ''g''" "cd_tenant d = []"
    and "cd_content d = []" "cd_md5 d = []" "\<not> cd_isSyncWithServer d"
    and "ck_configFilterChainManager c = []" "ck_calls c = []"
    and "ln_listener (ck_listeners c ! cd_cacheDataListener d) = 7"
proof -
  obtain c0 where c0: "demo_new = Inr c0" "ck_INacosClient c0 = demo_nc" "ck_cacheMap c0 = NewConcurrentMap"
    "ck_configFilterChainManager c0 = []" "ck_calls c0 = []" "cs_fs c0 = \<lparr>fs_files = [], fs_dirs = []\<rparr>" "ck_listeners c0 = []"
    by (auto simp: demo_new_def NewConfigClient_def demo_nc_def GetClientConfig_def GetServerConfig_def GetHttpAgent_def
        Let_def zero_ClientConfig_def)
  let ?d = "new_cacheData demo_config_env demo_param [] demo_key c0"
  let ?c = "fst (ListenConfig demo_config_env demo_param c0)"
  have e: "?c = cache_Set demo_key ?d (c0\<lparr>ck_listeners := [\<lparr>ln_listener = 7, ln_lastMd5 = cd_md5 ?d\<rparr>]\<rparr>)"
    using c0 by (simp add: ListenConfig_def demo_param_def demo_key_def demo_nc_def GetClientConfig_def
        zero_ClientConfig_def Let_def zero_ConfigParam_def)
  have "cm_Get (ck_cacheMap ?c) = [demo_key \<mapsto> ?d]"
    unfolding e by (rule ext) (simp add: cache_Set_def cm_Get_Set c0(3) cm.inv_empty)
  moreover have "cd_content ?d = []"
    using c0(6) by (simp add: new_cacheData_def Let_def ReadConfigFromFile_def readConfigFromFile_def IsExistFile_def path_exists_def)
  moreover have "cd_md5 ?d = Md5 demo_config_env (cd_content ?d)" by (simp add: new_cacheData_def Let_def Md5_def)
  ultimately show thesis using that[of c0 ?c ?d] c0(1,4,5,7) e
    by (simp add: new_cacheData_def Let_def demo_param_def cache_Set_def zero_ConfigParam_def Md5_def)
qed

theorem listen_round_converges_witness:
  "\<exists>c0 c c'. demo_new = Inr c0 \<and> c = fst (ListenConfig demo_config_env demo_param c0) \<and>
     executeConfigListen demo_config_env c = Ret c' \<and>
     ck_calls c' = [\<lparr>lc_listener = 7, lc_namespace = [], lc_group = ''g'', lc_dataId = ''d'', lc_data = ''v2''\<rparr>]"
proof -
  obtain c0 c d where d: "demo_new = Inr c0" "c = fst (ListenConfig demo_config_env demo_param c0)"
    "cm_Get (ck_cacheMap c) = [demo_key \<mapsto> d]" "cd_dataId d = ''d''" "cd_group d = ''g''" "cd_tenant d = []"
    "cd_content d = []" "cd_md5 d = []" "\<not> cd_isSyncWithServer d"
    "ck_configFilterChainManager c = []" "ck_calls c = []" "ln_listener (ck_listeners c ! cd_cacheDataListener d) = 7"
    by (rule demo_listening)
  have steps: "(config_step demo_config_env)\<^sup>*\<^sup>* c0 c" unfolding d(2) by (rule r_into_rtranclp) (rule step_Listen)
  obtain c' ks where c': "executeConfigListen demo_config_env c = Ret c'" "distinct ks"
    "set ks = {k. \<exists>d. cm_Get (ck_cacheMap c) k = Some d \<and> (\<not> cd_isSyncWithServer d \<or>
      (ce_nanos demo_config_env (cs_world c) - ck_lastAllSyncTime c \<ge> ALL_SYNC_INTERNAL)) \<and>
      cd_md5 d \<noteq> Md5 demo_config_env (demo_store (cd_dataId d) (cd_group d) (cd_tenant d))}"
    "ck_calls c' = ck_calls c @ map (call_for demo_store c) ks"
    using listen_round_converges[OF d(1)[unfolded demo_new_def] steps d(10) demo_truthful refl] by blast
  have "set ks = {demo_key}"
    unfolding c'(3) d(3) using d(8,9) by (auto simp: Md5_def demo_store_def demo_config_env_def)
  then have "ks = [demo_key]" using c'(2) by (intro distinct_singleton)
  with c'(1,4) d show ?thesis by (auto simp: call_for_def content_of_def demo_store_def)
qed



end
