(* ===== verification/Config_Races.thy ===== *)
theory Config_Races
  imports Config_Listen
begin

text \<open>
  What the loop that marks the cache does beyond its own task: it writes back every entry of the cache from a copy.
  The consequences for a task whose request failed, for a change the server pushes and for a listener that is
  cancelled while the loop runs; and what a failing filter does to a change.
\<close>

section \<open>The marking loop\<close>

definition marked :: "string list \<Rightarrow> cacheData \<Rightarrow> cacheData" where
  "marked keys d = (if cache_key d \<notin> set keys then d\<lparr>cd_isSyncWithServer := True\<rparr> else d\<lparr>cd_isInitializing := True\<rparr>)"

lemma mark_entry_eq: "mark_entry keys d c = cache_Set (cache_key d) (marked keys d) c"
  by (simp add: mark_entry_def marked_def)

lemma mark_all_get:
  assumes "cm_inv (ck_cacheMap c)" and "distinct (map cache_key ds)"
  shows "cm_inv (ck_cacheMap (mark_all keys ds c))"
    "cm_Get (ck_cacheMap (mark_all keys ds c)) k =
       (case find (\<lambda>d. cache_key d = k) ds of None \<Rightarrow> cm_Get (ck_cacheMap c) k | Some d \<Rightarrow> Some (marked keys d))"
    "ck_listeners (mark_all keys ds c) = ck_listeners c"
proof -
  have "cm_inv (ck_cacheMap (fold (mark_entry keys) ds c)) \<and> ck_listeners (fold (mark_entry keys) ds c) = ck_listeners c \<and>
      cm_Get (ck_cacheMap (fold (mark_entry keys) ds c)) k =
       (case find (\<lambda>d. cache_key d = k) ds of None \<Rightarrow> cm_Get (ck_cacheMap c) k | Some d \<Rightarrow> Some (marked keys d))"
    using assms
  proof (induction ds arbitrary: c)
    case (Cons d ds)
    have none: "find (\<lambda>d'. cache_key d' = cache_key d) ds = None"
      unfolding find_None_iff using Cons.prems(2) by (auto simp: image_iff)
    have "cm_inv (ck_cacheMap (mark_entry keys d c))" using Cons.prems(1) by (simp add: mark_entry_eq cache_Set_def)
    moreover have "cm_Get (ck_cacheMap (mark_entry keys d c)) k =
        (if k = cache_key d then Some (marked keys d) else cm_Get (ck_cacheMap c) k)"
      "ck_listeners (mark_entry keys d c) = ck_listeners c"
      using Cons.prems(1) by (simp_all add: mark_entry_eq cache_Set_def cm_Get_Set)
    ultimately show ?case
      using Cons.IH[of "mark_entry keys d c"] Cons.prems(2) none by (cases "k = cache_key d") (auto split: option.split)
  qed simp
  then show "cm_inv (ck_cacheMap (mark_all keys ds c))"
    "cm_Get (ck_cacheMap (mark_all keys ds c)) k =
       (case find (\<lambda>d. cache_key d = k) ds of None \<Rightarrow> cm_Get (ck_cacheMap c) k | Some d \<Rightarrow> Some (marked keys d))"
    "ck_listeners (mark_all keys ds c) = ck_listeners c"
    unfolding mark_all_def by blast+
qed

text \<open>The loop writes back each entry that the cache had when \<open>Items\<close> was read, whatever happened to it since.\<close>

lemma mark_all_writes_back:
  assumes inv: "config_inv env c" and get: "cm_Get (ck_cacheMap c) k = Some d" and cm: "cm_inv (ck_cacheMap c1)"
  shows "cm_Get (ck_cacheMap (mark_all keys (map snd (cm_Items (ck_cacheMap c))) c1)) k = Some (marked keys d)"
proof -
  let ?ds = "map snd (cm_Items (ck_cacheMap c))"
  have k: "cache_key d = k" using config_invD(1)[OF inv get] by simp
  have "d \<in> set ?ds" by (rule cm_Items_complete[OF inv get])
  then have "find (\<lambda>d. cache_key d = k) ?ds \<noteq> None" unfolding find_None_iff using k by blast
  then obtain d' where d': "find (\<lambda>d. cache_key d = k) ?ds = Some d'" by blast
  then have "d' \<in> set ?ds" "cache_key d' = k" unfolding find_Some_iff using nth_mem by blast+
  then have "d' = d" using items_current[OF inv, of d'] get by simp
  with d' mark_all_get(2)[OF cm items_distinct[OF inv], of keys k] show ?thesis by simp
qed

section \<open>Properties\<close>

text \<open>
  A task whose request failed is taken for synchronised. If the request of one task fails and that of the next
  succeeds without changes, then the loop after the second marks every entry of the cache, those of the failed task too:
  the following rounds ask about nothing until the next full synchronisation, five minutes later.
\<close>

theorem failed_task_taken_for_synced:
  assumes "NewConfigClient initLogger newProxy flt uid nc lims files w = Inr c0" and "(config_step env)\<^sup>*\<^sup>* c0 c"
    and "requestProxy env (itoa (int i)) (buildConfigBatchListenRequest ds1) 3000 c = Ret (c1, Inl err)"
    and "requestProxy env (itoa (int j)) (buildConfigBatchListenRequest ds2) 3000 c1 =
      Ret (c2, Inr (ConfigChangeBatchListenResponse b []))" and "rs_Success b"
  shows "\<exists>c'. tasks_loop env [(i, ds1), (j, ds2)] False c = Ret (c', False) \<and> buildListenTask False c' = Ret ([], c') \<and>
    (\<forall>k d. cm_Get (ck_cacheMap c) k = Some d \<longrightarrow>
       cm_Get (ck_cacheMap c') k = Some (d\<lparr>cd_isSyncWithServer := True\<rparr>))"
proof -
  have inv: "config_inv env c" by (rule steps_inv[OF assms(2) NewConfigClient_inv[OF assms(1)]])
  note o = outside_same[OF outside_trans[OF requestProxy_outside[OF assms(3)] requestProxy_outside[OF assms(4)]]]
  have inv2: "config_inv env c2" using inv o(10) by blast
  define c' where "c' = mark_all [] (map snd (cm_Items (ck_cacheMap c2))) c2"
  have lc: "listen_changes env [] c2 = Ret c'" by (simp add: listen_changes_def c'_def)
  have run: "tasks_loop env [(i, ds1), (j, ds2)] False c = Ret (c', False)"
    using assms(3-5) lc by (simp add: listen_task_def IsSuccess_def)
  have inv': "config_inv env c'" by (rule listen_changes_inv[OF inv2 lc])
  note ma = mark_all_get[OF config_inv_cm[OF inv2] items_distinct[OF inv2], of "[]"]
  have all: "cm_Get (ck_cacheMap c') k = Some (d\<lparr>cd_isSyncWithServer := True\<rparr>)"
    if "cm_Get (ck_cacheMap c) k = Some d" for k d
    using mark_all_writes_back[OF inv2 _ config_inv_cm[OF inv2], of k d "[]"] that o(1) by (simp add: c'_def marked_def)
  have "cm_Get (ck_cacheMap c') k = None" if "cm_Get (ck_cacheMap c) k = None" for k
  proof -
    have "find (\<lambda>d. cache_key d = k) (map snd (cm_Items (ck_cacheMap c2))) = None"
      using that o(1) items_current[OF inv2] unfolding find_None_iff by (metis option.distinct(1))
    with that o(1) show ?thesis unfolding c'_def ma(2) by simp
  qed
  with all have "cd_isSyncWithServer d" if "cm_Get (ck_cacheMap c') k = Some d" for k d
    using that by (cases "cm_Get (ck_cacheMap c) k") auto
  then have "filter (listened False) (map snd (cm_Items (ck_cacheMap c'))) = []"
    using items_current[OF inv'] by (auto simp: filter_empty_conv listened_def)
  then have "buildListenTask False c' = Ret ([], c')" by (simp add: buildListenTask_eq[OF inv'] tasks_of_def)
  with run all show ?thesis by blast
qed

definition half_env :: "(unit, unit) config_env" where
  "half_env = demo_config_env\<lparr>ce_rq := (\<lambda>n q t w. (w, if n = itoa 0 then Inl (Err [])
     else Inr (ConfigChangeBatchListenResponse (zero_Response\<lparr>rs_Success := True\<rparr>) [])))\<rparr>"

lemma half_ListenConfig: "ListenConfig half_env param c = ListenConfig demo_config_env param c"
proof -
  have "new_cacheData half_env = new_cacheData demo_config_env"
    by (intro ext) (simp add: half_env_def new_cacheData_def Md5_def Let_def)
  then show ?thesis unfolding ListenConfig_def by (simp only:)
qed

theorem failed_task_taken_for_synced_witness:
  "\<exists>c0 c c' d. demo_new = Inr c0 \<and> c = fst (ListenConfig half_env demo_param c0) \<and>
     cm_Get (ck_cacheMap c) demo_key = Some d \<and> \<not> cd_isSyncWithServer d \<and>
     tasks_loop half_env [(0, [d]), (1, [])] False c = Ret (c', False) \<and> buildListenTask False c' = Ret ([], c')"
proof -
  obtain c0 c d where d: "demo_new = Inr c0" "c = fst (ListenConfig demo_config_env demo_param c0)"
    "cm_Get (ck_cacheMap c) = [demo_key \<mapsto> d]" "\<not> cd_isSyncWithServer d"
    by (rule demo_listening)
  have steps: "(config_step half_env)\<^sup>*\<^sup>* c0 c"
    unfolding d(2) half_ListenConfig[symmetric] by (rule r_into_rtranclp) (rule step_Listen)
  have n: "itoa 1 \<noteq> itoa 0" by code_simp
  obtain c1 where r1: "requestProxy half_env (itoa (int 0)) (buildConfigBatchListenRequest [d]) 3000 c = Ret (c1, Inl (Err []))"
    by (simp add: requestProxy_def InjectSecurityInfo_def half_env_def demo_config_env_def Let_def)
  obtain c2 where r2: "requestProxy half_env (itoa (int 1)) (buildConfigBatchListenRequest []) 3000 c1 =
      Ret (c2, Inr (ConfigChangeBatchListenResponse (zero_Response\<lparr>rs_Success := True\<rparr>) []))"
    using n by (simp add: requestProxy_def InjectSecurityInfo_def half_env_def demo_config_env_def Let_def)
  from failed_task_taken_for_synced[OF d(1)[unfolded demo_new_def] steps r1 r2] d show ?thesis
    unfolding half_ListenConfig by fastforce
qed

text \<open>
  C31: A change that the server pushes while the marking loop runs is lost. The push resets the mark of its entry and wakes the
  listening goroutine, but the loop then writes its older copy back with the mark set: the entry is not asked about before the
  next full synchronisation.
\<close>

theorem pushed_change_lost:
  assumes "config_inv env c" and "cm_Get (ck_cacheMap c) k = Some d"
    and "k = GetConfigCacheKey (cq_DataId q) (cq_Group q) (cq_Tenant q)" and "k \<notin> set keys"
    and "c1 = fst (config_change_reply (ConfigChangeNotifyRequest q) c)"
    and "c2 = mark_all keys (map snd (cm_Items (ck_cacheMap c))) c1"
  shows "cm_Get (ck_cacheMap c1) k = Some (d\<lparr>cd_isSyncWithServer := False\<rparr>) \<and>
    cm_Get (ck_cacheMap c2) k = Some (d\<lparr>cd_isSyncWithServer := True\<rparr>) \<and> \<not> listened False (d\<lparr>cd_isSyncWithServer := True\<rparr>)"
proof -
  have c1: "c1 = asyncNotifyListenConfig (cache_Set k (d\<lparr>cd_isSyncWithServer := False\<rparr>) c)"
    using assms(2,3,5) by (simp add: config_change_reply_def)
  have cm: "cm_inv (ck_cacheMap c1)"
    unfolding c1 using config_inv_cm[OF assms(1)] by (simp add: asyncNotifyListenConfig_def cache_Set_def)
  have get1: "cm_Get (ck_cacheMap c1) k = Some (d\<lparr>cd_isSyncWithServer := False\<rparr>)"
    unfolding c1 using config_inv_cm[OF assms(1)] by (simp add: asyncNotifyListenConfig_def cache_Set_def cm_Get_Set)
  have "cache_key d = k" using config_invD(1)[OF assms(1,2)] by simp
  with mark_all_writes_back[OF assms(1,2) cm, of keys] get1 assms(4,6) show ?thesis
    by (simp add: marked_def listened_def)
qed

theorem pushed_change_lost_witness:
  "\<exists>c0 c c1 d. demo_new = Inr c0 \<and> c = fst (ListenConfig demo_config_env demo_param c0) \<and>
     c1 = fst (config_change_reply (NewConfigChangeNotifyRequest ''g'' ''d'' []) c) \<and>
     cm_Get (ck_cacheMap c1) demo_key = Some (d\<lparr>cd_isSyncWithServer := False\<rparr>) \<and>
     cm_Get (ck_cacheMap (mark_all [] (map snd (cm_Items (ck_cacheMap c))) c1)) demo_key = Some (d\<lparr>cd_isSyncWithServer := True\<rparr>)"
proof -
  obtain c0 c d where d: "demo_new = Inr c0" "c = fst (ListenConfig demo_config_env demo_param c0)"
    "cm_Get (ck_cacheMap c) = [demo_key \<mapsto> d]"
    by (rule demo_listening)
  have inv: "config_inv demo_config_env c"
    unfolding d(2) by (rule ListenConfig_inv) (rule NewConfigClient_inv[OF d(1)[unfolded demo_new_def]])
  have get: "cm_Get (ck_cacheMap c) demo_key = Some d" using d(3) by simp
  have "demo_key = GetConfigCacheKey (cq_DataId (NewConfigRequest ''g'' ''d'' [])) (cq_Group (NewConfigRequest ''g'' ''d'' []))
      (cq_Tenant (NewConfigRequest ''g'' ''d'' []))"
    by (simp add: demo_key_def NewConfigRequest_def)
  from pushed_change_lost[OF inv get this, where keys = "[]", OF _ refl refl] d(1,2) show ?thesis
    unfolding NewConfigChangeNotifyRequest_def by auto
qed

text \<open>
  A listener that is cancelled while the marking loop runs comes back: the loop writes its copy of the entry to the cache
  again, with the same listener.
\<close>

theorem cancelled_listener_returns:
  assumes "config_inv env c" and "GetClientConfig (ck_INacosClient c) = Inr cfg"
    and "cm_Get (ck_cacheMap c) (GetConfigCacheKey (cp_DataId param) (cp_Group param) (cl_NamespaceId cfg)) = Some d"
    and "c1 = fst (CancelListenConfig param c)" and "c2 = mark_all keys (map snd (cm_Items (ck_cacheMap c))) c1"
  shows "cm_Get (ck_cacheMap c1) (cache_key d) = None \<and>
    (\<exists>d'. cm_Get (ck_cacheMap c2) (cache_key d) = Some d' \<and> cd_cacheDataListener d' = cd_cacheDataListener d \<and>
      ck_listeners c2 = ck_listeners c)"
proof -
  let ?k = "GetConfigCacheKey (cp_DataId param) (cp_Group param) (cl_NamespaceId cfg)"
  have c1: "c1 = c\<lparr>ck_cacheMap := cm_Remove (ck_cacheMap c) ?k\<rparr>" using assms(2,4) by (simp add: CancelListenConfig_def)
  have k: "cache_key d = ?k" using config_invD(1)[OF assms(1,3)] by simp
  have cm: "cm_inv (ck_cacheMap c1)" unfolding c1 using config_inv_cm[OF assms(1)] by simp
  have "cm_Get (ck_cacheMap c1) ?k = None" unfolding c1 by (simp add: cm_Get_Remove config_inv_cm[OF assms(1)])
  moreover have "ck_listeners c2 = ck_listeners c"
    unfolding assms(5) using mark_all_get(3)[OF cm items_distinct[OF assms(1)], of keys] by (simp add: c1)
  ultimately show ?thesis
    using mark_all_writes_back[OF assms(1,3) cm, of keys] k assms(5) by (simp add: marked_def)
qed

theorem cancelled_listener_returns_witness:
  "\<exists>c0 c c1 d'. demo_new = Inr c0 \<and> c = fst (ListenConfig demo_config_env demo_param c0) \<and>
     c1 = fst (CancelListenConfig demo_param c) \<and> cm_Get (ck_cacheMap c1) demo_key = None \<and>
     cm_Get (ck_cacheMap (mark_all [] (map snd (cm_Items (ck_cacheMap c))) c1)) demo_key = Some d'"
proof -
  obtain c0 c d where d: "demo_new = Inr c0" "c = fst (ListenConfig demo_config_env demo_param c0)"
    "cm_Get (ck_cacheMap c) = [demo_key \<mapsto> d]"
    by (rule demo_listening)
  have inv: "config_inv demo_config_env c"
    unfolding d(2) by (rule ListenConfig_inv) (rule NewConfigClient_inv[OF d(1)[unfolded demo_new_def]])
  have k: "cache_key d = demo_key" using config_invD(1)[OF inv, of demo_key d] d(3) by simp
  have "ck_INacosClient c0 = demo_nc"
    using d(1) by (auto simp: demo_new_def NewConfigClient_def demo_nc_def GetClientConfig_def GetServerConfig_def
        GetHttpAgent_def Let_def zero_ClientConfig_def)
  then have cfg: "GetClientConfig (ck_INacosClient c) = Inr zero_ClientConfig"
    unfolding d(2) by (simp add: ListenConfig_def cache_Set_def demo_nc_def GetClientConfig_def Let_def split: option.split)
  have get: "cm_Get (ck_cacheMap c)
      (GetConfigCacheKey (cp_DataId demo_param) (cp_Group demo_param) (cl_NamespaceId zero_ClientConfig)) = Some d"
    using d(3) by (simp add: demo_param_def zero_ConfigParam_def zero_ClientConfig_def demo_key_def)
  from cancelled_listener_returns[OF inv cfg get refl refl, of "[]"] d(1,2) k show ?thesis by auto
qed

text \<open>
  A change that a filter rejects is never delivered. \<open>executeListener\<close> stores the new MD5 before it calls the filters. When they
  fail, for example because the key service cannot be reached, no listener is called; and when the same content is
  fetched again its MD5 is already known, so none is called then either.
\<close>

theorem filter_failure_loses_change:
  assumes "config_inv env c" and "cm_Get (ck_cacheMap c) (cache_key d) = Some d" and "d' = refreshed env body d"
    and "DoFilters (ck_configFilterChainManager c) (response_param d') (cs_world c) = Ret (w, p, Some e)"
    and "c1 = (remember_md5 d' c)\<lparr>cs_world := w\<rparr>"
    and "queryConfig env (cd_dataId d) (cd_group d) (cd_tenant d) DEFAULT_TIMEOUT_MILLS notify c1 = Ret (c2, Inr (b, body2))"
    and "qb_Content body2 = qb_Content body"
  shows "executeListener d' c = Ret c1 \<and> cm_Get (ck_cacheMap c1) (cache_key d) = Some d' \<and> ck_calls c1 = ck_calls c \<and>
    refreshContentAndCheck env d' notify c1 = Ret c2 \<and> ck_calls c2 = ck_calls c"
proof -
  have e: "executeListener d' c = Ret c1"
    using assms(4,5) by (simp add: executeListener_def Let_def remember_md5_def cache_Set_def)
  have calls: "ck_calls c1 = ck_calls c" unfolding assms(5) by (simp add: remember_md5_def cache_Set_def)
  have get: "cm_Get (ck_cacheMap c1) (cache_key d) = Some d'"
    unfolding assms(5) using cm_Get_remember[OF assms(1), of d'] assms(3) by simp
  have inv1: "config_inv env c1"
    by (rule executeListener_inv[OF assms(1) _ _ _ _ _ e, where d = d])
      (simp_all only: assms(2,3) refreshed_simps config_invD(6)[OF assms(1,2)])
  note o = outside_same[OF queryConfig_outside[OF assms(6)]]
  have "lastMd5 c2 d' = Md5 env (qb_Content body)"
    using config_invD(4)[OF inv1 get] o(11) assms(3) by simp
  then have "refreshContentAndCheck env d' notify c1 = Ret c2"
    unfolding refreshContentAndCheck_eq using assms(3,6,7) by simp
  with e get calls o(3) show ?thesis by simp
qed

theorem filter_failure_loses_change_witness:
  "\<exists>c d d' c1 c2. cm_Get (ck_cacheMap c) (cache_key d) = Some d \<and> cd_content d = [] \<and> cd_content d' = ''v2'' \<and> ck_calls c = [] \<and>
     executeListener d' c = Ret c1 \<and> ck_calls c1 = [] \<and>
     refreshContentAndCheck demo_config_env d' False c1 = Ret c2 \<and> ck_calls c2 = []"
proof -
  obtain c0 c d where d: "demo_new = Inr c0" "c = fst (ListenConfig demo_config_env demo_param c0)"
    "cm_Get (ck_cacheMap c) = [demo_key \<mapsto> d]" "cd_group d = ''g''" "cd_content d = []" "ck_calls c = []"
    by (rule demo_listening)
  define cf where "cf = c\<lparr>ck_configFilterChainManager :=
    [\<lparr>cf_DoFilter = (\<lambda>p w. Ret (w, p, Some (Err []))), cf_GetOrder = 0, cf_GetFilterName = []\<rparr>]\<rparr>"
  define body :: ConfigQueryBody where "body = zero_ConfigQueryBody\<lparr>qb_Content := ''v2''\<rparr>"
  define d' where "d' = refreshed demo_config_env body d"
  have "config_inv demo_config_env c"
    unfolding d(2) by (rule ListenConfig_inv) (rule NewConfigClient_inv[OF d(1)[unfolded demo_new_def]])
  then have inv: "config_inv demo_config_env cf" by (simp add: config_inv_def cf_def)
  have get: "cm_Get (ck_cacheMap cf) (cache_key d) = Some d"
    using config_invD(1)[OF inv, of demo_key d] d(3) by (simp add: cf_def)
  have flt: "DoFilters (ck_configFilterChainManager cf) (response_param d') (cs_world cf) =
      Ret (cs_world cf, response_param d', Some (Err []))" by (simp add: cf_def)
  define c1 where "c1 = (remember_md5 d' cf)\<lparr>cs_world := cs_world cf\<rparr>"
  obtain c2 b body2 where q: "queryConfig demo_config_env (cd_dataId d) (cd_group d) (cd_tenant d) DEFAULT_TIMEOUT_MILLS False c1
      = Ret (c2, Inr (b, body2))" "qb_Content body2 = ''v2''"
    using truthful_query[OF demo_truthful, of "cd_group d"] d(4) unfolding demo_store_def by (metis list.simps(3))
  have "qb_Content body2 = qb_Content body" using q(2) by (simp add: body_def)
  note res = filter_failure_loses_change[OF inv get d'_def flt c1_def q(1) this]
  have "cd_content d' = ''v2''" "ck_calls cf = []" using d(6) by (simp_all add: d'_def body_def cf_def)
  with res d(5) get have "cm_Get (ck_cacheMap cf) (cache_key d) = Some d \<and> cd_content d = [] \<and> cd_content d' = ''v2'' \<and> ck_calls cf = [] \<and>
     executeListener d' cf = Ret c1 \<and> ck_calls c1 = [] \<and>
     refreshContentAndCheck demo_config_env d' False c1 = Ret c2 \<and> ck_calls c2 = []" by simp
  then show ?thesis by (intro exI)
qed

end
