(* ===== verification/Config_Snapshot.thy ===== *)
theory Config_Snapshot
  imports Config_Listen
begin

text \<open>
  Reading a configuration when the server cannot be reached: the snapshot on the disk.
\<close>

section \<open>Files\<close>

text \<open>A write of a configuration changes no other file.\<close>

lemma writeConfigToFile_frame:
  "p \<noteq> fileName \<Longrightarrow> map_of (fs_files (fst (writeConfigToFile env s fileName content fileType))) p = map_of (fs_files s) p"
  by (simp add: writeConfigToFile_def os_WriteFile_def os_Remove_def Let_def)

lemma WriteConfigToFile_frame:
  "p \<noteq> GetFileName key dir \<Longrightarrow> map_of (fs_files (fst (WriteConfigToFile env s key dir content))) p = map_of (fs_files s) p"
  using MkdirIfNecessary_files[of env s dir]
  by (auto simp: WriteConfigToFile_def writeConfigToFile_frame split: prod.split option.split)

lemma WriteEncryptedDataKeyToFile_frame:
  "p \<noteq> GetConfigEncryptedDataKeyFileName key dir \<Longrightarrow>
   map_of (fs_files (fst (WriteEncryptedDataKeyToFile env s key dir content))) p = map_of (fs_files s) p"
  using MkdirIfNecessary_files[of env s "GetEncryptedDataKeyDir dir"]
  by (auto simp: WriteEncryptedDataKeyToFile_def writeConfigToFile_frame split: prod.split option.split)

lemma WriteConfigToFile_content:
  assumes "trim_space content \<noteq> []" and "file_ok env s dir (GetFileName key dir)"
  shows "map_of (fs_files (fst (WriteConfigToFile env s key dir content))) (GetFileName key dir) = Some content"
  using assms MkdirIfNecessary_not_dir[of "GetFileName key dir" s env dir]
  unfolding WriteConfigToFile_eq[OF assms(2)]
  by (simp add: writeConfigToFile_def os_WriteFile_def file_ok_def)

text \<open>The three files of a configuration have different names.\<close>

lemma snapshot_names:
  "GetFileName key dir \<noteq> GetConfigEncryptedDataKeyFileName key dir"
  "GetConfigFailOverContentFileName key dir \<noteq> GetConfigEncryptedDataKeyFileName key dir"
  "GetConfigFailOverContentFileName key dir \<noteq> GetFileName key dir"
proof -
  have "length (GetFileName key dir) \<noteq> length (GetConfigEncryptedDataKeyFileName key dir)"
    "length (GetConfigFailOverContentFileName key dir) \<noteq> length (GetConfigEncryptedDataKeyFileName key dir)"
    "length (GetConfigFailOverContentFileName key dir) \<noteq> length (GetFileName key dir)"
    by (simp_all add: GetFileName_def GetConfigEncryptedDataKeyFileName_def GetEncryptedDataKeyDir_def
        GetConfigFailOverContentFileName_def ENCRYPTED_DATA_KEY_FILE_NAME_def FAILOVER_FILE_SUFFIX_def PathSeparator_def)
  then show "GetFileName key dir \<noteq> GetConfigEncryptedDataKeyFileName key dir"
    "GetConfigFailOverContentFileName key dir \<noteq> GetConfigEncryptedDataKeyFileName key dir"
    "GetConfigFailOverContentFileName key dir \<noteq> GetFileName key dir" by metis+
qed

lemma GetFailover_files:
  "map_of (fs_files s') (GetConfigFailOverContentFileName key dir) = map_of (fs_files s) (GetConfigFailOverContentFileName key dir) \<Longrightarrow>
   GetFailover env s' key dir = GetFailover env s key dir"
  by (auto simp: GetFailover_def getFailOverConfig_def os_ReadFile_def IsExistFile_def path_exists_def split: option.split)

lemma ReadConfigFromFile_iff:
  "ReadConfigFromFile env s key dir = Inr content \<longleftrightarrow>
   map_of (fs_files s) (GetFileName key dir) = Some content \<and> env_read_ok env (GetFileName key dir)"
  by (auto simp: ReadConfigFromFile_def readConfigFromFile_def os_ReadFile_def IsExistFile_def path_exists_def
      GetFileName_def PathSeparator_def split: option.split)

section \<open>Queries\<close>

lemma query_result_cases:
  assumes "query_result env dataId grp tenant resp c = (c', r)"
  obtains (Error) e where "r = Inl e" and "c' = c"
  | (Found) b body where "resp = ConfigQueryResponse b body" and "rs_Success b"
      and "c' = write_snapshot env (GetConfigCacheKey dataId grp tenant) (qb_Content body) (qb_EncryptedDataKey body) c"
      and "\<exists>body'. r = Inr (b, body') \<and> qb_Content body' = qb_Content body"
  | (Missing) b body where "resp = ConfigQueryResponse b body" and "rs_ErrorCode b = 300"
      and "\<exists>b'. r = Inr (b', body)"
  | (Failed) b body where "r = Inr (b, body)" and "\<not> rs_Success b"
  using assms
  by (cases resp; auto simp: query_result_def Let_def split: if_split_asm)

lemma requestProxy_fs: "requestProxy env taskId request timeout c = Ret (c', r) \<Longrightarrow> cs_fs c' = cs_fs c"
  by (auto simp: requestProxy_def Let_def split_beta elim!: obind_RetE)

lemma IsLimited_fs: "cs_fs (fst (IsLimited env key c)) = cs_fs c"
  by (simp add: IsLimited_def Let_def split_beta)

lemma queryConfig_cases:
  assumes "queryConfig env dataId grp tenant timeout notify c = Ret (c', r)" and "grp \<noteq> []"
  obtains (Error) e where "r = Inl e" and "cs_fs c' = cs_fs c"
  | (Answer) c1 c2 resp where "requestProxy env ''0'' (query_request dataId grp tenant notify) timeout c1 = Ret (c2, Inr resp)"
      and "query_result env dataId grp tenant resp c2 = (c', r)" and "cs_fs c2 = cs_fs c" and "outside c c2"
proof -
  let ?key = "GetConfigCacheKey dataId grp tenant"
  obtain c1 b where lim: "IsLimited env ?key c = (c1, b)" by fastforce
  have c1: "cs_fs c1 = cs_fs c" "outside c c1"
    using IsLimited_fs[of env ?key c] IsLimited_outside[of c env ?key] lim by simp_all
  show thesis
  proof (cases b)
    case True
    with assms lim c1 have "r = Inl (Err ''ConfigQueryRequest is limited'')" "cs_fs c' = cs_fs c" by (auto simp: queryConfig_def)
    then show thesis by (rule Error)
  next
    case False
    obtain c2 x where x: "requestProxy env ''0'' (query_request dataId grp tenant notify) timeout c1 = Ret (c2, x)"
      "(case x of Inl err \<Rightarrow> Ret (c2, Inl err) | Inr resp \<Rightarrow> Ret (query_result env dataId grp tenant resp c2)) = Ret (c', r)"
      using assms lim False by (auto simp: queryConfig_def elim!: obind_pairE)
    have fs: "cs_fs c2 = cs_fs c" using requestProxy_fs[OF x(1)] c1(1) by simp
    have out: "outside c c2" by (rule outside_trans[OF c1(2) requestProxy_outside[OF x(1)]])
    show thesis
    proof (cases x)
      case (Inl e)
      with x(2) fs have "r = Inl e" "cs_fs c' = cs_fs c" by auto
      then show thesis by (rule Error)
    next
      case (Inr resp)
      with x(2) have "query_result env dataId grp tenant resp c2 = (c', r)" by simp
      with x(1) Inr fs out show thesis by (intro Answer) simp_all
    qed
  qed
qed

lemma write_snapshot_files:
  assumes "trim_space content \<noteq> []" and "dir = cl_CacheDir (cs_clientConfig c)"
    and "file_ok (ce_io env) (cs_fs c) dir (GetFileName key dir)"
  shows "map_of (fs_files (cs_fs (write_snapshot env key content dataKey c))) (GetFileName key dir) = Some content"
    "map_of (fs_files (cs_fs (write_snapshot env key content dataKey c))) (GetConfigFailOverContentFileName key dir) =
     map_of (fs_files (cs_fs c)) (GetConfigFailOverContentFileName key dir)"
  unfolding write_snapshot_def Let_def assms(2)[symmetric]
  using WriteConfigToFile_content[OF assms(1,3)] snapshot_names[of key dir]
  by (simp_all add: WriteEncryptedDataKeyToFile_frame WriteConfigToFile_frame)

text \<open>With a server that does not answer every query fails and leaves the files alone.\<close>

lemma queryConfig_unreachable:
  assumes "\<forall>n q t w. \<exists>w' e. ce_rq env n q t w = (w', Inl e)" and "\<forall>r. \<exists>p. ce_sec env r = Ret p"
  shows "\<exists>c' e. queryConfig env dataId grp tenant timeout notify c = Ret (c', Inl e) \<and> cs_fs c' = cs_fs c \<and> outside c c'"
proof -
  let ?g = "if grp = [] then DEFAULT_GROUP else grp"
  let ?key = "GetConfigCacheKey dataId ?g tenant" and ?q = "query_request dataId ?g tenant notify"
  obtain c1 b where lim: "IsLimited env ?key c = (c1, b)" by fastforce
  obtain p where p: "ce_sec env (BuildConfigResourceByRequest ?q) = Ret p" using assms(2) by blast
  obtain w' e where "ce_rq env ''0'' (set_headers (Some (injectCommHeader env (cs_clientConfig c1) (cs_world c1)
      (put_all (slice (GetHeaders ?q)) p))) ?q) timeout (cs_world c1) = (w', Inl e)" using assms(1) by blast
  with p have rp: "requestProxy env ''0'' ?q timeout c1 = Ret (c1\<lparr>cs_world := w'\<rparr>, Inl e)"
    by (simp add: requestProxy_def InjectSecurityInfo_def)
  have fs: "cs_fs c1 = cs_fs c" using IsLimited_fs[of env ?key c] lim by simp
  have "\<exists>c' e. queryConfig env dataId grp tenant timeout notify c = Ret (c', Inl e) \<and> cs_fs c' = cs_fs c"
    using lim rp fs by (cases b) (auto simp: queryConfig_def Let_def)
  then show ?thesis using queryConfig_outside by blast
qed

section \<open>The snapshot\<close>

text \<open>The key of a parameter, and what the files hold for it: the failover content, or else the snapshot.\<close>

definition param_group :: "ConfigParam \<Rightarrow> string" where
  "param_group param = (if cp_Group param = [] then DEFAULT_GROUP else cp_Group param)"

definition param_key :: "ConfigParam \<Rightarrow> ('w, 'l) ConfigClient \<Rightarrow> string" where
  "param_key param c =
     GetConfigCacheKey (cp_DataId param) (param_group param) (cl_NamespaceId (nc_clientConfig (ck_INacosClient c)))"

definition on_disk :: "('w, 'l) config_env \<Rightarrow> ConfigParam \<Rightarrow> string \<Rightarrow> ('w, 'l) ConfigClient \<Rightarrow> bool" where
  "on_disk env param content c \<longleftrightarrow>
     (let failover = GetFailover (ce_io env) (cs_fs c) (param_key param c) (ck_configCacheDir c)
      in if failover \<noteq> [] then failover = content
         else ReadConfigFromFile (ce_io env) (cs_fs c) (param_key param c) (ck_configCacheDir c) = Inr content)"

lemma param_group_not_Nil: "param_group param \<noteq> []"
  by (simp add: param_group_def DEFAULT_GROUP_def)

lemma getConfigInner_eq:
  assumes "cp_DataId param \<noteq> []"
  shows "getConfigInner env param c =
    (let cfg = nc_clientConfig (ck_INacosClient c); key = param_key param c;
         content = GetFailover (ce_io env) (cs_fs c) key (ck_configCacheDir c)
     in if content \<noteq> []
        then Ret (c, Inr (content, GetFailoverEncryptedDataKey (ce_io env) (cs_fs c) key (ck_configCacheDir c)))
        else obind (queryConfig env (cp_DataId param) (param_group param) (cl_NamespaceId cfg) (uint (cl_TimeoutMs cfg)) False c)
          (\<lambda>(c1, r). case r of
             Inl err \<Rightarrow>
               if cl_DisableUseSnapShot cfg
               then Ret (c1, Inl (Wrapped ''get config from remote nacos server fail, and is not allowed to read local file'' err))
               else Ret (c1, snapshot_config env (cp_DataId param) key c1)
           | Inr (b, body) \<Rightarrow>
               if \<not> rs_Success b then Ret (c1, Inl (Err (rs_Message b)))
               else Ret (c1, Inr (qb_Content body, qb_EncryptedDataKey body))))"
  using assms by (simp add: getConfigInner_def param_key_def param_group_def Let_def)

text \<open>Without filters \<open>GetConfig\<close> returns the content it found.\<close>

lemma GetConfig_inner:
  assumes "ck_configFilterChainManager c = []"
  shows "GetConfig env param c = Ret (c', Inr content) \<longleftrightarrow> (\<exists>k. getConfigInner env param c = Ret (c', Inr (content, k)))"
proof (cases "getConfigInner env param c")
  case (Ret p)
  obtain c1 r where p: "p = (c1, r)" by fastforce
  have "outside c c1" using stays_getConfigInner[of c env param] Ret p by (simp add: stays_def)
  then have "ck_configFilterChainManager c1 = []" using outside_same(4)[of c c1] assms by simp
  with Ret p show ?thesis by (cases r) (auto simp: GetConfig_def split: prod.split)
qed (simp add: GetConfig_def)

lemma snapshot_config_plain:
  assumes "\<not> has_prefix dataId CipherPrefix"
  shows "snapshot_config env dataId key c = Inr (content, k) \<longleftrightarrow>
    ReadConfigFromFile (ce_io env) (cs_fs c) key (ck_configCacheDir c) = Inr content \<and> k = []"
  using assms by (auto simp: snapshot_config_def split: sum.split)

text \<open>A server that says a configuration is missing sends no content with it.\<close>

definition missing_is_empty :: "('w, 'l) config_env \<Rightarrow> bool" where
  "missing_is_empty env \<longleftrightarrow> (\<forall>n q t w w' b body. ce_rq env n q t w = (w', Inr (ConfigQueryResponse b body)) \<longrightarrow>
     rs_ErrorCode b = 300 \<longrightarrow> qb_Content body = [])"

lemma requestProxy_missing:
  assumes "missing_is_empty env" and "requestProxy env taskId request timeout c = Ret (c', Inr (ConfigQueryResponse b body))"
    and "rs_ErrorCode b = 300"
  shows "qb_Content body = []"
  using assms unfolding missing_is_empty_def
  by (auto simp: requestProxy_def Let_def split_beta elim!: obind_RetE) (metis prod.collapse)

lemma found_is_on_disk:
  assumes inner: "getConfigInner env param c = Ret (c1, Inr (content, k))" and id: "cp_DataId param \<noteq> []"
    and plain: "\<not> has_prefix (cp_DataId param) CipherPrefix" and blank: "trim_space content \<noteq> []"
    and dir: "cl_CacheDir (cs_clientConfig c) = ck_configCacheDir c" and missing: "missing_is_empty env"
    and ok: "file_ok (ce_io env) (cs_fs c) (ck_configCacheDir c) (GetFileName (param_key param c) (ck_configCacheDir c))"
  shows "on_disk env param content c1"
proof -
  let ?key = "param_key param c" and ?dir = "ck_configCacheDir c" and ?cfg = "nc_clientConfig (ck_INacosClient c)"
  have out: "outside c c1" using stays_getConfigInner[of c env param] inner by (simp add: stays_def)
  note o = outside_same[OF out]
  have key: "param_key param c1 = ?key" using o(5) by (simp add: param_key_def)
  show ?thesis
  proof (cases "GetFailover (ce_io env) (cs_fs c) ?key ?dir = []")
    case False
    with inner id have "c1 = c" "content = GetFailover (ce_io env) (cs_fs c) ?key ?dir" by (auto simp: getConfigInner_eq Let_def)
    with False show ?thesis by (simp add: on_disk_def)
  next
    case True
    obtain r where q: "queryConfig env (cp_DataId param) (param_group param) (cl_NamespaceId ?cfg) (uint (cl_TimeoutMs ?cfg)) False c =
        Ret (c1, r)" and r: "(case r of Inl err \<Rightarrow> snapshot_config env (cp_DataId param) ?key c1 = Inr (content, k)
        | Inr (b, body) \<Rightarrow> rs_Success b \<and> content = qb_Content body)"
    proof -
      obtain c3 r where q: "queryConfig env (cp_DataId param) (param_group param) (cl_NamespaceId ?cfg) (uint (cl_TimeoutMs ?cfg))
          False c = Ret (c3, r)" and k: "(case r of
             Inl err \<Rightarrow>
               if cl_DisableUseSnapShot ?cfg
               then Ret (c3, Inl (Wrapped ''get config from remote nacos server fail, and is not allowed to read local file'' err))
               else Ret (c3, snapshot_config env (cp_DataId param) ?key c3)
           | Inr (b, body) \<Rightarrow>
               if \<not> rs_Success b then Ret (c3, Inl (Err (rs_Message b)))
               else Ret (c3, Inr (qb_Content body, qb_EncryptedDataKey body))) = Ret (c1, Inr (content, k))"
        using inner True unfolding getConfigInner_eq[OF id] Let_def by (auto elim!: obind_pairE)
      have "c3 = c1" using k by (cases r) (simp_all split: if_split_asm prod.split_asm)
      moreover have "(case r of Inl err \<Rightarrow> snapshot_config env (cp_DataId param) ?key c3 = Inr (content, k)
        | Inr (b, body) \<Rightarrow> rs_Success b \<and> content = qb_Content body)"
        using k by (cases r) (auto split: if_split_asm prod.split_asm)
      ultimately show thesis using q that by blast
    qed
    have "on_disk env param content c1"
      if "map_of (fs_files (cs_fs c1)) (GetConfigFailOverContentFileName ?key ?dir) =
          map_of (fs_files (cs_fs c)) (GetConfigFailOverContentFileName ?key ?dir)"
        "ReadConfigFromFile (ce_io env) (cs_fs c1) ?key ?dir = Inr content"
      using GetFailover_files[OF that(1), of "ce_io env"] that(2) True key o(6) by (simp add: on_disk_def)
    note disk = this
    from q param_group_not_Nil show ?thesis
    proof (cases rule: queryConfig_cases)
      case (Error e)
      with r plain o(6) show ?thesis by (intro disk) (simp_all add: snapshot_config_plain)
    next
      case (Answer c0 c2 resp)
      from Answer(2) show ?thesis
      proof (cases rule: query_result_cases)
        case (Error e)
        with r plain o(6) Answer(3) show ?thesis by (intro disk) (simp_all add: snapshot_config_plain)
      next
        case (Found b body)
        have c: "content = qb_Content body" using Found(4) r by auto
        have d: "?dir = cl_CacheDir (cs_clientConfig c2)" using dir outside_same(7)[OF Answer(4)] by simp
        have f: "file_ok (ce_io env) (cs_fs c2) ?dir (GetFileName ?key ?dir)" using ok Answer(3) by simp
        have k: "GetConfigCacheKey (cp_DataId param) (param_group param) (cl_NamespaceId ?cfg) = ?key" by (simp add: param_key_def)
        note w = write_snapshot_files[OF blank d f, of "qb_EncryptedDataKey body"]
        show ?thesis
          using w Found(3) Answer(3) ok unfolding k c[symmetric]
          by (intro disk) (simp_all add: ReadConfigFromFile_iff file_ok_def)
      next
        case (Missing b body)
        have "qb_Content body = []" using requestProxy_missing[OF missing Answer(1)[unfolded Missing(1)] Missing(2)] .
        with Missing(3) r blank show ?thesis by auto
      next
        case (Failed b body)
        with r show ?thesis by simp
      qed
    qed
  qed
qed

lemma on_disk_is_found:
  assumes disk: "on_disk env param content c" and id: "cp_DataId param \<noteq> []"
    and plain: "\<not> has_prefix (cp_DataId param) CipherPrefix"
    and use: "\<not> cl_DisableUseSnapShot (nc_clientConfig (ck_INacosClient c))"
    and down: "\<forall>n q t w. \<exists>w' e. ce_rq env n q t w = (w', Inl e)" and sec: "\<forall>r. \<exists>p. ce_sec env r = Ret p"
  shows "\<exists>c' k. getConfigInner env param c = Ret (c', Inr (content, k))"
proof (cases "GetFailover (ce_io env) (cs_fs c) (param_key param c) (ck_configCacheDir c) = []")
  case False
  with disk id show ?thesis by (simp add: getConfigInner_eq on_disk_def Let_def)
next
  case True
  let ?cfg = "nc_clientConfig (ck_INacosClient c)"
  obtain c' e where q: "queryConfig env (cp_DataId param) (param_group param) (cl_NamespaceId ?cfg) (uint (cl_TimeoutMs ?cfg)) False c =
      Ret (c', Inl e)" "cs_fs c' = cs_fs c" "outside c c'" using queryConfig_unreachable[OF down sec] by blast
  have "snapshot_config env (cp_DataId param) (param_key param c) c' = Inr (content, [])"
    using disk True q(2) outside_same(6)[OF q(3)] plain by (simp add: on_disk_def snapshot_config_plain)
  with q(1) True use show ?thesis by (simp add: getConfigInner_eq[OF id] Let_def)
qed

text \<open>
  C30: A configuration that was read once can be read without the server. Let a client without filters have read the content of a
  configuration whose data id has no cipher prefix, from the server, the failover file or the snapshot. If the content is not blank and the
  snapshot file can be written and read, then after the server has gone, reading the configuration again returns the same
  content: from the failover file, or from the snapshot that the first reading left.
\<close>

theorem snapshot_fallback:
  assumes "GetConfig env param c = Ret (c1, Inr content)" and "ck_configFilterChainManager c = []"
    and "\<not> has_prefix (cp_DataId param) CipherPrefix" and "trim_space content \<noteq> []"
    and "cl_CacheDir (cs_clientConfig c) = ck_configCacheDir c"
    and "\<not> cl_DisableUseSnapShot (nc_clientConfig (ck_INacosClient c))"
    and "file_ok (ce_io env) (cs_fs c) (ck_configCacheDir c) (GetFileName (param_key param c) (ck_configCacheDir c))"
    and "missing_is_empty env" and "\<forall>n q t w. \<exists>w' e. rq n q t w = (w', Inl e)" and "\<forall>r. \<exists>p. ce_sec env r = Ret p"
  shows "\<exists>c2. GetConfig (env\<lparr>ce_rq := rq\<rparr>) param c1 = Ret (c2, Inr content)"
proof -
  obtain k where inner: "getConfigInner env param c = Ret (c1, Inr (content, k))"
    using assms(1) unfolding GetConfig_inner[OF assms(2)] by blast
  have id: "cp_DataId param \<noteq> []" using inner by (auto simp: getConfigInner_def)
  have "on_disk env param content c1" by (rule found_is_on_disk[OF inner id assms(3-5,8,7)])
  then have disk: "on_disk (env\<lparr>ce_rq := rq\<rparr>) param content c1" by (simp add: on_disk_def Let_def)
  have out: "outside c c1" using stays_getConfigInner[of c env param] inner by (simp add: stays_def)
  have "\<exists>c' k. getConfigInner (env\<lparr>ce_rq := rq\<rparr>) param c1 = Ret (c', Inr (content, k))"
    by (rule on_disk_is_found[OF disk id assms(3)]) (use assms(6,9,10) outside_same(5)[OF out] in simp_all)
  then show ?thesis using GetConfig_inner[of c1] outside_same(4)[OF out] assms(2) by auto
qed

theorem snapshot_fallback_witness:
  "\<exists>c0 c1 c2. demo_new = Inr c0 \<and> GetConfig demo_config_env demo_param c0 = Ret (c1, Inr ''v2'') \<and>
     GetConfig (demo_config_env\<lparr>ce_rq := (\<lambda>n q t w. (w, Inl (Err ''down'')))\<rparr>) demo_param c1 = Ret (c2, Inr ''v2'')"
proof -
  obtain c0 where c0: "demo_new = Inr c0" "ck_INacosClient c0 = demo_nc" "ck_configFilterChainManager c0 = []"
    "cs_fs c0 = \<lparr>fs_files = [], fs_dirs = []\<rparr>" "ck_configCacheDir c0 = ''/config''" "cl_CacheDir (cs_clientConfig c0) = ''/config''"
    by (auto simp: demo_new_def NewConfigClient_def demo_nc_def GetClientConfig_def GetServerConfig_def GetHttpAgent_def
        Let_def zero_ClientConfig_def PathSeparator_def)
  let ?p = demo_param and ?e = demo_config_env
  have id: "cp_DataId ?p = ''d''" "cp_DataId ?p \<noteq> []" by (simp_all add: demo_param_def zero_ConfigParam_def)
  have nf: "GetFailover (ce_io ?e) (cs_fs c0) (param_key ?p c0) (ck_configCacheDir c0) = []"
    using c0(4) by (simp add: GetFailover_def getFailOverConfig_def IsExistFile_def path_exists_def)
  obtain c1 b body where q: "queryConfig ?e (cp_DataId ?p) (param_group ?p) (cl_NamespaceId (nc_clientConfig (ck_INacosClient c0)))
      (uint (cl_TimeoutMs (nc_clientConfig (ck_INacosClient c0)))) False c0 = Ret (c1, Inr (b, body))" "rs_Success b"
      "qb_Content body = ''v2''"
    using truthful_query[OF demo_truthful param_group_not_Nil[of ?p]] unfolding demo_store_def by blast
  then have "getConfigInner ?e ?p c0 = Ret (c1, Inr (''v2'', qb_EncryptedDataKey body))"
    using nf by (simp add: getConfigInner_eq[OF id(2)] Let_def)
  then have first: "GetConfig ?e ?p c0 = Ret (c1, Inr ''v2'')" unfolding GetConfig_inner[OF c0(3)] by blast
  have "mkdir_targets all_ok ''/config'' = [''/config'']"
    by (simp add: mkdir_targets_def PathSeparator_def split_str_def has_prefix_def)
  then have ok: "file_ok (ce_io ?e) (cs_fs c0) (ck_configCacheDir c0) (GetFileName (param_key ?p c0) (ck_configCacheDir c0))"
    using c0(4,5) by (simp add: file_ok_def demo_config_env_def all_ok_def GetFileName_def PathSeparator_def)
  have "rs_ErrorCode b' \<noteq> 300" if "demo_rq n q t w = (w', Inr (ConfigQueryResponse b' body'))" for n q t w w' b' body'
    using that by (cases q) (auto simp: zero_Response_def)
  then have miss: "missing_is_empty ?e" unfolding missing_is_empty_def by (simp add: demo_config_env_def)
  have trim: "trim_space ''v2'' \<noteq> []" by (subst trim_space_graphic) (simp_all add: graphic_def)
  have "\<exists>c2. GetConfig (?e\<lparr>ce_rq := (\<lambda>n q t w. (w, Inl (Err ''down'')))\<rparr>) ?p c1 = Ret (c2, Inr ''v2'')"
    by (rule snapshot_fallback[OF first c0(3) _ trim _ _ ok miss])
      (use c0 id(1) in \<open>simp_all add: has_prefix_def CipherPrefix_def demo_nc_def zero_ClientConfig_def demo_config_env_def\<close>)
  with c0(1) first show ?thesis by blast
qed

end
