(* ===== verification/Uuid.thy ===== *)
theory Uuid
  imports Encoding
begin

unbundle bit_operations_syntax

text \<open>
  \<open>inner/uuid\<close>: identifiers of sixteen bytes, their text forms and their generation. The client uses random
  ones (version 4) to name its connections and its requests. The random source, the clock, the network interfaces, MD5
  and SHA-1 are parameters.
\<close>

section \<open>Identifiers\<close>

definition uuid_Size :: nat where "uuid_Size = 16"

type_synonym UUID = "8 word list"

definition uuid_Nil :: UUID where "uuid_Nil = replicate uuid_Size 0"

definition VariantNCS :: "8 word" where "VariantNCS = 0"
definition VariantRFC4122 :: "8 word" where "VariantRFC4122 = 1"
definition VariantMicrosoft :: "8 word" where "VariantMicrosoft = 2"
definition VariantFuture :: "8 word" where "VariantFuture = 3"

definition uuid_Equal :: "UUID \<Rightarrow> UUID \<Rightarrow> bool" where
  "uuid_Equal u1 u2 \<longleftrightarrow> u1 = u2"

definition uuid_Version :: "UUID \<Rightarrow> 8 word" where
  "uuid_Version u = drop_bit 4 (u ! 6)"

definition uuid_Variant :: "UUID \<Rightarrow> 8 word" where
  "uuid_Variant u =
     (if drop_bit 7 (u ! 8) = 0 then VariantNCS
      else if drop_bit 6 (u ! 8) = 2 then VariantRFC4122
      else if drop_bit 5 (u ! 8) = 6 then VariantMicrosoft
      else VariantFuture)"

definition SetVersion :: "8 word \<Rightarrow> UUID \<Rightarrow> UUID" where
  "SetVersion v u = u[6 := ((u ! 6) AND 0x0F) OR push_bit 4 v]"

definition SetVariant :: "8 word \<Rightarrow> UUID \<Rightarrow> UUID" where
  "SetVariant v u =
     u[8 := (if v = VariantNCS then ((u ! 8) AND 0x7F) OR 0x00
             else if v = VariantRFC4122 then ((u ! 8) AND 0x3F) OR 0x80
             else if v = VariantMicrosoft then ((u ! 8) AND 0x1F) OR 0xC0
             else ((u ! 8) AND 0x1F) OR 0xE0)]"

section \<open>Text\<close>

text \<open>\<open>encoding/hex\<close>.\<close>

definition hex_char :: "nat \<Rightarrow> char" where
  "hex_char n = ''0123456789abcdef'' ! n"

definition hex_val :: "char \<Rightarrow> nat option" where
  "hex_val c =
     (let n = byte c
      in if 48 \<le> n \<and> n \<le> 57 then Some (n - 48)
         else if 97 \<le> n \<and> n \<le> 102 then Some (n - 87)
         else if 65 \<le> n \<and> n \<le> 70 then Some (n - 55) else None)"

definition hex_Encode :: "8 word list \<Rightarrow> string" where
  "hex_Encode bs = concat (map (\<lambda>b. [hex_char (unat b div 16), hex_char (unat b mod 16)]) bs)"

fun hex_Decode :: "string \<Rightarrow> 8 word list result" where
  "hex_Decode [] = Inr []"
| "hex_Decode [c] =
     (if hex_val c = None then Inl (Err ''encoding/hex: invalid byte'') else Inl (Err ''encoding/hex: odd length hex string''))"
| "hex_Decode (a # b # cs) =
     (case (hex_val a, hex_val b) of
        (Some x, Some y) \<Rightarrow>
          (case hex_Decode cs of Inl e \<Rightarrow> Inl e | Inr bs \<Rightarrow> Inr (word_of_nat (16 * x + y) # bs))
      | _ \<Rightarrow> Inl (Err ''encoding/hex: invalid byte''))"

definition uuid_String :: "UUID \<Rightarrow> string" where
  "uuid_String u =
     hex_Encode (take 4 u) @ ''-'' @ hex_Encode (take 2 (drop 4 u)) @ ''-'' @ hex_Encode (take 2 (drop 6 u)) @ ''-'' @
     hex_Encode (take 2 (drop 8 u)) @ ''-'' @ hex_Encode (drop 10 u)"

definition byteGroups :: "nat list" where "byteGroups = [8, 4, 4, 4, 12]"

text \<open>The loop of \<open>decodeCanonical\<close>; the flag says whether a group came before.\<close>

fun decode_groups :: "bool \<Rightarrow> nat list \<Rightarrow> string \<Rightarrow> 8 word list result" where
  "decode_groups later [] src = Inr []"
| "decode_groups later (g # gs) src =
     (let src = (if later then drop 1 src else src)
      in case hex_Decode (take g src) of
           Inl e \<Rightarrow> Inl e
         | Inr bs \<Rightarrow> (case decode_groups True gs (drop g src) of Inl e \<Rightarrow> Inl e | Inr ds \<Rightarrow> Inr (bs @ ds)))"

definition decodeCanonical :: "string \<Rightarrow> UUID result" where
  "decodeCanonical t =
     (if t ! 8 \<noteq> CHR ''-'' \<or> t ! 13 \<noteq> CHR ''-'' \<or> t ! 18 \<noteq> CHR ''-'' \<or> t ! 23 \<noteq> CHR ''-''
      then Inl (Err (''uuid: incorrect UUID format '' @ t))
      else decode_groups False byteGroups t)"

definition decodeHashLike :: "string \<Rightarrow> UUID result" where
  "decodeHashLike t = hex_Decode t"

definition decodePlain :: "string \<Rightarrow> UUID result" where
  "decodePlain t =
     (if length t = 32 then decodeHashLike t
      else if length t = 36 then decodeCanonical t
      else Inl (Err (''uuid: incorrrect UUID length: '' @ t)))"

definition decodeBraced :: "string \<Rightarrow> UUID result" where
  "decodeBraced t =
     (if t ! 0 \<noteq> CHR ''{'' \<or> t ! (length t - 1) \<noteq> CHR ''}'' then Inl (Err (''uuid: incorrect UUID format '' @ t))
      else decodePlain (take (length t - 2) (drop 1 t)))"

definition urnPrefix :: string where "urnPrefix = ''urn:uuid:''"

definition decodeURN :: "string \<Rightarrow> UUID result" where
  "decodeURN t =
     (if take 9 t \<noteq> urnPrefix then Inl (Err (''uuid: incorrect UUID format: '' @ t)) else decodePlain (drop 9 t))"

definition UnmarshalText :: "string \<Rightarrow> UUID result" where
  "UnmarshalText t =
     (if length t = 32 then decodeHashLike t
      else if length t = 36 then decodeCanonical t
      else if length t = 38 then decodeBraced t
      else if length t = 41 \<or> length t = 45 then decodeURN t
      else Inl (Err (''uuid: incorrect UUID length: '' @ t)))"

definition MarshalText :: "UUID \<Rightarrow> string" where
  "MarshalText u = uuid_String u"

definition FromString :: "string \<Rightarrow> UUID result" where
  "FromString input = UnmarshalText input"

definition FromStringOrNil :: "string \<Rightarrow> UUID" where
  "FromStringOrNil input = (case FromString input of Inl err \<Rightarrow> uuid_Nil | Inr u \<Rightarrow> u)"

definition uuid_Must :: "UUID result \<Rightarrow> UUID outcome" where
  "uuid_Must r = (case r of Inl (Err m) \<Rightarrow> Panic m | Inl _ \<Rightarrow> Panic [] | Inr u \<Rightarrow> Ret u)"

definition NamespaceDNS :: "UUID outcome" where
  "NamespaceDNS = uuid_Must (FromString ''6ba7b810-9dad-11d1-80b4-00c04fd430c8'')"
definition NamespaceURL :: "UUID outcome" where
  "NamespaceURL = uuid_Must (FromString ''6ba7b811-9dad-11d1-80b4-00c04fd430c8'')"
definition NamespaceOID :: "UUID outcome" where
  "NamespaceOID = uuid_Must (FromString ''6ba7b812-9dad-11d1-80b4-00c04fd430c8'')"
definition NamespaceX500 :: "UUID outcome" where
  "NamespaceX500 = uuid_Must (FromString ''6ba7b814-9dad-11d1-80b4-00c04fd430c8'')"

definition uuid_Bytes :: "UUID \<Rightarrow> 8 word list" where "uuid_Bytes u = u"

definition MarshalBinary :: "UUID \<Rightarrow> 8 word list" where "MarshalBinary u = uuid_Bytes u"

definition UnmarshalBinary :: "8 word list \<Rightarrow> UUID result" where
  "UnmarshalBinary data =
     (if length data \<noteq> uuid_Size
      then Inl (Err (''uuid: UUID must be exactly 16 bytes long, got '' @ itoa (int (length data)) @ '' bytes''))
      else Inr data)"

definition FromBytes :: "8 word list \<Rightarrow> UUID result" where
  "FromBytes input = UnmarshalBinary input"

definition FromBytesOrNil :: "8 word list \<Rightarrow> UUID" where
  "FromBytesOrNil input = (case FromBytes input of Inl err \<Rightarrow> uuid_Nil | Inr u \<Rightarrow> u)"

section \<open>Databases\<close>

text \<open>\<open>sql.go\<close>: the value of a column is a byte slice, a string, null or something else.\<close>

datatype db_value = DbBytes "8 word list" | DbString string | DbNull | DbOther

definition uuid_Value :: "UUID \<Rightarrow> db_value" where
  "uuid_Value u = DbString (uuid_String u)"

definition bytes_string :: "8 word list \<Rightarrow> string" where
  "bytes_string bs = map (\<lambda>b. char_of (unat b)) bs"

fun uuid_Scan :: "db_value \<Rightarrow> UUID result" where
  "uuid_Scan (DbBytes src) =
     (if length src = uuid_Size then UnmarshalBinary src else UnmarshalText (bytes_string src))"
| "uuid_Scan (DbString src) = UnmarshalText src"
| "uuid_Scan _ = Inl (Err ''uuid: cannot convert to UUID'')"

record NullUUID =
  nu_UUID :: UUID
  nu_Valid :: bool

definition null_Value :: "NullUUID \<Rightarrow> db_value" where
  "null_Value u = (if \<not> nu_Valid u then DbNull else uuid_Value (nu_UUID u))"

text \<open>The flag is set before the value is looked at; the identifier is unspecified after an error.\<close>

definition null_Scan :: "db_value \<Rightarrow> bool \<times> UUID result" where
  "null_Scan src = (if src = DbNull then (False, Inr uuid_Nil) else (True, uuid_Scan src))"

section \<open>Generation\<close>

text \<open>
  The environment: \<open>io.ReadFull\<close> on the random source (the bytes that were read, and an error when they are fewer than
  were asked for), the clock in nanoseconds, and the function for the hardware address.
\<close>

record 'w uuid_env =
  ue_ReadFull :: "nat \<Rightarrow> 'w \<Rightarrow> 'w \<times> 8 word list \<times> go_error option"
  ue_UnixNano :: "'w \<Rightarrow> int"
  ue_hwAddr :: "'w \<Rightarrow> 8 word list result"

record rfc4122Generator =
  g_clockSequenceOnce :: bool
  g_hardwareAddrOnce :: bool
  g_lastTime :: "64 word"
  g_clockSequence :: "16 word"
  g_hardwareAddr :: "8 word list"

definition newRFC4122Generator :: rfc4122Generator where
  "newRFC4122Generator = \<lparr>g_clockSequenceOnce = False, g_hardwareAddrOnce = False, g_lastTime = 0, g_clockSequence = 0,
     g_hardwareAddr = replicate 6 0\<rparr>"

definition epochStart :: "64 word" where "epochStart = 122192928000000000"

text \<open>Division of a signed integer truncates.\<close>

definition getEpoch :: "'w uuid_env \<Rightarrow> 'w \<Rightarrow> 64 word" where
  "getEpoch env w =
     (let n = ue_UnixNano env w
      in epochStart + word_of_int (if 0 \<le> n then n div 100 else - ((- n) div 100)))"

text \<open>\<open>binary.BigEndian\<close>.\<close>

definition be16 :: "16 word \<Rightarrow> 8 word list" where
  "be16 v = [ucast (drop_bit 8 v), ucast v]"

definition be32 :: "32 word \<Rightarrow> 8 word list" where
  "be32 v = [ucast (drop_bit 24 v), ucast (drop_bit 16 v), ucast (drop_bit 8 v), ucast v]"

definition of_be16 :: "8 word list \<Rightarrow> 16 word" where
  "of_be16 bs = push_bit 8 (ucast (bs ! 0)) OR ucast (bs ! 1)"

text \<open>\<open>copy\<close> into a part of an array.\<close>

definition copy_at :: "nat \<Rightarrow> 'a list \<Rightarrow> 'a list \<Rightarrow> 'a list" where
  "copy_at i src dst = take i dst @ take (length dst - i) src @ drop (i + length src) dst"

definition init_clock :: "'w uuid_env \<Rightarrow> rfc4122Generator \<times> 'w \<Rightarrow> (rfc4122Generator \<times> 'w) \<times> go_error option" where
  "init_clock env s =
     (if g_clockSequenceOnce (fst s) then (s, None)
      else
        let g = (fst s)\<lparr>g_clockSequenceOnce := True\<rparr>
        in case ue_ReadFull env 2 (snd s) of
             (w, buf, Some e) \<Rightarrow> ((g, w), Some e)
           | (w, buf, None) \<Rightarrow> ((g\<lparr>g_clockSequence := of_be16 buf\<rparr>, w), None))"

definition getClockSequence ::
  "'w uuid_env \<Rightarrow> rfc4122Generator \<times> 'w \<Rightarrow> (rfc4122Generator \<times> 'w) \<times> (64 word \<times> 16 word) result" where
  "getClockSequence env s =
     (case init_clock env s of
        (s1, Some e) \<Rightarrow> (s1, Inl e)
      | ((g, w), None) \<Rightarrow>
          let timeNow = getEpoch env w;
              g1 = (if timeNow \<le> g_lastTime g then g\<lparr>g_clockSequence := g_clockSequence g + 1\<rparr> else g);
              g2 = g1\<lparr>g_lastTime := timeNow\<rparr>
          in ((g2, w), Inr (timeNow, g_clockSequence g2)))"

definition getHardwareAddr ::
  "'w uuid_env \<Rightarrow> rfc4122Generator \<times> 'w \<Rightarrow> (rfc4122Generator \<times> 'w) \<times> 8 word list result" where
  "getHardwareAddr env s =
     (if g_hardwareAddrOnce (fst s) then (s, Inr (g_hardwareAddr (fst s)))
      else
        let g = (fst s)\<lparr>g_hardwareAddrOnce := True\<rparr>
        in case ue_hwAddr env (snd s) of
             Inr hwAddr \<Rightarrow>
               let g1 = g\<lparr>g_hardwareAddr := copy_at 0 hwAddr (g_hardwareAddr g)\<rparr> in ((g1, snd s), Inr (g_hardwareAddr g1))
           | Inl _ \<Rightarrow>
               (case ue_ReadFull env 6 (snd s) of
                  (w, bs, Some e) \<Rightarrow> ((g\<lparr>g_hardwareAddr := copy_at 0 bs (g_hardwareAddr g)\<rparr>, w), Inl e)
                | (w, bs, None) \<Rightarrow>
                    let hw = copy_at 0 bs (g_hardwareAddr g);
                        g1 = g\<lparr>g_hardwareAddr := hw[0 := (hw ! 0) OR 1]\<rparr>
                    in ((g1, w), Inr (g_hardwareAddr g1))))"

definition defaultHWAddrFunc :: "8 word list list result \<Rightarrow> 8 word list result" where
  "defaultHWAddrFunc interfaces =
     (case interfaces of
        Inl err \<Rightarrow> Inl err
      | Inr ifaces \<Rightarrow>
          (case find (\<lambda>hw. length hw \<ge> 6) ifaces of
             Some hw \<Rightarrow> Inr hw
           | None \<Rightarrow> Inl (Err ''uuid: no HW address found'')))"

definition DomainPerson :: "8 word" where "DomainPerson = 0"
definition DomainGroup :: "8 word" where "DomainGroup = 1"

definition NewV1 :: "'w uuid_env \<Rightarrow> rfc4122Generator \<times> 'w \<Rightarrow> (rfc4122Generator \<times> 'w) \<times> UUID result" where
  "NewV1 env s =
     (case getClockSequence env s of
        (s1, Inl err) \<Rightarrow> (s1, Inl err)
      | (s1, Inr (timeNow, clockSeq)) \<Rightarrow>
          let u0 = be32 (ucast timeNow) @ be16 (ucast (drop_bit 32 timeNow)) @ be16 (ucast (drop_bit 48 timeNow)) @
                   be16 clockSeq @ replicate 6 0
          in case getHardwareAddr env s1 of
               (s2, Inl err) \<Rightarrow> (s2, Inl err)
             | (s2, Inr hardwareAddr) \<Rightarrow>
                 (s2, Inr (SetVariant VariantRFC4122 (SetVersion 1 (copy_at 10 hardwareAddr u0)))))"

text \<open>\<open>NewV2\<close> with the user and the group of the process.\<close>

definition NewV2 ::
  "'w uuid_env \<Rightarrow> 32 word \<Rightarrow> 32 word \<Rightarrow> 8 word \<Rightarrow> rfc4122Generator \<times> 'w \<Rightarrow> (rfc4122Generator \<times> 'w) \<times> UUID result" where
  "NewV2 env posixUID posixGID domain s =
     (case NewV1 env s of
        (s1, Inl err) \<Rightarrow> (s1, Inl err)
      | (s1, Inr u) \<Rightarrow>
          let u1 = (if domain = DomainPerson then copy_at 0 (be32 posixUID) u
                    else if domain = DomainGroup then copy_at 0 (be32 posixGID) u else u)
          in (s1, Inr (SetVariant VariantRFC4122 (SetVersion 2 (u1[9 := domain])))))"

text \<open>\<open>hash\<close> is MD5 or SHA-1; a SHA-1 sum is longer than an identifier and is cut.\<close>

definition newFromHash :: "(8 word list \<Rightarrow> 8 word list) \<Rightarrow> UUID \<Rightarrow> string \<Rightarrow> UUID" where
  "newFromHash hash ns name = copy_at 0 (hash (ns @ map (\<lambda>c. word_of_nat (byte c)) name)) uuid_Nil"

definition NewV3 :: "(8 word list \<Rightarrow> 8 word list) \<Rightarrow> UUID \<Rightarrow> string \<Rightarrow> UUID" where
  "NewV3 md5 ns name = SetVariant VariantRFC4122 (SetVersion 3 (newFromHash md5 ns name))"

definition NewV4 :: "'w uuid_env \<Rightarrow> 'w \<Rightarrow> 'w \<times> UUID result" where
  "NewV4 env w =
     (case ue_ReadFull env uuid_Size w of
        (w1, bs, Some err) \<Rightarrow> (w1, Inl err)
      | (w1, bs, None) \<Rightarrow> (w1, Inr (SetVariant VariantRFC4122 (SetVersion 4 (copy_at 0 bs uuid_Nil)))))"

definition NewV5 :: "(8 word list \<Rightarrow> 8 word list) \<Rightarrow> UUID \<Rightarrow> string \<Rightarrow> UUID" where
  "NewV5 sha1 ns name = SetVariant VariantRFC4122 (SetVersion 5 (newFromHash sha1 ns name))"

section \<open>Facts about the text forms\<close>

lemma byte_hex_char: "n < 16 \<Longrightarrow> byte (hex_char n) = (if n < 10 then 48 + n else 87 + n)"
  by (auto simp: hex_char_def numeral_eq_Suc less_Suc_eq)

lemma hex_val_char [simp]: "n < 16 \<Longrightarrow> hex_val (hex_char n) = Some n"
  by (simp add: hex_val_def byte_hex_char Let_def)

lemma unat_byte [simp]: "unat (b :: 8 word) div 16 < 16" "unat (b :: 8 word) mod 16 < 16"
proof -
  have "unat b < 256" using unsigned_less[where 'a = nat, of b] by simp
  then show "unat b div 16 < 16" "unat b mod 16 < 16" by simp_all
qed

lemma hex_roundtrip: "hex_Decode (hex_Encode bs) = Inr bs"
proof (induction bs)
  case (Cons b bs)
  have "word_of_nat (16 * (unat b div 16) + unat b mod 16) = b" by (simp add: mult_div_mod_eq)
  with Cons show ?case by (simp add: hex_Encode_def)
qed (simp add: hex_Encode_def)

lemma length_hex_Encode [simp]: "length (hex_Encode bs) = 2 * length bs"
  by (induction bs) (simp_all add: hex_Encode_def)

lemma length_uuid_String: "length u = uuid_Size \<Longrightarrow> length (uuid_String u) = 36"
  by (simp add: uuid_String_def uuid_Size_def)

lemma decode_group_step:
  assumes "length h = g" and "hex_Decode h = Inr bs"
  shows "decode_groups False (g # gs) (h @ src) = (case decode_groups True gs src of Inl e \<Rightarrow> Inl e | Inr ds \<Rightarrow> Inr (bs @ ds))"
    "decode_groups True (g # gs) (c # h @ src) = (case decode_groups True gs src of Inl e \<Rightarrow> Inl e | Inr ds \<Rightarrow> Inr (bs @ ds))"
  using assms by simp_all

lemma decodeCanonical_String:
  assumes "length u = uuid_Size"
  shows "decodeCanonical (uuid_String u) = Inr u"
proof -
  let ?a = "hex_Encode (take 4 u)" and ?b = "hex_Encode (take 2 (drop 4 u))" and ?c = "hex_Encode (take 2 (drop 6 u))"
    and ?d = "hex_Encode (take 2 (drop 8 u))" and ?e = "hex_Encode (drop 10 u)"
  have s: "uuid_String u = ?a @ CHR ''-'' # ?b @ CHR ''-'' # ?c @ CHR ''-'' # ?d @ CHR ''-'' # ?e"
    by (simp add: uuid_String_def)
  have l: "length ?a = 8" "length ?b = 4" "length ?c = 4" "length ?d = 4" "length ?e = 12"
    using assms by (simp_all add: uuid_Size_def)
  have last: "decode_groups True [12] (CHR ''-'' # ?e) = Inr (drop 10 u)" using l(5) hex_roundtrip by simp
  have groups: "decode_groups False byteGroups (uuid_String u) =
      Inr (take 4 u @ take 2 (drop 4 u) @ take 2 (drop 6 u) @ take 2 (drop 8 u) @ drop 10 u)"
    unfolding s byteGroups_def
    by (simp only: decode_group_step(1)[OF l(1) hex_roundtrip] decode_group_step(2)[OF l(2) hex_roundtrip]
        decode_group_step(2)[OF l(3) hex_roundtrip] decode_group_step(2)[OF l(4) hex_roundtrip]
        last sum.case)
  have "take 4 u @ take 2 (drop 4 u) @ take 2 (drop 6 u) @ take 2 (drop 8 u) @ drop 10 u = u"
  proof -
    have "drop 8 u = take 2 (drop 8 u) @ drop 10 u" using append_take_drop_id[of 2 "drop 8 u"] by simp
    moreover have "drop 6 u = take 2 (drop 6 u) @ drop 8 u" using append_take_drop_id[of 2 "drop 6 u"] by simp
    moreover have "drop 4 u = take 2 (drop 4 u) @ drop 6 u" using append_take_drop_id[of 2 "drop 4 u"] by simp
    ultimately show ?thesis using append_take_drop_id[of 4 u] by simp
  qed
  moreover have "uuid_String u ! 8 = CHR ''-''" "uuid_String u ! 13 = CHR ''-''" "uuid_String u ! 18 = CHR ''-''"
    "uuid_String u ! 23 = CHR ''-''"
    unfolding s using l by (simp_all add: nth_append)
  ultimately show ?thesis using groups by (simp add: decodeCanonical_def)
qed

section \<open>Facts about versions and variants\<close>

lemma less_8_cases:
  "n < (8 :: nat) \<Longrightarrow> n = 0 \<or> n = 1 \<or> n = 2 \<or> n = 3 \<or> n = 4 \<or> n = 5 \<or> n = 6 \<or> n = 7"
  by linarith

text \<open>Two bytes are equal when their eight bits are.\<close>

lemma byte_eqI:
  fixes a b :: "8 word"
  assumes "bit a 0 = bit b 0" "bit a 1 = bit b 1" "bit a 2 = bit b 2" "bit a 3 = bit b 3"
    "bit a 4 = bit b 4" "bit a 5 = bit b 5" "bit a 6 = bit b 6" "bit a 7 = bit b 7"
  shows "a = b"
proof (rule bit_word_eqI)
  fix n assume "n < LENGTH(8)"
  then have "n = 0 \<or> n = 1 \<or> n = 2 \<or> n = 3 \<or> n = 4 \<or> n = 5 \<or> n = 6 \<or> n = 7" by (intro less_8_cases) simp
  then show "bit a n = bit b n" by (elim disjE) (simp_all only: assms)
qed

lemma version_byte:
  fixes b v :: "8 word"
  assumes "v < 16"
  shows "drop_bit 4 ((b AND 0x0F) OR push_bit 4 v) = v"
proof -
  have "unat (v mod 16) = unat v" using assms by (simp add: unat_mod word_less_nat_alt)
  then have "v = take_bit 4 v" by (simp add: take_bit_eq_mod word_unat_eq_iff)
  then have v: "\<not> bit v m" if "4 \<le> m" for m using that by (metis bit_take_bit_iff not_le)
  show ?thesis using v[of 4] v[of 5] v[of 6] v[of 7] by (intro byte_eqI) (simp_all add: bit_simps)
qed

lemma variant_byte:
  fixes b :: "8 word"
  shows "drop_bit 7 ((b AND 0x3F) OR 0x80) \<noteq> 0" and "drop_bit 6 ((b AND 0x3F) OR 0x80) = 2"
proof -
  have "bit (drop_bit 7 ((b AND 0x3F) OR 0x80)) 0" by (simp add: bit_simps)
  then show "drop_bit 7 ((b AND 0x3F) OR 0x80) \<noteq> 0" by auto
  show "drop_bit 6 ((b AND 0x3F) OR 0x80) = 2" by (intro byte_eqI) (simp_all add: bit_simps)
qed

text \<open>A well-formed identifier of a version.\<close>

definition rfc4122 :: "8 word \<Rightarrow> UUID \<Rightarrow> bool" where
  "rfc4122 v u \<longleftrightarrow> length u = uuid_Size \<and> uuid_Version u = v \<and> uuid_Variant u = VariantRFC4122"

lemma rfc4122_set:
  assumes "length u = uuid_Size" and "v < 16"
  shows "rfc4122 v (SetVariant VariantRFC4122 (SetVersion v u))"
proof -
  have 1: "VariantRFC4122 \<noteq> VariantNCS" by (simp add: VariantRFC4122_def VariantNCS_def)
  show ?thesis using assms variant_byte[of "u ! 8"] version_byte[OF assms(2), of "u ! 6"] 1
    by (simp add: rfc4122_def SetVariant_def SetVersion_def uuid_Version_def uuid_Variant_def uuid_Size_def nth_list_update)
qed

lemma length_copy_at [simp]: "i \<le> length dst \<Longrightarrow> length (copy_at i src dst) = length dst"
  by (simp add: copy_at_def)

text \<open>What \<open>NewV1\<close> puts together.\<close>

definition v1_bytes :: "64 word \<Rightarrow> 16 word \<Rightarrow> 8 word list \<Rightarrow> 8 word list" where
  "v1_bytes timeNow clockSeq hw = copy_at 10 hw (be32 (ucast timeNow) @ be16 (ucast (drop_bit 32 timeNow)) @
     be16 (ucast (drop_bit 48 timeNow)) @ be16 clockSeq @ replicate 6 0)"

lemma length_v1_bytes [simp]: "length (v1_bytes t c hw) = uuid_Size"
  by (simp add: v1_bytes_def length_copy_at be32_def be16_def uuid_Size_def)

lemma NewV1_cases:
  assumes "NewV1 env s = (s', Inr u)"
  obtains s1 t c hw where "getClockSequence env s = (s1, Inr (t, c))" and "getHardwareAddr env s1 = (s', Inr hw)"
    and "u = SetVariant VariantRFC4122 (SetVersion 1 (v1_bytes t c hw))"
proof -
  obtain s1 r where c: "getClockSequence env s = (s1, r)" by (rule prod.exhaust)
  obtain t q where r: "r = Inr (t, q)" using assms c by (cases r) (auto simp: NewV1_def)
  obtain s2 h where d: "getHardwareAddr env s1 = (s2, h)" by (rule prod.exhaust)
  obtain hw where h: "h = Inr hw" using assms c r d by (cases h) (simp_all add: NewV1_def Let_def)
  have "NewV1 env s = (s2, Inr (SetVariant VariantRFC4122 (SetVersion 1 (v1_bytes t q hw))))"
    unfolding NewV1_def c r Let_def v1_bytes_def by (simp add: d h)
  then show thesis using assms c d r h by (intro that[of s1 t q hw]) simp_all
qed

lemma ucast_Suc: "(ucast (c + 1 :: 16 word) :: 8 word) \<noteq> ucast c"
proof
  assume "(ucast (c + 1) :: 8 word) = ucast c"
  then have "uint (ucast (c + 1) :: 8 word) = uint (ucast c :: 8 word)" by simp
  then have "(uint c + 1) mod 2 ^ 16 mod 2 ^ 8 = uint c mod 2 ^ 8"
    by (simp add: unsigned_ucast_eq take_bit_eq_mod uint_word_ariths)
  moreover have "(uint c + 1) mod 2 ^ 16 mod 2 ^ 8 = (uint c + 1) mod 2 ^ 8"
    by (rule mod_mod_cancel) (simp add: le_imp_power_dvd)
  ultimately have "(2 :: int) ^ 8 dvd (uint c + 1) - uint c" by (simp only: mod_eq_dvd_iff)
  then show False by simp
qed

section \<open>Facts about the time of an identifier\<close>

text \<open>The place of every bit of the time.\<close>

definition time_place :: "nat \<Rightarrow> nat" where
  "time_place k = [3, 2, 1, 0, 5, 4, 7, 6] ! k"

lemma v1_time_bits:
  fixes t :: "64 word"
  assumes "k < 8" and "m < 8"
  shows "bit (v1_bytes t c hw ! time_place k) m = bit t (8 * k + m)"
  using less_8_cases[OF assms(1)]
  by (elim disjE) (use assms(2) in \<open>simp_all add: time_place_def v1_bytes_def copy_at_def be32_def be16_def bit_simps add_ac\<close>)

lemma time_place_simps: "k < 7 \<Longrightarrow> time_place k \<noteq> 6" "k < 8 \<Longrightarrow> time_place k \<noteq> 8" "time_place 7 = 6"
  by (auto simp: time_place_def numeral_eq_Suc less_Suc_eq)

lemma v1_clock_byte: "v1_bytes t c hw ! 9 = ucast c"
  by (simp add: v1_bytes_def copy_at_def be32_def be16_def)

definition v1_stamp :: "8 word list \<Rightarrow> UUID" where
  "v1_stamp bs = SetVariant VariantRFC4122 (SetVersion 1 bs)"

lemma v1_stamp_nth: "i \<noteq> 6 \<Longrightarrow> i \<noteq> 8 \<Longrightarrow> v1_stamp bs ! i = bs ! i"
  by (simp add: v1_stamp_def SetVariant_def SetVersion_def)

lemma v1_stamp_6: "length bs = uuid_Size \<Longrightarrow> m < 4 \<Longrightarrow> bit (v1_stamp bs ! 6) m = bit (bs ! 6) m"
proof -
  assume "length bs = uuid_Size" and m: "m < 4"
  then have 1: "v1_stamp bs ! 6 = ((bs ! 6) AND 0x0F) OR push_bit 4 1"
    by (simp add: v1_stamp_def SetVariant_def SetVersion_def uuid_Size_def)
  have "m = 0 \<or> m = 1 \<or> m = 2 \<or> m = 3" using m by linarith
  then show ?thesis unfolding 1 by (elim disjE) (simp_all add: bit_simps)
qed

lemma v1_stamp_time:
  assumes same: "v1_stamp (v1_bytes t c hw) = v1_stamp (v1_bytes t' c' hw')"
    and n: "n < 60"
  shows "bit t n = bit t' n"
proof -
  let ?b = "v1_bytes t c hw" and ?b' = "v1_bytes t' c' hw'"
  have nth: "?b ! i = ?b' ! i" if "i \<noteq> 6" "i \<noteq> 8" for i using same v1_stamp_nth[OF that] by metis
  have six: "bit (?b ! 6) m = bit (?b' ! 6) m" if "m < 4" for m
    using same v1_stamp_6[OF length_v1_bytes that] by metis
  have k: "n div 8 < 8" and m: "n mod 8 < 8" and n8: "n = 8 * (n div 8) + n mod 8" using n by simp_all
  have "bit (?b ! time_place (n div 8)) (n mod 8) = bit (?b' ! time_place (n div 8)) (n mod 8)"
  proof (cases "n div 8 = 7")
    case True
    then have "n mod 8 < 4" using n n8 by linarith
    then show ?thesis using six by (simp add: True time_place_simps)
  next
    case False
    then show ?thesis using nth[of "time_place (n div 8)"] k time_place_simps by simp
  qed
  then show ?thesis using v1_time_bits[OF k m] n8 by metis
qed

lemma low_bits_eq:
  fixes t t' :: "64 word"
  assumes "t < 2 ^ 60" and "t' < 2 ^ 60" and "\<And>n. n < 60 \<Longrightarrow> bit t n = bit t' n"
  shows "t = t'"
proof (rule bit_word_eqI)
  fix n assume "n < LENGTH(64)"
  have high: "\<not> bit w m" if "w < 2 ^ 60" "60 \<le> m" for w :: "64 word" and m
  proof -
    have "unat w < 2 ^ 60" using that(1) by (simp add: word_less_nat_alt)
    then have "unat w = take_bit 60 (unat w)" by (simp add: take_bit_nat_eq_self)
    then have "\<not> bit (unat w) m" using that(2) by (metis bit_take_bit_iff not_le)
    then show ?thesis by (simp add: bit_unsigned_iff bit_imp_le_length)
  qed
  show "bit t n = bit t' n" using assms(3)[of n] high[OF assms(1), of n] high[OF assms(2), of n] by (cases "n < 60") simp_all
qed

section \<open>The clock sequence\<close>

lemma init_clock_done: "init_clock env s = (s', None) \<Longrightarrow> g_clockSequenceOnce (fst s')"
  by (auto simp: init_clock_def Let_def split: if_split_asm prod.split_asm option.split_asm)

lemma getClockSequence_facts:
  assumes "getClockSequence env s = (s1, Inr (t, c))"
  shows "g_clockSequenceOnce (fst s1)" and "g_lastTime (fst s1) = t" and "g_clockSequence (fst s1) = c"
    and "g_clockSequenceOnce (fst s) \<Longrightarrow>
      c = (if t \<le> g_lastTime (fst s) then g_clockSequence (fst s) + 1 else g_clockSequence (fst s))"
proof -
  obtain g w r where i: "init_clock env s = ((g, w), r)" by (metis prod.collapse)
  have r: "r = None" using assms i by (cases r) (simp_all add: getClockSequence_def)
  have once: "g_clockSequenceOnce g" using init_clock_done i r by fastforce
  have t: "t = getEpoch env w" and s1: "s1 = ((if t \<le> g_lastTime g then g\<lparr>g_clockSequence := g_clockSequence g + 1\<rparr> else g)\<lparr>g_lastTime := t\<rparr>, w)"
    and c: "c = g_clockSequence (fst s1)"
    using assms i r by (auto simp: getClockSequence_def Let_def)
  show "g_clockSequenceOnce (fst s1)" "g_lastTime (fst s1) = t" "g_clockSequence (fst s1) = c"
    using once c by (simp_all add: s1)
  show "c = (if t \<le> g_lastTime (fst s) then g_clockSequence (fst s) + 1 else g_clockSequence (fst s))"
    if "g_clockSequenceOnce (fst s)"
  proof -
    have "g = fst s" using that i by (auto simp: init_clock_def)
    then show ?thesis using c by (simp add: s1)
  qed
qed

lemma getHardwareAddr_keeps:
  assumes "getHardwareAddr env s = (s', r)"
  shows "g_clockSequenceOnce (fst s') = g_clockSequenceOnce (fst s)" "g_lastTime (fst s') = g_lastTime (fst s)"
    "g_clockSequence (fst s') = g_clockSequence (fst s)"
  using assms by (auto simp: getHardwareAddr_def Let_def split: if_split_asm prod.split_asm option.split_asm sum.split_asm)

lemma NewV1_step:
  assumes "NewV1 env s = (s', Inr u)"
  obtains c hw where "u = v1_stamp (v1_bytes (g_lastTime (fst s')) (g_clockSequence (fst s')) hw)" and "g_clockSequenceOnce (fst s')"
    and "g_clockSequenceOnce (fst s) \<Longrightarrow> g_clockSequence (fst s') =
      (if g_lastTime (fst s') \<le> g_lastTime (fst s) then g_clockSequence (fst s) + 1 else g_clockSequence (fst s))"
proof -
  obtain s1 t c hw where c: "getClockSequence env s = (s1, Inr (t, c))" and h: "getHardwareAddr env s1 = (s', Inr hw)"
    and u: "u = SetVariant VariantRFC4122 (SetVersion 1 (v1_bytes t c hw))" by (rule NewV1_cases[OF assms])
  show thesis
    using getClockSequence_facts[OF c] getHardwareAddr_keeps[OF h] u by (intro that[of hw]) (simp_all add: v1_stamp_def)
qed

section \<open>Properties\<close>

text \<open>C38: The text of an identifier reads back as the identifier, in each of the forms that are accepted: canonical,
  plain hexadecimal, and the canonical form in braces or after the prefix of a URN, or the plain form after that prefix.
  The plain form in braces, which the comment on the function lists too, is rejected.\<close>

theorem uuid_roundtrip:
  assumes "length u = uuid_Size"
  shows "FromString (uuid_String u) = Inr u \<and> FromString (hex_Encode u) = Inr u \<and>
    FromString (''{'' @ uuid_String u @ ''}'') = Inr u \<and> FromString (urnPrefix @ uuid_String u) = Inr u \<and>
    FromString (urnPrefix @ hex_Encode u) = Inr u \<and>
    FromString (''{'' @ hex_Encode u @ ''}'') = Inl (Err (''uuid: incorrect UUID length: {'' @ hex_Encode u @ ''}''))"
proof -
  have s: "length (uuid_String u) = 36" and h: "length (hex_Encode u) = 32"
    using assms by (simp_all add: length_uuid_String) (simp add: uuid_Size_def)
  have p: "length urnPrefix = 9" by (simp add: urnPrefix_def)
  have c: "decodeCanonical (uuid_String u) = Inr u" by (rule decodeCanonical_String[OF assms])
  have b: "decodeBraced (''{'' @ uuid_String u @ ''}'') = Inr u"
    using s c by (simp add: decodeBraced_def decodePlain_def nth_append)
  have n: "decodeURN (urnPrefix @ uuid_String u) = Inr u" "decodeURN (urnPrefix @ hex_Encode u) = Inr u"
    using s h c by (simp_all add: decodeURN_def p decodePlain_def decodeHashLike_def hex_roundtrip)
  show ?thesis
    using s h p b n c by (simp add: FromString_def UnmarshalText_def decodeHashLike_def hex_roundtrip)
qed

theorem uuid_roundtrip_witness:
  "FromString (uuid_String (replicate 15 0 @ [0xab])) = Inr (replicate 15 0 @ [0xab])"
  using uuid_roundtrip[of "replicate 15 0 @ [0xab]"] by (simp add: uuid_Size_def)

text \<open>C39: Every identifier that is generated is a well-formed RFC 4122 identifier of its version: sixteen bytes, the
  version in the seventh and the variant in the ninth, whatever the clock, the random source, the hardware address and
  the hash give.\<close>

theorem uuid_well_formed:
  "(case NewV1 env s of (_, Inr u) \<Rightarrow> rfc4122 1 u | (_, Inl _) \<Rightarrow> True) \<and>
   (case NewV2 env uid gid domain s of (_, Inr u) \<Rightarrow> rfc4122 2 u | (_, Inl _) \<Rightarrow> True) \<and>
   (case NewV4 env w of (_, Inr u) \<Rightarrow> rfc4122 4 u | (_, Inl _) \<Rightarrow> True) \<and>
   rfc4122 3 (NewV3 md5 ns name) \<and> rfc4122 5 (NewV5 sha1 ns name)"
proof (intro conjI)
  have v1: "rfc4122 1 u" if "NewV1 env s = (s', Inr u)" for s' u
    by (rule NewV1_cases[OF that]) (simp add: rfc4122_set)
  show "case NewV1 env s of (_, Inr u) \<Rightarrow> rfc4122 1 u | (_, Inl _) \<Rightarrow> True"
    using v1 by (auto split: prod.split sum.split)
  obtain s' r where n: "NewV1 env s = (s', r)" by (rule prod.exhaust)
  show "case NewV2 env uid gid domain s of (_, Inr u) \<Rightarrow> rfc4122 2 u | (_, Inl _) \<Rightarrow> True"
  proof (cases r)
    case (Inr u)
    then have "length u = uuid_Size" using v1 n by (simp add: rfc4122_def)
    then show ?thesis unfolding NewV2_def n Inr by (simp add: Let_def rfc4122_set)
  qed (simp add: NewV2_def n)
  show "case NewV4 env w of (_, Inr u) \<Rightarrow> rfc4122 4 u | (_, Inl _) \<Rightarrow> True"
    by (auto simp: NewV4_def uuid_Nil_def rfc4122_set split: prod.split option.split)
  show "rfc4122 3 (NewV3 md5 ns name)" "rfc4122 5 (NewV5 sha1 ns name)"
    by (simp_all add: NewV3_def NewV5_def newFromHash_def uuid_Nil_def rfc4122_set)
qed

text \<open>C40: Two version 1 identifiers that a generator makes one after the other differ, also when the clock stands still
  or goes back between them, as long as the time fits into its sixty bits.\<close>

theorem consecutive_v1_distinct:
  assumes one: "NewV1 env (g, w) = ((g1, w1), Inr u1)" and two: "NewV1 env (g1, w2) = ((g2, w3), Inr u2)"
    and fits: "g_lastTime g2 < 2 ^ 60"
  shows "u1 \<noteq> u2"
proof
  assume same: "u1 = u2"
  obtain hw where u1: "u1 = v1_stamp (v1_bytes (g_lastTime g1) (g_clockSequence g1) hw)" and o: "g_clockSequenceOnce g1"
    by (rule NewV1_step[OF one]) simp
  obtain hw' where u2: "u2 = v1_stamp (v1_bytes (g_lastTime g2) (g_clockSequence g2) hw')"
    and c: "g_clockSequence g2 = (if g_lastTime g2 \<le> g_lastTime g1 then g_clockSequence g1 + 1 else g_clockSequence g1)"
    by (rule NewV1_step[OF two]) (use o in simp)
  note same' = same[unfolded u1 u2]
  show False
  proof (cases "g_lastTime g2 \<le> g_lastTime g1")
    case True
    have "v1_bytes (g_lastTime g1) (g_clockSequence g1) hw ! 9 = v1_bytes (g_lastTime g2) (g_clockSequence g2) hw' ! 9"
      using arg_cong[OF same', of "\<lambda>u. u ! 9"] by (simp add: v1_stamp_nth)
    then show False using True c ucast_Suc[of "g_clockSequence g1"] by (simp add: v1_clock_byte)
  next
    case False
    then have "g_lastTime g1 < g_lastTime g2" by simp
    moreover have "g_lastTime g1 = g_lastTime g2"
      using low_bits_eq[of "g_lastTime g1" "g_lastTime g2"] v1_stamp_time[OF same'] fits calculation by fastforce
    ultimately show False by simp
  qed
qed

text \<open>A clock that stands still.\<close>

definition fixed_env :: "int uuid_env" where
  "fixed_env = \<lparr>ue_ReadFull = (\<lambda>n w. (w, replicate n 0, None)), ue_UnixNano = (\<lambda>w. w), ue_hwAddr = (\<lambda>w. Inr [1, 2, 3, 4, 5, 6])\<rparr>"

definition fixed_generator :: "16 word \<Rightarrow> rfc4122Generator" where
  "fixed_generator c = \<lparr>g_clockSequenceOnce = True, g_hardwareAddrOnce = True, g_lastTime = epochStart, g_clockSequence = c,
     g_hardwareAddr = [1, 2, 3, 4, 5, 6]\<rparr>"

lemma fixed_epoch: "getEpoch fixed_env 0 = epochStart" "epochStart \<noteq> 0"
  by (simp add: getEpoch_def fixed_env_def) (simp add: epochStart_def)

lemma fixed_read: "ue_ReadFull fixed_env n w = (w, replicate n 0, None)" "ue_hwAddr fixed_env w = Inr [1, 2, 3, 4, 5, 6]"
  by (simp_all add: fixed_env_def)

lemma copy_all: "length src = length dst \<Longrightarrow> copy_at 0 src dst = src"
  by (simp add: copy_at_def)

lemma fixed_runs:
  "NewV1 fixed_env (newRFC4122Generator, 0) = ((fixed_generator 0, 0), Inr (v1_stamp (v1_bytes epochStart 0 [1, 2, 3, 4, 5, 6])))"
  "NewV1 fixed_env (fixed_generator 0, 0) = ((fixed_generator 1, 0), Inr (v1_stamp (v1_bytes epochStart 1 [1, 2, 3, 4, 5, 6])))"
  by (simp_all add: NewV1_def getClockSequence_def init_clock_def getHardwareAddr_def fixed_read newRFC4122Generator_def
      fixed_generator_def fixed_epoch Let_def v1_stamp_def v1_bytes_def of_be16_def copy_all)

theorem consecutive_v1_distinct_witness:
  "v1_stamp (v1_bytes epochStart 0 [1, 2, 3, 4, 5, 6]) \<noteq> v1_stamp (v1_bytes epochStart 1 [1, 2, 3, 4, 5, 6])"
  using consecutive_v1_distinct[OF fixed_runs] by (simp add: fixed_generator_def epochStart_def)

text \<open>A random source that fails is reported by the first call only: \<open>sync.Once\<close> does not run its function again, and
  the following identifiers are made with a clock sequence of zero instead of a random one.\<close>

theorem failed_seed_forgotten:
  assumes "ue_ReadFull env 2 w = (w1, bs, Some e)" and "getEpoch env w2 \<noteq> 0" and "ue_hwAddr env w2 = Inr hw"
  shows "\<exists>g. NewV1 env (newRFC4122Generator, w) = ((g, w1), Inl e) \<and>
    snd (NewV1 env (g, w2)) = Inr (v1_stamp (v1_bytes (getEpoch env w2) 0 (copy_at 0 hw (replicate 6 0))))"
  using assms
  by (simp add: NewV1_def getClockSequence_def init_clock_def getHardwareAddr_def newRFC4122Generator_def Let_def v1_stamp_def v1_bytes_def)

end
