(* ===== verification/Tls.thy ===== *)
theory Tls
  imports Model
begin

text \<open>
  \<open>common/tls/tls.go\<close> and \<open>getTLSCredentials\<close> of \<open>grpc_client.go\<close>: the TLS settings of the two transports, made
  of one configuration. Reading and parsing of files is a parameter; a certificate is what is read from its files,
  and a certificate pool the list of the texts added to it.
\<close>

section \<open>Settings\<close>

record tls_lib =
  tl_ReadFile :: "string \<Rightarrow> string result"
  tl_validPEM :: "string \<Rightarrow> bool"
  tl_LoadX509KeyPair :: "string \<Rightarrow> string \<Rightarrow> string result"
  tl_SystemCertPool :: "string list result"

record tls_conf =
  tc_Certificates :: "string list"
  tc_InsecureSkipVerify :: bool
  tc_ServerName :: string
  tc_RootCAs :: "string list option"

definition zero_tls_conf :: tls_conf where
  "zero_tls_conf = \<lparr>tc_Certificates = [], tc_InsecureSkipVerify = False, tc_ServerName = [], tc_RootCAs = None\<rparr>"

definition rootCert :: "tls_lib \<Rightarrow> string \<Rightarrow> string list result" where
  "rootCert lib caFile =
     (case tl_ReadFile lib caFile of
        Inl err \<Rightarrow> Inl err
      | Inr b \<Rightarrow> if \<not> tl_validPEM lib b then Inl (Err ''credentials: failed to append certificates'') else Inr [b])"

definition certificate :: "tls_lib \<Rightarrow> string \<Rightarrow> string \<Rightarrow> string result" where
  "certificate lib certFile keyFile = tl_LoadX509KeyPair lib certFile keyFile"

definition NewTLS :: "tls_lib \<Rightarrow> TLSConfig \<Rightarrow> tls_conf result" where
  "NewTLS lib c =
     (case (if length (tls_CertFile c) > 0 \<and> length (tls_KeyFile c) > 0
            then (case certificate lib (tls_CertFile c) (tls_KeyFile c) of
                    Inl err \<Rightarrow> Inl err
                  | Inr cert \<Rightarrow> Inr (zero_tls_conf\<lparr>tc_Certificates := [cert]\<rparr>))
            else Inr zero_tls_conf) of
        Inl err \<Rightarrow> Inl err
      | Inr tc \<Rightarrow>
          if length (tls_CaFile c) \<le> 0 then Inr (tc\<lparr>tc_InsecureSkipVerify := True\<rparr>)
          else
            let tc1 = (if length (tls_ServerNameOverride c) > 0
                       then tc\<lparr>tc_ServerName := tls_ServerNameOverride c\<rparr> else tc)
            in case rootCert lib (tls_CaFile c) of
                 Inl err \<Rightarrow> Inl err
               | Inr pool \<Rightarrow> Inr (tc1\<lparr>tc_RootCAs := Some pool\<rparr>))"

text \<open>
  \<open>log.Fatalf\<close> ends the process. The errors of reading the file and of adding it to the pool are made and dropped;
  a file that cannot be read is an empty text, which is not valid.
\<close>

definition getTLSCredentials :: "tls_lib \<Rightarrow> TLSConfig \<Rightarrow> tls_conf outcome" where
  "getTLSCredentials lib c =
     (case tl_SystemCertPool lib of
        Inl err \<Rightarrow> Panic ''load root cert pool fail''
      | Inr system \<Rightarrow>
          let certPool = (if length (tls_CaFile c) \<noteq> 0
                          then (case tl_ReadFile lib (tls_CaFile c) of
                                  Inl err \<Rightarrow> system
                                | Inr cert \<Rightarrow> if tl_validPEM lib cert then system @ [cert] else system)
                          else system);
              config = zero_tls_conf\<lparr>tc_InsecureSkipVerify := tls_TrustAll c, tc_RootCAs := Some certPool\<rparr>
          in if length (tls_CertFile c) \<noteq> 0 \<and> length (tls_KeyFile c) \<noteq> 0
             then (case tl_LoadX509KeyPair lib (tls_CertFile c) (tls_KeyFile c) of
                     Inl err \<Rightarrow> Panic ''load cert fail''
                   | Inr cert \<Rightarrow> Ret (config\<lparr>tc_Certificates := tc_Certificates config @ [cert]\<rparr>))
             else Ret config)"

section \<open>Properties\<close>


end
