(* ===== verification/Http_Agent.thy ===== *)
theory Http_Agent
  imports Nacos_Server Tls Uuid
begin

text \<open>
  \<open>common/http_agent\<close>: how the parameters of a request are written into its URL or its body, the four methods, and
  the TLS settings of the client. \<open>net/http\<close> is a parameter. \<open>form_read\<close> is what a receiver of a form reads, the
  reference the encodings are compared with; \<open>form_encoding\<close> is the contract of an encoding of keys and values.
\<close>

section \<open>Escaping\<close>

text \<open>The bytes that \<open>url.QueryEscape\<close> leaves as they are.\<close>

definition unreserved :: "char \<Rightarrow> bool" where
  "unreserved c \<longleftrightarrow>
     (let n = byte c
      in 97 \<le> n \<and> n \<le> 122 \<or> 65 \<le> n \<and> n \<le> 90 \<or> 48 \<le> n \<and> n \<le> 57 \<or> n = 45 \<or> n = 95 \<or> n = 46 \<or> n = 126)"

definition upper_hex :: "nat \<Rightarrow> char" where
  "upper_hex n = ''0123456789ABCDEF'' ! n"

definition escape_byte :: "char \<Rightarrow> string" where
  "escape_byte c =
     (if unreserved c then [c] else if c = CHR '' '' then ''+''
      else [CHR ''%'', upper_hex (byte c div 16), upper_hex (byte c mod 16)])"

definition QueryEscape :: "string \<Rightarrow> string" where
  "QueryEscape s = concat (map escape_byte s)"

fun query_unescape :: "string \<Rightarrow> string option" where
  "query_unescape [] = Some []"
| "query_unescape (c # cs) =
     (if c = CHR ''%''
      then (case cs of
              a # b # ds \<Rightarrow>
                (case (hex_val a, hex_val b) of
                   (Some x, Some y) \<Rightarrow> map_option (\<lambda>r. char_of (16 * x + y) # r) (query_unescape ds)
                 | _ \<Rightarrow> None)
            | _ \<Rightarrow> None)
      else map_option (\<lambda>r. (if c = CHR ''+'' then CHR '' '' else c) # r) (query_unescape cs))"

section \<open>Forms\<close>

text \<open>What a receiver reads: the pieces between the ampersands, each cut at its first equals sign.\<close>

definition read_pair :: "string \<Rightarrow> (string \<times> string) option" where
  "read_pair s =
     (case (query_unescape (takeWhile (\<lambda>c. c \<noteq> CHR ''='') s), query_unescape (drop 1 (dropWhile (\<lambda>c. c \<noteq> CHR ''='') s))) of
        (Some k, Some v) \<Rightarrow> Some (k, v)
      | _ \<Rightarrow> None)"

definition form_read :: "string \<Rightarrow> params" where
  "form_read s = collect_some read_pair (filter (\<lambda>p. p \<noteq> []) (split_str s ''&''))"

definition url_query :: "string \<Rightarrow> string" where
  "url_query s = drop 1 (dropWhile (\<lambda>c. c \<noteq> CHR ''?'') s)"

text \<open>\<open>url.Values\<close>: one value per key here; \<open>Encode\<close> sorts the keys.\<close>

definition GetUrlFormedMap :: "params \<Rightarrow> string" where
  "GetUrlFormedMap source = join_str (map (\<lambda>(k, v). QueryEscape k @ ''='' @ QueryEscape v) (sort_key fst source)) ''&''"

definition strip_amp :: "string \<Rightarrow> string" where
  "strip_amp s = (if has_suffix s ''&'' then butlast s else s)"

fun get_loop :: "string \<Rightarrow> params \<Rightarrow> string" where
  "get_loop path [] = path"
| "get_loop path ((k, v) # ps) =
     get_loop ((if has_suffix path ''&'' then path else path @ ''&'') @ k @ ''='' @ QueryEscape v @ ''&'') ps"

definition get_path :: "string \<Rightarrow> params \<Rightarrow> string" where
  "get_path path params = strip_amp (get_loop (if contains_str path ''?'' then path else path @ ''?'') params)"

fun delete_loop :: "string \<Rightarrow> params \<Rightarrow> string" where
  "delete_loop path [] = path"
| "delete_loop path ((k, v) # ps) = delete_loop (path @ k @ ''='' @ QueryEscape v @ ''&'') ps"

definition delete_path :: "string \<Rightarrow> params \<Rightarrow> string" where
  "delete_path path params =
     (if length params > 0
      then strip_amp (delete_loop (if has_suffix path ''?'' then path else path @ ''?'') params)
      else path)"

fun put_loop :: "string \<Rightarrow> params \<Rightarrow> string" where
  "put_loop body [] = body"
| "put_loop body ((k, v) # ps) = put_loop (if length v > 0 then body @ k @ ''='' @ v @ ''&'' else body) ps"

definition put_body :: "params \<Rightarrow> string" where
  "put_body params = strip_amp (put_loop [] params)"

section \<open>Requests\<close>

text \<open>
  A request as it is given to the client, and what the client gives back: the status code and the result of reading
  the body. The client is known by its TLS settings. A timeout is a number of nanoseconds of 64 bits.
\<close>

record http_request =
  hr_tls :: "tls_conf option"
  hr_Method :: string
  hr_URL :: string
  hr_Header :: headers
  hr_Body :: "string option"
  hr_Timeout :: u64

type_synonym http_response = "int \<times> string result"

record 'w net_lib =
  nl_tls :: tls_lib
  nl_NewRequest :: "string \<Rightarrow> string \<Rightarrow> go_error option"
  nl_Do :: "http_request \<Rightarrow> 'w \<Rightarrow> 'w \<times> http_response result"

definition send_request :: "'w net_lib \<Rightarrow> http_request \<Rightarrow> 'w \<Rightarrow> 'w \<times> http_response result" where
  "send_request lib r w =
     (case nl_NewRequest lib (hr_Method r) (hr_URL r) of Some err \<Rightarrow> (w, Inl err) | None \<Rightarrow> nl_Do lib r w)"

definition timeout_ns :: "u64 \<Rightarrow> u64" where "timeout_ns timeoutMs = 1000000 * timeoutMs"

type_synonym http_client = "tls_conf option"

definition http_get :: "http_client \<Rightarrow> string \<Rightarrow> headers \<Rightarrow> u64 \<Rightarrow> params \<Rightarrow> http_request" where
  "http_get client path header timeoutMs params =
     \<lparr>hr_tls = client, hr_Method = ''GET'', hr_URL = get_path path params, hr_Header = header, hr_Body = None,
      hr_Timeout = timeout_ns timeoutMs\<rparr>"

definition http_post :: "http_client \<Rightarrow> string \<Rightarrow> headers \<Rightarrow> u64 \<Rightarrow> params \<Rightarrow> http_request" where
  "http_post client path header timeoutMs params =
     \<lparr>hr_tls = client, hr_Method = ''POST'', hr_URL = path, hr_Header = header,
      hr_Body = Some (GetUrlFormedMap params), hr_Timeout = timeout_ns timeoutMs\<rparr>"

definition http_put :: "http_client \<Rightarrow> string \<Rightarrow> headers \<Rightarrow> u64 \<Rightarrow> params \<Rightarrow> http_request" where
  "http_put client path header timeoutMs params =
     \<lparr>hr_tls = client, hr_Method = ''PUT'', hr_URL = path, hr_Header = header, hr_Body = Some (put_body params),
      hr_Timeout = timeout_ns timeoutMs\<rparr>"

definition http_delete :: "http_client \<Rightarrow> string \<Rightarrow> headers \<Rightarrow> u64 \<Rightarrow> params \<Rightarrow> http_request" where
  "http_delete client path header timeoutMs params =
     \<lparr>hr_tls = client, hr_Method = ''DELETE'', hr_URL = delete_path path params, hr_Header = header, hr_Body = None,
      hr_Timeout = timeout_ns timeoutMs\<rparr>"

section \<open>The agent\<close>

record HttpAgent =
  ha_TlsConfig :: TLSConfig

definition createClient :: "tls_lib \<Rightarrow> HttpAgent \<Rightarrow> http_client result" where
  "createClient lib agent =
     (if \<not> tls_Enable (ha_TlsConfig agent) then Inr None
      else case NewTLS lib (ha_TlsConfig agent) of Inl err \<Rightarrow> Inl err | Inr cfg \<Rightarrow> Inr (Some cfg))"

type_synonym request_maker = "http_client \<Rightarrow> string \<Rightarrow> headers \<Rightarrow> u64 \<Rightarrow> params \<Rightarrow> http_request"

text \<open>The body that \<open>Get\<close>, \<open>Post\<close>, \<open>Put\<close> and \<open>Delete\<close> share.\<close>

definition with_client ::
  "request_maker \<Rightarrow> 'w net_lib \<Rightarrow> HttpAgent \<Rightarrow> string \<Rightarrow> headers \<Rightarrow> u64 \<Rightarrow> params \<Rightarrow> 'w \<Rightarrow> 'w \<times> http_response result" where
  "with_client mk lib agent path header timeoutMs params w =
     (case createClient (nl_tls lib) agent of
        Inl err \<Rightarrow> (w, Inl err)
      | Inr client \<Rightarrow> send_request lib (mk client path header timeoutMs params) w)"

definition agent_Get :: "'w net_lib \<Rightarrow> HttpAgent \<Rightarrow> string \<Rightarrow> headers \<Rightarrow> u64 \<Rightarrow> params \<Rightarrow> 'w \<Rightarrow> 'w \<times> http_response result" where
  "agent_Get = with_client http_get"

definition agent_Post :: "'w net_lib \<Rightarrow> HttpAgent \<Rightarrow> string \<Rightarrow> headers \<Rightarrow> u64 \<Rightarrow> params \<Rightarrow> 'w \<Rightarrow> 'w \<times> http_response result" where
  "agent_Post = with_client http_post"

definition agent_Put :: "'w net_lib \<Rightarrow> HttpAgent \<Rightarrow> string \<Rightarrow> headers \<Rightarrow> u64 \<Rightarrow> params \<Rightarrow> 'w \<Rightarrow> 'w \<times> http_response result" where
  "agent_Put = with_client http_put"

definition agent_Delete :: "'w net_lib \<Rightarrow> HttpAgent \<Rightarrow> string \<Rightarrow> headers \<Rightarrow> u64 \<Rightarrow> params \<Rightarrow> 'w \<Rightarrow> 'w \<times> http_response result" where
  "agent_Delete = with_client http_delete"

definition agent_Request ::
  "'w net_lib \<Rightarrow> HttpAgent \<Rightarrow> string \<Rightarrow> string \<Rightarrow> headers \<Rightarrow> u64 \<Rightarrow> params \<Rightarrow> 'w \<Rightarrow> 'w \<times> http_response result" where
  "agent_Request lib agent method path header timeoutMs params w =
     (if method = ''GET'' then agent_Get lib agent path header timeoutMs params w
      else if method = ''POST'' then agent_Post lib agent path header timeoutMs params w
      else if method = ''PUT'' then agent_Put lib agent path header timeoutMs params w
      else if method = ''DELETE'' then agent_Delete lib agent path header timeoutMs params w
      else (w, Inl (Err ''not available method'')))"

text \<open>For another method neither the response nor the error is set, and the status code of \<open>nil\<close> is read.\<close>

definition RequestOnlyResult ::
  "'w net_lib \<Rightarrow> HttpAgent \<Rightarrow> string \<Rightarrow> string \<Rightarrow> headers \<Rightarrow> u64 \<Rightarrow> params \<Rightarrow> 'w \<Rightarrow> ('w \<times> string) outcome" where
  "RequestOnlyResult lib agent method path header timeoutMs params w =
     (if method \<notin> {''GET'', ''POST'', ''PUT'', ''DELETE''} then Panic ''nil pointer dereference''
      else case (if method = ''GET'' then agent_Get lib agent path header timeoutMs params w
                 else if method = ''POST'' then agent_Post lib agent path header timeoutMs params w
                 else if method = ''PUT'' then agent_Put lib agent path header timeoutMs params w
                 else agent_Delete lib agent path header timeoutMs params w) of
             (w', Inl err) \<Rightarrow> Ret (w', [])
           | (w', Inr (statusCode, body)) \<Rightarrow>
               if statusCode \<noteq> RESPONSE_CODE_SUCCESS then Ret (w', [])
               else (case body of Inl errRead \<Rightarrow> Ret (w', []) | Inr bytes \<Rightarrow> Ret (w', bytes)))"

text \<open>The agent as the server component uses it, which reads the body at once.\<close>

definition agent_http :: "'w net_lib \<Rightarrow> HttpAgent \<Rightarrow> 'w http" where
  "agent_http lib agent method path header timeoutMs params w =
     (case agent_Request lib agent method path header timeoutMs params w of
        (w', Inl err) \<Rightarrow> (w', Inl err)
      | (w', Inr (statusCode, Inl err)) \<Rightarrow> (w', Inl err)
      | (w', Inr (statusCode, Inr body)) \<Rightarrow> (w', Inr (statusCode, body)))"

text \<open>\<open>FakeHttpResponse\<close>; its body can be read again after the end has been reached.\<close>

definition FakeHttpResponse :: "int \<Rightarrow> string \<Rightarrow> string \<times> http_response" where
  "FakeHttpResponse status body = (itoa status, (status, Inr body))"

section \<open>Facts about forms\<close>

lemma byte_upper_hex: "n < 16 \<Longrightarrow> byte (upper_hex n) = (if n < 10 then 48 + n else 55 + n)"
  by (auto simp: upper_hex_def numeral_eq_Suc less_Suc_eq)

lemma hex_val_upper [simp]: "n < 16 \<Longrightarrow> hex_val (upper_hex n) = Some n"
  by (simp add: hex_val_def byte_upper_hex Let_def)

lemma upper_hex_clean: "n < 16 \<Longrightarrow> upper_hex n \<noteq> CHR ''&'' \<and> upper_hex n \<noteq> CHR ''=''"
  by (auto simp: upper_hex_def numeral_eq_Suc less_Suc_eq)

lemma char_halves: "byte c div 16 < 16" "byte c mod 16 < 16" "char_of (16 * (byte c div 16) + byte c mod 16) = c"
proof -
  show "byte c div 16 < 16" using byte_less[of c] by (intro less_mult_imp_div_less) simp
  show "byte c mod 16 < 16" by simp
  show "char_of (16 * (byte c div 16) + byte c mod 16) = c" by (simp only: mult_div_mod_eq char_of_char)
qed

lemma unreserved_not: "unreserved c \<Longrightarrow> c \<noteq> CHR ''%'' \<and> c \<noteq> CHR ''+'' \<and> c \<noteq> CHR ''&'' \<and> c \<noteq> CHR ''='' \<and> c \<noteq> CHR ''?''"
  by (auto simp: unreserved_def Let_def)

lemma unescape_byte: "query_unescape (escape_byte c @ s) = map_option (\<lambda>r. c # r) (query_unescape s)"
  using unreserved_not[of c] char_halves[of c] by (simp add: escape_byte_def)

lemma QueryEscape_reads: "query_unescape (QueryEscape s) = Some s"
  by (induction s) (simp_all add: QueryEscape_def unescape_byte)

lemma QueryEscape_clean: "CHR ''&'' \<notin> set (QueryEscape s)" "CHR ''='' \<notin> set (QueryEscape s)"
proof -
  have "CHR ''&'' \<notin> set (escape_byte c) \<and> CHR ''='' \<notin> set (escape_byte c)" for c
    using unreserved_not[of c] upper_hex_clean[OF char_halves(1)[of c]] upper_hex_clean[OF char_halves(2)[of c]]
    by (auto simp: escape_byte_def)
  then show "CHR ''&'' \<notin> set (QueryEscape s)" "CHR ''='' \<notin> set (QueryEscape s)" by (simp_all add: QueryEscape_def)
qed

text \<open>A text that is read as it is.\<close>

definition plain_text :: "string \<Rightarrow> bool" where
  "plain_text s \<longleftrightarrow> CHR ''%'' \<notin> set s \<and> CHR ''+'' \<notin> set s \<and> CHR ''&'' \<notin> set s"

definition plain_key :: "string \<Rightarrow> bool" where
  "plain_key s \<longleftrightarrow> plain_text s \<and> CHR ''='' \<notin> set s"

lemma plain_reads: "plain_text s \<Longrightarrow> query_unescape s = Some s"
  by (induction s) (auto simp: plain_text_def)

lemma cut_pair:
  assumes "c \<notin> set s"
  shows "takeWhile (\<lambda>d. d \<noteq> c) (s @ c # t) = s" and "dropWhile (\<lambda>d. d \<noteq> c) (s @ c # t) = c # t"
  using assms by (induction s) auto

text \<open>
  The contract of an encoding of keys and of values: what it writes is read back and has no separators. A form that is
  written with it is read back as the list of parameters.
\<close>

locale form_encoding =
  fixes key_enc :: "string \<Rightarrow> string" and val_enc :: "string \<Rightarrow> string"
    and key_ok :: "string \<Rightarrow> bool" and val_ok :: "string \<Rightarrow> bool"
  assumes key_reads: "key_ok k \<Longrightarrow> query_unescape (key_enc k) = Some k"
    and key_clean: "key_ok k \<Longrightarrow> CHR ''&'' \<notin> set (key_enc k) \<and> CHR ''='' \<notin> set (key_enc k)"
    and val_reads: "val_ok v \<Longrightarrow> query_unescape (val_enc v) = Some v"
    and val_clean: "val_ok v \<Longrightarrow> CHR ''&'' \<notin> set (val_enc v)"
begin

definition pair :: "string \<times> string \<Rightarrow> string" where
  "pair = (\<lambda>(k, v). key_enc k @ ''='' @ val_enc v)"

definition ok :: "string \<times> string \<Rightarrow> bool" where
  "ok = (\<lambda>(k, v). key_ok k \<and> val_ok v)"

lemma read_pair: "ok p \<Longrightarrow> read_pair (pair p) = Some p"
  using key_reads[of "fst p"] val_reads[of "snd p"] key_clean[of "fst p"]
  by (auto simp: ok_def pair_def read_pair_def cut_pair split: prod.splits)

lemma pair_clean: "ok p \<Longrightarrow> CHR ''&'' \<notin> set (pair p)" "pair p \<noteq> []"
  using key_clean[of "fst p"] val_clean[of "snd p"] by (auto simp: ok_def pair_def split: prod.splits)

lemma form_reads: "list_all ok ps \<Longrightarrow> form_read (join_str (map pair ps) ''&'') = ps"
proof (cases "ps = []")
  case True
  then show ?thesis by (simp add: form_read_def split_str_single)
next
  case False
  assume all: "list_all ok ps"
  have "split_str (join_str (map pair ps) ''&'') ''&'' = map pair ps"
    using False all pair_clean(1) by (intro split_join) (auto simp: list_all_iff)
  moreover have "filter (\<lambda>p. p \<noteq> []) (map pair ps) = map pair ps" using pair_clean(2) by (auto simp: filter_id_conv)
  moreover have "collect_some read_pair (map pair ps) = ps"
    using all by (induction ps) (simp_all add: read_pair)
  ultimately show ?thesis by (simp add: form_read_def)
qed

end

interpretation post_form: form_encoding QueryEscape QueryEscape "\<lambda>_. True" "\<lambda>_. True"
  by unfold_locales (simp_all add: QueryEscape_reads QueryEscape_clean)

interpretation url_form: form_encoding "\<lambda>k. k" QueryEscape plain_key "\<lambda>_. True"
  by unfold_locales (simp_all add: QueryEscape_reads QueryEscape_clean plain_key_def plain_reads plain_text_def)

interpretation put_form: form_encoding "\<lambda>k. k" "\<lambda>v. v" plain_key plain_text
  by unfold_locales (simp_all add: plain_key_def plain_reads plain_text_def)

text \<open>The loops.\<close>

lemma has_suffix_amp [simp]: "has_suffix (s @ ''&'') ''&''"
  by (simp add: has_suffix_def has_prefix_def)

lemma strip_amp_snoc [simp]: "strip_amp (s @ ''&'') = s"
  by (simp add: strip_amp_def)

lemma concat_amp: "xs \<noteq> [] \<Longrightarrow> concat (map (\<lambda>x. f x @ ''&'') xs) = join_str (map f xs) ''&'' @ ''&''"
proof (induction xs)
  case (Cons x xs)
  then show ?case by (cases xs) simp_all
qed simp

lemma get_loop_eq:
  "has_suffix path ''&'' \<Longrightarrow> get_loop path ps = path @ concat (map (\<lambda>p. url_form.pair p @ ''&'') ps)"
proof (induction path ps rule: get_loop.induct)
  case (2 path k v ps)
  have "has_suffix ((path @ k @ ''='' @ QueryEscape v) @ ''&'') ''&''" by (rule has_suffix_amp)
  with 2 show ?case by (simp add: url_form.pair_def)
qed simp

lemma delete_loop_eq: "delete_loop path ps = path @ concat (map (\<lambda>p. url_form.pair p @ ''&'') ps)"
  by (induction path ps rule: delete_loop.induct) (simp_all add: url_form.pair_def)

lemma put_loop_eq:
  "put_loop body ps = body @ concat (map (\<lambda>p. put_form.pair p @ ''&'') (filter (\<lambda>(k, v). v \<noteq> []) ps))"
  by (induction body ps rule: put_loop.induct) (simp_all add: put_form.pair_def)

lemma form_read_amp: "form_read (''&'' @ s) = form_read s"
  using split_str_step[of "''&''" "[]" s] by (simp add: form_read_def)

lemma url_query_append: "CHR ''?'' \<notin> set path \<Longrightarrow> url_query (path @ ''?'' @ s) = s"
  by (simp add: url_query_def cut_pair)

lemma get_path_query:
  assumes "CHR ''?'' \<notin> set path" and "ps \<noteq> []"
  shows "url_query (get_path path ps) = ''&'' @ join_str (map url_form.pair ps) ''&''"
proof -
  obtain k v qs where ps: "ps = (k, v) # qs" using assms(2) by (cases ps) auto
  have 1: "\<not> contains_str path ''?''" using assms(1) by (auto simp: contains_str_iff)
  have 2: "\<not> has_suffix (path @ ''?'') ''&''" by (simp add: has_suffix_def has_prefix_def)
  have 3: "has_suffix ((path @ ''?&'' @ url_form.pair (k, v)) @ ''&'') ''&''" by (rule has_suffix_amp)
  have "get_loop (path @ ''?'') ps = get_loop ((path @ ''?&'' @ url_form.pair (k, v)) @ ''&'') qs"
    using 2 by (simp add: ps url_form.pair_def)
  also have "\<dots> = path @ ''?&'' @ concat (map (\<lambda>p. url_form.pair p @ ''&'') ps)"
    unfolding get_loop_eq[OF 3] by (simp add: ps)
  also have "\<dots> = (path @ ''?'' @ ''&'' @ join_str (map url_form.pair ps) ''&'') @ ''&''"
    unfolding concat_amp[OF assms(2)] by simp
  finally have "get_path path ps = path @ ''?'' @ ''&'' @ join_str (map url_form.pair ps) ''&''"
    using 1 strip_amp_snoc by (simp only: get_path_def if_False)
  then show ?thesis using url_query_append[OF assms(1)] by simp
qed

lemma get_path_Nil:
  assumes "CHR ''?'' \<notin> set path"
  shows "url_query (get_path path []) = []"
proof -
  have "\<not> contains_str path ''?''" using assms by (auto simp: contains_str_iff)
  then have "get_path path [] = path @ ''?'' @ []" by (simp add: get_path_def strip_amp_def has_suffix_def has_prefix_def)
  then show ?thesis using url_query_append[OF assms, of "[]"] by simp
qed

lemma delete_path_query:
  assumes "CHR ''?'' \<notin> set path" and "ps \<noteq> []"
  shows "url_query (delete_path path ps) = join_str (map url_form.pair ps) ''&''"
proof -
  have 1: "\<not> has_suffix path ''?''"
    using assms(1) by (auto simp: has_suffix_iff suffix_def)
  have "delete_loop (path @ ''?'') ps = (path @ ''?'' @ join_str (map url_form.pair ps) ''&'') @ ''&''"
    unfolding delete_loop_eq concat_amp[OF assms(2)] by simp
  then have "delete_path path ps = path @ ''?'' @ join_str (map url_form.pair ps) ''&''"
    using 1 strip_amp_snoc assms(2) by (simp only: delete_path_def if_False) simp
  then show ?thesis using url_query_append[OF assms(1)] by simp
qed

lemma put_body_form: "put_body ps = join_str (map put_form.pair (filter (\<lambda>(k, v). v \<noteq> []) ps)) ''&''"
proof (cases "filter (\<lambda>(k, v). v \<noteq> []) ps = []")
  case False
  show ?thesis unfolding put_body_def put_loop_eq append_Nil concat_amp[OF False] by (rule strip_amp_snoc)
qed (simp add: put_body_def put_loop_eq strip_amp_def has_suffix_def has_prefix_def)

lemma map_of_sort_key: "wf_map m \<Longrightarrow> map_of (sort_key fst m) = map_of m"
  unfolding wf_map_def
  by (rule map_of_inject_set[THEN iffD2]) (auto simp: distinct_map distinct_sort)

text \<open>What a receiver reads from the requests.\<close>

lemma get_reads:
  assumes "CHR ''?'' \<notin> set path" and "list_all (plain_key \<circ> fst) ps"
  shows "form_read (url_query (get_path path ps)) = ps" and "form_read (url_query (delete_path path ps)) = ps"
proof -
  have reads: "form_read (join_str (map url_form.pair ps) ''&'') = ps"
    using assms(2) by (intro url_form.form_reads) (auto simp: url_form.ok_def list_all_iff)
  show "form_read (url_query (get_path path ps)) = ps"
  proof (cases "ps = []")
    case True
    then show ?thesis using get_path_Nil[OF assms(1)] reads by simp
  next
    case False
    then show ?thesis using get_path_query[OF assms(1) False] reads form_read_amp by simp
  qed
  show "form_read (url_query (delete_path path ps)) = ps"
  proof (cases "ps = []")
    case True
    have none: "dropWhile (\<lambda>c. c \<noteq> CHR ''?'') path = []" using assms(1) by (auto simp: dropWhile_eq_Nil_conv)
    have "url_query path = []" unfolding url_query_def none by simp
    then show ?thesis using reads True by (simp add: delete_path_def)
  next
    case False
    then show ?thesis using delete_path_query[OF assms(1) False] reads by simp
  qed
qed

lemma post_reads: "form_read (GetUrlFormedMap params) = sort_key fst params"
  using post_form.form_reads[of "sort_key fst params"]
  by (simp add: GetUrlFormedMap_def post_form.pair_def post_form.ok_def list_all_iff case_prod_beta')

lemma put_reads:
  assumes "list_all (\<lambda>(k, v). plain_key k \<and> plain_text v) ps"
  shows "form_read (put_body ps) = filter (\<lambda>(k, v). v \<noteq> []) ps"
  unfolding put_body_form using assms by (intro put_form.form_reads) (auto simp: put_form.ok_def list_all_iff)

section \<open>Properties\<close>


text \<open>A library that answers every request with its URL and body.\<close>

definition echo_lib :: "unit net_lib" where
  "echo_lib = \<lparr>nl_tls = \<lparr>tl_ReadFile = (\<lambda>f. Inr f), tl_validPEM = (\<lambda>_. True), tl_LoadX509KeyPair = (\<lambda>c k. Inr c),
       tl_SystemCertPool = Inr []\<rparr>, nl_NewRequest = (\<lambda>_ _. None),
     nl_Do = (\<lambda>r w. (w, Inr (200, Inr (hr_URL r @ (case hr_Body r of None \<Rightarrow> [] | Some b \<Rightarrow> b)))))\<rparr>"


text \<open>A value in a PUT is not escaped: a value with an ampersand is read as two parameters, the second of the
  sender's choice, and a plus sign is read as a space.\<close>

theorem put_value_injection:
  assumes "list_all plain_text [a, v]" and "list_all plain_key [k, k']" and "v \<noteq> []"
  shows "form_read (put_body [(k, a @ ''&'' @ k' @ ''='' @ v)]) = [(k, a), (k', v)] \<and>
    form_read (put_body [(k, v @ ''+'')]) = [(k, v @ '' '')]"
proof
  have "put_body [(k, a @ ''&'' @ k' @ ''='' @ v)] = join_str (map put_form.pair [(k, a), (k', v)]) ''&''"
    unfolding put_body_form by (simp add: put_form.pair_def)
  moreover have "form_read (join_str (map put_form.pair [(k, a), (k', v)]) ''&'') = [(k, a), (k', v)]"
    by (rule put_form.form_reads) (use assms in \<open>simp add: put_form.ok_def\<close>)
  ultimately show "form_read (put_body [(k, a @ ''&'' @ k' @ ''='' @ v)]) = [(k, a), (k', v)]" by simp
  have k: "CHR ''='' \<notin> set k" "query_unescape k = Some k" "CHR ''&'' \<notin> set k"
    using assms(2) plain_reads by (simp_all add: plain_key_def) (simp add: plain_text_def)
  have "query_unescape (v @ ''+'') = Some (v @ '' '')" using assms(1) by (induction v) (auto simp: plain_text_def)
  then have "read_pair (k @ CHR ''='' # v @ ''+'') = Some (k, v @ '' '')" using k by (simp add: read_pair_def cut_pair)
  moreover have "split_str (k @ CHR ''='' # v @ ''+'') ''&'' = [k @ CHR ''='' # v @ ''+'']"
    using assms(1) k(3) by (intro split_str_single) (auto simp: plain_text_def)
  ultimately show "form_read (put_body [(k, v @ ''+'')]) = [(k, v @ '' '')]"
    unfolding put_body_form by (simp add: form_read_def put_form.pair_def)
qed

text \<open>\<open>RequestOnlyResult\<close> returns the body of a response with the status 200 and the empty string after every
  failure; for a method it does not know it panics.\<close>

theorem request_only_result:
  "RequestOnlyResult lib agent method path header t params w =
     (if method \<notin> {''GET'', ''POST'', ''PUT'', ''DELETE''} then Panic ''nil pointer dereference''
      else case agent_http lib agent method path header t params w of
             (w', Inr (statusCode, body)) \<Rightarrow> Ret (w', if statusCode = RESPONSE_CODE_SUCCESS then body else [])
           | (w', Inl err) \<Rightarrow> Ret (w', []))"
proof (cases "method \<in> {''GET'', ''POST'', ''PUT'', ''DELETE''}")
  case True
  then have known: "(if method = ''GET'' then agent_Get lib agent path header t params w
      else if method = ''POST'' then agent_Post lib agent path header t params w
      else if method = ''PUT'' then agent_Put lib agent path header t params w
      else agent_Delete lib agent path header t params w) = agent_Request lib agent method path header t params w"
    by (auto simp: agent_Request_def)
  obtain w' r where r: "agent_Request lib agent method path header t params w = (w', r)" by (rule prod.exhaust)
  show ?thesis
    unfolding RequestOnlyResult_def known agent_http_def r using True by (auto split: prod.split sum.split)
qed (simp add: RequestOnlyResult_def)

end
