(* ===== verification/Logger.thy ===== *)
theory Logger
  imports Client_Config
begin

text \<open>
  \<open>common/logger/logger.go\<close>: the configuration of the logger and the global variable that holds it. A logger of the
  \<open>zap\<close> library is known by the settings it is built with, or by a number when the application has set its own.
\<close>

section \<open>Configuration\<close>

datatype Level = DebugLevel | InfoLevel | WarnLevel | ErrorLevel

definition levelMap :: "(string, Level) gomap" where
  "levelMap = [(''debug'', DebugLevel), (''info'', InfoLevel), (''warn'', WarnLevel), (''error'', ErrorLevel)]"

definition LOG_FILE_NAME :: string where "LOG_FILE_NAME = ''nacos-sdk.log''"

record lumberjack =
  lj_Filename :: string
  lj_MaxSize :: int
  lj_MaxAge :: int
  lj_MaxBackups :: int
  lj_LocalTime :: bool
  lj_Compress :: bool

record LogConfig =
  lc_Level :: string
  lc_Sampling :: "ClientLogSamplingConfig option"
  lc_AppendToStdout :: bool
  lc_LogRollingConfig :: lumberjack

definition BuildLoggerConfig :: "ClientConfig \<Rightarrow> LogConfig" where
  "BuildLoggerConfig clientConfig =
     \<lparr>lc_Level = cl_LogLevel clientConfig,
      lc_Sampling = (case cl_LogSampling clientConfig of
          Some s \<Rightarrow> Some \<lparr>ls_Initial = ls_Initial s, ls_Thereafter = ls_Thereafter s, ls_Tick = ls_Tick s\<rparr>
        | None \<Rightarrow> None),
      lc_AppendToStdout = cl_AppendToStdout clientConfig,
      lc_LogRollingConfig =
        (let file = cl_LogDir clientConfig @ PathSeparator @ LOG_FILE_NAME
         in case cl_LogRollingConfig clientConfig of
              Some r \<Rightarrow> \<lparr>lj_Filename = file, lj_MaxSize = lr_MaxSize r, lj_MaxAge = lr_MaxAge r,
                lj_MaxBackups = lr_MaxBackups r, lj_LocalTime = lr_LocalTime r, lj_Compress = lr_Compress r\<rparr>
            | None \<Rightarrow> \<lparr>lj_Filename = file, lj_MaxSize = 100, lj_MaxAge = 30, lj_MaxBackups = 5, lj_LocalTime = True,
                lj_Compress = False\<rparr>)\<rparr>"

definition getLogLevel :: "string \<Rightarrow> Level" where
  "getLogLevel level = (case map_of levelMap level of Some zapLevel \<Rightarrow> zapLevel | None \<Rightarrow> InfoLevel)"

section \<open>Loggers\<close>

text \<open>Where a logger writes, and from which level; the default logger; one of the application.\<close>

datatype writer = RollingFile lumberjack | Stdout

datatype logger = ZapLogger Level "writer list" | DefaultLogger | UserLogger nat

definition getLogWriter :: "LogConfig \<Rightarrow> writer" where
  "getLogWriter c = RollingFile (lc_LogRollingConfig c)"

definition InitNacosLogger :: "LogConfig \<Rightarrow> logger" where
  "InitNacosLogger config =
     (let logLevel = getLogLevel (lc_Level config);
          writer = [getLogWriter config]
      in ZapLogger logLevel (if lc_AppendToStdout config then writer @ [Stdout] else writer))"

text \<open>The global variable, and the loggers that were closed.\<close>

record log_state =
  lg_logger :: "logger option"
  lg_closed :: "logger list"

definition InitLogger :: "LogConfig \<Rightarrow> log_state \<Rightarrow> log_state" where
  "InitLogger config s =
     (if lg_logger s \<noteq> None then s else s\<lparr>lg_logger := Some (InitNacosLogger config)\<rparr>)"

definition SetLogger :: "logger option \<Rightarrow> log_state \<Rightarrow> log_state" where
  "SetLogger l s =
     s\<lparr>lg_closed := lg_closed s @ (case lg_logger s of Some old \<Rightarrow> [old] | None \<Rightarrow> []), lg_logger := l\<rparr>"

definition InitDefaultLogger :: "log_state \<Rightarrow> log_state" where
  "InitDefaultLogger s = SetLogger (Some DefaultLogger) s"

definition GetLogger :: "log_state \<Rightarrow> log_state \<times> logger option" where
  "GetLogger s =
     (if lg_logger s \<noteq> None then (s, lg_logger s) else let s' = InitDefaultLogger s in (s', lg_logger s'))"

section \<open>Facts\<close>

text \<open>The sampling of a configuration has no effect on the logger that is made of it.\<close>

theorem sampling_ignored: "InitNacosLogger (config\<lparr>lc_Sampling := sampling\<rparr>) = InitNacosLogger config"
  by (simp add: InitNacosLogger_def getLogWriter_def)

text \<open>The first configuration wins: the logger of the first client is the one of all.\<close>

lemma InitLogger_first: "lg_logger (InitLogger c' (InitLogger c s)) = lg_logger (InitLogger c s)"
  by (simp add: InitLogger_def)

text \<open>The logger a client writes to. It is the one the application has set, or else the one of the first client:
  it writes from the level of the configuration, or from the level info when the level is unknown, to the rolling file
  in the configured directory, and to the standard output when that is asked for. A later client does not change it,
  and asking for the logger always gives one.\<close>

theorem logger_of_client:
  "lg_logger (InitLogger (BuildLoggerConfig cfg) s) =
     (case lg_logger s of
        Some l \<Rightarrow> Some l
      | None \<Rightarrow> Some (ZapLogger (case map_of levelMap (cl_LogLevel cfg) of Some l \<Rightarrow> l | None \<Rightarrow> InfoLevel)
          (RollingFile (lc_LogRollingConfig (BuildLoggerConfig cfg)) # (if cl_AppendToStdout cfg then [Stdout] else [])))) \<and>
   lj_Filename (lc_LogRollingConfig (BuildLoggerConfig cfg)) = cl_LogDir cfg @ PathSeparator @ LOG_FILE_NAME \<and>
   InitLogger (BuildLoggerConfig cfg') (InitLogger (BuildLoggerConfig cfg) s) = InitLogger (BuildLoggerConfig cfg) s \<and>
   snd (GetLogger s) \<noteq> None \<and> lg_logger (fst (GetLogger s)) = snd (GetLogger s)"
  by (auto simp: InitLogger_def BuildLoggerConfig_def InitNacosLogger_def getLogLevel_def getLogWriter_def GetLogger_def
      InitDefaultLogger_def SetLogger_def Let_def split: option.split)

end
