(* ===== verification/Util.thy ===== *)
theory Util
  imports Model
begin

text \<open>
  The rest of \<open>util\<close>: the local address, the status code of a response, the semaphore that bounds the refresh of
  services; and \<open>common/nacos_error\<close>. The network interfaces are a parameter. A semaphore is a channel of a fixed
  capacity: the state is the number of values in it, and an operation that would block gives \<^const>\<open>None\<close>.
\<close>

section \<open>Status codes and errors\<close>

definition GetStatusCode :: "int option \<Rightarrow> string" where
  "GetStatusCode response = (case response of Some statusCode \<Rightarrow> itoa statusCode | None \<Rightarrow> ''NA'')"

definition JsonToService :: "(string \<Rightarrow> Service result) \<Rightarrow> string \<Rightarrow> Service option" where
  "JsonToService unmarshal result = (case unmarshal result of Inl err \<Rightarrow> None | Inr service \<Rightarrow> Some service)"

definition DefaultClientErrorCode :: string where "DefaultClientErrorCode = ''SDK.NacosError''"

record NacosError =
  ne_errorCode :: string
  ne_errMsg :: string
  ne_originError :: "string option"

text \<open>The error an error wraps is known by its text.\<close>

definition NewNacosError :: "string \<Rightarrow> string \<Rightarrow> string option \<Rightarrow> NacosError" where
  "NewNacosError errorCode errMsg originError =
     \<lparr>ne_errorCode = errorCode, ne_errMsg = errMsg, ne_originError = originError\<rparr>"

definition ErrorCode :: "NacosError \<Rightarrow> string" where
  "ErrorCode err = (if ne_errorCode err = [] then DefaultClientErrorCode else ne_errorCode err)"

definition nacos_Error :: "NacosError \<Rightarrow> string" where
  "nacos_Error err =
     (let nacosErrMsg = ''['' @ ErrorCode err @ ''] '' @ ne_errMsg err
      in case ne_originError err of
           Some origin \<Rightarrow> nacosErrMsg @ [CHR 0x0A] @ ''caused by:'' @ [CHR 0x0A] @ origin
         | None \<Rightarrow> nacosErrMsg)"

section \<open>The local address\<close>

text \<open>An address of an interface: its text when it is an IPv4 address of a network and not a loopback address.\<close>

record net_interface =
  if_up :: bool
  if_loopback :: bool
  if_addrs :: "string option list result"

definition usable_addr :: "string option list \<Rightarrow> string option" where
  "usable_addr addrs = (case filter (\<lambda>a. a \<noteq> None) addrs of [] \<Rightarrow> None | a # _ \<Rightarrow> a)"

text \<open>
  The loop over the interfaces; the \<open>break\<close> leaves the loop over the addresses only, so a later interface overwrites
  the address of an earlier one. An interface whose addresses cannot be read ends the call with the empty string, and
  the variable keeps what it was set to. The result is the new value of the variable and the value returned.
\<close>

fun local_ip_loop :: "net_interface list \<Rightarrow> string \<Rightarrow> string \<times> string" where
  "local_ip_loop [] localIP = (localIP, localIP)"
| "local_ip_loop (i # is) localIP =
     (if if_up i \<and> \<not> if_loopback i
      then (case if_addrs i of
              Inl err \<Rightarrow> (localIP, [])
            | Inr addrs \<Rightarrow>
                local_ip_loop is (case usable_addr addrs of None \<Rightarrow> localIP | Some a \<Rightarrow> a))
      else local_ip_loop is localIP)"

definition LocalIP :: "net_interface list result \<Rightarrow> string \<Rightarrow> string \<times> string" where
  "LocalIP interfaces localIP =
     (if localIP = []
      then (case interfaces of Inl err \<Rightarrow> (localIP, []) | Inr netInterfaces \<Rightarrow> local_ip_loop netInterfaces localIP)
      else (localIP, localIP))"

section \<open>The semaphore\<close>

record Semaphore =
  sem_bufSize :: int
  sem_channel :: nat

definition NewSemaphore :: "int \<Rightarrow> Semaphore outcome" where
  "NewSemaphore concurrencyNum =
     (if concurrencyNum < 0 then Panic ''makechan: size out of range''
      else Ret \<lparr>sem_bufSize = concurrencyNum, sem_channel = 0\<rparr>)"

definition TryAcquire :: "Semaphore \<Rightarrow> Semaphore \<times> bool" where
  "TryAcquire s =
     (if int (sem_channel s) < sem_bufSize s then (s\<lparr>sem_channel := sem_channel s + 1\<rparr>, True) else (s, False))"

definition Acquire :: "Semaphore \<Rightarrow> Semaphore option" where
  "Acquire s = (if int (sem_channel s) < sem_bufSize s then Some (s\<lparr>sem_channel := sem_channel s + 1\<rparr>) else None)"

definition Release :: "Semaphore \<Rightarrow> Semaphore option" where
  "Release s = (if 0 < sem_channel s then Some (s\<lparr>sem_channel := sem_channel s - 1\<rparr>) else None)"

definition AvailablePermits :: "Semaphore \<Rightarrow> int" where
  "AvailablePermits s = sem_bufSize s - int (sem_channel s)"

section \<open>Facts\<close>

text \<open>
  The goroutines that use a semaphore: a state is the semaphore and the number of goroutines inside. One enters after
  an acquisition and releases when it leaves.
\<close>

inductive sem_step :: "Semaphore \<times> nat \<Rightarrow> Semaphore \<times> nat \<Rightarrow> bool" where
  enter: "Acquire s = Some s' \<Longrightarrow> sem_step (s, n) (s', n + 1)"
| try_enter: "TryAcquire s = (s', True) \<Longrightarrow> sem_step (s, n) (s', n + 1)"
| leave: "0 < n \<Longrightarrow> Release s = Some s' \<Longrightarrow> sem_step (s, n) (s', n - 1)"

inductive_cases sem_stepE: "sem_step x y"

definition sem_inv :: "int \<Rightarrow> Semaphore \<times> nat \<Rightarrow> bool" where
  "sem_inv k x \<longleftrightarrow> sem_bufSize (fst x) = k \<and> sem_channel (fst x) = snd x \<and> int (snd x) \<le> k"

lemma sem_inv_step: "sem_step x y \<Longrightarrow> sem_inv k x \<Longrightarrow> sem_inv k y"
  by (auto elim!: sem_stepE simp: sem_inv_def Acquire_def TryAcquire_def Release_def split: if_split_asm)

lemma sem_inv_reach: "sem_step\<^sup>*\<^sup>* x y \<Longrightarrow> sem_inv k x \<Longrightarrow> sem_inv k y"
  by (induction rule: rtranclp_induct) (auto intro: sem_inv_step)

lemma local_ip_kept: "local_ip_loop is ip = (v, r) \<Longrightarrow> r \<noteq> [] \<Longrightarrow> v = r"
  by (induction "is" ip rule: local_ip_loop.induct) (auto split: if_split_asm sum.split_asm)

text \<open>An address that was found once is returned by every later call, whatever the interfaces are then.\<close>

lemma LocalIP_stable: "LocalIP i ip = (v, r) \<Longrightarrow> r \<noteq> [] \<Longrightarrow> LocalIP j v = (v, r)"
  by (auto simp: LocalIP_def split: if_split_asm sum.split_asm dest: local_ip_kept)

text \<open>C37: The semaphore of the periodic refresh. At most as many goroutines are inside as it was made for, and the
  permits it reports are the ones left. One more can enter exactly when there are fewer, and one that is inside can
  always leave.\<close>

theorem semaphore_bounds:
  assumes "NewSemaphore k = Ret s0" and "sem_step\<^sup>*\<^sup>* (s0, 0) (s, n)"
  shows "int n \<le> k \<and> AvailablePermits s = k - int n \<and>
    (Acquire s = None \<longleftrightarrow> int n = k) \<and> (Release s = None \<longleftrightarrow> n = 0) \<and> (snd (TryAcquire s) \<longleftrightarrow> Acquire s \<noteq> None)"
proof -
  have "sem_inv k (s0, 0)" using assms(1) by (auto simp: NewSemaphore_def sem_inv_def split: if_split_asm)
  then have "sem_inv k (s, n)" by (rule sem_inv_reach[OF assms(2)])
  then show ?thesis by (auto simp: sem_inv_def AvailablePermits_def Acquire_def Release_def TryAcquire_def)
qed

theorem semaphore_bounds_witness:
  "AvailablePermits \<lparr>sem_bufSize = 1, sem_channel = 1\<rparr> = 0 \<and> Acquire \<lparr>sem_bufSize = 1, sem_channel = 1\<rparr> = None"
proof -
  have "NewSemaphore 1 = Ret \<lparr>sem_bufSize = 1, sem_channel = 0\<rparr>" by (simp add: NewSemaphore_def)
  moreover have "sem_step (\<lparr>sem_bufSize = 1, sem_channel = 0\<rparr>, 0) (\<lparr>sem_bufSize = 1, sem_channel = 1\<rparr>, 0 + 1)"
    by (rule sem_step.enter) (simp add: Acquire_def)
  ultimately show ?thesis using semaphore_bounds[OF _ r_into_rtranclp] by fastforce
qed

end
