(* ===== verification/Naming_Start.thy ===== *)
theory Naming_Start
  imports Naming_Client Rpc_Labels Rpc_Steps Config_Proxy Logger Util
begin

text \<open>
  How a naming client comes into being: the factory, the client, its delegate, the proxies over HTTP and gRPC, the
  receiver of pushed datagrams and the goroutine that refreshes the services. The identifiers, the address server, the
  login and the sockets are parameters; the rpc clients of the process are in one table and its logger in one variable.
\<close>

section \<open>State and environment\<close>

record ('c, 'w) start_env =
  se_rpc :: "('c, 'w) rpc_env"
  se_getenv :: "string \<Rightarrow> string"
  se_now :: "'w \<Rightarrow> int"
  se_uid :: "'w uid"
  se_fetch :: "string \<Rightarrow> headers \<Rightarrow> string"
  se_login :: "'c NacosServer \<Rightarrow> 'c NacosServer"
  se_rand :: "nat \<Rightarrow> 'w \<Rightarrow> 'w \<times> nat"
  se_ResolveUDPAddr :: "string \<Rightarrow> go_error option"
  se_ListenUDP :: "string \<Rightarrow> 'w \<Rightarrow> 'w \<times> go_error option"
  se_from_json :: "string \<Rightarrow> Service option"
  se_io :: io_env

record ('c, 'w) process_state =
  ps_clients :: "'c client_table"
  ps_log :: log_state
  ps_world :: 'w

section \<open>The receiver of pushed datagrams\<close>

record PushReceiver =
  pr_port :: int
  pr_host :: string

definition NewPushReceiver :: PushReceiver where
  "NewPushReceiver = \<lparr>pr_port = 0, pr_host = []\<rparr>"

definition tryListen :: "('c, 'w) start_env \<Rightarrow> PushReceiver \<Rightarrow> 'w \<Rightarrow> 'w \<times> bool" where
  "tryListen env us w =
     (let addr = pr_host us @ '':'' @ itoa (pr_port us)
      in case se_ResolveUDPAddr env addr of
           Some err \<Rightarrow> (w, False)
         | None \<Rightarrow> (case se_ListenUDP env addr w of (w', Some err) \<Rightarrow> (w', False) | (w', None) \<Rightarrow> (w', True)))"

text \<open>The loop of \<open>startServer\<close>; its result is the receiver and whether it listens.\<close>

fun listen_loop :: "('c, 'w) start_env \<Rightarrow> nat \<Rightarrow> PushReceiver \<Rightarrow> 'w \<Rightarrow> 'w \<times> PushReceiver \<times> bool" where
  "listen_loop env 0 us w = (w, us, False)"
| "listen_loop env (Suc n) us w =
     (let (w1, r) = se_rand env 1000 w;
          us1 = us\<lparr>pr_port := int r + 54951\<rparr>;
          (w2, ok) = tryListen env us1 w1
      in if ok then (w2, us1, True) else listen_loop env n us1 w2)"

definition startServer :: "('c, 'w) start_env \<Rightarrow> PushReceiver \<Rightarrow> 'w \<Rightarrow> 'w \<times> PushReceiver \<times> bool" where
  "startServer env us w = listen_loop env 3 us w"

section \<open>The proxies\<close>

definition NewNamingHttpProxy ::
  "('c, 'w) start_env \<Rightarrow> ClientConfig \<Rightarrow> 'w \<Rightarrow> 'w HttpProxy \<times> PushReceiver \<times> bool" where
  "NewNamingHttpProxy env clientCfg w =
     (let (w', receiver) = startServer env NewPushReceiver w
      in (\<lparr>hp_cfg = clientCfg, hp_beats = NewBeatReactor, hp_world = w'\<rparr>, receiver))"

definition LABEL_MODULE_NAMING :: string where "LABEL_MODULE_NAMING = ''naming''"

definition naming_labels :: params where
  "naming_labels = [(LABEL_SOURCE, LABEL_SOURCE_SDK), (LABEL_MODULE, LABEL_MODULE_NAMING)]"

text \<open>The listener of the connection that repeats subscriptions and registrations.\<close>

definition redo_listener :: nat where "redo_listener = 0"

definition push_request :: IRequest where
  "push_request = NotifySubscriberRequest (NewNamingRequest [] [] []) zero_Service"

definition NewNamingGrpcProxy ::
  "('c, 'w) start_env \<Rightarrow> ClientConfig \<Rightarrow> 'c NacosServer \<Rightarrow> ('c, 'w) process_state \<Rightarrow>
   (('c, 'w) process_state \<times> 'c RpcClient result) outcome" where
  "NewNamingGrpcProxy env clientCfg nacosServer ps =
     (case se_uid env (ps_world ps) of
        (w1, Inl err) \<Rightarrow> Ret (ps\<lparr>ps_world := w1\<rparr>, Inl err)
      | (w1, Inr uid) \<Rightarrow>
          (case CreateClient (se_getenv env) (se_now env w1) uid GRPC naming_labels nacosServer (cl_TLSCfg clientCfg)
                  (slice (cl_AppConnLabels clientCfg)) (ps_clients ps) of
             (tab, Inl err) \<Rightarrow> Ret (ps\<lparr>ps_clients := tab, ps_world := w1\<rparr>, Inl err)
           | (tab, Inr rpcClient) \<Rightarrow>
               obind (Start (se_rpc env) (rpcClient, w1)) (\<lambda>(rc1, w2).
                 let rc2 = RegisterServerRequestHandler push_request NamingPushRequestHandler rc1;
                     rc3 = RegisterConnectionListener redo_listener rc2
                 in Ret (ps\<lparr>ps_clients := AList.update uid rc3 tab, ps_world := w2\<rparr>, Inr rc3))))"

definition naming_header :: "string \<Rightarrow> headers" where
  "naming_header uid = [(''Client-Version'', [CLIENT_VERSION]), (''User-Agent'', [CLIENT_VERSION]), (''RequestId'', [uid]),
     (''Request-Module'', [''Naming''])]"

definition NewNamingProxyDelegateWithRamCredentialProvider ::
  "('c, 'w) start_env \<Rightarrow> ClientConfig \<Rightarrow> ServerConfig list \<Rightarrow> bool \<Rightarrow> ('c, 'w) process_state \<Rightarrow>
   (('c, 'w) process_state \<times> ('w HttpProxy \<times> 'c RpcClient) result) outcome" where
  "NewNamingProxyDelegateWithRamCredentialProvider env clientCfg serverCfgs hasProvider ps =
     (case se_uid env (ps_world ps) of
        (w1, Inl err) \<Rightarrow> Ret (ps\<lparr>ps_world := w1\<rparr>, Inl err)
      | (w1, Inr uid) \<Rightarrow>
          let (w2, r) = (if serverCfgs = [] then (w1, 0) else se_rand env (length serverCfgs) w1)
          in case NewNacosServerWithRamCredentialProvider (se_now env w2) (se_now env w2) (se_fetch env) r serverCfgs
                    clientCfg (cl_TimeoutMs clientCfg) (cl_Endpoint clientCfg) (naming_header uid) hasProvider of
               Inl err \<Rightarrow> Ret (ps\<lparr>ps_world := w2\<rparr>, Inl err)
             | Inr server \<Rightarrow>
                 let nacosServer = se_login env server;
                     (http, receiver) = NewNamingHttpProxy env clientCfg w2
                 in obind (NewNamingGrpcProxy env clientCfg nacosServer (ps\<lparr>ps_world := hp_world http\<rparr>)) (\<lambda>(ps', r).
                      case r of
                        Inl err \<Rightarrow> Ret (ps', Inl err)
                      | Inr rc \<Rightarrow> Ret (ps', Inr (http\<lparr>hp_world := ps_world ps'\<rparr>, rc))))"

section \<open>The client\<close>

text \<open>
  What \<open>NewNamingClient\<close> leaves behind: the client, which is there in full only when its proxy is, the service cache,
  whether the goroutine of the updater was started, and the error. The client is returned also with an error.
\<close>

record ('c, 'w) started_client =
  nk_client :: "('c RpcClient, 'w) NamingClient option"
  nk_holder :: "ServiceInfoHolder option"
  nk_updater :: bool
  nk_err :: "go_error option"

definition not_started :: "go_error \<Rightarrow> ('c, 'w) started_client" where
  "not_started err = \<lparr>nk_client = None, nk_holder = None, nk_updater = False, nk_err = Some err\<rparr>"

definition naming_config :: "ClientConfig \<Rightarrow> ClientConfig" where
  "naming_config cfg = (if cl_NamespaceId cfg = [] then cfg\<lparr>cl_NamespaceId := DEFAULT_NAMESPACE_ID\<rparr> else cfg)"

definition NewNamingClientWithRamCredentialProvider ::
  "('c, 'w) start_env \<Rightarrow> NacosClient \<Rightarrow> bool \<Rightarrow> fs \<Rightarrow> ('c, 'w) process_state \<Rightarrow>
   (('c, 'w) process_state \<times> ('c, 'w) started_client) outcome" where
  "NewNamingClientWithRamCredentialProvider env nc hasProvider files ps =
     (case GetClientConfig nc of
        Inl err \<Rightarrow> Ret (ps, not_started err)
      | Inr cfg \<Rightarrow>
      (case GetServerConfig nc of
        Inl err \<Rightarrow> Ret (ps, not_started err)
      | Inr serverConfig \<Rightarrow>
      (case GetHttpAgent nc of
        Inl err \<Rightarrow> Ret (ps, not_started err)
      | Inr httpAgent \<Rightarrow>
          let ps1 = ps\<lparr>ps_log := InitLogger (BuildLoggerConfig cfg) (ps_log ps)\<rparr>;
              clientConfig = naming_config cfg;
              holder = NewServiceInfoHolder (se_from_json env) (se_io env) files (cl_NamespaceId clientConfig)
                         (cl_CacheDir clientConfig) (cl_UpdateCacheWhenEmpty clientConfig)
                         (cl_NotLoadCacheAtStart clientConfig)
          in obind (NewNamingProxyDelegateWithRamCredentialProvider env clientConfig serverConfig hasProvider ps1)
               (\<lambda>(ps2, r).
                 Ret (ps2,
                   \<lparr>nk_client =
                      (case r of
                         Inl err \<Rightarrow> None
                       | Inr (http, rc) \<Rightarrow>
                           Some \<lparr>nw_st = \<lparr>n_cfg = clientConfig, n_holder = holder, n_fs = files, n_notes = [], n_rpc = rc,
                                           n_registered = NewConcurrentMap, n_subscribes = NewConcurrentMap\<rparr>,
                                 nw_http = http, nw_isClosed = False\<rparr>),
                    nk_holder = Some holder, nk_updater = cl_AsyncUpdateService clientConfig,
                    nk_err = (case r of Inl err \<Rightarrow> Some err | Inr _ \<Rightarrow> None)\<rparr>)))))"

text \<open>The factory.\<close>

definition factory_NewNamingClient ::
  "('c, 'w) start_env \<Rightarrow> string \<Rightarrow> NacosClientParam \<Rightarrow> bool \<Rightarrow> fs \<Rightarrow> ('c, 'w) process_state \<Rightarrow>
   (('c, 'w) process_state \<times> ('c RpcClient, 'w) NamingClient option result) outcome" where
  "factory_NewNamingClient env cwd param hasProvider files ps =
     (case setConfig cwd param of
        Inl err \<Rightarrow> Ret (ps, Inl err)
      | Inr nacosClient \<Rightarrow>
          obind (NewNamingClientWithRamCredentialProvider env nacosClient hasProvider files ps) (\<lambda>(ps', k).
            Ret (ps', case nk_err k of Some err \<Rightarrow> Inl err | None \<Rightarrow> Inr (nk_client k))))"

definition CreateNamingClient ::
  "('c, 'w) start_env \<Rightarrow> string \<Rightarrow> (string, property) gomap \<Rightarrow> fs \<Rightarrow> ('c, 'w) process_state \<Rightarrow>
   (('c, 'w) process_state \<times> ('c RpcClient, 'w) NamingClient option result) outcome" where
  "CreateNamingClient env cwd properties files ps =
     factory_NewNamingClient env cwd (getConfigParam properties) False files ps"

section \<open>The updater\<close>

text \<open>
  One pass of \<open>asyncUpdateService\<close> over the services of the cache, with the goroutines it starts one after the other.
  Without a proxy the first query is a call on a \<open>nil\<close> interface.
\<close>

fun update_all ::
  "('r, 'w) naming_env \<Rightarrow> (string \<times> string \<times> string) list \<Rightarrow> ('r, 'w) NamingClient \<Rightarrow> ('r, 'w) NamingClient outcome" where
  "update_all env [] sc = Ret sc"
| "update_all env ((s, g, c) # ts) sc = obind (updateServiceNow env s g c sc) (update_all env ts)"

definition updater_pass ::
  "('r, 'w) naming_env \<Rightarrow> int \<Rightarrow> ServiceInfoHolder \<Rightarrow> ('r, 'w) NamingClient option \<Rightarrow> ('r, 'w) NamingClient option outcome" where
  "updater_pass env now holder client =
     (case client of
        None \<Rightarrow> if update_targets now holder = [] then Ret None else Panic ''nil pointer dereference''
      | Some sc \<Rightarrow> obind (update_all env (update_targets now (n_holder (nw_st sc))) sc) (\<lambda>sc'. Ret (Some sc')))"

section \<open>Facts\<close>

text \<open>The table of clients: every client is under its own name and well-formed.\<close>

definition table_ok :: "'c client_table \<Rightarrow> bool" where
  "table_ok tab \<longleftrightarrow> (\<forall>k rc. map_of tab k = Some rc \<longrightarrow> rc_name rc = k \<and> rpc_wf rc)"

lemma table_ok_update: "table_ok tab \<Longrightarrow> rc_name rc = k \<Longrightarrow> rpc_wf rc \<Longrightarrow> table_ok (AList.update k rc tab)"
  by (simp add: table_ok_def)

lemma CreateClient_ok:
  assumes "CreateClient getenv now name GRPC labels ns tls conf tab = (tab', Inr rc)" and "table_ok tab"
  shows "rc_name rc = name \<and> rpc_wf rc \<and> table_ok tab'"
proof (cases "map_of tab name")
  case (Some c)
  then show ?thesis using assms by (auto simp: CreateClient_def table_ok_def)
next
  case None
  let ?base = "NewGrpcClient now name ns tls"
  have "rc_name ?base = name \<and> rpc_wf ?base" by (simp add: NewGrpcClient_def rpc_wf_def)
  then have "rc_name rc = name \<and> rpc_wf rc" and "tab' = AList.update name rc tab"
    using assms(1) None by (auto simp: CreateClient_def Let_def putAllLabels_def rpc_wf_def split: if_split_asm)
  then show ?thesis using assms(2) by (simp add: table_ok_update)
qed

lemma CreateClient_GRPC: "\<exists>tab' rc. CreateClient getenv now name GRPC labels ns tls conf tab = (tab', Inr rc)"
  by (cases "map_of tab name") (simp_all add: CreateClient_def Let_def)

lemma setup_registered:
  fixes rc :: "'c RpcClient"
  defines "rc' \<equiv> RegisterConnectionListener redo_listener (RegisterServerRequestHandler push_request NamingPushRequestHandler rc)"
  shows "rc_name rc' = rc_name rc" and "rpc_wf rc \<Longrightarrow> rpc_wf rc'"
    and "map_of (rc_serverRequestHandlerMapping rc') ''NotifySubscriberRequest'' = Some (push_request, NamingPushRequestHandler)"
    and "redo_listener \<in> set (rc_connectionEventListeners rc')"
  by (auto simp: rc'_def rpc_updates push_request_def rpc_wf_def Let_def)

text \<open>A client of the table after the gRPC proxy is made of it.\<close>

definition naming_rpc :: "'c client_table \<Rightarrow> 'c RpcClient \<Rightarrow> bool" where
  "naming_rpc tab rc \<longleftrightarrow> table_ok tab \<and> map_of tab (rc_name rc) = Some rc \<and>
     map_of (rc_serverRequestHandlerMapping rc) ''NotifySubscriberRequest'' = Some (push_request, NamingPushRequestHandler) \<and>
     redo_listener \<in> set (rc_connectionEventListeners rc)"

lemma NewNamingGrpcProxy_ok:
  assumes "NewNamingGrpcProxy env cfg ns ps = Ret (ps', Inr rc)" and "table_ok (ps_clients ps)"
    and "interference keeps_wf (se_rpc env)" and "interference keeps_registrations (se_rpc env)"
  shows "naming_rpc (ps_clients ps') rc"
proof -
  obtain w1 u where u: "se_uid env (ps_world ps) = (w1, u)" by (rule prod.exhaust)
  obtain uid where "u = Inr uid" using assms(1) u by (cases u) (auto simp: NewNamingGrpcProxy_def)
  note u = u[unfolded this]
  obtain tab rc0 where c: "CreateClient (se_getenv env) (se_now env w1) uid GRPC naming_labels ns (cl_TLSCfg cfg)
      (slice (cl_AppConnLabels cfg)) (ps_clients ps) = (tab, Inr rc0)" using CreateClient_GRPC by metis
  obtain rc1 w2 where s: "Start (se_rpc env) (rc0, w1) = Ret (rc1, w2)"
    and r: "ps_clients ps' = AList.update uid rc tab"
      "rc = RegisterConnectionListener redo_listener (RegisterServerRequestHandler push_request NamingPushRequestHandler rc1)"
    using assms(1) by (auto simp: NewNamingGrpcProxy_def u c Let_def elim!: obind_pairE)
  have rc0: "rc_name rc0 = uid" "rpc_wf rc0" "table_ok tab" using CreateClient_ok[OF c assms(2)] by simp_all
  have "rpc_wf rc1" using wf.starting[OF s assms(3)] rc0(2) by (simp add: keeps_wf_def)
  moreover have "rc_name rc1 = uid" using reg.starting[OF s assms(4)] rc0(1) by (simp add: keeps_registrations_def)
  ultimately show ?thesis
    using setup_registered[of rc1] rc0(3) by (simp add: naming_rpc_def r table_ok_update)
qed

lemma delegate_ok:
  fixes env :: "('c, 'w) start_env"
  assumes "NewNamingProxyDelegateWithRamCredentialProvider env cfg srvs prov ps = Ret (ps', Inr (http, rc))"
    and "table_ok (ps_clients ps)" and "interference keeps_wf (se_rpc env)" and "interference keeps_registrations (se_rpc env)"
  shows "naming_rpc (ps_clients ps') rc \<and> hp_cfg http = cfg \<and> hp_beats http = NewBeatReactor"
proof -
  obtain w1 u where u: "se_uid env (ps_world ps) = (w1, u)" by (rule prod.exhaust)
  obtain uid where "u = Inr uid"
    using assms(1) u by (cases u) (auto simp: NewNamingProxyDelegateWithRamCredentialProvider_def)
  note u = u[unfolded this]
  obtain w2 r where q: "(if srvs = [] then (w1, 0) else se_rand env (length srvs) w1) = (w2, r)" by (rule prod.exhaust)
  obtain n where n: "NewNacosServerWithRamCredentialProvider (se_now env w2) (se_now env w2) (se_fetch env) r srvs
      cfg (cl_TimeoutMs cfg) (cl_Endpoint cfg) (naming_header uid) prov = (n :: 'c NacosServer result)" by blast
  obtain server where "n = Inr server"
    using assms(1) by (cases n) (auto simp: NewNamingProxyDelegateWithRamCredentialProvider_def u q n)
  note n = n[unfolded this]
  obtain h0 rec where h: "NewNamingHttpProxy env cfg w2 = (h0, rec)" by (rule prod.exhaust)
  have h0: "hp_cfg h0 = cfg" "hp_beats h0 = NewBeatReactor"
    using h by (auto simp: NewNamingHttpProxy_def split: prod.split_asm)
  obtain ps1 x where g: "NewNamingGrpcProxy env cfg (se_login env server) (ps\<lparr>ps_world := hp_world h0\<rparr>) = Ret (ps1, x)"
    and x: "(case x of Inl err \<Rightarrow> Ret (ps1, Inl err) | Inr rc \<Rightarrow> Ret (ps1, Inr (h0\<lparr>hp_world := ps_world ps1\<rparr>, rc))) =
      Ret (ps', Inr (http, rc))"
    using assms(1) by (auto simp: NewNamingProxyDelegateWithRamCredentialProvider_def u q n h elim!: obind_pairE)
  have x: "x = Inr rc" "ps' = ps1" "http = h0\<lparr>hp_world := ps_world ps1\<rparr>" using x by (auto split: sum.split_asm)
  show ?thesis using NewNamingGrpcProxy_ok[OF g[unfolded x(1)] _ assms(3,4)] assms(2) h0 by (simp add: x)
qed

lemma setConfig_client_ok: "setConfig cwd param = Inr nc \<Longrightarrow> client_config_ok (nc_clientConfig nc)"
  by (auto simp: setConfig_def Let_def SetClientConfig_def default_client_config_ok SetServerConfig_eq SetHttpAgent_def
      split: if_split_asm sum.split_asm option.split_asm)

lemma naming_config_ok: "client_config_ok cfg \<Longrightarrow> client_config_ok (naming_config cfg)" "cl_NamespaceId (naming_config cfg) \<noteq> []"
  by (simp_all add: naming_config_def client_config_ok_def DEFAULT_NAMESPACE_ID_def)

section \<open>Properties\<close>

text \<open>C35: A naming client that the factory returns is ready. Its rpc client is in the table under its own name and
  well-formed, has the handler for pushed services and the listener that repeats the session after a reconnection;
  nothing is registered or subscribed yet, the configuration is complete and has a namespace, and the semaphore of the
  updater has room. The table of the process stays well-formed.\<close>

theorem naming_client_ready:
  assumes "factory_NewNamingClient env cwd param prov files ps = Ret (ps', Inr c)" and "table_ok (ps_clients ps)"
    and "interference keeps_wf (se_rpc env)" and "interference keeps_registrations (se_rpc env)"
  shows "\<exists>sc. c = Some sc \<and> table_ok (ps_clients ps') \<and> naming_rpc (ps_clients ps') (n_rpc (nw_st sc)) \<and>
    rpc_wf (n_rpc (nw_st sc)) \<and> redo_inv (nw_st sc) \<and> \<not> nw_isClosed sc \<and>
    cm_Get (n_registered (nw_st sc)) = Map.empty \<and> cm_Get (n_subscribes (nw_st sc)) = Map.empty \<and>
    client_config_ok (n_cfg (nw_st sc)) \<and> cl_NamespaceId (n_cfg (nw_st sc)) \<noteq> [] \<and> hp_cfg (nw_http sc) = n_cfg (nw_st sc) \<and>
    (\<exists>sem. NewSemaphore (cl_UpdateThreadNum (n_cfg (nw_st sc))) = Ret sem \<and> Acquire sem \<noteq> None)"
proof -
  obtain nc where nc: "setConfig cwd param = Inr nc"
    using assms(1) by (cases "setConfig cwd param") (auto simp: factory_NewNamingClient_def)
  obtain k where k: "NewNamingClientWithRamCredentialProvider env nc prov files ps = Ret (ps', k)"
    and e: "nk_err k = None" "c = nk_client k"
    using assms(1) by (auto simp: factory_NewNamingClient_def nc elim!: obind_pairE split: option.split_asm)
  obtain cfg0 srvs where g: "GetClientConfig nc = Inr cfg0" "GetServerConfig nc = Inr srvs" "\<exists>a. GetHttpAgent nc = Inr a"
    using k e(1) by (auto simp: NewNamingClientWithRamCredentialProvider_def not_started_def split: sum.split_asm)
  have cfg: "client_config_ok (naming_config cfg0)"
    using setConfig_client_ok[OF nc] g(1) naming_config_ok(1) by (auto simp: GetClientConfig_def split: if_split_asm)
  let ?ps1 = "ps\<lparr>ps_log := InitLogger (BuildLoggerConfig cfg0) (ps_log ps)\<rparr>"
  obtain x where d: "NewNamingProxyDelegateWithRamCredentialProvider env (naming_config cfg0) srvs prov ?ps1 = Ret (ps', x)"
    and x: "x = Inl err \<Longrightarrow> nk_err k = Some err" "x = Inr (http, rc) \<Longrightarrow> nk_client k = Some
      \<lparr>nw_st = \<lparr>n_cfg = naming_config cfg0, n_holder = the (nk_holder k), n_fs = files, n_notes = [], n_rpc = rc,
                 n_registered = NewConcurrentMap, n_subscribes = NewConcurrentMap\<rparr>, nw_http = http, nw_isClosed = False\<rparr>"
    for err http rc
    using k g by (auto simp: NewNamingClientWithRamCredentialProvider_def Let_def elim!: obind_pairE)
  obtain http rc where hr: "x = Inr (http, rc)" using x(1) e(1) by (cases x) (simp, metis old.prod.exhaust)
  have ok: "naming_rpc (ps_clients ps') rc" "hp_cfg http = naming_config cfg0"
    using delegate_ok[OF d[unfolded hr] _ assms(3,4)] assms(2) by simp_all
  have "rpc_wf rc" "table_ok (ps_clients ps')" using ok(1) by (auto simp: naming_rpc_def table_ok_def)
  moreover have "Acquire \<lparr>sem_bufSize = cl_UpdateThreadNum (naming_config cfg0), sem_channel = 0\<rparr> \<noteq> None"
    "NewSemaphore (cl_UpdateThreadNum (naming_config cfg0)) = Ret \<lparr>sem_bufSize = cl_UpdateThreadNum (naming_config cfg0), sem_channel = 0\<rparr>"
    using cfg by (simp_all add: client_config_ok_def Acquire_def NewSemaphore_def)
  ultimately show ?thesis using x(2)[OF hr] e(2) ok cfg naming_config_ok(2)
    by (auto simp: redo_inv_def cm_Get_New_fun)
qed

text \<open>A process without clients, one server and an environment in which everything succeeds.\<close>

definition demo_start_env :: "(unit, nat) start_env" where
  "demo_start_env = \<lparr>se_rpc = demo_rpc_env, se_getenv = (\<lambda>_. []), se_now = int, se_uid = (\<lambda>w. (w + 1, Inr ''u'')),
     se_fetch = (\<lambda>_ _. []), se_login = (\<lambda>s. s), se_rand = (\<lambda>_ w. (w, 0)), se_ResolveUDPAddr = (\<lambda>_. None),
     se_ListenUDP = (\<lambda>_ w. (w, None)), se_from_json = (\<lambda>_. None), se_io = all_ok\<rparr>"

definition demo_param :: NacosClientParam where
  "demo_param = \<lparr>ncp_ClientConfig = None, ncp_ServerConfigs =
     [\<lparr>sc_Scheme = [], sc_ContextPath = [], sc_IpAddr = ''h'', sc_Port = 0, sc_GrpcPort = 0\<rparr>]\<rparr>"

definition demo_ps :: "(unit, nat) process_state" where
  "demo_ps = \<lparr>ps_clients = [], ps_log = \<lparr>lg_logger = None, lg_closed = []\<rparr>, ps_world = 0\<rparr>"

definition demo_server_config :: ServerConfig where
  "demo_server_config = \<lparr>sc_Scheme = DEFAULT_SERVER_SCHEME, sc_ContextPath = DEFAULT_CONTEXT_PATH, sc_IpAddr = ''h'', sc_Port = 8848,
     sc_GrpcPort = 9848\<rparr>"

lemma demo_set: "\<exists>nc cfg. setConfig ''/'' demo_param = Inr nc \<and> GetClientConfig nc = Inr cfg \<and> cl_Endpoint cfg = [] \<and>
    GetServerConfig nc = Inr [demo_server_config] \<and> GetHttpAgent nc = Inr (cl_TLSCfg cfg)"
  by (simp add: setConfig_def demo_param_def SetClientConfig_def default_client_config_def zero_ClientConfig_def
      zero_NacosClient_def SetServerConfig_def default_ports_def default_server_config_def GetHttpAgent_def
      GetClientConfig_def SetHttpAgent_def GetServerConfig_def demo_server_config_def Let_def RpcPortOffset_def)

lemma demo_grpc:
  assumes "ns_serverList ns = Some [demo_server_config]" and "ns_currentIndex ns = 0"
  shows "\<exists>ps' rc. NewNamingGrpcProxy demo_start_env cfg ns (demo_ps\<lparr>ps_log := l, ps_world := w\<rparr>) = Ret (ps', Inr rc)"
proof -
  have "GetNextServer ns = Ret (ns\<lparr>ns_currentIndex := 1\<rparr>, Inr demo_server_config)"
    using assms by (simp add: GetNextServer_def GetServerList_def go_rem_def slice_def)
  then show ?thesis
    by (simp add: NewNamingGrpcProxy_def demo_start_env_def demo_ps_def CreateClient_def NewGrpcClient_def Start_def
        cas_status_def registerServerRequestHandlers_def rpc_updates putAllLabels_def Let_def
        REQUEST_DOMAIN_RETRY_TIME_def numeral_3_eq_3 nextRpcServer_def demo_rpc_env_fields)
qed

lemma demo_factory:
  "\<exists>ps' c. factory_NewNamingClient demo_start_env ''/'' demo_param False \<lparr>fs_files = [], fs_dirs = []\<rparr> demo_ps = Ret (ps', Inr c)"
proof -
  obtain nc cfg where nc: "setConfig ''/'' demo_param = Inr nc" "GetClientConfig nc = Inr cfg" "cl_Endpoint cfg = []"
    "GetServerConfig nc = Inr [demo_server_config]" "GetHttpAgent nc = Inr (cl_TLSCfg cfg)" using demo_set by blast
  let ?ps = "demo_ps\<lparr>ps_log := InitLogger (BuildLoggerConfig cfg) (ps_log demo_ps)\<rparr>"
  obtain ns :: "unit NacosServer" where n: "NewNacosServerWithRamCredentialProvider 1 1 (\<lambda>_ _. []) 0 [demo_server_config]
      (naming_config cfg) (cl_TimeoutMs (naming_config cfg)) (cl_Endpoint (naming_config cfg)) (naming_header ''u'') False = Inr ns"
    and ns: "ns_serverList ns = Some [demo_server_config]" "ns_currentIndex ns = 0"
    by (auto simp: NewNacosServerWithRamCredentialProvider_def Let_def)
  obtain ps' rc where g: "NewNamingGrpcProxy demo_start_env (naming_config cfg) ns (?ps\<lparr>ps_world := 1\<rparr>) = Ret (ps', Inr rc)"
    using demo_grpc[OF ns] by blast
  have h: "NewNamingHttpProxy demo_start_env c (Suc 0) = (\<lparr>hp_cfg = c, hp_beats = NewBeatReactor, hp_world = Suc 0\<rparr>,
      \<lparr>pr_port = 54951, pr_host = []\<rparr>, True)" for c
    by (simp add: NewNamingHttpProxy_def startServer_def numeral_3_eq_3 tryListen_def NewPushReceiver_def demo_start_env_def)
  have env: "se_uid demo_start_env w = (w + 1, Inr ''u'')" "se_rand demo_start_env k w = (w, 0)" "se_now demo_start_env w = int w"
    "se_fetch demo_start_env = (\<lambda>_ _. [])" "se_login demo_start_env = (\<lambda>s. s)" for w k by (simp_all add: demo_start_env_def)
  have "\<exists>ps' r. NewNamingProxyDelegateWithRamCredentialProvider demo_start_env (naming_config cfg) [demo_server_config] False ?ps = Ret (ps', Inr r)"
    using g by (simp add: NewNamingProxyDelegateWithRamCredentialProvider_def env n h demo_ps_def)
  then show ?thesis
    by (auto simp: factory_NewNamingClient_def NewNamingClientWithRamCredentialProvider_def nc Let_def)
qed

theorem naming_client_ready_witness:
  "\<exists>ps' sc. factory_NewNamingClient demo_start_env ''/'' demo_param False \<lparr>fs_files = [], fs_dirs = []\<rparr> demo_ps =
       Ret (ps', Inr (Some sc)) \<and> rpc_wf (n_rpc (nw_st sc)) \<and> redo_inv (nw_st sc) \<and> client_config_ok (n_cfg (nw_st sc))"
proof -
  obtain ps' c where f: "factory_NewNamingClient demo_start_env ''/'' demo_param False \<lparr>fs_files = [], fs_dirs = []\<rparr> demo_ps =
       Ret (ps', Inr c)" using demo_factory by blast
  have "table_ok (ps_clients demo_ps)" by (simp add: table_ok_def demo_ps_def)
  moreover have "interference keeps_wf (se_rpc demo_start_env)" "interference keeps_registrations (se_rpc demo_start_env)"
    using demo_interference[of keeps_wf] demo_interference[of keeps_registrations]
    by (simp_all add: demo_start_env_def keeps_wf_def keeps_registrations_def)
  ultimately show ?thesis using naming_client_ready[OF f] f by metis
qed

text \<open>When the proxy of a client with asynchronous updates cannot be created, the goroutine of the updater runs all the
  same, without a proxy: as soon as a service of the disk cache is due it panics, and with it the process.\<close>

theorem updater_without_proxy_panics:
  assumes "NewNamingClientWithRamCredentialProvider env nc prov files ps = Ret (ps', k)"
    and "nk_holder k = Some h" and "nk_err k \<noteq> None" and "GetClientConfig nc = Inr cfg" and "cl_AsyncUpdateService cfg"
    and "s \<in> set (map snd (h_ServiceInfoMap h))" and "update_due now h s"
  shows "nk_updater k \<and> nk_client k = None \<and> updater_pass nenv now h (nk_client k) = Panic ''nil pointer dereference''"
proof -
  have "nk_client k = None \<and> nk_updater k"
    using assms(1-5) by (auto simp: NewNamingClientWithRamCredentialProvider_def not_started_def Let_def naming_config_def
        elim!: obind_pairE split: sum.split_asm prod.split_asm)
  moreover have "update_targets now h \<noteq> []" using assms(6,7) by (auto simp: update_targets_def filter_empty_conv)
  ultimately show ?thesis by (simp add: updater_pass_def)
qed

text \<open>The receiver listens on a port from 54951 to 55950, and gives up after three attempts.\<close>

lemma startServer_port:
  assumes "startServer env us w = (w', us', True)" and "\<And>n w. 0 < n \<Longrightarrow> snd (se_rand env n w) < n"
  shows "54951 \<le> pr_port us' \<and> pr_port us' \<le> 55950 \<and> pr_host us' = pr_host us"
proof -
  have "listen_loop env n us w = (w', us', True) \<Longrightarrow> 54951 \<le> pr_port us' \<and> pr_port us' \<le> 55950 \<and> pr_host us' = pr_host us" for n
  proof (induction n arbitrary: us w)
    case (Suc n)
    obtain w1 r where r: "se_rand env 1000 w = (w1, r)" by (rule prod.exhaust)
    have "r < 1000" using assms(2)[of 1000 w] r by simp
    with Suc show ?case by (auto simp: r Let_def split: prod.split_asm if_split_asm)
  qed simp
  then show ?thesis using assms(1) by (simp add: startServer_def)
qed

end
