(* ===== verification/Client_Factory.thy ===== *)
theory Client_Factory
  imports Naming_Start Config_Listen
begin

text \<open>
  \<open>clients/client_factory.go\<close> and the proxy of the configuration client: the factory of the configuration client from
  its parameters to its first state. The factory of the naming client is in theory \<open>Naming_Start\<close>.
\<close>

section \<open>The proxy\<close>

text \<open>
  \<open>NewConfigProxyWithRamCredentialProvider\<close>: the server list; the headers for the address server are \<open>nil\<close>. The
  arguments are the time, the answer of the address server, the random index and whether there is a provider.
\<close>

definition NewConfigProxyWithRamCredentialProvider ::
  "int \<Rightarrow> (string \<Rightarrow> headers \<Rightarrow> string) \<Rightarrow> nat \<Rightarrow> bool \<Rightarrow> ServerConfig list \<Rightarrow> ClientConfig \<Rightarrow>
   (ClientConfig \<times> 'c NacosServer) result" where
  "NewConfigProxyWithRamCredentialProvider now fetch r hasProvider serverConfig clientConfig =
     (case NewNacosServerWithRamCredentialProvider now now fetch r serverConfig clientConfig (cl_TimeoutMs clientConfig)
             (cl_Endpoint clientConfig) [] hasProvider of
        Inl err \<Rightarrow> Inl err
      | Inr server \<Rightarrow> Inr (clientConfig, server))"

text \<open>What the constructor of the client sees of it.\<close>

definition proxy_error ::
  "int \<Rightarrow> (string \<Rightarrow> headers \<Rightarrow> string) \<Rightarrow> nat \<Rightarrow> bool \<Rightarrow> ServerConfig list \<Rightarrow> ClientConfig \<Rightarrow> go_error option" where
  "proxy_error now fetch r hasProvider serverConfig clientConfig =
     (case (NewConfigProxyWithRamCredentialProvider now fetch r hasProvider serverConfig clientConfig ::
              (ClientConfig \<times> unit NacosServer) result) of
        Inl err \<Rightarrow> Some err
      | Inr _ \<Rightarrow> None)"

section \<open>The factory\<close>

definition factory_NewConfigClient ::
  "(ServerConfig list \<Rightarrow> ClientConfig \<Rightarrow> go_error option) \<Rightarrow> (ClientConfig \<Rightarrow> 'w config_filter) \<Rightarrow> string result \<Rightarrow>
   string \<Rightarrow> NacosClientParam \<Rightarrow> 'l ConcurrentMap \<Rightarrow> fs \<Rightarrow> log_state \<Rightarrow> 'w \<Rightarrow> log_state \<times> ('w, 'l) ConfigClient result" where
  "factory_NewConfigClient newProxy encryptionFilter uid cwd param limiters files lg w =
     (case setConfig cwd param of
        Inl err \<Rightarrow> (lg, Inl err)
      | Inr nacosClient \<Rightarrow>
          (case GetClientConfig nacosClient of
             Inl err \<Rightarrow> lg
           | Inr cfg \<Rightarrow> InitLogger (BuildLoggerConfig cfg) lg,
           NewConfigClient (\<lambda>_. None) newProxy encryptionFilter uid nacosClient limiters files w))"

definition CreateConfigClient ::
  "(ServerConfig list \<Rightarrow> ClientConfig \<Rightarrow> go_error option) \<Rightarrow> (ClientConfig \<Rightarrow> 'w config_filter) \<Rightarrow> string result \<Rightarrow>
   string \<Rightarrow> (string, property) gomap \<Rightarrow> 'l ConcurrentMap \<Rightarrow> fs \<Rightarrow> log_state \<Rightarrow> 'w \<Rightarrow> log_state \<times> ('w, 'l) ConfigClient result" where
  "CreateConfigClient newProxy encryptionFilter uid cwd properties limiters files lg w =
     factory_NewConfigClient newProxy encryptionFilter uid cwd (getConfigParam properties) limiters files lg w"

section \<open>Facts\<close>

lemma proxy_accepts: "proxy_error now fetch r prov srvs cfg = None \<longleftrightarrow> srvs \<noteq> [] \<or> cl_Endpoint cfg \<noteq> []"
  by (auto simp: proxy_error_def NewConfigProxyWithRamCredentialProvider_def NewNacosServerWithRamCredentialProvider_def
      Let_def)

lemma setConfig_valid:
  assumes "setConfig cwd param = Inr nc"
  shows "nc_clientConfigValid nc \<and> nc_serverConfigsValid nc \<and> nc_agent nc \<noteq> None \<and>
    (nc_serverConfigs nc \<noteq> [] \<or> cl_Endpoint (nc_clientConfig nc) \<noteq> [])"
proof -
  define client where "client = (case ncp_ClientConfig param of
      None \<Rightarrow> SetClientConfig cwd zero_NacosClient
                (zero_ClientConfig\<lparr>cl_TimeoutMs := 10 * 1000, cl_BeatInterval := 5 * 1000\<rparr>)
    | Some c \<Rightarrow> SetClientConfig cwd zero_NacosClient c)"
  have c: "nc_clientConfigValid client" "nc_agent client = None"
    by (simp_all add: client_def SetClientConfig_def zero_NacosClient_def split: option.split)
  note s = assms[unfolded setConfig_def, folded client_def]
  show ?thesis
  proof (cases "ncp_ServerConfigs param")
    case Nil
    then show ?thesis using s c
      by (auto simp: Let_def SetServerConfig_def GetHttpAgent_def GetClientConfig_def SetHttpAgent_def split: if_split_asm)
  next
    case (Cons a as)
    then have "\<exists>x. SetServerConfig client (map default_ports (ncp_ServerConfigs param)) = Inr x" using s
      by (cases "SetServerConfig client (map default_ports (ncp_ServerConfigs param))") (simp_all add: Let_def)
    then show ?thesis using s c Cons
      by (auto simp: Let_def SetServerConfig_eq GetHttpAgent_def GetClientConfig_def SetHttpAgent_def split: if_split_asm)
  qed
qed

text \<open>C36: The factory of the configuration client fails only for parameters that \<open>setConfig\<close> rejects, or when no
  identifier can be made. Otherwise the client is in a state from which its invariant holds: nothing is listened to,
  nothing was called, its snapshots are under the cache directory of the configuration, and it has the encryption
  filter exactly when the key management service is switched on.\<close>

theorem config_client_ready:
  "snd (factory_NewConfigClient (proxy_error now fetch r prov) flt uid cwd param lims files lg w) =
     (case setConfig cwd param of
        Inl err \<Rightarrow> Inl err
      | Inr nc \<Rightarrow>
          (case uid of
             Inl err \<Rightarrow> Inl err
           | Inr u \<Rightarrow>
               let cfg = nc_clientConfig nc; dir = cl_CacheDir cfg @ PathSeparator @ ''config''
               in Inr \<lparr>cs_clientConfig = cfg\<lparr>cl_CacheDir := dir\<rparr>, cs_limiters = lims, cs_fs = files, cs_world = w,
                       ck_INacosClient = nc,
                       ck_configFilterChainManager = (if cl_OpenKMS cfg then [flt (cfg\<lparr>cl_CacheDir := dir\<rparr>)] else []),
                       ck_configCacheDir = dir, ck_lastAllSyncTime = zero_time, ck_cacheMap = NewConcurrentMap, ck_uid = u,
                       ck_listenExecute = 0, ck_isClosed = False, ck_listeners = [], ck_calls = []\<rparr>))"
proof (cases "setConfig cwd param")
  case (Inr nc)
  note v = setConfig_valid[OF Inr]
  have "proxy_error now fetch r prov (nc_serverConfigs nc)
      ((nc_clientConfig nc)\<lparr>cl_CacheDir := cl_CacheDir (nc_clientConfig nc) @ PathSeparator @ ''config''\<rparr>) = None"
    using v by (simp add: proxy_accepts)
  moreover obtain a where "nc_agent nc = Some a" using v by blast
  moreover have "addFilter f [] = [f]" for f :: "'a config_filter"
    by (simp add: addFilter_def)
  ultimately show ?thesis
    using v by (simp add: factory_NewConfigClient_def Inr NewConfigClient_def GetClientConfig_def GetServerConfig_def
        GetHttpAgent_def Let_def split: sum.split)
qed (simp add: factory_NewConfigClient_def)

end
