(* ===== verification/Spec2Isabelle.thy ===== *)
theory Spec2Isabelle
  imports Concurrent_Map Disk_Cache Naming_Cache Rpc_Messages Client_Config Security Auth_Client Nacos_Server Naming_Client
    Rpc_Client Rpc_Steps Rpc_Liveness Grpc_Client Grpc_Checks Rpc_Labels Config_Filter Config_Races Config_Snapshot Uuid Http_Agent
    Logger Util Naming_Start Client_Factory
begin

text \<open>
  A verification development for the Nacos SDK for Go, \<open>src/\<close>.

  \<^bold>\<open>The program.\<close> The SDK has two clients of a Nacos server. The naming client registers the instances of services,
  finds them, and calls its subscribers when they change. The configuration client reads and publishes
  configurations, keeps snapshots of them on disk, and calls listeners when they change. Both are built by a factory
  from a client configuration and a list of servers. Under them are an rpc client, with its connection, its health
  check and its reconnection, and the gRPC transport; an HTTP agent with a list of servers that is tried in turn; and
  a security proxy that gets tokens and signs requests. The rest is shared: a concurrent map of 32 shards, the files
  of the caches, encryption of contents with a key management service, identifiers, TLS settings and the logger.

  \<^bold>\<open>How Go is modelled.\<close> Theory \<open>Prelude\<close> has byte strings, maps as association lists without repeated keys, errors
  as values of \<^typ>\<open>go_error\<close>, functions that return a value or an error as sums, and functions that can panic as
  \<^typ>\<open>'a outcome\<close>; \<open>Go_Num\<close> has the numbers at their width and their text, \<open>Go_Sort\<close> what is known of a sort whose
  comparison may be no order (locale \<open>go_sort\<close>). A struct is a record whose fields have the Go names after a short
  prefix; a method is a function on the record of its receiver that returns the new one. What the program does with
  the world outside (network, files, clock, random numbers, other goroutines) goes through parameters: records of
  functions over a state of the world. Where goroutines interleave, their operations are the steps of an inductive
  relation (\<open>rpc_step\<close>, \<open>config_step\<close>, \<open>sem_step\<close>, \<open>fan_in\<close>), or the two halves of an unlocked operation are
  definitions of their own (\<open>process_load\<close> and \<open>process_commit\<close>).

  \<^bold>\<open>Theories and sources.\<close>

  \<^item> \<open>Model\<close>, \<open>Client_Config\<close>: \<open>model/\<close>, \<open>vo/\<close>, \<open>common/constant\<close>, \<open>util/common.go\<close>, \<open>clients/nacos_client\<close> and the
    checks of \<open>clients/client_factory.go\<close>. \<open>Util\<close>: the rest of \<open>util\<close> and \<open>common/nacos_error\<close>; \<open>Logger\<close>:
    \<open>common/logger/logger.go\<close>. Shown: the factory rejects bad parameters and fills in every default; a semaphore lets
    in as many goroutines as it was made for.
  \<^item> \<open>Map_Interface\<close>, \<open>Concurrent_Map\<close>: \<open>clients/cache/concurrent_map.go\<close>. The locale \<open>string_map\<close> is the contract of a
    map with string keys; it is interpreted on Go maps and on the sharded map. Shown: every sequence of operations on
    the shards gives what it gives on one map.
  \<^item> \<open>Disk_Cache\<close>: \<open>clients/cache/disk_cache.go\<close>, \<open>common/file\<close>, over an explicit file system with failures. Shown: what
    is written is read back, for configurations and for services.
  \<^item> \<open>Naming_Cache\<close>, \<open>Naming_Select\<close>: \<open>clients/naming_client/naming_cache\<close> and the chooser. Shown: the cache holds the
    newest service whatever the order of deliveries, what a delivery changes and whom it calls, that no change is
    missed; the weighted choice gives every instance its share.
  \<^item> \<open>Rpc_Messages\<close>: \<open>common/remote/rpc/rpc_request\<close> and \<open>rpc_response\<close>.
  \<^item> \<open>Security\<close>, \<open>Auth_Client\<close>: \<open>common/security\<close>. Shown: a token is renewed before it expires.
  \<^item> \<open>Nacos_Server\<close>, \<open>Http_Agent\<close>, \<open>Tls\<close>: \<open>common/nacos_server\<close>, \<open>common/http_agent\<close>, \<open>common/tls\<close>. The locale
    \<open>form_encoding\<close> is the contract of an encoding of parameters, interpreted on those of POST, of GET and DELETE, and
    of PUT. Shown: which servers a request tries, that it succeeds if one of them answers, the round robin and its
    overflow, that the parameters reach the server, and when certificates are checked.
  \<^item> \<open>Rpc_Client\<close>, \<open>Rpc_Steps\<close>, \<open>Rpc_Liveness\<close>, \<open>Rpc_Labels\<close>: \<open>common/remote/rpc/rpc_client.go\<close>; \<open>Grpc_Client\<close>,
    \<open>Grpc_Checks\<close>: the transport and the handlers. The locale \<open>rpc_guarantee\<close> collects what a relation between states
    needs so that every operation stays in it, however other goroutines interrupt it; it is interpreted on
    well-formedness, on the registrations and on the types of the handlers. Shown: the invariant of all reachable
    states, the outcome of a request, that a reconnection returns when a server can be reached, and the labels.
  \<^item> \<open>Naming_Grpc\<close>, \<open>Naming_Http\<close>, \<open>Naming_Client\<close>, \<open>Naming_Start\<close>: \<open>clients/naming_client\<close>. Shown: after a
    reconnection the server has every subscription and registration again; subscribing and unsubscribing register and
    remove exactly one callback; a client that the factory returns starts in a well-formed state.
  \<^item> \<open>Encoding\<close>, \<open>Encryption\<close>, \<open>Config_Filter\<close>: \<open>common/encoding\<close>, \<open>common/encryption\<close>, \<open>common/filter\<close>. Shown: what is
    encrypted for the server is decrypted when it comes back, for every plugin.
  \<^item> \<open>Config_Proxy\<close>, \<open>Config_Client\<close>, \<open>Config_Invariant\<close>, \<open>Config_Steps\<close>, \<open>Config_Listen\<close>, \<open>Config_Snapshot\<close>,
    \<open>Config_Races\<close>, \<open>Client_Factory\<close>: \<open>clients/config_client\<close> and the factory. Shown: the invariant of the cache in all
    reachable states, that a round of listening brings it to the contents of the server and calls exactly the listeners
    of what changed, the fallback to a snapshot, and which interleavings lose a change.
  \<^item> \<open>Uuid\<close>: \<open>inner/uuid\<close>. Shown: the text forms read back, the versions and variants, and that consecutive time based
    identifiers differ.
  \<^item> This theory: a request of the naming client from its parameters to the wire, across the theories above.

  Theorems about behaviour that the code does not intend (a server that is never tried, a race that loses a change, a
  shutdown that is undone) state it in general, with a concrete instance beside them.

  \<^bold>\<open>Bounds and fuel.\<close> Loops over data are structural recursions. Decoding of runes and trimming of spaces take the length
  of the string as fuel, which is enough since every turn removes a byte (\<open>runes_fuel_encode\<close>, \<open>trim_left_fuel_done\<close>).
  Loops with a limit in the code carry it: three attempts of a request and of a start, three ports for the receiver of
  pushed datagrams, thirty checks of a server. The loop of a reconnection may run forever and is a partial function to
  \<^typ>\<open>'a option\<close>; that it returns is proved from a hypothesis on the servers, and that it does not return for an
  unreachable recommended server is proved as well. The goroutines that loop until the client is closed are modelled
  by their rounds, as steps.

  \<^bold>\<open>Parameters with laws.\<close> The hypotheses on code outside the repository are named: a JSON decoder that undoes the
  encoder, a block cipher whose decryption undoes its encryption, a key management service that gives back what it
  encrypted, a server that answers truthfully (\<open>truthful\<close>), goroutines and a network that keep to what is said of
  them (\<open>interference\<close>, \<open>records\<close>). Every theorem with such a hypothesis has an instance in which it holds.

  \<^bold>\<open>Not modelled.\<close> The generated gRPC code and mocks; the examples; the monitor and the calls that write the log, which
  nothing in the program reads; the form of the lines of the log; interfaces, which have no code. Of the modelled
  components: the texts of log messages, the sockets, and the data types of the model that no operation reads.
\<close>

section \<open>From the naming client to the wire\<close>

lemma post_request_wire:
  assumes "createClient (nl_tls lib) agent = Inr client" and "nl_NewRequest lib ''POST'' path = None"
    and "nl_Do lib (http_post client path header t params) w = (w', Inr (status, Inr answer))"
  shows "agent_http lib agent ''POST'' path header t params w = (w', Inr (status, answer))"
  using assms by (simp add: agent_http_def agent_Request_def agent_Post_def with_client_def send_request_def http_post_def)

text \<open>A network that answers every request with success and keeps the requests it got.\<close>

definition records :: "http_request list net_lib \<Rightarrow> string \<Rightarrow> bool" where
  "records lib answer \<longleftrightarrow> (\<forall>m u. nl_NewRequest lib m u = None) \<and>
     (\<forall>rq w. nl_Do lib rq w = (w @ [rq], Inr (RESPONSE_CODE_SUCCESS, Inr answer)))"

text \<open>C11: A POST of the naming client from its parameters to the wire, through the server list, the security proxy
  and the HTTP agent. With one server that answers, one request is sent: to the address of the server with its context
  path, with the TLS settings of the client, and with a body from which the server reads the parameters and the
  security information, which wins where both have a key. The answer of the server is returned.\<close>

theorem http_request_on_the_wire:
  assumes "records lib answer" and "createClient (nl_tls lib) agent = Inr client"
    and "GetServerList server = [s]" and "sec (naming_api_resource params) = Ret info" and "wf_map params" and "wf_map info"
    and "uid w = (w, Inr rid)"
  shows "\<exists>rq body. ReqApi (agent_http lib agent) uid sec r server api params ''POST'' w = Ret (w @ [rq], Inr answer) \<and>
    hr_Method rq = ''POST'' \<and> hr_tls rq = client \<and> hr_Body rq = Some body \<and>
    hr_URL rq = getAddress s @ (if sc_ContextPath s = [] then WEB_CONTEXT else sc_ContextPath s) @ api \<and>
    map_of (form_read body) = map_of params ++ map_of info"
proof -
  let ?ps = "put_all params info"
  define url where "url = getAddress s @ (if sc_ContextPath s = [] then WEB_CONTEXT else sc_ContextPath s) @ api"
  have a: "agent_http lib agent ''POST'' url h t ?ps w = (w @ [http_post client url h t ?ps], Inr (RESPONSE_CODE_SUCCESS, answer))" for h t
    using assms(1) by (intro post_request_wire[OF assms(2)]) (simp_all add: records_def)
  define h where "h = put_all [(''Client-Version'', [CLIENT_VERSION]), (''User-Agent'', [CLIENT_VERSION]),
                (''Connection'', [''Keep-Alive''])] [(''RequestId'', [rid]), (''Request-Module'', [''Naming'']),
                        (''Content-Type'', [''application/x-www-form-urlencoded;charset=utf-8''])]"
  have c: "callServer (agent_http lib agent) uid t api ?ps ''POST'' (getAddress s) (sc_ContextPath s) w =
      (w @ [http_post client url h t ?ps], Inr answer)" for t
    unfolding callServer_def assms(7) Let_def url_def[symmetric] by (simp add: a h_def)
  have "ReqApi (agent_http lib agent) uid sec r server api params ''POST'' w =
      Ret (w @ [http_post client url h (ns_timeoutMs server) ?ps], Inr answer)"
    by (simp add: ReqApi_def assms(3,4) InjectSecurityInfo_def req_servers_def REQUEST_DOMAIN_RETRY_TIME_def numeral_3_eq_3 c Let_def)
  moreover have "map_of (form_read (GetUrlFormedMap ?ps)) = map_of params ++ map_of info"
    using assms(5,6) by (simp add: post_reads map_of_sort_key map_of_put_all)
  ultimately show ?thesis by (auto simp: http_post_def url_def)
qed

text \<open>One server without TLS.\<close>

definition wire_lib :: "http_request list net_lib" where
  "wire_lib = \<lparr>nl_tls = nl_tls echo_lib, nl_NewRequest = (\<lambda>_ _. None),
     nl_Do = (\<lambda>rq w. (w @ [rq], Inr (RESPONSE_CODE_SUCCESS, Inr ''ok'')))\<rparr>"

theorem http_request_on_the_wire_witness:
  "\<exists>rq body. ReqApi (agent_http wire_lib \<lparr>ha_TlsConfig = zero_TLSConfig\<rparr>) (\<lambda>w. (w, Inr ''id'')) (\<lambda>_. Ret [(''accessToken'', ''t'')]) 0
       ((demo_ns 0)\<lparr>ns_serverList := Some [demo_server]\<rparr>) ''/v1'' [(''ip'', ''a&b'')] ''POST'' [] = Ret ([rq], Inr ''ok'') \<and>
     hr_Body rq = Some body \<and> map_of (form_read body) ''ip'' = Some ''a&b'' \<and> map_of (form_read body) ''accessToken'' = Some ''t''"
proof -
  have "records wire_lib ''ok''" by (simp add: records_def wire_lib_def)
  moreover have "createClient (nl_tls wire_lib) \<lparr>ha_TlsConfig = zero_TLSConfig\<rparr> = Inr None"
    by (simp add: createClient_def zero_TLSConfig_def)
  moreover have "GetServerList ((demo_ns 0)\<lparr>ns_serverList := Some [demo_server]\<rparr>) = [demo_server]"
    by (simp add: GetServerList_def slice_def)
  ultimately show ?thesis
    using http_request_on_the_wire[of wire_lib "''ok''" "\<lparr>ha_TlsConfig = zero_TLSConfig\<rparr>" None
        "(demo_ns 0)\<lparr>ns_serverList := Some [demo_server]\<rparr>" demo_server "\<lambda>_. Ret [(''accessToken'', ''t'')]" "[(''ip'', ''a&b'')]"
        "[(''accessToken'', ''t'')]" "\<lambda>w. (w, Inr ''id'')" "[]" "''id''" 0 "''/v1''"]
    by (simp add: wf_map_def) fastforce
qed

end
